(* ===== verification/Prelude.thy ===== *)
theory Prelude
  imports "HOL-Library.Word" "HOL-Library.Monad_Syntax" "HOL-Library.Product_Lexorder"
    "HOL-Library.List_Lexorder" "HOL-Library.Char_ord"
begin

text \<open>
  What the component theories share: bytes and C++ strings, the outcome of a run, the
  ordered associative container, and the fact collections that carry the proofs.

  A run of the code that the C++ standard gives no meaning (a load outside a buffer, the
  dereference of an end iterator, an endless loop without side effects) or that ends the
  process (an exception nothing catches) is the value \<^const>\<open>None\<close>; every other run is
  \<open>Some\<close> of its result. Operations are composed with the option monad.
\<close>

unbundle bit_operations_syntax

section \<open>Fact collections\<close>

named_theorems frame_intros "operations that leave the session tables alone"
named_theorems run_defs "handlers unfolded by the case analyses of their runs"

lemmas run_splits = bind_eq_Some_conv Let_def

section \<open>Lists indexed by numerals\<close>

lemma list_update_numeral [simp]: "(x # xs)[numeral v := y] = x # xs[pred_numeral v := y]"
  by (simp add: numeral_eq_Suc)

lemma replicate_numeral: "replicate (numeral k) x = x # replicate (pred_numeral k) x"
  by (simp add: numeral_eq_Suc)

lemma find_SomeD: "find P xs = Some x \<Longrightarrow> x \<in> set xs \<and> P x"
  by (induction xs) (auto split: if_splits)

section \<open>Bytes and strings\<close>

type_synonym byte = "8 word"
type_synonym bytes = "byte list"
type_synonym u8 = "8 word"
type_synonym u16 = "16 word"
type_synonym u32 = "32 word"

text \<open>A \<^verbatim>\<open>std::string\<close> is a list of 8-bit characters, as the packets' bytes are.\<close>

definition bytes_of_string :: "string \<Rightarrow> bytes" where
  "bytes_of_string s = map of_char s"

definition string_of_bytes :: "bytes \<Rightarrow> string" where
  "string_of_bytes bs = map (\<lambda>b. char_of (unat b)) bs"

lemma unat_of_char [simp]: "unat (of_char c :: byte) = (of_char c :: nat)"
proof -
  have "(of_char c :: byte) = of_nat (of_char c)"
    by (cases c) (simp add: of_char_def horner_sum_simps)
  then show ?thesis by (simp add: unat_of_nat)
qed

lemma of_char_char_of_unat [simp]: "(of_char (char_of (unat b)) :: byte) = b"
proof -
  have "unat b < 256" using unsigned_less [of b] by simp
  then show ?thesis by (simp add: word_unat_eq_iff)
qed

lemma length_bytes_of_string [simp]: "length (bytes_of_string s) = length s"
  by (simp add: bytes_of_string_def)

lemma length_string_of_bytes [simp]: "length (string_of_bytes b) = length b"
  by (simp add: string_of_bytes_def)

lemma string_of_bytes_of_string [simp]: "string_of_bytes (bytes_of_string s) = s"
  by (simp add: bytes_of_string_def string_of_bytes_def comp_def map_idI)

lemma bytes_of_string_of_bytes [simp]: "bytes_of_string (string_of_bytes b) = b"
  by (simp add: bytes_of_string_def string_of_bytes_def comp_def map_idI)

lemma string_of_bytes_Nil [simp]: "string_of_bytes [] = []" "bytes_of_string [] = []"
  by (simp_all add: string_of_bytes_def bytes_of_string_def)

lemma string_of_bytes_append: "string_of_bytes (a @ b) = string_of_bytes a @ string_of_bytes b"
  by (simp add: string_of_bytes_def)

text \<open>\<^verbatim>\<open>std::to_string\<close> on an unsigned value.\<close>

fun to_string_digits :: "nat \<Rightarrow> string" where
  "to_string_digits n =
     (if n < 10 then [char_of (48 + n)] else to_string_digits (n div 10) @ [char_of (48 + n mod 10)])"

declare to_string_digits.simps [simp del]

lemma to_string_digits_nonempty [simp]: "to_string_digits n \<noteq> []"
  by (subst to_string_digits.simps) simp

section \<open>The ordered associative container\<close>

text \<open>
  \<^verbatim>\<open>std::map\<close>: a list of pairs with strictly increasing keys, in the order its
  iterators visit. \<open>om_emplace\<close> is \<^verbatim>\<open>emplace\<close> (nothing happens when the key is
  there), \<open>om_set\<close> the assignment through \<^verbatim>\<open>operator[]\<close>, \<open>om_erase\<close> is
  \<^verbatim>\<open>erase\<close>, and \<^const>\<open>map_of\<close> is \<^verbatim>\<open>find\<close>.
\<close>

type_synonym ('k, 'v) omap = "('k \<times> 'v) list"

definition om_emplace :: "'k::linorder \<Rightarrow> 'v \<Rightarrow> ('k, 'v) omap \<Rightarrow> ('k, 'v) omap" where
  "om_emplace k v m = (if map_of m k = None then insort_key fst (k, v) m else m)"

definition om_erase :: "'k \<Rightarrow> ('k, 'v) omap \<Rightarrow> ('k, 'v) omap" where
  "om_erase k m = filter (\<lambda>(k', _). k' \<noteq> k) m"

definition om_set :: "'k::linorder \<Rightarrow> 'v \<Rightarrow> ('k, 'v) omap \<Rightarrow> ('k, 'v) omap" where
  "om_set k v m = om_emplace k v (om_erase k m)"

definition om_ok :: "('k::linorder, 'v) omap \<Rightarrow> bool" where
  "om_ok m \<longleftrightarrow> sorted (map fst m) \<and> distinct (map fst m)"

lemma map_of_insort:
  "map_of m k = None \<Longrightarrow> map_of (insort_key fst (k, v) m) = (map_of m)(k \<mapsto> v)"
  by (induction m) (auto simp: fun_eq_iff)

lemma om_find_emplace:
  "map_of (om_emplace k v m) = (if map_of m k = None then (map_of m)(k \<mapsto> v) else map_of m)"
  by (simp add: om_emplace_def map_of_insort)

lemma om_find_erase: "map_of (om_erase k m) = (map_of m)(k := None)"
  by (induction m) (auto simp: om_erase_def fun_eq_iff)

lemma om_find_set: "map_of (om_set k v m) = (map_of m)(k \<mapsto> v)"
  by (simp add: om_set_def om_find_emplace om_find_erase fun_upd_same)

lemma om_ok_Nil [simp]: "om_ok []"
  by (simp add: om_ok_def)

lemma distinct_keys_insort:
  "k \<notin> fst ` set m \<Longrightarrow> distinct (map fst m) \<Longrightarrow> distinct (map fst (insort_key fst (k, v) m))"
  by (induction m) (auto simp: set_insort_key)

lemma om_ok_emplace: "om_ok m \<Longrightarrow> om_ok (om_emplace k v m)"
  by (simp add: om_ok_def om_emplace_def sorted_insort_key map_of_eq_None_iff distinct_keys_insort)

lemma om_ok_erase: "om_ok m \<Longrightarrow> om_ok (om_erase k m)"
proof -
  have "map fst (om_erase k m) = filter (\<lambda>x. x \<noteq> k) (map fst m)"
    by (simp add: om_erase_def filter_map comp_def case_prod_unfold)
  then show "om_ok m \<Longrightarrow> om_ok (om_erase k m)"
    by (simp add: om_ok_def sorted_wrt_filter)
qed

lemma om_ok_set: "om_ok m \<Longrightarrow> om_ok (om_set k v m)"
  by (simp add: om_set_def om_ok_emplace om_ok_erase)

lemma set_om_emplace:
  "set (om_emplace k v m) = (if map_of m k = None then insert (k, v) (set m) else set m)"
  by (simp add: om_emplace_def set_insort_key)

lemma set_om_erase: "set (om_erase k m) = {(k', v) \<in> set m. k' \<noteq> k}"
  by (auto simp: om_erase_def)

lemma om_ok_map_of: "om_ok m \<Longrightarrow> map_of m k = Some v \<longleftrightarrow> (k, v) \<in> set m"
  by (simp add: om_ok_def)

text \<open>The contract the clients of a map rely on, and its consequences, stated once.\<close>

locale std_map =
  fixes find :: "'m \<Rightarrow> 'k \<Rightarrow> 'v option"
    and emplace :: "'k \<Rightarrow> 'v \<Rightarrow> 'm \<Rightarrow> 'm"
    and erase :: "'k \<Rightarrow> 'm \<Rightarrow> 'm"
    and ok :: "'m \<Rightarrow> bool"
  assumes find_emplace: "find (emplace k v m) = (if find m k = None then (find m)(k \<mapsto> v) else find m)"
    and find_erase: "find (erase k m) = (find m)(k := None)"
    and ok_emplace: "ok m \<Longrightarrow> ok (emplace k v m)"
    and ok_erase: "ok m \<Longrightarrow> ok (erase k m)"
begin

lemma emplace_fresh: "find m k = None \<Longrightarrow> find (emplace k v m) k = Some v"
  by (simp add: find_emplace)

lemma emplace_keeps: "find m k = Some v \<Longrightarrow> find (emplace k' v' m) k = Some v"
  by (auto simp: find_emplace)

lemma erase_gone: "find (erase k m) k = None"
  by (simp add: find_erase)

lemma erase_other: "k' \<noteq> k \<Longrightarrow> find (erase k m) k' = find m k'"
  by (simp add: find_erase)

lemma erase_emplace: "find m k = None \<Longrightarrow> find (erase k (emplace k v m)) = find m"
  by (simp add: find_emplace find_erase fun_upd_idem)

lemma dom_emplace: "dom (find (emplace k v m)) = insert k (dom (find m))"
  by (auto simp: find_emplace)

lemma dom_erase: "dom (find (erase k m)) = dom (find m) - {k}"
  by (simp add: find_erase)

end

interpretation om: std_map map_of om_emplace om_erase om_ok
  by unfold_locales (simp_all add: om_find_emplace om_find_erase om_ok_emplace om_ok_erase)

section \<open>Allocation of identifiers\<close>

text \<open>
  Session ids, AAA session ids and pool addresses are handed out the same way: an
  identifier no one holds, or the report that there is none. The contract, and what a
  sequence of allocations gives.
\<close>

fun alloc_many :: "('s \<Rightarrow> ('i \<times> 's) option) \<Rightarrow> nat \<Rightarrow> 's \<Rightarrow> ('i list \<times> 's) option" where
  "alloc_many alloc 0 s = Some ([], s)"
| "alloc_many alloc (Suc n) s =
     (case alloc s of None \<Rightarrow> None
      | Some (i, s') \<Rightarrow>
          (case alloc_many alloc n s' of None \<Rightarrow> None | Some (is, s'') \<Rightarrow> Some (i # is, s'')))"

locale allocator =
  fixes alloc :: "'s \<Rightarrow> ('i \<times> 's) option"
    and free :: "'i \<Rightarrow> 's \<Rightarrow> 's option"
    and used :: "'s \<Rightarrow> 'i set"
    and inv :: "'s \<Rightarrow> bool"
  assumes alloc_fresh: "inv s \<Longrightarrow> alloc s = Some (i, s') \<Longrightarrow> i \<notin> used s"
    and alloc_used: "inv s \<Longrightarrow> alloc s = Some (i, s') \<Longrightarrow> used s' = insert i (used s)"
    and free_used: "inv s \<Longrightarrow> free i s = Some s' \<Longrightarrow> used s' = used s - {i}"
    and alloc_inv: "inv s \<Longrightarrow> alloc s = Some (i, s') \<Longrightarrow> inv s'"
    and free_inv: "inv s \<Longrightarrow> free i s = Some s' \<Longrightarrow> inv s'"
begin

lemma alloc_many_fresh:
  "inv s \<Longrightarrow> alloc_many alloc n s = Some (is, s') \<Longrightarrow>
     inv s' \<and> used s' = set is \<union> used s \<and> distinct is \<and> set is \<inter> used s = {}"
proof (induction n arbitrary: s "is")
  case 0
  then show ?case by simp
next
  case (Suc n)
  then obtain i s1 js where a: "alloc s = Some (i, s1)" "alloc_many alloc n s1 = Some (js, s')" "is = i # js"
    by (auto split: option.splits)
  note b = alloc_fresh [OF Suc.prems(1) a(1)] alloc_used [OF Suc.prems(1) a(1)]
    alloc_inv [OF Suc.prems(1) a(1)]
  from Suc.IH [OF b(3) a(2)] b(1,2) a(3) show ?case by auto
qed

lemma alloc_many_distinct: "inv s \<Longrightarrow> alloc_many alloc n s = Some (is, s') \<Longrightarrow> distinct is"
  using alloc_many_fresh by blast

lemma free_then_unused: "inv s \<Longrightarrow> free i s = Some s' \<Longrightarrow> i \<notin> used s'"
  by (simp add: free_used)

text \<open>Freeing the newest allocation gives back the identifiers in use before it.\<close>

lemma free_alloc: "inv s \<Longrightarrow> alloc s = Some (i, s') \<Longrightarrow> free i s' = Some s'' \<Longrightarrow> used s'' = used s"
  using alloc_fresh alloc_used alloc_inv free_used by (metis Diff_insert_absorb)

end

end
