(* ===== verification/Net_Bytes.thy ===== *)
theory Net_Bytes
  imports Prelude
begin

text \<open>
  Memory accesses through packed header structs, and \<^verbatim>\<open>src/net_integer.hpp\<close>.

  A \<^verbatim>\<open>std::vector<uint8_t>\<close> seen through \<^verbatim>\<open>reinterpret_cast\<close> is a byte list;
  a field is an offset. The host is little-endian (x86-64, where VPP runs), so a
  multi-byte load or store has the low byte first and \<^verbatim>\<open>bswap\<close>, \<^verbatim>\<open>htons\<close>,
  \<^verbatim>\<open>ntohl\<close> and their kin are the same byte swap. A load outside the vector has no
  defined result (\<^const>\<open>None\<close>); a store outside it leaves the vector's elements alone.
\<close>

section \<open>Words and their bytes\<close>

definition byte_at :: "nat \<Rightarrow> 'a::len word \<Rightarrow> byte" where
  "byte_at k w = of_nat (unat w div 256 ^ k mod 256)"

definition mk16 :: "byte \<Rightarrow> byte \<Rightarrow> u16" where
  "mk16 b0 b1 = of_nat (unat b0 + 256 * unat b1)"

definition mk32 :: "byte \<Rightarrow> byte \<Rightarrow> byte \<Rightarrow> byte \<Rightarrow> u32" where
  "mk32 b0 b1 b2 b3 = of_nat (unat b0 + 256 * unat b1 + 65536 * unat b2 + 16777216 * unat b3)"

definition bswap16 :: "u16 \<Rightarrow> u16" where
  "bswap16 w = mk16 (byte_at 1 w) (byte_at 0 w)"

definition bswap32 :: "u32 \<Rightarrow> u32" where
  "bswap32 w = mk32 (byte_at 3 w) (byte_at 2 w) (byte_at 1 w) (byte_at 0 w)"

lemma unat_byte_lt [simp]: "unat (b :: byte) < 256"
  using unsigned_less [of b] by simp

lemma unat_byte_le [simp]: "unat (b :: byte) \<le> 255"
  using unat_byte_lt [of b] by linarith

lemma unat_byte_at: "unat (byte_at k w) = unat w div 256 ^ k mod 256"
  by (simp add: byte_at_def unat_of_nat)

text \<open>Evaluation on literals; on variables the bytes stay symbolic.\<close>

lemma byte_at_literal [simp]:
  "byte_at 0 (numeral n :: 'a::len word) = of_nat (unat (numeral n :: 'a word) mod 256)"
  "byte_at (Suc 0) (numeral n :: 'a::len word) = of_nat (unat (numeral n :: 'a word) div 256 mod 256)"
  "byte_at 2 (numeral n :: 'a::len word) = of_nat (unat (numeral n :: 'a word) div 65536 mod 256)"
  "byte_at 3 (numeral n :: 'a::len word) = of_nat (unat (numeral n :: 'a word) div 16777216 mod 256)"
  "byte_at k (0 :: 'a::len word) = 0" "byte_at 0 (1 :: 'a::len word) = 1"
  "byte_at (Suc 0) (1 :: 'a::len word) = 0" "byte_at 2 (1 :: 'a::len word) = 0"
  "byte_at 3 (1 :: 'a::len word) = 0"
  by (simp_all add: byte_at_def)

lemma unat_mk16: "unat (mk16 a b) = unat a + 256 * unat b"
proof -
  have "unat a + 256 * unat b < 65536"
    using unat_byte_lt [of a] unat_byte_lt [of b] by linarith
  then show ?thesis by (simp only: mk16_def unat_of_nat) simp
qed

lemma unat_mk32:
  "unat (mk32 a b c d) = unat a + 256 * unat b + 65536 * unat c + 16777216 * unat d"
proof -
  have "unat a + 256 * unat b + 65536 * unat c + 16777216 * unat d < 4294967296"
    using unat_byte_lt [of a] unat_byte_lt [of b] unat_byte_lt [of c] unat_byte_lt [of d]
    by linarith
  then show ?thesis by (simp only: mk32_def unat_of_nat) simp
qed

lemma byte_at_mk16 [simp]: "byte_at 0 (mk16 a b) = a" "byte_at (Suc 0) (mk16 a b) = b"
  by (simp_all add: word_unat_eq_iff unat_byte_at unat_mk16)

text \<open>Base-256 digits, on naturals.\<close>

lemma digit_shift: "a < 256 \<Longrightarrow> (a + 256 * x) div 256 = (x::nat)" "a < 256 \<Longrightarrow> (a + 256 * x) mod 256 = a"
  by simp_all

lemma digits4:
  fixes a b c d :: nat
  assumes "a < 256" "b < 256" "c < 256" "d < 256"
  defines "n \<equiv> a + 256 * b + 65536 * c + 16777216 * d"
  shows "n mod 256 = a" "n div 256 mod 256 = b" "n div 65536 mod 256 = c" "n div 16777216 mod 256 = d"
proof -
  have n: "n = a + 256 * (b + 256 * (c + 256 * d))" by (simp add: n_def)
  have d1: "n div 256 = b + 256 * (c + 256 * d)" using assms(1) by (simp only: n digit_shift)
  have d2: "n div 65536 = c + 256 * d"
    using div_mult2_eq [of n 256 256] assms(2) by (simp add: d1 digit_shift)
  have d3: "n div 16777216 = d"
    using div_mult2_eq [of n 65536 256] assms(3) by (simp add: d2 digit_shift)
  show "n mod 256 = a" using assms(1) by (simp only: n digit_shift)
  show "n div 256 mod 256 = b" using assms(2) by (simp only: d1 digit_shift)
  show "n div 65536 mod 256 = c" using assms(3) by (simp only: d2 digit_shift)
  show "n div 16777216 mod 256 = d" using assms(4) by (simp add: d3)
qed

lemma undigits4:
  fixes n :: nat
  assumes "n < 4294967296"
  shows "n mod 256 + 256 * (n div 256 mod 256) + 65536 * (n div 65536 mod 256)
    + 16777216 * (n div 16777216 mod 256) = n"
proof -
  define n1 n2 n3 where "n1 = n div 256" and "n2 = n1 div 256" and "n3 = n2 div 256"
  have e: "n div 65536 = n2" "n div 16777216 = n3"
    using div_mult2_eq [of n 256 256] div_mult2_eq [of n 65536 256]
    by (simp_all add: n1_def n2_def n3_def)
  have "n3 < 256" using assms e by (simp add: less_mult_imp_div_less flip: e(2))
  then have "n3 mod 256 = n3" by simp
  moreover have "n = 256 * n1 + n mod 256" "n1 = 256 * n2 + n1 mod 256" "n2 = 256 * n3 + n2 mod 256"
    by (simp_all add: n1_def n2_def n3_def)
  ultimately show ?thesis unfolding e n1_def [symmetric] by linarith
qed

lemma byte_at_mk32 [simp]:
  "byte_at 0 (mk32 a b c d) = a" "byte_at (Suc 0) (mk32 a b c d) = b"
  "byte_at 2 (mk32 a b c d) = c" "byte_at 3 (mk32 a b c d) = d"
  using digits4 [of "unat a" "unat b" "unat c" "unat d"]
  by (simp_all add: word_unat_eq_iff unat_byte_at unat_mk32)

lemma byte_at_mk32_Suc [simp]:
  "byte_at (Suc (Suc 0)) (mk32 a b c d) = c" "byte_at (Suc (Suc (Suc 0))) (mk32 a b c d) = d"
  using byte_at_mk32(3,4) by (simp_all add: eval_nat_numeral)

lemma mk16_byte_at [simp]: "mk16 (byte_at 0 w) (byte_at (Suc 0) w) = w"
proof -
  have "unat w < 65536" using unsigned_less [of w] by simp
  then show ?thesis by (simp add: word_unat_eq_iff unat_mk16 unat_byte_at)
qed

lemma mk32_byte_at [simp]:
  "mk32 (byte_at 0 w) (byte_at (Suc 0) w) (byte_at 2 w) (byte_at 3 w) = w"
proof -
  have "unat w < 4294967296" using unsigned_less [of w] by simp
  from undigits4 [OF this] this show ?thesis
    by (simp add: word_unat_eq_iff unat_mk32 unat_byte_at)
qed

lemma mk32_byte_at_Suc [simp]:
  "mk32 (byte_at 0 w) (byte_at (Suc 0) w) (byte_at (Suc (Suc 0)) w) (byte_at (Suc (Suc (Suc 0))) w) = w"
  using mk32_byte_at by (simp add: eval_nat_numeral)

lemma bswap16_bswap16 [simp]: "bswap16 (bswap16 w) = w"
  by (simp add: bswap16_def)

lemma bswap32_bswap32 [simp]: "bswap32 (bswap32 w) = w"
  by (simp add: bswap32_def)

lemma bswap16_eq_iff [simp]: "bswap16 v = bswap16 w \<longleftrightarrow> v = w"
  by (metis bswap16_bswap16)

lemma bswap32_eq_iff [simp]: "bswap32 v = bswap32 w \<longleftrightarrow> v = w"
  by (metis bswap32_bswap32)

lemma bswap16_mk16: "bswap16 (mk16 a b) = mk16 b a"
  by (simp add: bswap16_def)

lemma bswap32_mk32: "bswap32 (mk32 a b c d) = mk32 d c b a"
  by (simp add: bswap32_def)

section \<open>Loads and stores\<close>

definition load8 :: "bytes \<Rightarrow> nat \<Rightarrow> byte option" where
  "load8 p i = (if i < length p then Some (p ! i) else None)"

definition load16 :: "bytes \<Rightarrow> nat \<Rightarrow> u16 option" where
  "load16 p i = (if i + 1 < length p then Some (mk16 (p ! i) (p ! (i + 1))) else None)"

definition load32 :: "bytes \<Rightarrow> nat \<Rightarrow> u32 option" where
  "load32 p i =
     (if i + 3 < length p then Some (mk32 (p ! i) (p ! (i + 1)) (p ! (i + 2)) (p ! (i + 3))) else None)"

text \<open>The bytes \<^verbatim>\<open>[p + i, p + i + n)\<close>.\<close>

definition load_range :: "bytes \<Rightarrow> nat \<Rightarrow> nat \<Rightarrow> bytes option" where
  "load_range p i n = (if i + n \<le> length p then Some (take n (drop i p)) else None)"

definition put8 :: "nat \<Rightarrow> byte \<Rightarrow> bytes \<Rightarrow> bytes" where
  "put8 i v p = p[i := v]"

definition put16 :: "nat \<Rightarrow> u16 \<Rightarrow> bytes \<Rightarrow> bytes" where
  "put16 i v p = p[i := byte_at 0 v, i + 1 := byte_at 1 v]"

definition put32 :: "nat \<Rightarrow> u32 \<Rightarrow> bytes \<Rightarrow> bytes" where
  "put32 i v p = p[i := byte_at 0 v, i + 1 := byte_at 1 v, i + 2 := byte_at 2 v, i + 3 := byte_at 3 v]"

fun put_range :: "nat \<Rightarrow> bytes \<Rightarrow> bytes \<Rightarrow> bytes" where
  "put_range i [] p = p"
| "put_range i (b # bs) p = put_range (i + 1) bs (p[i := b])"

text \<open>\<^verbatim>\<open>resize\<close> of a vector: cut, or extended with zeros.\<close>

definition resize :: "nat \<Rightarrow> bytes \<Rightarrow> bytes" where
  "resize n p = take n p @ replicate (n - length p) 0"

lemma length_puts [simp]:
  "length (put8 i b p) = length p" "length (put16 i v p) = length p"
  "length (put32 i w p) = length p"
  by (simp_all add: put8_def put16_def put32_def)

lemma length_put_range [simp]: "length (put_range i bs p) = length p"
  by (induction i bs p rule: put_range.induct) simp_all

lemma length_resize [simp]: "length (resize n p) = n"
  by (simp add: resize_def)

lemma resize_Nil: "resize n [] = replicate n 0"
  by (simp add: resize_def)

lemma resize_shrink: "n \<le> length p \<Longrightarrow> resize n p = take n p"
  by (simp add: resize_def)

lemma load16_put16: "i + 1 < length p \<Longrightarrow> load16 (put16 i v p) i = Some v"
  by (simp add: load16_def put16_def)

lemma load32_put32: "i + 3 < length p \<Longrightarrow> load32 (put32 i v p) i = Some v"
  by (simp add: load32_def put32_def eval_nat_numeral)

lemma load_Some_length:
  "load8 p i = Some b \<Longrightarrow> i < length p"
  "load16 p i = Some v \<Longrightarrow> i + 1 < length p"
  "load32 p i = Some w \<Longrightarrow> i + 3 < length p"
  "load_range p i n = Some bs \<Longrightarrow> i + n \<le> length p"
  by (simp_all add: load8_def load16_def load32_def load_range_def split: if_splits)

text \<open>Loads from a concatenation, for packets built by appending.\<close>

lemma load_append_left [simp]:
  "i < length a \<Longrightarrow> load8 (a @ b) i = load8 a i"
  "i + 1 < length a \<Longrightarrow> load16 (a @ b) i = load16 a i"
  "i + 3 < length a \<Longrightarrow> load32 (a @ b) i = load32 a i"
  by (simp_all add: load8_def load16_def load32_def nth_append)

lemma load_append_right:
  "load8 (a @ b) (length a + i) = load8 b i"
  "load16 (a @ b) (length a + i) = load16 b i"
  "load32 (a @ b) (length a + i) = load32 b i"
  "load_range (a @ b) (length a + i) n = load_range b i n"
  by (simp_all add: load8_def load16_def load32_def load_range_def nth_append)

section \<open>NetInt\<close>

text \<open>
  \<^verbatim>\<open>NetInt<uint16_t>\<close> (\<open>BE16\<close>) and \<^verbatim>\<open>NetInt<uint32_t>\<close> (\<open>BE32\<close>) hold the
  swapped value.
\<close>

datatype BE16 = BE16_raw (be16_value: u16)
datatype BE32 = BE32_raw (be32_value: u32)

definition BE16_of :: "u16 \<Rightarrow> BE16" where
  "BE16_of v = BE16_raw (bswap16 v)"

definition BE16_native :: "BE16 \<Rightarrow> u16" where
  "BE16_native n = bswap16 (be16_value n)"

definition BE32_of :: "u32 \<Rightarrow> BE32" where
  "BE32_of v = BE32_raw (bswap32 v)"

definition BE32_native :: "BE32 \<Rightarrow> u32" where
  "BE32_native n = bswap32 (be32_value n)"

text \<open>
  A value written through \<^verbatim>\<open>NetInt\<close> stands in memory most significant byte first and
  is read back unchanged.
\<close>

lemma BE_roundtrip [simp]:
  "BE16_native (BE16_of v) = v" "BE16_of (BE16_native n) = n"
  "BE32_native (BE32_of w) = w" "BE32_of (BE32_native m) = m"
  by (simp_all add: BE16_native_def BE16_of_def BE32_native_def BE32_of_def)

end
