(* ===== verification/Wire.thy ===== *)
theory Wire
  imports Net_Bytes
begin

text \<open>
  The wire formats: \<^verbatim>\<open>src/packet.hpp\<close>, \<^verbatim>\<open>src/packet.cpp\<close> and
  \<^verbatim>\<open>src/ethernet.hpp\<close>. An enumeration is a datatype with its underlying values;
  \<open>..._of\<close> is the \<^verbatim>\<open>switch\<close> on a value read from the wire, \<^const>\<open>None\<close> its
  default branch.
\<close>

section \<open>Enumerations\<close>

abbreviation ETH_PPPOE_DISCOVERY :: u16 where "ETH_PPPOE_DISCOVERY \<equiv> 0x8863"
abbreviation ETH_PPPOE_SESSION :: u16 where "ETH_PPPOE_SESSION \<equiv> 0x8864"
abbreviation ETH_VLAN :: u16 where "ETH_VLAN \<equiv> 0x8100"

datatype PPPOE_CODE = SESSION_DATA | PADI | PADO | PADR | PADS | PADT

fun PPPOE_CODE_val :: "PPPOE_CODE \<Rightarrow> byte" where
  "PPPOE_CODE_val SESSION_DATA = 0x00"
| "PPPOE_CODE_val PADI = 0x09"
| "PPPOE_CODE_val PADO = 0x07"
| "PPPOE_CODE_val PADR = 0x19"
| "PPPOE_CODE_val PADS = 0x65"
| "PPPOE_CODE_val PADT = 0xa7"

datatype PPP_PROTO = IPV4 | IPV6 | IPV6CP | LCP | PAP | CHAP | IPCP | LQR

fun PPP_PROTO_val :: "PPP_PROTO \<Rightarrow> u16" where
  "PPP_PROTO_val IPV4 = 0x0021"
| "PPP_PROTO_val IPV6 = 0x0057"
| "PPP_PROTO_val IPV6CP = 0x8057"
| "PPP_PROTO_val LCP = 0xc021"
| "PPP_PROTO_val PAP = 0xc023"
| "PPP_PROTO_val CHAP = 0xc223"
| "PPP_PROTO_val IPCP = 0x8021"
| "PPP_PROTO_val LQR = 0xc025"

datatype PPPOE_TAG = END_OF_LIST | SERVICE_NAME | AC_NAME | HOST_UNIQ | AC_COOKIE | TAG_VENDOR_SPECIFIC
  | RELAY_SESSION_ID | SERVICE_NAME_ERROR | AC_SYSTEM_ERROR | GENERIC_ERROR

fun PPPOE_TAG_val :: "PPPOE_TAG \<Rightarrow> u16" where
  "PPPOE_TAG_val END_OF_LIST = 0x0000"
| "PPPOE_TAG_val SERVICE_NAME = 0x0101"
| "PPPOE_TAG_val AC_NAME = 0x0102"
| "PPPOE_TAG_val HOST_UNIQ = 0x0103"
| "PPPOE_TAG_val AC_COOKIE = 0x0104"
| "PPPOE_TAG_val TAG_VENDOR_SPECIFIC = 0x0105"
| "PPPOE_TAG_val RELAY_SESSION_ID = 0x0110"
| "PPPOE_TAG_val SERVICE_NAME_ERROR = 0x0201"
| "PPPOE_TAG_val AC_SYSTEM_ERROR = 0x0202"
| "PPPOE_TAG_val GENERIC_ERROR = 0x0203"

datatype LCP_CODE = VENDOR_SPECIFIC | CONF_REQ | CONF_ACK | CONF_NAK | CONF_REJ | TERM_REQ | TERM_ACK
  | CODE_REJ | PROTO_REJ | ECHO_REQ | ECHO_REPLY | DISCARD_REQ | IDENTIFICATION | TIME_REMAINING

fun LCP_CODE_val :: "LCP_CODE \<Rightarrow> byte" where
  "LCP_CODE_val VENDOR_SPECIFIC = 0"
| "LCP_CODE_val CONF_REQ = 1"
| "LCP_CODE_val CONF_ACK = 2"
| "LCP_CODE_val CONF_NAK = 3"
| "LCP_CODE_val CONF_REJ = 4"
| "LCP_CODE_val TERM_REQ = 5"
| "LCP_CODE_val TERM_ACK = 6"
| "LCP_CODE_val CODE_REJ = 7"
| "LCP_CODE_val PROTO_REJ = 8"
| "LCP_CODE_val ECHO_REQ = 9"
| "LCP_CODE_val ECHO_REPLY = 10"
| "LCP_CODE_val DISCARD_REQ = 11"
| "LCP_CODE_val IDENTIFICATION = 12"
| "LCP_CODE_val TIME_REMAINING = 13"

datatype PAP_CODE = AUTHENTICATE_REQ | AUTHENTICATE_ACK | AUTHENTICATE_NAK

fun PAP_CODE_val :: "PAP_CODE \<Rightarrow> byte" where
  "PAP_CODE_val AUTHENTICATE_REQ = 1"
| "PAP_CODE_val AUTHENTICATE_ACK = 2"
| "PAP_CODE_val AUTHENTICATE_NAK = 3"

datatype CHAP_CODE = CHALLENGE | RESPONSE | SUCCESS | FAILURE

fun CHAP_CODE_val :: "CHAP_CODE \<Rightarrow> byte" where
  "CHAP_CODE_val CHALLENGE = 1"
| "CHAP_CODE_val RESPONSE = 2"
| "CHAP_CODE_val SUCCESS = 3"
| "CHAP_CODE_val FAILURE = 4"

datatype LCP_OPTIONS = VEND_SPEC | MRU | AUTH_PROTO | QUAL_PROTO | MAGIC_NUMBER | PROTO_FIELD_COMP
  | ADD_AND_CTRL_FIELD_COMP

fun LCP_OPTIONS_val :: "LCP_OPTIONS \<Rightarrow> byte" where
  "LCP_OPTIONS_val VEND_SPEC = 0"
| "LCP_OPTIONS_val MRU = 1"
| "LCP_OPTIONS_val AUTH_PROTO = 3"
| "LCP_OPTIONS_val QUAL_PROTO = 4"
| "LCP_OPTIONS_val MAGIC_NUMBER = 5"
| "LCP_OPTIONS_val PROTO_FIELD_COMP = 7"
| "LCP_OPTIONS_val ADD_AND_CTRL_FIELD_COMP = 8"

datatype IPCP_OPTIONS = IP_ADDRESS | PRIMARY_DNS | SECONDARY_DNS

fun IPCP_OPTIONS_val :: "IPCP_OPTIONS \<Rightarrow> byte" where
  "IPCP_OPTIONS_val IP_ADDRESS = 3"
| "IPCP_OPTIONS_val PRIMARY_DNS = 129"
| "IPCP_OPTIONS_val SECONDARY_DNS = 131"

text \<open>The enumerator with a given underlying value, if any.\<close>

definition enum_of :: "('e \<Rightarrow> 'v) \<Rightarrow> 'e list \<Rightarrow> 'v \<Rightarrow> 'e option" where
  "enum_of val es v = map_of (map (\<lambda>e. (val e, e)) es) v"

definition PPPOE_CODE_of :: "byte \<Rightarrow> PPPOE_CODE option" where
  "PPPOE_CODE_of = enum_of PPPOE_CODE_val [SESSION_DATA, PADI, PADO, PADR, PADS, PADT]"

definition PPP_PROTO_of :: "u16 \<Rightarrow> PPP_PROTO option" where
  "PPP_PROTO_of = enum_of PPP_PROTO_val [IPV4, IPV6, IPV6CP, LCP, PAP, CHAP, IPCP, LQR]"

definition LCP_CODE_of :: "byte \<Rightarrow> LCP_CODE option" where
  "LCP_CODE_of = enum_of LCP_CODE_val
     [VENDOR_SPECIFIC, CONF_REQ, CONF_ACK, CONF_NAK, CONF_REJ, TERM_REQ, TERM_ACK, CODE_REJ,
      PROTO_REJ, ECHO_REQ, ECHO_REPLY, DISCARD_REQ, IDENTIFICATION, TIME_REMAINING]"

definition PAP_CODE_of :: "byte \<Rightarrow> PAP_CODE option" where
  "PAP_CODE_of = enum_of PAP_CODE_val [AUTHENTICATE_REQ, AUTHENTICATE_ACK, AUTHENTICATE_NAK]"

definition CHAP_CODE_of :: "byte \<Rightarrow> CHAP_CODE option" where
  "CHAP_CODE_of = enum_of CHAP_CODE_val [CHALLENGE, RESPONSE, SUCCESS, FAILURE]"

definition LCP_OPTIONS_of :: "byte \<Rightarrow> LCP_OPTIONS option" where
  "LCP_OPTIONS_of = enum_of LCP_OPTIONS_val
     [VEND_SPEC, MRU, AUTH_PROTO, QUAL_PROTO, MAGIC_NUMBER, PROTO_FIELD_COMP, ADD_AND_CTRL_FIELD_COMP]"

definition IPCP_OPTIONS_of :: "byte \<Rightarrow> IPCP_OPTIONS option" where
  "IPCP_OPTIONS_of = enum_of IPCP_OPTIONS_val [IP_ADDRESS, PRIMARY_DNS, SECONDARY_DNS]"

lemmas enum_of_defs = enum_of_def PPPOE_CODE_of_def PPP_PROTO_of_def LCP_CODE_of_def PAP_CODE_of_def
  CHAP_CODE_of_def LCP_OPTIONS_of_def IPCP_OPTIONS_of_def

text \<open>Each decoder inverts its encoder, and decodes nothing else.\<close>

locale wire_enum =
  fixes val :: "'e \<Rightarrow> 'v" and of_val :: "'v \<Rightarrow> 'e option"
  assumes of_val_val: "of_val (val e) = Some e"
    and val_of_val: "of_val v = Some e \<Longrightarrow> val e = v"
begin

lemma val_inject: "val a = val b \<longleftrightarrow> a = b"
  using of_val_val by (metis option.inject)

lemma of_val_eq_Some: "of_val v = Some e \<longleftrightarrow> v = val e"
  using of_val_val val_of_val by blast

end

interpretation pppoe_code: wire_enum PPPOE_CODE_val PPPOE_CODE_of
proof unfold_locales
  show "PPPOE_CODE_of (PPPOE_CODE_val e) = Some e" for e
    by (cases e) (simp_all add: enum_of_defs)
qed (auto simp: enum_of_defs split: if_splits)

interpretation ppp_proto: wire_enum PPP_PROTO_val PPP_PROTO_of
proof unfold_locales
  show "PPP_PROTO_of (PPP_PROTO_val e) = Some e" for e
    by (cases e) (simp_all add: enum_of_defs)
qed (auto simp: enum_of_defs split: if_splits)

interpretation lcp_code: wire_enum LCP_CODE_val LCP_CODE_of
proof unfold_locales
  show "LCP_CODE_of (LCP_CODE_val e) = Some e" for e
    by (cases e) (simp_all add: enum_of_defs)
qed (auto simp: enum_of_defs split: if_splits)

interpretation pap_code: wire_enum PAP_CODE_val PAP_CODE_of
proof unfold_locales
  show "PAP_CODE_of (PAP_CODE_val e) = Some e" for e
    by (cases e) (simp_all add: enum_of_defs)
qed (auto simp: enum_of_defs split: if_splits)

interpretation chap_code: wire_enum CHAP_CODE_val CHAP_CODE_of
proof unfold_locales
  show "CHAP_CODE_of (CHAP_CODE_val e) = Some e" for e
    by (cases e) (simp_all add: enum_of_defs)
qed (auto simp: enum_of_defs split: if_splits)

interpretation lcp_option: wire_enum LCP_OPTIONS_val LCP_OPTIONS_of
proof unfold_locales
  show "LCP_OPTIONS_of (LCP_OPTIONS_val e) = Some e" for e
    by (cases e) (simp_all add: enum_of_defs)
qed (auto simp: enum_of_defs split: if_splits)

interpretation ipcp_option: wire_enum IPCP_OPTIONS_val IPCP_OPTIONS_of
proof unfold_locales
  show "IPCP_OPTIONS_of (IPCP_OPTIONS_val e) = Some e" for e
    by (cases e) (simp_all add: enum_of_defs)
qed (auto simp: enum_of_defs split: if_splits)

section \<open>Headers\<close>

text \<open>
  Offsets of the packed headers: in \<^verbatim>\<open>PPPOEDISC_HDR\<close> type and version share byte 0,
  code is byte 1, \<open>session_id\<close> 2, \<open>length\<close> 4, and the data starts at 6;
  \<^verbatim>\<open>PPPOESESSION_HDR\<close> has \<open>ppp_protocol\<close> at 6 and its data at 8. There
  \<^verbatim>\<open>PPP_LCP\<close>, \<^verbatim>\<open>PPP_AUTH_HDR\<close> and \<^verbatim>\<open>PPP_CHAP_HDR\<close> have code at 8,
  identifier at 9, length at 10 and their data at 12 (CHAP: \<open>value_len\<close> at 12, \<open>value\<close> at
  13, data at 29).
\<close>

definition sizeof_ETHERNET_HDR :: nat where "sizeof_ETHERNET_HDR = 14"
definition sizeof_VLAN_HDR :: nat where "sizeof_VLAN_HDR = 4"
definition sizeof_PPPOEDISC_HDR :: nat where "sizeof_PPPOEDISC_HDR = 6"
definition sizeof_PPPOESESSION_HDR :: nat where "sizeof_PPPOESESSION_HDR = 8"
definition sizeof_PPP_LCP :: nat where "sizeof_PPP_LCP = 4"
definition sizeof_PPP_AUTH_HDR :: nat where "sizeof_PPP_AUTH_HDR = 4"
definition sizeof_PPP_CHAP_HDR :: nat where "sizeof_PPP_CHAP_HDR = 21"

lemmas sizeof_defs = sizeof_ETHERNET_HDR_def sizeof_VLAN_HDR_def sizeof_PPPOEDISC_HDR_def
  sizeof_PPPOESESSION_HDR_def sizeof_PPP_LCP_def sizeof_PPP_AUTH_HDR_def sizeof_PPP_CHAP_HDR_def

text \<open>The PPPoE part every builder of a session packet fills in (type and version are 1).\<close>

definition fill_pppoe_session :: "PPP_PROTO \<Rightarrow> u16 \<Rightarrow> bytes \<Rightarrow> bytes" where
  "fill_pppoe_session proto sid p =
     put16 2 (bswap16 sid)
       (put8 1 (PPPOE_CODE_val SESSION_DATA)
         (put16 6 (bswap16 (PPP_PROTO_val proto))
           (put8 0 0x11 p)))"

lemma length_fill_pppoe_session [simp]: "length (fill_pppoe_session proto sid p) = length p"
  by (simp add: fill_pppoe_session_def)

section \<open>Options\<close>

text \<open>
  The setters of the option structs (\<open>off\<close> is the option's place in the packet): the option
  code, the value in network order, and the length of the option with its two header bytes.
\<close>

definition LCP_OPT_1B_set :: "nat \<Rightarrow> LCP_OPTIONS \<Rightarrow> byte \<Rightarrow> bytes \<Rightarrow> bytes" where
  "LCP_OPT_1B_set off opt v p =
     put8 (off + 1) 3 (put8 (off + 2) v (put8 off (LCP_OPTIONS_val opt) p))"

definition LCP_OPT_2B_set :: "nat \<Rightarrow> LCP_OPTIONS \<Rightarrow> u16 \<Rightarrow> bytes \<Rightarrow> bytes" where
  "LCP_OPT_2B_set off opt v p =
     put8 (off + 1) 4 (put16 (off + 2) (bswap16 v) (put8 off (LCP_OPTIONS_val opt) p))"

definition LCP_OPT_3B_set :: "nat \<Rightarrow> LCP_OPTIONS \<Rightarrow> u16 \<Rightarrow> byte \<Rightarrow> bytes \<Rightarrow> bytes" where
  "LCP_OPT_3B_set off opt v v2 p =
     put8 (off + 1) 5 (put8 (off + 4) v2
       (put16 (off + 2) (bswap16 v) (put8 off (LCP_OPTIONS_val opt) p)))"

definition LCP_OPT_4B_set :: "nat \<Rightarrow> LCP_OPTIONS \<Rightarrow> u32 \<Rightarrow> bytes \<Rightarrow> bytes" where
  "LCP_OPT_4B_set off opt v p =
     put8 (off + 1) 6 (put32 (off + 2) (bswap32 v) (put8 off (LCP_OPTIONS_val opt) p))"

definition IPCP_OPT_4B_set :: "nat \<Rightarrow> IPCP_OPTIONS \<Rightarrow> u32 \<Rightarrow> bytes \<Rightarrow> bytes" where
  "IPCP_OPT_4B_set off opt v p =
     put8 (off + 1) 6 (put32 (off + 2) (bswap32 v) (put8 off (IPCP_OPTIONS_val opt) p))"

lemma length_opt_set [simp]:
  "length (LCP_OPT_1B_set off opt b p) = length p" "length (LCP_OPT_2B_set off opt h p) = length p"
  "length (LCP_OPT_3B_set off opt h b p) = length p" "length (LCP_OPT_4B_set off opt w p) = length p"
  "length (IPCP_OPT_4B_set off opt' w p) = length p"
  by (simp_all add: LCP_OPT_1B_set_def LCP_OPT_2B_set_def LCP_OPT_3B_set_def LCP_OPT_4B_set_def
      IPCP_OPT_4B_set_def)

text \<open>
  \<open>PPP_LCP::parseIPCPOptions\<close>: the offsets (from the packet's start) of the options it
  collects. The set of pointers is ordered by address, which is the order of the walk. An option
  of length 0 makes the loop run forever. \<open>len\<close> is the header's length field in host order.
\<close>

partial_function (option) ipcp_opts_walk :: "bytes \<Rightarrow> nat \<Rightarrow> nat \<Rightarrow> nat list option" where
  "ipcp_opts_walk p len offset =
     (if offset + sizeof_PPP_LCP < len
      then do {
        optlen \<leftarrow> load8 p (12 + offset + 1);
        opts \<leftarrow> ipcp_opts_walk p len (offset + unat optlen);
        Some ((12 + offset) # opts)
      }
      else Some [])"

definition parseIPCPOptions :: "bytes \<Rightarrow> nat list option" where
  "parseIPCPOptions p = do {
     len \<leftarrow> load16 p 10;
     ipcp_opts_walk p (unat (bswap16 len)) 0
   }"

text \<open>
  \<open>PPP_LCP::parseLCPOptions\<close> walks the options and returns the empty set: it never adds one.
\<close>

partial_function (option) lcp_opts_walk :: "bytes \<Rightarrow> nat \<Rightarrow> nat \<Rightarrow> nat list option" where
  "lcp_opts_walk p len offset = do {
     optlen \<leftarrow> load8 p (12 + offset + 1);
     (if offset + unat optlen + sizeof_PPP_LCP < len
      then lcp_opts_walk p len (offset + unat optlen)
      else Some [])
   }"

definition parseLCPOptions :: "bytes \<Rightarrow> nat list option" where
  "parseLCPOptions p = do {
     len \<leftarrow> load16 p 10;
     lcp_opts_walk p (unat (bswap16 len)) 0
   }"

subsection \<open>When the walk over the options returns\<close>

text \<open>
  The options area is well formed from an offset on: every option's length byte is inside the
  packet and is not 0, up to the length the header gives.
\<close>

inductive opts_wf :: "bytes \<Rightarrow> nat \<Rightarrow> nat \<Rightarrow> bool" for p len where
  stop: "len \<le> offset + 4 \<Longrightarrow> opts_wf p len offset"
| step: "offset + 4 < len \<Longrightarrow> 13 + offset < length p \<Longrightarrow> p ! (13 + offset) \<noteq> 0 \<Longrightarrow>
    opts_wf p len (offset + unat (p ! (13 + offset))) \<Longrightarrow> opts_wf p len offset"

lemma ipcp_opts_walk_unfold:
  "ipcp_opts_walk p len offset =
     (if offset + 4 < len
      then (if 13 + offset < length p
            then map_option ((#) (12 + offset)) (ipcp_opts_walk p len (offset + unat (p ! (13 + offset))))
            else None)
      else Some [])"
  by (subst ipcp_opts_walk.simps)
    (simp add: sizeof_defs load8_def map_option_case split: option.split)

lemma opts_wf_walk: "opts_wf p len offset \<Longrightarrow> \<exists>os. ipcp_opts_walk p len offset = Some os"
proof (induction rule: opts_wf.induct)
  case (stop offset)
  then show ?case by (subst ipcp_opts_walk_unfold) simp
next
  case (step offset)
  then show ?case by (subst ipcp_opts_walk_unfold) auto
qed

lemma walk_opts_wf:
  assumes "ipcp_opts_walk p len offset = Some os"
  shows "opts_wf p len offset \<and> os = (if offset + 4 < len then (12 + offset) # tl os else [])"
proof (rule ipcp_opts_walk.raw_induct [where P = "\<lambda>p len offset os. opts_wf p len offset \<and>
    (os = (if offset + 4 < len then (12 + offset) # tl os else []))", OF _ assms])
  fix walk p len offset os
  assume IH: "\<And>p len offset os. walk p len offset = Some os \<Longrightarrow> opts_wf p len offset \<and>
      os = (if offset + 4 < len then (12 + offset) # tl os else [])"
    and eq: "(if offset + sizeof_PPP_LCP < len
      then load8 p (12 + offset + 1) \<bind> (\<lambda>optlen. walk p len (offset + unat optlen) \<bind> (\<lambda>opts. Some ((12 + offset) # opts)))
      else Some []) = Some os"
  show "opts_wf p len offset \<and> os = (if offset + 4 < len then (12 + offset) # tl os else [])"
  proof (cases "offset + 4 < len")
    case True
    with eq obtain os' where w: "walk p len (offset + unat (p ! (13 + offset))) = Some os'"
      and l: "13 + offset < length p" and os: "os = (12 + offset) # os'"
      by (auto simp: sizeof_defs load8_def bind_eq_Some_conv split: if_splits)
    from IH [OF w] have wf: "opts_wf p len (offset + unat (p ! (13 + offset)))" by blast
    have "opts_wf p len offset"
    proof (cases "p ! (13 + offset) = 0")
      case True
      with wf show ?thesis by simp
    next
      case False
      with \<open>offset + 4 < len\<close> l wf show ?thesis by (auto intro: opts_wf.step)
    qed
    with True os show ?thesis by simp
  qed (use eq in \<open>auto simp: sizeof_defs intro: opts_wf.stop\<close>)
qed

text \<open>
  The walk returns exactly on a well-formed area: otherwise it reads past the packet or, at an
  option of length 0, never ends.
\<close>

lemma ipcp_opts_walk_returns_iff: "ipcp_opts_walk p len offset \<noteq> None \<longleftrightarrow> opts_wf p len offset"
  using opts_wf_walk walk_opts_wf by fastforce

end
