(* ===== verification/Encap.thy ===== *)
theory Encap
  imports Wire
begin

text \<open>
  The Ethernet/VLAN encapsulation of a subscriber: \<^verbatim>\<open>src/encap.hpp\<close> and
  \<^verbatim>\<open>src/encap.cpp\<close>. The constructor strips the link-layer headers of a received
  frame; \<open>generate_header\<close> puts them back in front of a reply.
\<close>

datatype mac_t = MAC (mac_bytes_0: byte) byte byte byte byte byte

fun mac_bytes :: "mac_t \<Rightarrow> bytes" where
  "mac_bytes (MAC a b c d e f) = [a, b, c, d, e, f]"

definition mac_of :: "bytes \<Rightarrow> nat \<Rightarrow> mac_t" where
  "mac_of p i = MAC (p ! i) (p ! (i + 1)) (p ! (i + 2)) (p ! (i + 3)) (p ! (i + 4)) (p ! (i + 5))"

lemma length_mac_bytes [simp]: "length (mac_bytes m) = 6"
  by (cases m) simp

lemma mac_bytes_inject [simp]: "mac_bytes m = mac_bytes n \<longleftrightarrow> m = n"
  by (cases m; cases n) simp

abbreviation zero_mac :: mac_t where "zero_mac \<equiv> MAC 0 0 0 0 0 0"

text \<open>
  \<open>encap_type\<close> has no initialiser in the class: it is \<^const>\<open>None\<close> until the constructor
  assigns it, which it does not for a frame shorter than an Ethernet header.
\<close>

record encapsulation_t =
  source_mac :: mac_t
  destination_mac :: mac_t
  outer_vlan :: u16
  inner_vlan :: u16
  encap_type :: "u16 option"

text \<open>The constructor: the encapsulation, and what is left of the frame.\<close>

definition encapsulation_ctor :: "bytes \<Rightarrow> u16 \<Rightarrow> u16 \<Rightarrow> (encapsulation_t \<times> bytes) option" where
  "encapsulation_ctor pkt outr innr =
     (if length pkt < sizeof_ETHERNET_HDR
      then Some (\<lparr>source_mac = zero_mac, destination_mac = zero_mac, outer_vlan = outr,
                   inner_vlan = innr, encap_type = None\<rparr>, pkt)
      else do {
        let src = mac_of pkt 6;
        let dst = mac_of pkt 0;
        raw \<leftarrow> load16 pkt 12;
        let t = bswap16 raw;
        if t = ETH_VLAN
        then do {
          vid \<leftarrow> load16 pkt 14;
          let outr = 0x0FFF AND bswap16 vid;
          raw \<leftarrow> load16 pkt 16;
          let t = bswap16 raw;
          if t = ETH_VLAN
          then do {
            vid \<leftarrow> load16 pkt 18;
            let innr = 0x0FFF AND bswap16 vid;
            raw \<leftarrow> load16 pkt 20;
            let t = bswap16 raw;
            Some (\<lparr>source_mac = src, destination_mac = dst, outer_vlan = outr, inner_vlan = innr,
                    encap_type = Some t\<rparr>,
                  drop (sizeof_ETHERNET_HDR + sizeof_VLAN_HDR + sizeof_VLAN_HDR) pkt)
          }
          else Some (\<lparr>source_mac = src, destination_mac = dst, outer_vlan = outr, inner_vlan = innr,
                       encap_type = Some t\<rparr>,
                     drop (sizeof_ETHERNET_HDR + sizeof_VLAN_HDR) pkt)
        }
        else Some (\<lparr>source_mac = src, destination_mac = dst, outer_vlan = outr, inner_vlan = innr,
                     encap_type = Some t\<rparr>,
                   drop sizeof_ETHERNET_HDR pkt)
      })"

definition generate_header :: "encapsulation_t \<Rightarrow> mac_t \<Rightarrow> u16 \<Rightarrow> bytes" where
  "generate_header e mac ethertype =
     (let len = sizeof_ETHERNET_HDR
            + (if outer_vlan e \<noteq> 0 then sizeof_VLAN_HDR else 0)
            + (if inner_vlan e \<noteq> 0 then sizeof_VLAN_HDR else 0);
          pkt = resize len [];
          pkt = put_range 6 (mac_bytes mac) pkt;
          pkt = put_range 0 (mac_bytes (source_mac e)) pkt
      in if outer_vlan e = 0 then put16 12 (bswap16 ethertype) pkt
         else
           let pkt = put16 12 (bswap16 ETH_VLAN) pkt;
               pkt = put16 14 (bswap16 (outer_vlan e)) pkt
           in if inner_vlan e = 0 then put16 16 (bswap16 ethertype) pkt
              else
                let pkt = put16 16 (bswap16 ETH_VLAN) pkt;
                    pkt = put16 18 (bswap16 (inner_vlan e)) pkt
                in put16 20 (bswap16 ethertype) pkt)"

text \<open>\<open>operator==\<close> compares every field, \<open>operator!=\<close> is its negation.\<close>

definition encapsulation_eq :: "encapsulation_t \<Rightarrow> encapsulation_t \<Rightarrow> bool" where
  "encapsulation_eq l r \<longleftrightarrow>
     source_mac l = source_mac r \<and> destination_mac l = destination_mac r \<and>
     outer_vlan l = outer_vlan r \<and> inner_vlan l = inner_vlan r \<and> encap_type l = encap_type r"

definition encapsulation_ne :: "encapsulation_t \<Rightarrow> encapsulation_t \<Rightarrow> bool" where
  "encapsulation_ne l r \<longleftrightarrow> \<not> encapsulation_eq l r"

lemma encapsulation_eq_iff: "encapsulation_eq l r \<longleftrightarrow> (l :: encapsulation_t) = r"
  by (auto simp: encapsulation_eq_def)

section \<open>The header and the constructor are inverse\<close>

lemma generate_header_untagged:
  "outer_vlan e = 0 \<Longrightarrow> inner_vlan e = 0 \<Longrightarrow>
   generate_header e mac t = mac_bytes (source_mac e) @ mac_bytes mac @ [byte_at 1 t, byte_at 0 t]"
  by (cases mac; cases "source_mac e")
    (simp add: generate_header_def sizeof_defs resize_Nil Let_def put16_def bswap16_def
      replicate_numeral)

lemma generate_header_outer:
  "outer_vlan e \<noteq> 0 \<Longrightarrow> inner_vlan e = 0 \<Longrightarrow>
   generate_header e mac t = mac_bytes (source_mac e) @ mac_bytes mac @
     [0x81, 0x00, byte_at 1 (outer_vlan e), byte_at 0 (outer_vlan e), byte_at 1 t, byte_at 0 t]"
  by (cases mac; cases "source_mac e")
    (simp add: generate_header_def sizeof_defs resize_Nil Let_def put16_def bswap16_def
      replicate_numeral)

lemma generate_header_double:
  "outer_vlan e \<noteq> 0 \<Longrightarrow> inner_vlan e \<noteq> 0 \<Longrightarrow>
   generate_header e mac t = mac_bytes (source_mac e) @ mac_bytes mac @
     [0x81, 0x00, byte_at 1 (outer_vlan e), byte_at 0 (outer_vlan e),
      0x81, 0x00, byte_at 1 (inner_vlan e), byte_at 0 (inner_vlan e), byte_at 1 t, byte_at 0 t]"
  by (cases mac; cases "source_mac e")
    (simp add: generate_header_def sizeof_defs resize_Nil Let_def put16_def bswap16_def
      replicate_numeral)

lemmas generate_header_cases = generate_header_untagged generate_header_outer generate_header_double

lemma vlan_mask: "v < 4096 \<Longrightarrow> 0x0FFF AND (v :: u16) = v"
proof -
  assume "v < 4096"
  then have "unat v < 4096" by (simp add: word_less_nat_alt)
  then have "take_bit 12 v = v"
    by (simp add: word_unat_eq_iff unsigned_take_bit_eq take_bit_nat_eq_self)
  then show ?thesis
    by (simp add: take_bit_eq_mask and.commute mask_eq_exp_minus_1)
qed

lemma mac_of_front: "mac_of (mac_bytes m @ p) 0 = m" "mac_of (mac_bytes n @ mac_bytes m @ p) 6 = m"
  by (cases m; cases n; simp add: mac_of_def)+

text \<open>
  C30. A frame built with \<open>generate_header\<close> is taken apart by the constructor into the same
  addresses (the reply goes back to the subscriber's source address), the same VLAN tags and
  EtherType, and exactly the payload that followed the header.
\<close>

theorem encap_roundtrip:
  assumes "outer_vlan e < 4096" and "inner_vlan e < 4096"
    and "outer_vlan e = 0 \<Longrightarrow> inner_vlan e = 0" and "t \<noteq> ETH_VLAN"
  shows "encapsulation_ctor (generate_header e mac t @ payload) 0 0 =
    Some (\<lparr>source_mac = mac, destination_mac = source_mac e, outer_vlan = outer_vlan e,
            inner_vlan = inner_vlan e, encap_type = Some t\<rparr>, payload)"
proof -
  consider "outer_vlan e = 0" "inner_vlan e = 0" | "outer_vlan e \<noteq> 0" "inner_vlan e = 0"
    | "outer_vlan e \<noteq> 0" "inner_vlan e \<noteq> 0"
    using assms(3) by blast
  then show ?thesis
  proof cases
    case 1
    with assms(4) show ?thesis
      by (cases mac; cases "source_mac e")
        (simp add: generate_header_cases encapsulation_ctor_def sizeof_defs load16_def mac_of_def
          bswap16_mk16)
  next
    case 2
    with assms(1,4) show ?thesis
      by (cases mac; cases "source_mac e")
        (simp add: generate_header_cases encapsulation_ctor_def sizeof_defs load16_def mac_of_def
          bswap16_mk16 vlan_mask mk16_def [of 0 129])
  next
    case 3
    with assms(1,2,4) show ?thesis
      by (cases mac; cases "source_mac e")
        (simp add: generate_header_cases encapsulation_ctor_def sizeof_defs load16_def mac_of_def
          bswap16_mk16 vlan_mask mk16_def [of 0 129])
  qed
qed

theorem encap_roundtrip_witness:
  "encapsulation_ctor
     (generate_header \<lparr>source_mac = MAC 2 0 0 0 0 7, destination_mac = zero_mac, outer_vlan = 150,
        inner_vlan = 20, encap_type = None\<rparr> (MAC 2 0 0 0 0 1) ETH_PPPOE_SESSION @ [0x11, 0, 0, 1])
     0 0 =
   Some (\<lparr>source_mac = MAC 2 0 0 0 0 1, destination_mac = MAC 2 0 0 0 0 7, outer_vlan = 150,
           inner_vlan = 20, encap_type = Some ETH_PPPOE_SESSION\<rparr>, [0x11, 0, 0, 1])"
  using encap_roundtrip [of "\<lparr>source_mac = MAC 2 0 0 0 0 7, destination_mac = zero_mac,
      outer_vlan = 150, inner_vlan = 20, encap_type = None\<rparr>" ETH_PPPOE_SESSION "MAC 2 0 0 0 0 1"
      "[0x11, 0, 0, 1]"]
  by simp

end
