(* ===== verification/Config.thy ===== *)
theory Config
  imports Encap
begin

text \<open>
  The configuration and the policies: \<^verbatim>\<open>src/config.hpp\<close>, \<^verbatim>\<open>src/policy.hpp\<close>
  and the log levels of \<^verbatim>\<open>src/log.hpp\<close>. An \<^verbatim>\<open>address_v4\<close> is its value
  (\<^verbatim>\<open>to_uint\<close>); a \<^verbatim>\<open>network_v4\<close> is an address with its prefix length.
  Member initialisers are the default values below.
\<close>

type_synonym address_v4_t = u32

record network_v4_t =
  net_address :: address_v4_t
  prefix_length :: nat

datatype LOGL = TRACE | DEBUG | INFO | WARN | ERROR | ALERT

record PPPOEPolicy =
  ac_name :: string
  service_name :: "string list"
  insert_cookie :: bool
  ignore_service_name :: bool

definition PPPOEPolicy_default :: PPPOEPolicy where
  "PPPOEPolicy_default = \<lparr>ac_name = ''pppoecpd'', service_name = [''internet''],
     insert_cookie = False, ignore_service_name = False\<rparr>"

record LCPPolicy =
  insertMagicNumber :: bool
  lcp_MRU :: u16
  authCHAP :: bool
  authPAP :: bool

definition LCPPolicy_default :: LCPPolicy where
  "LCPPolicy_default = \<lparr>insertMagicNumber = True, lcp_MRU = 1492, authCHAP = True, authPAP = False\<rparr>"

datatype AAA_METHODS = NONE | LOCAL | RADIUS

record FRAMED_POOL =
  start_ip :: address_v4_t
  stop_ip :: address_v4_t
  ips :: "u32 set"

record PPPOELocalTemplate =
  t_framed_pool :: string
  t_dns1 :: address_v4_t
  t_dns2 :: address_v4_t
  t_vrf :: string
  t_unnumbered :: string

record AAARadConf =
  rad_address :: address_v4_t
  rad_port :: u16
  rad_secret :: string

record AAAConf =
  aaa_method :: "AAA_METHODS list"
  aaa_pools :: "(string, FRAMED_POOL) omap"
  local_template :: string
  dictionaries :: "string list"
  auth_servers :: "(string, AAARadConf) omap"
  acct_servers :: "(string, AAARadConf) omap"

record InterfaceUnit =
  u_address :: "network_v4_t option"
  u_vlan :: u16
  u_admin_state :: bool
  u_vrf :: string
  u_unnumbered :: string
  u_sw_if_index :: u32

record InterfaceConf =
  i_device :: string
  i_admin_state :: bool
  i_mtu :: "u16 option"
  i_units :: "(u16, InterfaceUnit) omap"

record StaticRIBEntry =
  destination :: network_v4_t
  nexthop :: address_v4_t
  rib_description :: "string option"
  rid_in_vpp :: u32

record VRFConf =
  vrf_name :: string
  vrf_table_id :: u32
  vrf_rib :: "StaticRIBEntry list"

record PPPOEGlobalConf =
  tap_name :: string
  log_level :: LOGL
  log_file :: string
  interfaces :: "InterfaceConf list"
  default_pppoe_conf :: PPPOEPolicy
  pppoe_confs :: "(u16, PPPOEPolicy) omap"
  pppoe_templates :: "(string, PPPOELocalTemplate) omap"
  aaa_conf :: AAAConf
  conf_lcp :: LCPPolicy
  global_rib :: "StaticRIBEntry list"
  conf_vrfs :: "VRFConf list"

text \<open>
  The policy for a subscriber's VLAN: the one configured for it, or the default. The same lookup
  stands in the PADI handler and in the CHAP challenge.
\<close>

definition pppoe_policy :: "PPPOEGlobalConf \<Rightarrow> u16 \<Rightarrow> PPPOEPolicy" where
  "pppoe_policy c vlan =
     (case map_of (pppoe_confs c) vlan of None \<Rightarrow> default_pppoe_conf c | Some p \<Rightarrow> p)"

end
