(* ===== verification/Ip_Pool.thy ===== *)
theory Ip_Pool
  imports Config
begin

text \<open>
  The address pools: \<open>FRAMED_POOL::allocate_ip\<close> and \<open>deallocate_ip\<close> of
  \<^verbatim>\<open>src/aaa.cpp\<close>. Address 0 reports that no address of the range is free.
\<close>

text \<open>
  The loop \<^verbatim>\<open>for( uint32_t i = start; i <= stop; i++ )\<close>: \<open>i\<close> wraps around at
  \<open>2^32\<close>, so with the last address as upper bound the guard never fails.
\<close>

partial_function (option) allocate_ip_from :: "u32 set \<Rightarrow> u32 \<Rightarrow> u32 \<Rightarrow> u32 option option" where
  "allocate_ip_from used stop i =
     (if i \<le> stop
      then (if i \<notin> used then Some (Some i) else allocate_ip_from used stop (i + 1))
      else Some None)"

definition allocate_ip :: "FRAMED_POOL \<Rightarrow> (u32 \<times> FRAMED_POOL) option" where
  "allocate_ip pool = do {
     r \<leftarrow> allocate_ip_from (ips pool) (stop_ip pool) (start_ip pool);
     Some (case r of
         Some i \<Rightarrow> (i, pool\<lparr>ips := insert i (ips pool)\<rparr>)
       | None \<Rightarrow> (0, pool))
   }"

definition deallocate_ip :: "u32 \<Rightarrow> FRAMED_POOL \<Rightarrow> FRAMED_POOL" where
  "deallocate_ip i pool = (if i \<in> ips pool then pool\<lparr>ips := ips pool - {i}\<rparr> else pool)"

section \<open>What the search finds\<close>

lemma next_word: "(i :: u32) \<le> stop \<Longrightarrow> stop \<noteq> - 1 \<Longrightarrow> unat (i + 1) = unat i + 1"
proof -
  assume "i \<le> stop" "stop \<noteq> - 1"
  then have "i \<noteq> - 1" using word_order.extremum_uniqueI by blast
  then have "1 + i \<noteq> 0" by (metis add.commute add_eq_0_iff)
  from unatSuc [OF this] show ?thesis by (simp add: add.commute)
qed

text \<open>A free address of the range, the lowest one; or every address of the range is taken.\<close>

definition ip_search_ok :: "u32 set \<Rightarrow> u32 \<Rightarrow> u32 \<Rightarrow> u32 option \<Rightarrow> bool" where
  "ip_search_ok used stop i r \<longleftrightarrow> (case r of
       Some j \<Rightarrow> i \<le> j \<and> j \<le> stop \<and> j \<notin> used \<and> (\<forall>k. i \<le> k \<and> k < j \<longrightarrow> k \<in> used)
     | None \<Rightarrow> (\<forall>k. i \<le> k \<and> k \<le> stop \<longrightarrow> k \<in> used))"

lemma ip_search_ok_step:
  assumes "i \<in> used" and "i \<le> stop" and "stop \<noteq> - 1" and "ip_search_ok used stop (i + 1) r"
  shows "ip_search_ok used stop i r"
proof -
  have n: "unat (i + 1) = unat i + 1" using next_word assms(2,3) by blast
  have le: "i \<le> k \<longleftrightarrow> k = i \<or> i + 1 \<le> k" for k
    using n by (auto simp: word_le_nat_alt word_unat_eq_iff)
  from assms(1,4) show ?thesis
    by (auto simp: ip_search_ok_def le split: option.splits)
qed

lemma allocate_ip_from_returns:
  assumes "stop \<noteq> - 1"
  shows "\<exists>r. allocate_ip_from used stop i = Some r \<and> ip_search_ok used stop i r"
proof (induction "unat stop + 1 - unat i" arbitrary: i rule: less_induct)
  case less
  show ?case
  proof (cases "i \<le> stop \<and> i \<in> used")
    case True
    with assms have n: "unat (i + 1) = unat i + 1" using next_word by blast
    then have "unat stop + 1 - unat (i + 1) < unat stop + 1 - unat i"
      using True by (simp add: word_le_nat_alt Suc_diff_le)
    from less [OF this] obtain r where "allocate_ip_from used stop (i + 1) = Some r"
      and "ip_search_ok used stop (i + 1) r" by blast
    with True assms show ?thesis
      by (subst allocate_ip_from.simps) (auto intro: ip_search_ok_step)
  next
    case False
    then show ?thesis
      by (subst allocate_ip_from.simps)
        (auto simp: ip_search_ok_def word_le_nat_alt word_less_nat_alt)
  qed
qed

text \<open>The search of a whole pool, and its two outcomes.\<close>

lemma allocate_ip_cases:
  assumes "stop_ip pool \<noteq> - 1"
  obtains (found) i where "allocate_ip pool = Some (i, pool\<lparr>ips := insert i (ips pool)\<rparr>)"
      "start_ip pool \<le> i" "i \<le> stop_ip pool" "i \<notin> ips pool"
      "\<And>k. start_ip pool \<le> k \<Longrightarrow> k < i \<Longrightarrow> k \<in> ips pool"
  | (full) "allocate_ip pool = Some (0, pool)"
      "\<And>k. start_ip pool \<le> k \<Longrightarrow> k \<le> stop_ip pool \<Longrightarrow> k \<in> ips pool"
proof -
  from allocate_ip_from_returns [OF assms] obtain r
    where r: "allocate_ip_from (ips pool) (stop_ip pool) (start_ip pool) = Some r"
      and ok: "ip_search_ok (ips pool) (stop_ip pool) (start_ip pool) r" by blast
  show thesis
  proof (cases r)
    case None
    with r ok show thesis by (auto simp: allocate_ip_def ip_search_ok_def intro: full)
  next
    case (Some i)
    with r ok show thesis by (auto simp: allocate_ip_def ip_search_ok_def intro!: found [of i])
  qed
qed

lemma ips_deallocate_ip [simp]: "ips (deallocate_ip i pool) = ips pool - {i}"
  by (simp add: deallocate_ip_def)

lemma range_deallocate_ip [simp]:
  "start_ip (deallocate_ip i pool) = start_ip pool" "stop_ip (deallocate_ip i pool) = stop_ip pool"
  by (simp_all add: deallocate_ip_def)

text \<open>The pool as its callers see it: address 0 is the report that there is none.\<close>

definition pool_alloc :: "FRAMED_POOL \<Rightarrow> (u32 \<times> FRAMED_POOL) option" where
  "pool_alloc pool = (case allocate_ip pool of
       Some (i, pool') \<Rightarrow> if i = 0 then None else Some (i, pool')
     | None \<Rightarrow> None)"

definition pool_ok :: "FRAMED_POOL \<Rightarrow> bool" where
  "pool_ok pool \<longleftrightarrow> stop_ip pool \<noteq> - 1"

lemma pool_alloc_Some:
  assumes "pool_ok pool" and "pool_alloc pool = Some (i, pool')"
  shows "i \<notin> ips pool \<and> pool' = pool\<lparr>ips := insert i (ips pool)\<rparr> \<and>
    start_ip pool \<le> i \<and> i \<le> stop_ip pool \<and> i \<noteq> 0"
  using assms unfolding pool_ok_def
  by (cases rule: allocate_ip_cases [of pool]) (auto simp: pool_alloc_def split: if_splits)

lemma pool_ok_simps [simp]:
  "pool_ok (deallocate_ip i pool) \<longleftrightarrow> pool_ok pool" "pool_ok (pool\<lparr>ips := u\<rparr>) \<longleftrightarrow> pool_ok pool"
  by (simp_all add: pool_ok_def)

interpretation pool: allocator pool_alloc "\<lambda>i p. Some (deallocate_ip i p)" ips pool_ok
  by unfold_locales (auto dest!: pool_alloc_Some [rotated])

text \<open>
  C26. An allocation from a pool whose range does not end at the last address always returns, and
  returns the lowest free address of the range and marks it taken; when every address is taken it
  returns 0 and leaves the pool as it was.
\<close>

theorem allocate_ip_lowest_free:
  assumes "stop_ip pool \<noteq> - 1"
  shows "\<exists>i pool'. allocate_ip pool = Some (i, pool') \<and>
    (if \<exists>k. start_ip pool \<le> k \<and> k \<le> stop_ip pool \<and> k \<notin> ips pool
     then start_ip pool \<le> i \<and> i \<le> stop_ip pool \<and> i \<notin> ips pool \<and>
       (\<forall>k. start_ip pool \<le> k \<and> k < i \<longrightarrow> k \<in> ips pool) \<and>
       pool' = pool\<lparr>ips := insert i (ips pool)\<rparr>
     else i = 0 \<and> pool' = pool)"
  by (cases rule: allocate_ip_cases [OF assms]) (auto split: if_splits)

theorem allocate_ip_lowest_free_witness:
  "\<exists>i pool'. allocate_ip \<lparr>start_ip = 10, stop_ip = 12, ips = {10}\<rparr> = Some (i, pool') \<and> 10 \<le> i \<and> i \<le> 12
     \<and> i \<noteq> 10"
proof -
  have "\<exists>k::u32. 10 \<le> k \<and> k \<le> 12 \<and> k \<notin> {10}" by (rule exI [of _ 11]) simp
  then show ?thesis
    using allocate_ip_lowest_free [of "\<lparr>start_ip = 10, stop_ip = 12, ips = {10}\<rparr>"] by auto
qed

text \<open>
  The addresses a pool hands out in a row are pairwise different, as long as it hands out any.
\<close>

theorem pool_addresses_distinct:
  "pool_ok pool \<Longrightarrow> alloc_many pool_alloc n pool = Some (addrs, pool') \<Longrightarrow>
     distinct addrs \<and> set addrs \<inter> ips pool = {} \<and> ips pool' = set addrs \<union> ips pool"
  using pool.alloc_many_fresh by blast

theorem pool_addresses_distinct_witness:
  "distinct [10, 11 :: u32] \<and> set [10, 11 :: u32] \<inter> {} = {} \<and> {11, 10} = set [10, 11 :: u32] \<union> {}"
proof -
  have run: "alloc_many pool_alloc (Suc (Suc 0)) \<lparr>start_ip = 10, stop_ip = 12, ips = {}\<rparr> =
      Some ([10, 11], \<lparr>start_ip = 10, stop_ip = 12, ips = {11, 10}\<rparr>)"
    by (simp add: pool_alloc_def allocate_ip_def allocate_ip_from.simps)
  show ?thesis
    using pool_addresses_distinct [OF _ run] by (simp add: pool_ok_def)
qed

end
