(* ===== verification/Vpp.thy ===== *)
theory Vpp
  imports Config
begin

text \<open>
  The client of the VPP dataplane: \<^verbatim>\<open>src/vpp.cpp\<close>, \<^verbatim>\<open>src/vpp.hpp\<close> and
  \<^verbatim>\<open>src/vpp_types.hpp\<close>.

  VPP itself and its generated API classes are not part of the repository. They are the
  parameter \<open>vapi\<close>: given the messages sent so far and the next one, what the API call
  brings back. Each method of \<open>VPPAPI\<close> fills in a request, executes it, waits for the answer
  (the loop on \<^verbatim>\<open>VAPI_EAGAIN\<close>) and reads it. The messages are recorded in the order
  they are sent.
\<close>

section \<open>Types\<close>

datatype IfaceType = LOOPBACK | HW_IFACE | TAP | SUBIF

text \<open>
  \<open>v_type\<close> is not initialised in the struct: \<^const>\<open>None\<close> until a branch of
  \<open>get_ifaces\<close> assigns it.
\<close>

record VPPInterface =
  v_name :: string
  v_device :: string
  v_mac :: mac_t
  v_sw_if_index :: u32
  v_speed :: u32
  v_mtu :: u16
  v_type :: "IfaceType option"

record VPPIfaceCounters =
  rxPkts :: "64 word"
  rxBytes :: "64 word"
  txPkts :: "64 word"
  txBytes :: "64 word"
  drops :: "64 word"

record VPPVRF =
  v_vrf_name :: string
  v_table_id :: u32

record VPPIP =
  ip_sw_if_index :: u32
  ip_address :: network_v4_t

record VPPUnnumbered =
  unnumbered_sw_if_index :: u32
  iface_sw_if_index :: u32

record VPP_PPPOE_Session =
  vs_session_id :: u16
  vs_mac :: mac_t
  vs_address :: address_v4_t
  vs_sw_if_index :: u32
  vs_encap_if_index :: u32

datatype sub_if_flag = SUB_IF_EXACT_MATCH | SUB_IF_NO_TAGS | SUB_IF_ONE_TAG | SUB_IF_TWO_TAGS

text \<open>The request payloads, with the fields the code assigns; an IPv4 address is its four bytes.\<close>

datatype vapi_msg =
    Pppoe_add_del_session (client_ip: bytes) (client_mac: bytes) (decap_vrf_id: u32)
      (pppoe_session_id: u16) (pppoe_is_add: bool)
  | Create_subif u32 u16 u16 u16 "sub_if_flag list"
  | Delete_subif u32
  | Sw_interface_set_table u32 bool u32
  | Sw_interface_set_unnumbered bool u32 u32
  | Sw_interface_dump
  | Sw_interface_add_del_address u32 bool bytes nat
  | Ip_address_dump u32 bool
  | Ip_unnumbered_dump u32
  | Sw_interface_set_flags u32 bool
  | Sw_interface_set_mtu u32 "u16 list"
  | Ip_route_add_del bytes nat u32 bytes u32
  | Ip_table_add_del u32 "string option" bool
  | Ip_table_dump
  | Pppoe_add_del_cp u32 bool
  | Tap_create_v2 string
  | Tap_delete_v2 u32
  | Sw_interface_tap_v2_dump u32
  | Pppoe_session_dump u32
  | Want_interface_events u32 u32
  | Control_ping

text \<open>A row of the interface dump as the API returns it.\<close>

record vapi_iface =
  vi_link_speed :: u32
  vi_mtu :: u16
  vi_sw_if_index :: u32
  vi_dev_type :: string
  vi_name :: string
  vi_l2_address :: mac_t
  vi_is_sub :: bool

text \<open>A row of the session dump; the address may be an IPv6 one.\<close>

record vapi_session =
  vr_client_mac :: mac_t
  vr_is_ip4 :: bool
  vr_ip4 :: bytes
  vr_encap_if_index :: u32
  vr_session_id :: u16
  vr_sw_if_index :: u32

text \<open>
  What an API call brings back: whether \<^verbatim>\<open>execute\<close> reported \<^verbatim>\<open>VAPI_OK\<close>, whether
  the message is available in the running VPP at all, and the fields of the reply.
\<close>

record vapi_answer =
  exec_ok :: bool
  msg_available :: bool
  retval :: int
  sw_if_index :: u32
  stats_index :: u32
  ans_ifaces :: "vapi_iface list"
  ans_ips :: "(u32 \<times> bytes \<times> nat) list"
  ans_unnumbered :: "(u32 \<times> u32) list"
  ans_tables :: "(string \<times> u32) list"
  ans_taps :: "u32 list"
  ans_sessions :: "vapi_session list"

type_synonym vapi_service = "vapi_msg list \<Rightarrow> vapi_msg \<Rightarrow> vapi_answer"

record vpp_state =
  vpp_counters :: "(u32, VPPIfaceCounters) omap"
  vpp_vrfs :: "(string, u32) omap"
  vapi_log :: "vapi_msg list"

definition vpp_init :: vpp_state where
  "vpp_init = \<lparr>vpp_counters = [], vpp_vrfs = [], vapi_log = []\<rparr>"

text \<open>Execute a request and wait for its answer.\<close>

definition vapi_execute :: "vapi_service \<Rightarrow> vapi_msg \<Rightarrow> vpp_state \<Rightarrow> vapi_answer \<times> vpp_state" where
  "vapi_execute vapi m s = (vapi (vapi_log s) m, s\<lparr>vapi_log := vapi_log s @ [m]\<rparr>)"

text \<open>A request of a message the running VPP may not have: then the call throws and sends nothing.\<close>

definition vapi_try :: "vapi_service \<Rightarrow> vapi_msg \<Rightarrow> vpp_state \<Rightarrow> vapi_answer option \<times> vpp_state" where
  "vapi_try vapi m s =
     (let (a, s') = vapi_execute vapi m s in if msg_available a then (Some a, s') else (None, s))"

text \<open>The four bytes of an address, most significant first.\<close>

definition ip4_bytes :: "u32 \<Rightarrow> bytes" where
  "ip4_bytes a = [byte_at 3 a, byte_at 2 a, byte_at 1 a, byte_at 0 a]"

definition ip4_of_bytes :: "bytes \<Rightarrow> u32" where
  "ip4_of_bytes b = bswap32 (mk32 (b ! 0) (b ! 1) (b ! 2) (b ! 3))"

lemma ip4_of_ip4_bytes [simp]: "ip4_of_bytes (ip4_bytes a) = a"
  by (simp add: ip4_of_bytes_def ip4_bytes_def bswap32_mk32)

section \<open>Sessions\<close>

definition add_pppoe_session ::
  "vapi_service \<Rightarrow> u32 \<Rightarrow> u16 \<Rightarrow> mac_t \<Rightarrow> string \<Rightarrow> bool \<Rightarrow> vpp_state \<Rightarrow> (bool \<times> u32) \<times> vpp_state" where
  "add_pppoe_session vapi ip sid mac vrf is_add s =
     (case (if vrf = [] then Some 0 else map_of (vpp_vrfs s) vrf) of
        None \<Rightarrow> ((False, 0), s)
      | Some vrf_id \<Rightarrow>
          let (a, s) = vapi_execute vapi
                (Pppoe_add_del_session (ip4_bytes ip) (mac_bytes mac) vrf_id sid is_add) s
          in (if sw_if_index a = - 1 then (False, 0) else (True, sw_if_index a), s))"

definition set_interface_table :: "vapi_service \<Rightarrow> u32 \<Rightarrow> string \<Rightarrow> vpp_state \<Rightarrow> bool \<times> vpp_state" where
  "set_interface_table vapi ifi vrf s =
     (let vrf_id = (case map_of (vpp_vrfs s) vrf of Some i \<Rightarrow> i | None \<Rightarrow> 0);
          (a, s) = vapi_execute vapi (Sw_interface_set_table ifi False vrf_id) s
      in (retval a \<noteq> - 1, s))"

definition set_unnumbered ::
  "vapi_service \<Rightarrow> u32 \<Rightarrow> u32 \<Rightarrow> bool \<Rightarrow> vpp_state \<Rightarrow> bool \<times> vpp_state" where
  "set_unnumbered vapi unnumbered iface is_add s =
     (let (a, s) = vapi_execute vapi (Sw_interface_set_unnumbered is_add iface unnumbered) s
      in (exec_ok a \<and> retval a = 0, s))"

definition dump_unnumbered :: "vapi_service \<Rightarrow> u32 \<Rightarrow> vpp_state \<Rightarrow> VPPUnnumbered list \<times> vpp_state" where
  "dump_unnumbered vapi i s =
     (let (a, s) = vapi_execute vapi (Ip_unnumbered_dump i) s
      in (if \<not> exec_ok a then []
          else map (\<lambda>(u, f). \<lparr>unnumbered_sw_if_index = u, iface_sw_if_index = f\<rparr>) (ans_unnumbered a), s))"

text \<open>An address that is not an IPv4 one stays 0.0.0.0.\<close>

definition vpp_session :: "vapi_session \<Rightarrow> VPP_PPPOE_Session" where
  "vpp_session v =
     \<lparr>vs_session_id = vr_session_id v, vs_mac = vr_client_mac v,
      vs_address = (if vr_is_ip4 v then ip4_of_bytes (vr_ip4 v) else 0),
      vs_sw_if_index = vr_sw_if_index v, vs_encap_if_index = vr_encap_if_index v\<rparr>"

definition dump_pppoe_sessions :: "vapi_service \<Rightarrow> vpp_state \<Rightarrow> VPP_PPPOE_Session list \<times> vpp_state" where
  "dump_pppoe_sessions vapi s =
     (let (a, s) = vapi_execute vapi (Pppoe_session_dump (- 1)) s in (map vpp_session (ans_sessions a), s))"

section \<open>Interfaces\<close>

definition vpp_interface :: "vapi_iface \<Rightarrow> VPPInterface" where
  "vpp_interface v =
     \<lparr>v_name = vi_name v, v_device = vi_dev_type v, v_mac = vi_l2_address v,
      v_sw_if_index = vi_sw_if_index v, v_speed = vi_link_speed v, v_mtu = vi_mtu v,
      v_type =
        (if vi_is_sub v then Some SUBIF
         else if vi_dev_type v = ''Loopback'' then Some LOOPBACK
         else if vi_dev_type v = ''dpdk'' then Some HW_IFACE else None)\<rparr>"

definition get_ifaces :: "vapi_service \<Rightarrow> vpp_state \<Rightarrow> VPPInterface list \<times> vpp_state" where
  "get_ifaces vapi s =
     (let (a, s) = vapi_execute vapi Sw_interface_dump s in (map vpp_interface (ans_ifaces a), s))"

definition get_iface_by_name ::
  "vapi_service \<Rightarrow> string \<Rightarrow> vpp_state \<Rightarrow> (u32 \<times> bool) \<times> vpp_state" where
  "get_iface_by_name vapi name s =
     (let (ifs, s) = get_ifaces vapi s
      in (case find (\<lambda>i. v_name i = name) ifs of
            Some i \<Rightarrow> (v_sw_if_index i, True)
          | None \<Rightarrow> (0, False), s))"

definition add_subif ::
  "vapi_service \<Rightarrow> u32 \<Rightarrow> u16 \<Rightarrow> u16 \<Rightarrow> u16 \<Rightarrow> vpp_state \<Rightarrow> (bool \<times> u32) \<times> vpp_state" where
  "add_subif vapi interface unit outr innr s =
     (let flags = [SUB_IF_EXACT_MATCH,
            if outr = 0 then SUB_IF_NO_TAGS else if innr \<noteq> 0 then SUB_IF_TWO_TAGS else SUB_IF_ONE_TAG];
          (a, s) = vapi_execute vapi (Create_subif interface unit outr innr flags) s
      in (if retval a = - 1 then (False, 0) else (True, sw_if_index a), s))"

definition del_subif :: "vapi_service \<Rightarrow> u32 \<Rightarrow> vpp_state \<Rightarrow> bool \<times> vpp_state" where
  "del_subif vapi i s = (let (a, s) = vapi_execute vapi (Delete_subif i) s in (\<not> retval a < 0, s))"

definition set_state :: "vapi_service \<Rightarrow> u32 \<Rightarrow> bool \<Rightarrow> vpp_state \<Rightarrow> bool \<times> vpp_state" where
  "set_state vapi ifi admin_state s =
     (let (a, s) = vapi_execute vapi (Sw_interface_set_flags ifi admin_state) s in (\<not> retval a < 0, s))"

definition set_mtu :: "vapi_service \<Rightarrow> u32 \<Rightarrow> u16 \<Rightarrow> vpp_state \<Rightarrow> bool \<times> vpp_state" where
  "set_mtu vapi ifi mtu s =
     (let (a, s) = vapi_execute vapi (Sw_interface_set_mtu ifi [mtu, mtu, mtu, mtu]) s in (\<not> retval a < 0, s))"

definition set_ip :: "vapi_service \<Rightarrow> u32 \<Rightarrow> network_v4_t \<Rightarrow> bool \<Rightarrow> vpp_state \<Rightarrow> bool \<times> vpp_state" where
  "set_ip vapi i addr is_add s =
     (let (a, s) = vapi_execute vapi
            (Sw_interface_add_del_address i is_add (ip4_bytes (net_address addr)) (prefix_length addr)) s
      in (\<not> retval a < 0, s))"

definition dump_ip :: "vapi_service \<Rightarrow> u32 \<Rightarrow> vpp_state \<Rightarrow> VPPIP list \<times> vpp_state" where
  "dump_ip vapi i s =
     (let (a, s) = vapi_execute vapi (Ip_address_dump i False) s
      in (if \<not> exec_ok a then []
          else map (\<lambda>(ifi, ip, len). \<lparr>ip_sw_if_index = ifi,
                 ip_address = \<lparr>net_address = ip4_of_bytes ip, prefix_length = len\<rparr>\<rparr>) (ans_ips a), s))"

definition add_route ::
  "vapi_service \<Rightarrow> network_v4_t \<Rightarrow> address_v4_t \<Rightarrow> u32 \<Rightarrow> vpp_state \<Rightarrow> (bool \<times> u32) \<times> vpp_state" where
  "add_route vapi prefix hop table_id s =
     (let (a, s) = vapi_execute vapi (Ip_route_add_del (ip4_bytes (net_address prefix)) (prefix_length prefix)
            table_id (ip4_bytes hop) table_id) s
      in (if \<not> exec_ok a \<or> retval a \<noteq> 0 then (False, - 1) else (True, stats_index a), s))"

section \<open>VRFs, the control interface and TAP devices\<close>

text \<open>The VRF is remembered on a successful call, also when it is the deletion of one.\<close>

definition set_vrf :: "vapi_service \<Rightarrow> string \<Rightarrow> u32 \<Rightarrow> bool \<Rightarrow> vpp_state \<Rightarrow> bool \<times> vpp_state" where
  "set_vrf vapi name i is_add s =
     (let (a, s) = vapi_execute vapi (Ip_table_add_del i (if is_add then Some name else None) is_add) s
      in if \<not> exec_ok a \<or> retval a < 0 then (False, s)
         else (True, s\<lparr>vpp_vrfs := om_emplace name i (vpp_vrfs s)\<rparr>))"

definition dump_vrfs :: "vapi_service \<Rightarrow> vpp_state \<Rightarrow> VPPVRF list \<times> vpp_state" where
  "dump_vrfs vapi s =
     (let (a, s) = vapi_execute vapi Ip_table_dump s
      in (if \<not> exec_ok a then []
          else map (\<lambda>(n, t). \<lparr>v_vrf_name = take 63 n, v_table_id = t\<rparr>) (ans_tables a), s))"

text \<open>The argument \<open>to_del\<close> is not used: the request always adds.\<close>

definition add_pppoe_cp :: "vapi_service \<Rightarrow> u32 \<Rightarrow> bool \<Rightarrow> vpp_state \<Rightarrow> bool \<times> vpp_state" where
  "add_pppoe_cp vapi ifi to_del s =
     (let (a, s) = vapi_execute vapi (Pppoe_add_del_cp ifi True) s in (retval a = 0, s))"

definition create_tap :: "vapi_service \<Rightarrow> string \<Rightarrow> vpp_state \<Rightarrow> (bool \<times> u32) \<times> vpp_state" where
  "create_tap vapi host s =
     (case vapi_try vapi (Tap_create_v2 (take 63 host)) s of
        (None, s) \<Rightarrow> ((False, 0), s)
      | (Some a, s) \<Rightarrow>
          (if \<not> exec_ok a \<or> retval a < 0 then (False, 0) else (True, sw_if_index a), s))"

definition delete_tap :: "vapi_service \<Rightarrow> u32 \<Rightarrow> vpp_state \<Rightarrow> bool \<times> vpp_state" where
  "delete_tap vapi i s =
     (case vapi_try vapi (Tap_delete_v2 i) s of
        (None, s) \<Rightarrow> (False, s)
      | (Some a, s) \<Rightarrow> (exec_ok a \<and> \<not> retval a < 0, s))"

definition get_tap_interfaces :: "vapi_service \<Rightarrow> vpp_state \<Rightarrow> u32 list \<times> vpp_state" where
  "get_tap_interfaces vapi s =
     (case vapi_try vapi (Sw_interface_tap_v2_dump (- 1)) s of
        (None, s) \<Rightarrow> ([], s)
      | (Some a, s) \<Rightarrow> (if \<not> exec_ok a then [] else remdups (sort (ans_taps a)), s))"

section \<open>Counters\<close>

definition zero_counters :: VPPIfaceCounters where
  "zero_counters = \<lparr>rxPkts = 0, rxBytes = 0, txPkts = 0, txBytes = 0, drops = 0\<rparr>"

definition get_counters_by_index :: "u32 \<Rightarrow> vpp_state \<Rightarrow> bool \<times> VPPIfaceCounters" where
  "get_counters_by_index ifindex s =
     (case map_of (vpp_counters s) ifindex of None \<Rightarrow> (False, zero_counters) | Some c \<Rightarrow> (True, c))"

text \<open>
  VPP's statistics segment: named entries; a counter is a vector per thread, indexed by interface,
  and a combined counter holds packets and bytes.
\<close>

datatype stat_data = Name_vector "string list" | Counter_vector_simple "64 word list list"
  | Counter_vector_combined "(64 word \<times> 64 word) list list" | Other_stat

record stat_entry =
  stat_name :: string
  stat_data :: stat_data

definition om_update :: "'k \<Rightarrow> ('v \<Rightarrow> 'v) \<Rightarrow> ('k, 'v) omap \<Rightarrow> ('k, 'v) omap" where
  "om_update k f m = map (\<lambda>(k', v). (k', if k' = k then f v else v)) m"

text \<open>The value of one thread for one interface: the interface's counters are made if they are new.\<close>

definition simple_counter ::
  "string \<Rightarrow> nat \<times> 64 word \<Rightarrow> (u32, VPPIfaceCounters) omap \<Rightarrow> (u32, VPPIfaceCounters) omap" where
  "simple_counter name kv m =
     (let k = of_nat (fst kv); m = om_emplace k zero_counters m
      in if name = ''/if/drops'' then om_update k (\<lambda>c. c\<lparr>drops := snd kv\<rparr>) m else m)"

definition combined_counter ::
  "string \<Rightarrow> nat \<times> 64 word \<times> 64 word \<Rightarrow> (u32, VPPIfaceCounters) omap \<Rightarrow> (u32, VPPIfaceCounters) omap" where
  "combined_counter name kv m =
     (let k = of_nat (fst kv); (packets, bytes) = snd kv; m = om_emplace k zero_counters m
      in if name = ''/if/tx'' then om_update k (\<lambda>c. c\<lparr>txBytes := bytes, txPkts := packets\<rparr>) m
         else if name = ''/if/rx'' then om_update k (\<lambda>c. c\<lparr>rxBytes := bytes, rxPkts := packets\<rparr>) m
         else m)"

definition collect_entry :: "stat_entry \<Rightarrow> (u32, VPPIfaceCounters) omap \<Rightarrow> (u32, VPPIfaceCounters) omap" where
  "collect_entry e m =
     (if stat_name e \<notin> {''/if/drops'', ''/if/tx'', ''/if/rx''} then m
      else case stat_data e of
          Counter_vector_simple rows \<Rightarrow>
            fold (\<lambda>row. fold (simple_counter (stat_name e)) (enumerate 0 row)) rows m
        | Counter_vector_combined rows \<Rightarrow>
            fold (\<lambda>row. fold (combined_counter (stat_name e)) (enumerate 0 row)) rows m
        | _ \<Rightarrow> m)"

definition collect_counters :: "stat_entry list \<Rightarrow> vpp_state \<Rightarrow> vpp_state" where
  "collect_counters segment s = s\<lparr>vpp_counters := fold collect_entry segment (vpp_counters s)\<rparr>"

text \<open>The periodic ping, and the request for interface events, which nothing makes.\<close>

definition process_msgs :: "vapi_service \<Rightarrow> stat_entry list \<Rightarrow> vpp_state \<Rightarrow> vpp_state" where
  "process_msgs vapi segment s = (let (_, s) = vapi_execute vapi Control_ping s in collect_counters segment s)"

definition get_stats :: "vapi_service \<Rightarrow> u32 \<Rightarrow> u32 \<Rightarrow> vpp_state \<Rightarrow> vpp_state" where
  "get_stats vapi pid ifi s = snd (vapi_execute vapi (Want_interface_events 1 pid) s)"

section \<open>The configured interfaces\<close>

text \<open>One unit of an interface: created, then set up; the failures of later steps are only logged.\<close>

definition setup_unit :: "vapi_service \<Rightarrow> u32 \<Rightarrow> u16 \<Rightarrow> InterfaceUnit \<Rightarrow> vpp_state \<Rightarrow> vpp_state" where
  "setup_unit vapi parent i u s =
     (case add_subif vapi parent i (u_vlan u) 0 s of
        ((False, _), s) \<Rightarrow> s
      | ((True, ifi), s) \<Rightarrow>
          let s = snd (set_state vapi ifi (u_admin_state u) s);
              s = (if u_vrf u \<noteq> [] then snd (set_interface_table vapi ifi (u_vrf u) s) else s);
              s = (case u_address u of Some a \<Rightarrow> snd (set_ip vapi ifi a True s) | None \<Rightarrow> s)
          in if u_unnumbered u \<noteq> []
             then (case get_iface_by_name vapi (u_unnumbered u) s of
                     ((ip_iface, True), s) \<Rightarrow> snd (set_unnumbered vapi ifi ip_iface True s)
                   | ((_, False), s) \<Rightarrow> s)
             else s)"

definition setup_interface :: "vapi_service \<Rightarrow> VPPInterface list \<Rightarrow> InterfaceConf \<Rightarrow> vpp_state \<Rightarrow> vpp_state" where
  "setup_interface vapi vpp_ifs ic s =
     (case find (\<lambda>v. i_device ic = v_name v) vpp_ifs of
        None \<Rightarrow> s
      | Some v \<Rightarrow>
          let s = snd (set_state vapi (v_sw_if_index v) (i_admin_state ic) s);
              s = (case i_mtu ic of Some m \<Rightarrow> snd (set_mtu vapi (v_sw_if_index v) m s) | None \<Rightarrow> s)
          in fold (\<lambda>(i, u). setup_unit vapi (v_sw_if_index v) i u) (i_units ic) s)"

definition setup_interfaces :: "vapi_service \<Rightarrow> InterfaceConf list \<Rightarrow> vpp_state \<Rightarrow> bool \<times> vpp_state" where
  "setup_interfaces vapi ics s =
     (let (vpp_ifs, s) = get_ifaces vapi s
      in (True, fold (setup_interface vapi vpp_ifs) ics s))"

section \<open>Threads\<close>

lemma map_of_om_update: "map_of (om_update k f m) k' = (if k' = k then map_option f (map_of m k) else map_of m k')"
  by (induction m) (auto simp: om_update_def)

lemma combined_counter_find:
  "map_of (combined_counter name (i, p, b) m) k =
     (if k = of_nat i
      then Some (let c = (case map_of m k of Some c \<Rightarrow> c | None \<Rightarrow> zero_counters)
                 in if name = ''/if/tx'' then c\<lparr>txBytes := b, txPkts := p\<rparr>
                    else if name = ''/if/rx'' then c\<lparr>rxBytes := b, rxPkts := p\<rparr> else c)
      else map_of m k)"
  by (auto simp: combined_counter_def Let_def map_of_om_update om_find_emplace split: option.split)

text \<open>A thread's row, from the interface \<open>n\<close> on.\<close>

lemma combined_row_find:
  "length row + n \<le> 2 ^ 32 \<Longrightarrow> n \<le> i \<Longrightarrow> i < n + length row \<Longrightarrow> row ! (i - n) = (p, b) \<Longrightarrow>
   \<exists>c. map_of (fold (combined_counter ''/if/rx'') (enumerate n row) m) (of_nat i) = Some c \<and>
     rxPkts c = p \<and> rxBytes c = b"
proof (induction row arbitrary: n m)
  case (Cons x row)
  have keep: "map_of (fold (combined_counter ''/if/rx'') (enumerate l r) m) (of_nat j) = map_of m (of_nat j)"
    if "j < l" "length r + l \<le> 2 ^ 32" for j l r m
    using that
  proof (induction r arbitrary: l m)
    case (Cons y r)
    obtain q d where y: "y = (q, d)" by (cases y)
    have "(of_nat j :: u32) \<noteq> of_nat l"
    proof
      assume "(of_nat j :: u32) = of_nat l"
      then have "unat (of_nat j :: u32) = unat (of_nat l :: u32)" by (rule arg_cong)
      with Cons.prems show False by (simp add: unat_of_nat)
    qed
    with Cons y show ?case by (simp add: combined_counter_find)
  qed simp
  show ?case
  proof (cases "i = n")
    case True
    with Cons.prems keep [of n "Suc n" row] show ?thesis by (cases x) (simp add: combined_counter_find Let_def)
  next
    case False
    with Cons.prems Cons.IH [of "Suc n"] show ?thesis by (simp add: nth_Cons' Suc_diff_Suc)
  qed
qed simp



end
