(* ===== verification/Radius_Dict.thy ===== *)
theory Radius_Dict
  imports Net_Bytes
begin

text \<open>
  The RADIUS dictionary: \<^verbatim>\<open>src/radius_dict.hpp\<close> and \<^verbatim>\<open>src/radius_dict.cpp\<close>. Reading the
  file is left to the caller: the parser works on its lines. \<^verbatim>\<open>std::stoi\<close> throws where the
  model has \<^const>\<open>None\<close>, and nothing catches it.
\<close>

datatype RADIUS_TYPE_T = STRING | INTEGER | IPADDR | OCTETS | VSA | ERROR_T

record radius_attribute_t =
  attr_name :: string
  attr_type :: RADIUS_TYPE_T
  attr_values :: "(int, string) omap"

type_synonym attributes_t = "(byte, radius_attribute_t) omap"

record RadiusDict =
  attrs :: attributes_t
  vendors :: "(string, u32) omap"
  vsa :: "(u32, attributes_t) omap"

definition empty_dict :: RadiusDict where
  "empty_dict = \<lparr>attrs = [], vendors = [], vsa = []\<rparr>"

section \<open>String helpers of the standard library\<close>

text \<open>\<^verbatim>\<open>s.find( p ) == 0\<close> and \<^verbatim>\<open>s.find( p ) != npos\<close>.\<close>

fun starts_with :: "string \<Rightarrow> string \<Rightarrow> bool" where
  "starts_with s [] = True"
| "starts_with [] (c # p) = False"
| "starts_with (d # s) (c # p) = (d = c \<and> starts_with s p)"

fun contains :: "string \<Rightarrow> string \<Rightarrow> bool" where
  "contains [] p = starts_with [] p"
| "contains (c # s) p = (starts_with (c # s) p \<or> contains s p)"

lemma starts_with_iff: "starts_with s p \<longleftrightarrow> (\<exists>r. s = p @ r)"
  by (induction s p rule: starts_with.induct) auto

fun is_space :: "char \<Rightarrow> bool" where
  "is_space c = (c = CHR '' '' \<or> (9 \<le> (of_char c :: nat) \<and> (of_char c :: nat) \<le> 13))"

definition digit_of :: "char \<Rightarrow> nat option" where
  "digit_of c = (if 48 \<le> (of_char c :: nat) \<and> (of_char c :: nat) \<le> 57 then Some (of_char c - 48) else None)"

fun digits_value :: "nat \<Rightarrow> string \<Rightarrow> nat" where
  "digits_value n [] = n"
| "digits_value n (c # s) = (case digit_of c of Some d \<Rightarrow> digits_value (10 * n + d) s | None \<Rightarrow> n)"

text \<open>\<^verbatim>\<open>std::stoi\<close>, base 10: blanks, a sign, at least one digit, and a value that fits an int.\<close>

definition stoi :: "string \<Rightarrow> int option" where
  "stoi str =
     (let s = dropWhile is_space str;
          neg = (s \<noteq> [] \<and> hd s = CHR ''-'');
          s = (if s \<noteq> [] \<and> (hd s = CHR ''-'' \<or> hd s = CHR ''+'') then tl s else s);
          v = (if neg then - int (digits_value 0 s) else int (digits_value 0 s))
      in if s \<noteq> [] \<and> digit_of (hd s) \<noteq> None \<and> - 2147483648 \<le> v \<and> v \<le> 2147483647 then Some v else None)"

text \<open>
  \<^verbatim>\<open>boost::split\<close> on blanks and tabs, empty tokens included, and \<^verbatim>\<open>std::remove_if\<close>
  without an erase: the non-empty tokens move to the front, the list keeps its length, and the
  moved-from strings behind them are empty.
\<close>

fun split_blank :: "string \<Rightarrow> string list" where
  "split_blank [] = [[]]"
| "split_blank (c # s) =
     (if c = CHR '' '' \<or> c = CHR 0x09 then [] # split_blank s
      else (case split_blank s of t # ts \<Rightarrow> (c # t) # ts | [] \<Rightarrow> [[c]]))"

definition dict_tokens :: "string \<Rightarrow> string list" where
  "dict_tokens line =
     (let out = split_blank line; kept = filter (\<lambda>t. t \<noteq> []) out
      in kept @ replicate (length out - length kept) [])"

section \<open>The parser\<close>

definition is_dict_line :: "string \<Rightarrow> bool" where
  "is_dict_line line \<longleftrightarrow>
     \<not> (line \<noteq> [] \<and> hd line = CHR ''#'') \<and>
     (contains line ''ATTRIBUTE'' \<or> contains line ''VALUE'' \<or> contains line ''VENDOR'' \<or>
      contains line ''BEGIN-VENDOR'' \<or> contains line ''END-VENDOR'')"

definition attr_type_of :: "string \<Rightarrow> RADIUS_TYPE_T" where
  "attr_type_of t =
     (if starts_with t ''vsa'' then VSA
      else if starts_with t ''integer'' then INTEGER
      else if starts_with t ''ipaddr'' then IPADDR
      else if starts_with t ''octets'' then OCTETS
      else if starts_with t ''string'' then STRING
      else ERROR_T)"

definition vsa_at :: "u32 \<Rightarrow> RadiusDict \<Rightarrow> attributes_t" where
  "vsa_at v d = (case map_of (vsa d) v of Some a \<Rightarrow> a | None \<Rightarrow> [])"

text \<open>The attributes of the vendor section the parser is in (0: the standard ones).\<close>

definition cur_attrs :: "u32 \<Rightarrow> RadiusDict \<Rightarrow> attributes_t" where
  "cur_attrs cur d = (if cur = 0 then attrs d else vsa_at cur d)"

definition set_cur_attrs :: "u32 \<Rightarrow> attributes_t \<Rightarrow> RadiusDict \<Rightarrow> RadiusDict" where
  "set_cur_attrs cur a d = (if cur = 0 then d\<lparr>attrs := a\<rparr> else d\<lparr>vsa := om_set cur a (vsa d)\<rparr>)"

definition add_value :: "string \<Rightarrow> int \<Rightarrow> string \<Rightarrow> attributes_t \<Rightarrow> attributes_t" where
  "add_value target n text a =
     map (\<lambda>(k, v). (k, if starts_with target (attr_name v)
                       then v\<lparr>attr_values := om_emplace n text (attr_values v)\<rparr> else v)) a"

text \<open>
  A line of a file. A number that \<^verbatim>\<open>std::stoi\<close> refuses is an exception nothing
  catches. A vendor defined a second time is reported through the global pointer \<open>runtime\<close>, which
  is null while the dictionaries are read: they only are in the constructor of the runtime.
\<close>

definition dict_line :: "string \<Rightarrow> RadiusDict \<times> u32 \<Rightarrow> (RadiusDict \<times> u32) option" where
  "dict_line line dc =
     (let (d, cur) = dc; out = dict_tokens line
      in if \<not> is_dict_line line then Some (d, cur)
         else if starts_with (out ! 0) ''ATTRIBUTE'' then
           (if length out < 4 then Some (d, cur)
            else do {
              n \<leftarrow> stoi (out ! 2);
              let a = \<lparr>attr_name = out ! 1, attr_type = attr_type_of (out ! 3), attr_values = []\<rparr>;
              Some (set_cur_attrs cur (om_emplace (word_of_int n) a (cur_attrs cur d)) d, cur)
            })
         else if starts_with (out ! 0) ''VALUE'' then
           (if length out < 4 then Some (d, cur)
            else do {
              n \<leftarrow> stoi (out ! 3);
              Some (set_cur_attrs cur (add_value (out ! 1) n (out ! 2) (cur_attrs cur d)) d, cur)
            })
         else if starts_with (out ! 0) ''VENDOR'' then
           (if length out < 3 then Some (d, cur)
            else do {
              n \<leftarrow> stoi (out ! 2);
              if map_of (vendors d) (out ! 1) \<noteq> None then None
              else Some (d\<lparr>vendors := om_emplace (out ! 1) (word_of_int n) (vendors d)\<rparr>, cur)
            })
         else if starts_with (out ! 0) ''BEGIN-VENDOR'' then
           (if length out < 2 then Some (d, cur)
            else (case map_of (vendors d) (out ! 1) of Some v \<Rightarrow> Some (d, v) | None \<Rightarrow> Some (d, cur)))
         else if starts_with (out ! 0) ''END-VENDOR'' then Some (d, 0)
         else Some (d, cur))"

fun dict_lines :: "string list \<Rightarrow> RadiusDict \<times> u32 \<Rightarrow> (RadiusDict \<times> u32) option" where
  "dict_lines [] dc = Some dc"
| "dict_lines (l # ls) dc = (case dict_line l dc of None \<Rightarrow> None | Some dc' \<Rightarrow> dict_lines ls dc')"

text \<open>\<open>parseFreeradDict\<close> on one file's lines, and the constructor over all files.\<close>

definition parseFreeradDict :: "string list \<Rightarrow> RadiusDict \<Rightarrow> RadiusDict option" where
  "parseFreeradDict lines d = map_option fst (dict_lines lines (d, 0))"

fun RadiusDict_ctor :: "string list list \<Rightarrow> RadiusDict \<Rightarrow> RadiusDict option" where
  "RadiusDict_ctor [] d = Some d"
| "RadiusDict_ctor (f # fs) d =
     (case parseFreeradDict f d of None \<Rightarrow> None | Some d' \<Rightarrow> RadiusDict_ctor fs d')"

section \<open>Lookups\<close>

definition find_attr :: "string \<Rightarrow> attributes_t \<Rightarrow> byte option" where
  "find_attr name a = map_option fst (find (\<lambda>(k, v). attr_name v = name) a)"

fun find_vsa :: "string \<Rightarrow> (u32, attributes_t) omap \<Rightarrow> byte \<times> u32" where
  "find_vsa name [] = (0, 0)"
| "find_vsa name ((vid, a) # m) = (case find_attr name a of Some k \<Rightarrow> (k, vid) | None \<Rightarrow> find_vsa name m)"

definition getIdByName :: "RadiusDict \<Rightarrow> string \<Rightarrow> byte \<times> u32" where
  "getIdByName d name =
     (case find_attr name (attrs d) of Some k \<Rightarrow> (k, 0) | None \<Rightarrow> find_vsa name (vsa d))"

definition getAttrById :: "RadiusDict \<Rightarrow> byte \<Rightarrow> u32 \<Rightarrow> string \<times> RADIUS_TYPE_T" where
  "getAttrById d i v =
     (case (if v = 0 then map_of (attrs d) i
            else (case map_of (vsa d) v of None \<Rightarrow> None | Some att \<Rightarrow> map_of att i)) of
        Some a \<Rightarrow> (attr_name a, attr_type a)
      | None \<Rightarrow> ([], ERROR_T))"

definition getValueString :: "radius_attribute_t \<Rightarrow> int \<Rightarrow> string" where
  "getValueString a value = (case map_of (attr_values a) value of Some s \<Rightarrow> s | None \<Rightarrow> [])"

fun find_value :: "string \<Rightarrow> string \<Rightarrow> attributes_t \<Rightarrow> int" where
  "find_value name text [] = 0"
| "find_value name text ((k, v) # a) =
     (if attr_name v \<noteq> name then find_value name text a
      else (case find (\<lambda>(i, s). s = text) (attr_values v) of
              Some (i, _) \<Rightarrow> i
            | None \<Rightarrow> find_value name text a))"

definition getValueByName :: "RadiusDict \<Rightarrow> string \<Rightarrow> string \<Rightarrow> int" where
  "getValueByName d name text = find_value name text (attrs d)"

end
