(* ===== verification/Radius_Avp.thy ===== *)
theory Radius_Avp
  imports Radius_Dict
begin

text \<open>
  RADIUS attributes: \<^verbatim>\<open>src/radius_avp.hpp\<close> and \<^verbatim>\<open>src/radius_avp.cpp\<close>.

  \<open>original_len\<close> is \<^const>\<open>None\<close> where no constructor assigns it. The parsing constructor
  leaves \<open>vendor\<close> unassigned for a standard attribute: the value found there is the parameter
  \<open>junk\<close>.
\<close>

abbreviation RADIUS_VSA :: byte where "RADIUS_VSA \<equiv> 26"

record AVP =
  avp_type :: byte
  avp_length :: byte
  avp_value :: bytes
  avp_vendor :: u32
  avp_original_len :: "byte option"

section \<open>Constructors\<close>

definition AVP_of_BE32 :: "RadiusDict \<Rightarrow> string \<Rightarrow> BE32 \<Rightarrow> AVP" where
  "AVP_of_BE32 dict attr v =
     (let (i, vid) = getIdByName dict attr;
          val = put32 0 (be32_value v) (resize 4 [])
      in \<lparr>avp_type = i, avp_length = of_nat (1 + 1 + length val), avp_value = val, avp_vendor = vid,
          avp_original_len = None\<rparr>)"

definition AVP_of_BE16 :: "RadiusDict \<Rightarrow> string \<Rightarrow> BE16 \<Rightarrow> AVP" where
  "AVP_of_BE16 dict attr v =
     (let (i, vid) = getIdByName dict attr;
          val = put16 0 (be16_value v) (resize 2 [])
      in \<lparr>avp_type = i, avp_length = of_nat (1 + 1 + length val), avp_value = val, avp_vendor = vid,
          avp_original_len = None\<rparr>)"

text \<open>From a string: the number of the named value when the dictionary has one, else the bytes.\<close>

definition AVP_of_string :: "RadiusDict \<Rightarrow> string \<Rightarrow> bytes \<Rightarrow> AVP" where
  "AVP_of_string dict attr s =
     (let (i, vid) = getIdByName dict attr;
          n = (word_of_int (getValueByName dict attr (string_of_bytes s)) :: u32);
          val = (if n \<noteq> 0 then put32 0 (be32_value (BE32_of n)) (resize 4 []) else s)
      in \<lparr>avp_type = i, avp_length = of_nat (1 + 1 + length val), avp_value = val, avp_vendor = vid,
          avp_original_len = None\<rparr>)"

text \<open>
  From the wire, at \<open>pos\<close>: \<open>Inl\<close> is an exception with its message. A length below 2 makes the
  range of the value negative, which the vector's constructor refuses.
\<close>

definition AVP_parse :: "u32 \<Rightarrow> bytes \<Rightarrow> nat \<Rightarrow> (string + AVP) option" where
  "AVP_parse junk v pos =
     (if length v < pos + 2 then Some (Inl ''No room for parsing VSA'')
      else do {
        t \<leftarrow> load8 v pos;
        olen \<leftarrow> load8 v (pos + 1);
        (t, vid, it) \<leftarrow>
          (if t = RADIUS_VSA
           then do {
             vid \<leftarrow> load32 v (pos + 2);
             t \<leftarrow> load8 v (pos + 6);
             Some (t, bswap32 vid, pos + 7)
           }
           else Some (t, junk, pos + 1));
        len \<leftarrow> load8 v it;
        if len < 2 then Some (Inl ''cannot create std::vector larger than max_size()'')
        else do {
          val \<leftarrow> load_range v (it + 1) (unat len - 2);
          Some (Inr \<lparr>avp_type = t, avp_length = len, avp_value = val, avp_vendor = vid,
                     avp_original_len = Some olen\<rparr>)
        }
      })"

section \<open>Members\<close>

definition AVP_serialize :: "AVP \<Rightarrow> bytes" where
  "AVP_serialize a =
     (if avp_vendor a = 0 then [avp_type a]
      else [of_nat (1 + 1 + 4 + 1 + 1 + length (avp_value a))]
             @ put32 0 (avp_vendor a) (resize 4 [])
             @ [avp_type a])
     @ [avp_length a] @ avp_value a"

definition getVal_string :: "AVP \<Rightarrow> string \<times> bool" where
  "getVal_string a = (string_of_bytes (avp_value a), True)"

definition getVal_BE32 :: "AVP \<Rightarrow> BE32 \<times> bool" where
  "getVal_BE32 a =
     (if length (avp_value a) \<noteq> 4 then (BE32_of 0, False)
      else (BE32_raw (mk32 (avp_value a ! 0) (avp_value a ! 1) (avp_value a ! 2) (avp_value a ! 3)), True))"

text \<open>The size it asks for is 4, the load takes the first two bytes.\<close>

definition getVal_BE16 :: "AVP \<Rightarrow> BE16 \<times> bool" where
  "getVal_BE16 a =
     (if length (avp_value a) \<noteq> 4 then (BE16_of 0, False)
      else (BE16_raw (mk16 (avp_value a ! 0) (avp_value a ! 1)), True))"

section \<open>Lists and sets of attributes\<close>

text \<open>
  \<open>parseAVP\<close>: the attributes up to the end of the vector or to the first exception. The walk
  advances by \<open>original_len\<close> and does not end when that is 0.
\<close>

partial_function (option) parse_avps :: "(nat \<Rightarrow> u32) \<Rightarrow> bytes \<Rightarrow> nat \<Rightarrow> AVP list option" where
  "parse_avps junk v pos =
     (if pos = length v then Some []
      else do {
        r \<leftarrow> AVP_parse (junk pos) v pos;
        (case r of
           Inl err \<Rightarrow> Some []
         | Inr a \<Rightarrow> do {
             rest \<leftarrow> parse_avps junk v (pos + unat (the (avp_original_len a)));
             Some (a # rest)
           })
      })"

definition parseAVP :: "(nat \<Rightarrow> u32) \<Rightarrow> bytes \<Rightarrow> AVP list option" where
  "parseAVP junk v = parse_avps junk v 0"

text \<open>
  \<^verbatim>\<open>std::set<AVP>\<close> is ordered by the type alone, so a second attribute of a type is not
  inserted.
\<close>

type_synonym avp_set = "(byte, AVP) omap"

definition avp_emplace :: "AVP \<Rightarrow> avp_set \<Rightarrow> avp_set" where
  "avp_emplace a s = om_emplace (avp_type a) a s"

definition avp_set_of :: "AVP list \<Rightarrow> avp_set" where
  "avp_set_of as = fold avp_emplace as []"

definition serializeAVP :: "avp_set \<Rightarrow> bytes" where
  "serializeAVP s = concat (map (\<lambda>(k, a). AVP_serialize a) s)"

section \<open>Printing\<close>

text \<open>\<^verbatim>\<open>address_v4::to_string\<close>.\<close>

definition address_to_string :: "u32 \<Rightarrow> string" where
  "address_to_string a =
     to_string_digits (unat (byte_at 3 a)) @ ''.'' @ to_string_digits (unat (byte_at 2 a)) @ ''.'' @
     to_string_digits (unat (byte_at 1 a)) @ ''.'' @ to_string_digits (unat (byte_at 0 a))"

definition printAVP :: "RadiusDict \<Rightarrow> AVP \<Rightarrow> string" where
  "printAVP dict a =
     (let (n, t) = getAttrById dict (avp_type a) 0
      in if n = [] \<or> t = ERROR_T then ''UKNOWN ATTRIBUTE''
         else ''ATTR: '' @ n @ [CHR 0x09, CHR 0x09] @ ''VALUE: '' @
           (case t of
              INTEGER \<Rightarrow>
                (case getVal_BE32 a of (r, True) \<Rightarrow> to_string_digits (unat (BE32_native r)) | _ \<Rightarrow> ''ERROR'')
            | STRING \<Rightarrow> (case getVal_string a of (r, True) \<Rightarrow> r | _ \<Rightarrow> ''ERROR'')
            | IPADDR \<Rightarrow>
                (case getVal_BE32 a of (r, True) \<Rightarrow> address_to_string (BE32_native r) | _ \<Rightarrow> ''ERROR'')
            | _ \<Rightarrow> ''UNKNOWN''))"

section \<open>Serialised attributes are parsed back\<close>

text \<open>A standard attribute whose length byte is the length it will have on the wire.\<close>

definition plain_avp :: "AVP \<Rightarrow> bool" where
  "plain_avp a \<longleftrightarrow> avp_vendor a = 0 \<and> avp_type a \<noteq> RADIUS_VSA \<and>
     length (avp_value a) \<le> 253 \<and> avp_length a = of_nat (2 + length (avp_value a))"

lemma plain_avp_length: "plain_avp a \<Longrightarrow> unat (avp_length a) = 2 + length (avp_value a)"
  by (simp add: plain_avp_def unat_of_nat del: of_nat_add of_nat_Suc)

lemma serialize_plain:
  "plain_avp a \<Longrightarrow> AVP_serialize a = avp_type a # avp_length a # avp_value a"
  by (simp add: plain_avp_def AVP_serialize_def)

text \<open>What the parsing constructor makes of it.\<close>

definition parsed :: "u32 \<Rightarrow> AVP \<Rightarrow> AVP" where
  "parsed junk a = a\<lparr>avp_vendor := junk, avp_original_len := Some (avp_length a)\<rparr>"

lemma AVP_parse_plain:
  assumes "plain_avp a"
  shows "AVP_parse junk (pre @ AVP_serialize a @ post) (length pre) = Some (Inr (parsed junk a))"
proof -
  have n: "unat (avp_length a) = 2 + length (avp_value a)" using assms by (rule plain_avp_length)
  then have "\<not> avp_length a < 2" by (simp add: word_less_nat_alt)
  moreover have "avp_type a \<noteq> RADIUS_VSA" using assms by (simp add: plain_avp_def)
  ultimately show ?thesis
    using n by (simp add: AVP_parse_def serialize_plain [OF assms] load8_def load_range_def nth_append
        parsed_def)
qed

lemma parse_avps_plain:
  "\<forall>a \<in> set as. plain_avp a \<Longrightarrow>
   \<exists>bs. parse_avps junk (pre @ concat (map AVP_serialize as)) (length pre) = Some bs \<and>
     length bs = length as \<and> (\<forall>i < length as. \<exists>j. bs ! i = parsed (junk j) (as ! i))"
proof (induction as arbitrary: pre)
  case Nil
  then show ?case by (subst parse_avps.simps) simp
next
  case (Cons a as)
  let ?v = "pre @ AVP_serialize a @ concat (map AVP_serialize as)"
  have pa: "plain_avp a" using Cons.prems by simp
  have "\<exists>bs. parse_avps junk ((pre @ AVP_serialize a) @ concat (map AVP_serialize as))
      (length (pre @ AVP_serialize a)) = Some bs \<and>
      length bs = length as \<and> (\<forall>i < length as. \<exists>j. bs ! i = parsed (junk j) (as ! i))"
    using Cons.prems by (intro Cons.IH) simp
  moreover have "length (pre @ AVP_serialize a) = length pre + unat (avp_length a)"
    using pa by (simp add: serialize_plain plain_avp_length)
  ultimately obtain bs where bs: "parse_avps junk ?v (length pre + unat (avp_length a)) = Some bs"
    "length bs = length as" "\<forall>i < length as. \<exists>j. bs ! i = parsed (junk j) (as ! i)"
    by auto
  have "length pre \<noteq> length ?v" using pa by (simp add: serialize_plain)
  then have "parse_avps junk ?v (length pre) = Some (parsed (junk (length pre)) a # bs)"
    using bs(1) by (subst parse_avps.simps) (simp add: AVP_parse_plain [OF pa] parsed_def)
  moreover have "\<forall>i < length (a # as). \<exists>j. (parsed (junk (length pre)) a # bs) ! i = parsed (junk j) ((a # as) ! i)"
    using bs(3) by (auto simp: nth_Cons split: nat.split)
  ultimately show ?case using bs(2) by auto
qed



text \<open>
  A vendor-specific attribute is not serialised the way the parser reads one: the first byte
  is the attribute's total length where the type 26 belongs.
\<close>

theorem vsa_serialize_malformed:
  assumes "avp_vendor a \<noteq> 0" and "length (avp_value a) < 18"
  shows "AVP_serialize a = of_nat (8 + length (avp_value a)) #
      [byte_at 0 (avp_vendor a), byte_at 1 (avp_vendor a), byte_at 2 (avp_vendor a), byte_at 3 (avp_vendor a)] @
      avp_type a # avp_length a # avp_value a \<and> hd (AVP_serialize a) \<noteq> RADIUS_VSA"
proof -
  have "unat (of_nat (8 + length (avp_value a)) :: byte) = 8 + length (avp_value a)"
    using assms(2) by (simp only: unat_of_nat) simp
  then have "(of_nat (8 + length (avp_value a)) :: byte) \<noteq> 26"
    using assms(2) by (auto simp: word_unat_eq_iff simp del: of_nat_add)
  with assms(1) show ?thesis
    by (simp add: AVP_serialize_def put32_def resize_Nil replicate_numeral)
qed

theorem vsa_serialize_malformed_witness:
  "hd (AVP_serialize \<lparr>avp_type = 1, avp_length = 6, avp_value = [10, 0, 0, 1], avp_vendor = 9,
     avp_original_len = None\<rparr>) \<noteq> RADIUS_VSA"
  using vsa_serialize_malformed [of "\<lparr>avp_type = 1, avp_length = 6, avp_value = [10, 0, 0, 1],
      avp_vendor = 9, avp_original_len = None\<rparr>"] by simp

end
