(* ===== verification/Radius_Msg.thy ===== *)
theory Radius_Msg
  imports Radius_Avp
begin

text \<open>
  The RADIUS requests and responses: \<^verbatim>\<open>src/request_response.hpp\<close>,
  \<^verbatim>\<open>src/request_response.cpp\<close>, the header of \<^verbatim>\<open>src/radius_packet.hpp\<close> and
  \<open>acct_auth_process\<close> of \<^verbatim>\<open>src/auth_client.cpp\<close>.

  MD5 comes from Boost: it is the parameter \<open>md5\<close>. What the code relies on is that a digest
  has 16 bytes.
\<close>

datatype RADIUS_CODE = ACCESS_REQUEST | ACCESS_ACCEPT | ACCESS_REJECT | ACCOUNTING_REQUEST
  | ACCOUNTING_RESPONSE | ACCESS_CHALLENGE | RESERVED

fun RADIUS_CODE_val :: "RADIUS_CODE \<Rightarrow> byte" where
  "RADIUS_CODE_val ACCESS_REQUEST = 1"
| "RADIUS_CODE_val ACCESS_ACCEPT = 2"
| "RADIUS_CODE_val ACCESS_REJECT = 3"
| "RADIUS_CODE_val ACCOUNTING_REQUEST = 4"
| "RADIUS_CODE_val ACCOUNTING_RESPONSE = 5"
| "RADIUS_CODE_val ACCESS_CHALLENGE = 11"
| "RADIUS_CODE_val RESERVED = 255"

text \<open>
  \<^verbatim>\<open>RadiusPacket\<close>: code at 0, id at 1, length at 2, authenticator at 4.
\<close>

definition sizeof_RadiusPacket :: nat where "sizeof_RadiusPacket = 20"

type_synonym md5_fn = "bytes \<Rightarrow> bytes"

section \<open>Requests and responses\<close>

record RadiusRequest =
  rq_username :: string
  rq_password :: string
  rq_nas_id :: string
  rq_service_type :: string
  rq_framed_protocol :: string
  rq_calling_station_id :: string
  rq_nas_port_id :: string

record RadiusRequestChap =
  rc_username :: string
  chap_challenge :: string
  chap_response :: string
  rc_nas_id :: string
  rc_service_type :: string
  rc_framed_protocol :: string
  rc_calling_station_id :: string
  rc_nas_port_id :: string

record RadiusResponse =
  framed_ip :: u32
  rs_dns1 :: u32
  rs_dns2 :: u32
  rs_framed_pool :: string
  pppoe_template :: string

record AcctRequest =
  ac_session_id :: string
  ac_username :: string
  ac_nas_id :: string
  ac_nas_port_id :: string
  acct_status_type :: string
  ac_calling_station_id :: string
  in_pkts :: u32
  out_pkts :: u32
  in_bytes :: u32
  out_bytes :: u32

section \<open>The user's password\<close>

definition pap_pad :: "bytes \<Rightarrow> bytes" where
  "pap_pad pass = pass @ replicate (if length pass mod 16 \<noteq> 0 then 16 - length pass mod 16 else 0) 0"

text \<open>
  The loop over the 16-byte chunks; \<open>b1\<close> is the digest the next chunk is combined with.
\<close>

fun pap_chunks :: "md5_fn \<Rightarrow> bytes \<Rightarrow> nat \<Rightarrow> bytes \<Rightarrow> bytes \<Rightarrow> bytes" where
  "pap_chunks md5 secret 0 b1 pass = []"
| "pap_chunks md5 secret (Suc n) b1 pass =
     (let c1 = map2 (XOR) b1 (take 16 pass)
      in c1 @ pap_chunks md5 secret n (md5 (secret @ c1)) (drop 16 pass))"

definition password_pap_process :: "md5_fn \<Rightarrow> bytes \<Rightarrow> bytes \<Rightarrow> bytes \<Rightarrow> bytes" where
  "password_pap_process md5 auth secret pass =
     (let pass = pap_pad pass
      in pap_chunks md5 secret (length pass div 16) (md5 (secret @ auth)) pass)"

section \<open>Serialisation\<close>

definition emplace_string :: "RadiusDict \<Rightarrow> string \<Rightarrow> string \<Rightarrow> avp_set \<Rightarrow> avp_set" where
  "emplace_string dict attr v s =
     (if v = [] then s else avp_emplace (AVP_of_string dict attr (bytes_of_string v)) s)"

definition emplace_value :: "RadiusDict \<Rightarrow> string \<Rightarrow> string \<Rightarrow> avp_set \<Rightarrow> avp_set" where
  "emplace_value dict attr v s =
     (if v = [] then s
      else
        let val = (word_of_int (getValueByName dict attr v) :: u32)
        in if val \<noteq> 0 then avp_emplace (AVP_of_BE32 dict attr (BE32_of val)) s else s)"

definition serialize_RadiusRequest ::
  "md5_fn \<Rightarrow> RadiusDict \<Rightarrow> RadiusRequest \<Rightarrow> bytes \<Rightarrow> bytes \<Rightarrow> bytes" where
  "serialize_RadiusRequest md5 dict req a secret =
     (let s = avp_set_of
            [AVP_of_string dict ''User-Name'' (bytes_of_string (rq_username req)),
             AVP_of_string dict ''User-Password''
               (password_pap_process md5 a secret (bytes_of_string (rq_password req)))];
          s = emplace_string dict ''NAS-Identifier'' (rq_nas_id req) s;
          s = emplace_value dict ''Framed-Protocol'' (rq_framed_protocol req) s;
          s = emplace_value dict ''Service-Type'' (rq_service_type req) s;
          s = emplace_string dict ''Calling-Station-Id'' (rq_calling_station_id req) s;
          s = emplace_string dict ''NAS-Port-Id'' (rq_nas_port_id req) s
      in serializeAVP s)"

definition serialize_RadiusRequestChap :: "RadiusDict \<Rightarrow> RadiusRequestChap \<Rightarrow> bytes" where
  "serialize_RadiusRequestChap dict req =
     (let s = avp_set_of
            [AVP_of_string dict ''User-Name'' (bytes_of_string (rc_username req)),
             AVP_of_string dict ''CHAP-Password'' (bytes_of_string (chap_response req)),
             AVP_of_string dict ''CHAP-Challenge'' (bytes_of_string (chap_challenge req))];
          s = emplace_string dict ''NAS-Identifier'' (rc_nas_id req) s;
          s = emplace_value dict ''Framed-Protocol'' (rc_framed_protocol req) s;
          s = emplace_value dict ''Service-Type'' (rc_service_type req) s;
          s = emplace_string dict ''Calling-Station-Id'' (rc_calling_station_id req) s;
          s = emplace_string dict ''NAS-Port-Id'' (rc_nas_port_id req) s
      in serializeAVP s)"

definition serialize_AcctRequest :: "RadiusDict \<Rightarrow> AcctRequest \<Rightarrow> bytes" where
  "serialize_AcctRequest dict req =
     (let s = avp_set_of
            [AVP_of_string dict ''Acct-Session-Id'' (bytes_of_string (ac_session_id req)),
             AVP_of_string dict ''User-Name'' (bytes_of_string (ac_username req)),
             AVP_of_BE32 dict ''Acct-Input-Packets'' (BE32_of (in_pkts req)),
             AVP_of_BE32 dict ''Acct-Output-Packets'' (BE32_of (out_pkts req)),
             AVP_of_BE32 dict ''Acct-Input-Octets'' (BE32_of (in_bytes req)),
             AVP_of_BE32 dict ''Acct-Output-Octets'' (BE32_of (out_bytes req))];
          s = emplace_string dict ''Acct-Status-Type'' (acct_status_type req) s;
          s = emplace_string dict ''NAS-Identifier'' (ac_nas_id req) s;
          s = emplace_string dict ''Calling-Station-Id'' (ac_calling_station_id req) s;
          s = emplace_string dict ''NAS-Port-Id'' (ac_nas_port_id req) s
      in serializeAVP s)"

section \<open>Deserialisation\<close>

definition empty_response :: RadiusResponse where
  "empty_response = \<lparr>framed_ip = 0, rs_dns1 = 0, rs_dns2 = 0, rs_framed_pool = [], pppoe_template = []\<rparr>"

definition response_avp :: "RadiusDict \<Rightarrow> AVP \<Rightarrow> RadiusResponse \<Rightarrow> RadiusResponse" where
  "response_avp dict a res =
     (let n = fst (getAttrById dict (avp_type a) (avp_vendor a))
      in if n = ''Framed-IP-Address'' then
           (case getVal_BE32 a of (ip, True) \<Rightarrow> res\<lparr>framed_ip := BE32_native ip\<rparr> | _ \<Rightarrow> res)
         else if n = ''Client-DNS-Pri'' then
           (case getVal_BE32 a of (ip, True) \<Rightarrow> res\<lparr>rs_dns1 := BE32_native ip\<rparr> | _ \<Rightarrow> res)
         else if n = ''Client-DNS-Sec'' then
           (case getVal_BE32 a of (ip, True) \<Rightarrow> res\<lparr>rs_dns2 := BE32_native ip\<rparr> | _ \<Rightarrow> res)
         else if n = ''Framed-Pool'' then res\<lparr>rs_framed_pool := string_of_bytes (avp_value a)\<rparr>
         else if n = ''Subscriber-Profile-Name'' then
           res\<lparr>pppoe_template := string_of_bytes (avp_value a)\<rparr>
         else res)"

definition deserialize_RadiusResponse ::
  "RadiusDict \<Rightarrow> (nat \<Rightarrow> u32) \<Rightarrow> bytes \<Rightarrow> RadiusResponse option" where
  "deserialize_RadiusResponse dict junk v = do {
     as \<leftarrow> parseAVP junk v;
     Some (fold (response_avp dict) as empty_response)
   }"

text \<open>An accounting response carries nothing the code uses; its attributes are parsed all the same.\<close>

definition deserialize_AcctResponse :: "RadiusDict \<Rightarrow> (nat \<Rightarrow> u32) \<Rightarrow> bytes \<Rightarrow> unit option" where
  "deserialize_AcctResponse dict junk v = do {
     as \<leftarrow> parseAVP junk v;
     Some ()
   }"

section \<open>Authenticators\<close>

definition acct_auth_process :: "md5_fn \<Rightarrow> bytes \<Rightarrow> bytes \<Rightarrow> bytes \<Rightarrow> bytes" where
  "acct_auth_process md5 pkt req_attrs secret =
     md5 (take 4 pkt @ replicate 16 0 @ req_attrs @ secret)"

section \<open>The server recovers the password\<close>

text \<open>
  What a RADIUS server does with the attribute (RFC 2865, section 5.2): the same digests, from
  the secret, the request's authenticator and the received chunks.
\<close>

fun reveal_chunks :: "md5_fn \<Rightarrow> bytes \<Rightarrow> nat \<Rightarrow> bytes \<Rightarrow> bytes \<Rightarrow> bytes" where
  "reveal_chunks md5 secret 0 b1 cipher = []"
| "reveal_chunks md5 secret (Suc n) b1 cipher =
     map2 (XOR) b1 (take 16 cipher) @
     reveal_chunks md5 secret n (md5 (secret @ take 16 cipher)) (drop 16 cipher)"

definition reveal_password :: "md5_fn \<Rightarrow> bytes \<Rightarrow> bytes \<Rightarrow> bytes \<Rightarrow> bytes" where
  "reveal_password md5 auth secret cipher =
     reveal_chunks md5 secret (length cipher div 16) (md5 (secret @ auth)) cipher"

lemma map2_xor_twice:
  "length a = length b \<Longrightarrow> map2 (XOR) a (map2 (XOR) a b) = (b :: bytes)"
  by (induction a b rule: list_induct2) (simp_all flip: xor.assoc)

lemma length_pap_pad: "length (pap_pad pass) mod 16 = 0"
proof -
  have "(n + (16 - n mod 16)) mod 16 = 0" for n :: nat by presburger
  then show ?thesis by (simp add: pap_pad_def)
qed

lemma chunk_lengths:
  assumes md5: "\<And>x. length (md5 x) = 16"
  shows "length b1 = 16 \<Longrightarrow> length pass = 16 * n \<Longrightarrow> length (pap_chunks md5 secret n b1 pass) = 16 * n"
  by (induction n arbitrary: b1 pass) (simp_all add: md5 Let_def)

lemma reveal_pap_chunks:
  assumes md5: "\<And>x. length (md5 x) = 16"
  shows "length b1 = 16 \<Longrightarrow> length pass = 16 * n \<Longrightarrow>
    reveal_chunks md5 secret n b1 (pap_chunks md5 secret n b1 pass) = pass"
proof (induction n arbitrary: b1 pass)
  case 0
  then show ?case by simp
next
  case (Suc n)
  let ?c = "map2 (XOR) b1 (take 16 pass)"
  have l: "length ?c = 16" using Suc.prems by simp
  have d: "length (drop 16 pass) = 16 * n" by (simp add: Suc.prems(2))
  have "reveal_chunks md5 secret n (md5 (secret @ ?c)) (pap_chunks md5 secret n (md5 (secret @ ?c)) (drop 16 pass)) =
      drop 16 pass"
    by (rule Suc.IH [OF md5 d])
  moreover have "map2 (XOR) b1 ?c = take 16 pass" using Suc.prems by (intro map2_xor_twice) simp
  ultimately show ?case using l by (simp add: Let_def)
qed

text \<open>
  C33. The server reveals exactly the user's password, padded with zero bytes to a multiple of
  16, from the attribute the client hides it in.
\<close>

theorem pap_password_revealed:
  assumes "\<And>x. length (md5 x) = 16"
  shows "reveal_password md5 auth secret (password_pap_process md5 auth secret pass) = pap_pad pass"
proof -
  have n: "length (pap_pad pass) = 16 * (length (pap_pad pass) div 16)"
    using length_pap_pad [of pass] by presburger
  then have "length (password_pap_process md5 auth secret pass) = 16 * (length (pap_pad pass) div 16)"
    by (simp add: password_pap_process_def Let_def chunk_lengths assms)
  then show ?thesis
    using reveal_pap_chunks [of md5, OF assms _ n] assms
    by (simp add: reveal_password_def password_pap_process_def Let_def)
qed

theorem pap_password_revealed_witness:
  "reveal_password (\<lambda>x. replicate 16 (of_nat (length x))) [1, 2] [9]
     (password_pap_process (\<lambda>x. replicate 16 (of_nat (length x))) [1, 2] [9] [0x61, 0x62]) =
   [0x61, 0x62] @ replicate 14 0"
proof -
  have "pap_pad [0x61, 0x62] = [0x61, 0x62] @ replicate 14 0" by (simp add: pap_pad_def)
  then show ?thesis
    using pap_password_revealed [of "\<lambda>x. replicate 16 (of_nat (length x))" "[1, 2]" "[9]" "[0x61, 0x62]"]
    by simp
qed

end
