(* ===== verification/Runtime_State.thy ===== *)
theory Runtime_State
  imports Ip_Pool Vpp Radius_Msg
begin

text \<open>
  The state of the daemon: the session objects (\<^verbatim>\<open>src/session.hpp\<close>,
  \<^verbatim>\<open>src/ppp_fsm.hpp\<close>, \<^verbatim>\<open>src/ppp_lcp.hpp\<close>, \<^verbatim>\<open>src/ppp_auth.hpp\<close>,
  \<^verbatim>\<open>src/ppp_chap.hpp\<close>), the AAA sessions (\<^verbatim>\<open>src/aaa_session.hpp\<close>), the RADIUS clients
  (\<^verbatim>\<open>src/auth_client.hpp\<close>) and the runtime (\<^verbatim>\<open>src/runtime.hpp\<close>, \<^verbatim>\<open>src/aaa.hpp\<close>).

  Objects reached through shared pointers, references and \<^verbatim>\<open>this\<close> live in two stores
  indexed by reference numbers. Looking up a reference whose object is gone is
  \<^const>\<open>None\<close>. Handlers bound with \<^verbatim>\<open>std::bind\<close> are values of a datatype with one
  constructor per place the code binds them.
\<close>

section \<open>PPP protocol objects\<close>

datatype PPP_FSM_STATE = Initial | Starting | Closed | Stopped | Closing | Stopping
  | Req_Sent | Ack_Rcvd | Ack_Sent | Opened

datatype PPP_FSM_ACTION = ACT_NONE | LAYER_UP | LAYER_DOWN

text \<open>What a protocol handler returns: an action, and an error text that is empty on success.\<close>

type_synonym FSM_RET = "PPP_FSM_ACTION \<times> string"

record PPP_FSM =
  state :: PPP_FSM_STATE
  nak_counter :: u8
  fsm_session_id :: u16
  pkt_id :: u8
  seen_ack :: bool

definition PPP_FSM_ctor :: "u16 \<Rightarrow> PPP_FSM" where
  "PPP_FSM_ctor sid =
     \<lparr>state = Initial, nak_counter = 0, fsm_session_id = sid, pkt_id = 1, seen_ack = False\<rparr>"

record LCP_FSM =
  lcp_fsm :: PPP_FSM
  echo_counter :: u8

record PPP_AUTH =
  auth_pkt_id :: u8
  auth_started :: bool

record PPP_CHAP =
  chap_pkt_id :: u8
  chap_started :: bool
  challenge :: bytes

text \<open>
  A PPPoE session. The MRUs, the magic numbers and the address have no initialiser. The timer is
  the delay of the pending echo wait, if one is pending; that wait holds a shared pointer to the
  session.
\<close>

record PPPOESession =
  encap :: encapsulation_t
  started :: bool
  aaa_session_id :: u32
  session_id :: u16
  cookie :: string
  username :: string
  s_address :: u32
  ifindex :: u32
  s_vrf :: string
  s_unnumbered :: string
  lcp :: LCP_FSM
  auth :: PPP_AUTH
  chap :: PPP_CHAP
  ipcp :: PPP_FSM
  our_MRU :: u16
  peer_MRU :: u16
  our_magic_number :: u32
  peer_magic_number :: u32
  echo_timer :: "nat option"

section \<open>AAA objects\<close>

datatype aaa_callback = PAP_auth_callback nat | CHAP_auth_callback nat

datatype ResponseHandler = ProcessRadiusAnswer aaa_callback string
  | On_started nat | On_interim_answer nat | On_stopped nat

datatype ErrorHandler = ProcessRadiusError aaa_callback | On_failed nat

text \<open>A RADIUS client is one of the authentication or the accounting servers, by name.\<close>

datatype client_ref = Auth_server string | Acct_server string

record response_t =
  response :: ResponseHandler
  error_handler :: ErrorHandler
  rsp_auth :: bytes
  timer_cancelled :: bool

text \<open>
  \<open>buf\<close> is the receive buffer of 1500 bytes, \<open>endpoint\<close> the address and port that requests
  go to, \<open>receiving\<close> the number of receive operations waiting for a datagram, and \<open>sent\<close> the
  datagrams sent so far.
\<close>

record AuthClient =
  last_id :: u8
  dict_of :: RadiusDict
  secret :: bytes
  callbacks :: "(u8, response_t) omap"
  buf :: bytes
  endpoint :: "u32 \<times> u16"
  receiving :: nat
  sent :: "((u32 \<times> u16) \<times> bytes) list"

record AAA_Session =
  a_session_id :: u32
  a_username :: string
  a_address :: address_v4_t
  a_dns1 :: address_v4_t
  a_dns2 :: address_v4_t
  a_framed_pool :: string
  a_vrf :: string
  a_unnumbered :: string
  a_acct :: "string option"
  free_ip :: bool
  to_stop_acct :: bool
  a_ifindex :: u32
  a_timer :: bool

section \<open>Keys of the session tables\<close>

datatype pppoe_conn_t = Pppoe_conn (conn_mac: mac_t) (conn_outer: u16) (conn_inner: u16) (conn_cookie: string)

datatype pppoe_key_t = Pppoe_key (key_mac: mac_t) (key_session_id: u16) (key_outer: u16) (key_inner: u16)

text \<open>\<^verbatim>\<open>operator<\<close>: the tuples the code ties together, compared lexicographically.\<close>

definition key_tuple :: "pppoe_key_t \<Rightarrow> u16 \<times> u16 \<times> u16 \<times> bytes" where
  "key_tuple k = (key_session_id k, key_outer k, key_inner k, mac_bytes (key_mac k))"

definition conn_tuple :: "pppoe_conn_t \<Rightarrow> string \<times> u16 \<times> u16 \<times> bytes" where
  "conn_tuple k = (conn_cookie k, conn_outer k, conn_inner k, mac_bytes (conn_mac k))"

lemma key_tuple_inject [simp]: "key_tuple k = key_tuple l \<longleftrightarrow> k = l"
  by (cases k; cases l) (auto simp: key_tuple_def)

lemma conn_tuple_inject [simp]: "conn_tuple k = conn_tuple l \<longleftrightarrow> k = l"
  by (cases k; cases l) (auto simp: conn_tuple_def)

instantiation pppoe_key_t :: linorder
begin

definition less_pppoe_key_t :: "pppoe_key_t \<Rightarrow> pppoe_key_t \<Rightarrow> bool" where
  "less_pppoe_key_t l r \<longleftrightarrow> key_tuple l < key_tuple r"

definition less_eq_pppoe_key_t :: "pppoe_key_t \<Rightarrow> pppoe_key_t \<Rightarrow> bool" where
  "less_eq_pppoe_key_t l r \<longleftrightarrow> key_tuple l \<le> key_tuple r"

instance
proof
  fix x y z :: pppoe_key_t
  show "x < y \<longleftrightarrow> x \<le> y \<and> \<not> y \<le> x"
    unfolding less_pppoe_key_t_def less_eq_pppoe_key_t_def by (rule less_le_not_le)
  show "x \<le> x" by (simp add: less_eq_pppoe_key_t_def)
  show "x \<le> y \<Longrightarrow> y \<le> z \<Longrightarrow> x \<le> z"
    unfolding less_eq_pppoe_key_t_def by (rule order_trans)
  show "x \<le> y \<Longrightarrow> y \<le> x \<Longrightarrow> x = y"
    unfolding less_eq_pppoe_key_t_def by (drule (1) antisym) simp
  show "x \<le> y \<or> y \<le> x" unfolding less_eq_pppoe_key_t_def by (rule linear)
qed

end

instantiation pppoe_conn_t :: linorder
begin

definition less_pppoe_conn_t :: "pppoe_conn_t \<Rightarrow> pppoe_conn_t \<Rightarrow> bool" where
  "less_pppoe_conn_t l r \<longleftrightarrow> conn_tuple l < conn_tuple r"

definition less_eq_pppoe_conn_t :: "pppoe_conn_t \<Rightarrow> pppoe_conn_t \<Rightarrow> bool" where
  "less_eq_pppoe_conn_t l r \<longleftrightarrow> conn_tuple l \<le> conn_tuple r"

instance
proof
  fix x y z :: pppoe_conn_t
  show "x < y \<longleftrightarrow> x \<le> y \<and> \<not> y \<le> x"
    unfolding less_pppoe_conn_t_def less_eq_pppoe_conn_t_def by (rule less_le_not_le)
  show "x \<le> x" by (simp add: less_eq_pppoe_conn_t_def)
  show "x \<le> y \<Longrightarrow> y \<le> z \<Longrightarrow> x \<le> z"
    unfolding less_eq_pppoe_conn_t_def by (rule order_trans)
  show "x \<le> y \<Longrightarrow> y \<le> x \<Longrightarrow> x = y"
    unfolding less_eq_pppoe_conn_t_def by (drule (1) antisym) simp
  show "x \<le> y \<or> y \<le> x" unfolding less_eq_pppoe_conn_t_def by (rule linear)
qed

end

text \<open>The constructor from an encapsulation.\<close>

definition key_of_encap :: "encapsulation_t \<Rightarrow> u16 \<Rightarrow> pppoe_key_t" where
  "key_of_encap e sid = Pppoe_key (source_mac e) sid (outer_vlan e) (inner_vlan e)"

section \<open>The runtime\<close>

text \<open>
  \<open>heap\<close> and \<open>aheap\<close> hold the session objects, \<open>pending_timers\<close> the keys the running
  10-second timers of pending sessions were started for, \<open>nd_pos\<close> counts the values drawn from the
  outside world, and \<open>stray_stores\<close> counts the stores past the end of a buffer.
\<close>

record PPPOERuntime =
  conf :: PPPOEGlobalConf
  hwaddr :: mac_t
  lcp_conf :: LCPPolicy
  heap :: "nat \<Rightarrow> PPPOESession option"
  next_ref :: nat
  activeSessions :: "(pppoe_key_t, nat) omap"
  sessionSet :: "u16 set"
  pendingSession :: "pppoe_conn_t set"
  pending_timers :: "pppoe_conn_t list"
  next_session_id :: u16
  pppoe_outcoming :: "bytes list"
  ppp_outcoming :: "bytes list"
  aheap :: "nat \<Rightarrow> AAA_Session option"
  next_aref :: nat
  aaa_sessions :: "(u32, nat) omap"
  aaa_dict :: "RadiusDict option"
  auth_clients :: "(string, AuthClient) omap"
  acct_clients :: "(string, AuthClient) omap"
  vpp :: vpp_state
  nd_pos :: nat
  stray_stores :: nat

text \<open>
  The world outside: Boost's MD5, the VPP API, and the values drawn from random devices,
  \<^verbatim>\<open>rand()\<close> and uninitialised memory.
\<close>

record env =
  md5 :: md5_fn
  vapi :: vapi_service
  nondet :: "nat \<Rightarrow> u32"

definition draw :: "env \<Rightarrow> PPPOERuntime \<Rightarrow> u32 \<times> PPPOERuntime" where
  "draw env rt = (nondet env (nd_pos rt), rt\<lparr>nd_pos := nd_pos rt + 1\<rparr>)"

fun draws :: "env \<Rightarrow> nat \<Rightarrow> PPPOERuntime \<Rightarrow> u32 list \<times> PPPOERuntime" where
  "draws env 0 rt = ([], rt)"
| "draws env (Suc n) rt =
     (let (v, rt) = draw env rt; (vs, rt) = draws env n rt in (v # vs, rt))"

text \<open>
  The state after the members' initialisers, with a configuration loaded; \<open>main\<close> copies the LCP
  options out of it.
\<close>

definition runtime_init :: "PPPOEGlobalConf \<Rightarrow> PPPOERuntime" where
  "runtime_init c =
     \<lparr>conf = c, hwaddr = zero_mac, lcp_conf = conf_lcp c, heap = \<lambda>_. None, next_ref = 0,
      activeSessions = [], sessionSet = {}, pendingSession = {}, pending_timers = [],
      next_session_id = 1,
      pppoe_outcoming = [], ppp_outcoming = [], aheap = \<lambda>_. None, next_aref = 0, aaa_sessions = [],
      aaa_dict = None, auth_clients = [], acct_clients = [], vpp = vpp_init, nd_pos = 0,
      stray_stores = 0\<rparr>"

text \<open>A small configuration and environment, for the examples: no RADIUS, one pool, one template.\<close>

definition sample_conf :: PPPOEGlobalConf where
  "sample_conf =
     \<lparr>tap_name = ''tap0'', log_level = INFO, log_file = [], interfaces = [],
      default_pppoe_conf = PPPOEPolicy_default, pppoe_confs = [],
      pppoe_templates = [(''t1'', \<lparr>t_framed_pool = ''p1'', t_dns1 = 0x08080808, t_dns2 = 0x01010101,
                                  t_vrf = [], t_unnumbered = []\<rparr>)],
      aaa_conf = \<lparr>aaa_method = [NONE],
        aaa_pools = [(''p1'', \<lparr>start_ip = 0x64400002, stop_ip = 0x644000FF, ips = {}\<rparr>)],
        local_template = ''t1'', dictionaries = [''dictionary''], auth_servers = [], acct_servers = []\<rparr>,
      conf_lcp = LCPPolicy_default\<lparr>authCHAP := False, authPAP := True\<rparr>, global_rib = [], conf_vrfs = []\<rparr>"

definition ok_answer :: vapi_answer where
  "ok_answer = \<lparr>exec_ok = True, msg_available = True, retval = 0, sw_if_index = 5, stats_index = 0,
     ans_ifaces = [], ans_ips = [], ans_unnumbered = [], ans_tables = [], ans_taps = [],
     ans_sessions = []\<rparr>"

definition sample_env :: env where
  "sample_env = \<lparr>md5 = \<lambda>x. replicate 16 (of_nat (length x)), vapi = \<lambda>_ _. ok_answer, nondet = \<lambda>_. 7\<rparr>"

lemma sample_env_simps [simp]:
  "md5 sample_env x = replicate 16 (of_nat (length x))" "vapi sample_env l m = ok_answer"
  "nondet sample_env n = 7"
  by (simp_all add: sample_env_def)

section \<open>Random values of \<^verbatim>\<open>src/utils.cpp\<close>\<close>

definition charset :: string where
  "charset = ''0123456789ABCDEFGHIJKLMNOPQRSTUVWXYZabcdefghijklmnopqrstuvwxyz''"

text \<open>\<^verbatim>\<open>rand()\<close> is a draw below \<open>2^31\<close>.\<close>

definition randchar :: "u32 \<Rightarrow> char" where
  "randchar v = charset ! (unat v mod 2147483648 mod 62)"

definition random_string :: "env \<Rightarrow> nat \<Rightarrow> PPPOERuntime \<Rightarrow> string \<times> PPPOERuntime" where
  "random_string env n rt = (let (vs, rt) = draws env n rt in (map randchar vs, rt))"

definition random_uin32_t :: "env \<Rightarrow> PPPOERuntime \<Rightarrow> u32 \<times> PPPOERuntime" where
  "random_uin32_t env rt = draw env rt"

definition generateAuthenticator :: "env \<Rightarrow> PPPOERuntime \<Rightarrow> bytes \<times> PPPOERuntime" where
  "generateAuthenticator env rt = (let (vs, rt) = draws env 16 rt in (map (byte_at 0) vs, rt))"

lemma length_draws: "length (fst (draws env n rt)) = n"
  by (induction n arbitrary: rt) (simp_all add: case_prod_unfold Let_def)

lemma snd_draws: "snd (draws env n rt) = rt\<lparr>nd_pos := nd_pos rt + n\<rparr>"
  by (induction n arbitrary: rt) (simp_all add: case_prod_unfold Let_def draw_def)

lemma snd_draw: "snd (draw env rt) = rt\<lparr>nd_pos := nd_pos rt + 1\<rparr>"
  by (simp add: draw_def)

section \<open>Access to the objects\<close>

definition upd_sess :: "nat \<Rightarrow> (PPPOESession \<Rightarrow> PPPOESession) \<Rightarrow> PPPOERuntime \<Rightarrow> PPPOERuntime" where
  "upd_sess r f rt = rt\<lparr>heap := (heap rt)(r := map_option f (heap rt r))\<rparr>"

definition upd_aaa :: "nat \<Rightarrow> (AAA_Session \<Rightarrow> AAA_Session) \<Rightarrow> PPPOERuntime \<Rightarrow> PPPOERuntime" where
  "upd_aaa r f rt = rt\<lparr>aheap := (aheap rt)(r := map_option f (aheap rt r))\<rparr>"

text \<open>Push a packet on a queue, without and with the Ethernet header of the session's reply.\<close>

definition push_ppp :: "bytes \<Rightarrow> PPPOERuntime \<Rightarrow> PPPOERuntime" where
  "push_ppp p rt = rt\<lparr>ppp_outcoming := ppp_outcoming rt @ [p]\<rparr>"

definition push_pppoe :: "bytes \<Rightarrow> PPPOERuntime \<Rightarrow> PPPOERuntime" where
  "push_pppoe p rt = rt\<lparr>pppoe_outcoming := pppoe_outcoming rt @ [p]\<rparr>"

definition send_session_pkt :: "encapsulation_t \<Rightarrow> bytes \<Rightarrow> PPPOERuntime \<Rightarrow> PPPOERuntime" where
  "send_session_pkt e pkt rt = push_ppp (generate_header e (hwaddr rt) ETH_PPPOE_SESSION @ pkt) rt"

text \<open>
  A store of one byte: inside the packet it is done, past its end it is a stray store.
\<close>

definition store8 :: "nat \<Rightarrow> byte \<Rightarrow> bytes \<Rightarrow> PPPOERuntime \<Rightarrow> bytes \<times> PPPOERuntime" where
  "store8 i v p rt =
     (put8 i v p, if i < length p then rt else rt\<lparr>stray_stores := stray_stores rt + 1\<rparr>)"

section \<open>The frame of a handler\<close>

text \<open>
  Most handlers leave the session tables alone: the same sessions are active under the same
  keys, the same ids are taken, and every session object keeps its id and encapsulation.
\<close>

definition sess_ident :: "PPPOESession \<Rightarrow> u16 \<times> encapsulation_t" where
  "sess_ident s = (session_id s, encap s)"

definition frame :: "PPPOERuntime \<Rightarrow> PPPOERuntime \<Rightarrow> bool" where
  "frame rt rt' \<longleftrightarrow>
     activeSessions rt' = activeSessions rt \<and> sessionSet rt' = sessionSet rt \<and>
     pendingSession rt' = pendingSession rt \<and> next_session_id rt' = next_session_id rt \<and>
     next_ref rt' = next_ref rt \<and> lcp_conf rt' = lcp_conf rt \<and> hwaddr rt' = hwaddr rt \<and>
     (\<forall>r. map_option sess_ident (heap rt' r) = map_option sess_ident (heap rt r))"

lemma frame_refl [simp, frame_intros]: "frame rt rt"
  by (simp add: frame_def)

lemma frame_trans: "frame a b \<Longrightarrow> frame b c \<Longrightarrow> frame a c"
  by (simp add: frame_def)

text \<open>Updates outside the tables may be stripped from the later state.\<close>

lemma frame_updates [simp]:
  "frame rt (rt'\<lparr>conf := c\<rparr>) \<longleftrightarrow> frame rt rt'"
  "frame rt (rt'\<lparr>ppp_outcoming := q\<rparr>) \<longleftrightarrow> frame rt rt'"
  "frame rt (rt'\<lparr>pppoe_outcoming := q\<rparr>) \<longleftrightarrow> frame rt rt'"
  "frame rt (rt'\<lparr>aheap := h\<rparr>) \<longleftrightarrow> frame rt rt'"
  "frame rt (rt'\<lparr>next_aref := n\<rparr>) \<longleftrightarrow> frame rt rt'"
  "frame rt (rt'\<lparr>aaa_sessions := m\<rparr>) \<longleftrightarrow> frame rt rt'"
  "frame rt (rt'\<lparr>auth_clients := ca\<rparr>) \<longleftrightarrow> frame rt rt'"
  "frame rt (rt'\<lparr>acct_clients := ca\<rparr>) \<longleftrightarrow> frame rt rt'"
  "frame rt (rt'\<lparr>vpp := v\<rparr>) \<longleftrightarrow> frame rt rt'"
  "frame rt (rt'\<lparr>nd_pos := n\<rparr>) \<longleftrightarrow> frame rt rt'"
  "frame rt (rt'\<lparr>stray_stores := n\<rparr>) \<longleftrightarrow> frame rt rt'"
  by (simp_all add: frame_def)

lemma frame_upd_sess [simp]:
  "(\<And>s. sess_ident (f s) = sess_ident s) \<Longrightarrow> frame rt (upd_sess r f rt') \<longleftrightarrow> frame rt rt'"
  by (auto simp: frame_def upd_sess_def option.map_comp comp_def)

lemma frame_small [simp]:
  "frame rt (push_ppp p rt') \<longleftrightarrow> frame rt rt'" "frame rt (push_pppoe p rt') \<longleftrightarrow> frame rt rt'"
  "frame rt (send_session_pkt e p rt') \<longleftrightarrow> frame rt rt'" "frame rt (snd (draw env rt')) \<longleftrightarrow> frame rt rt'"
  "frame rt (snd (draws env n rt')) \<longleftrightarrow> frame rt rt'" "frame rt (upd_aaa a g rt') \<longleftrightarrow> frame rt rt'"
  "frame rt (snd (store8 i b p rt')) \<longleftrightarrow> frame rt rt'"
  by (simp_all add: push_ppp_def push_pppoe_def send_session_pkt_def snd_draw snd_draws upd_aaa_def store8_def)

lemma frame_sym: "frame rt rt' \<longleftrightarrow> frame rt' rt"
  by (auto simp: frame_def)

lemma frame_updates_left [simp]:
  "frame (rt'\<lparr>conf := c\<rparr>) rt \<longleftrightarrow> frame rt' rt"
  "frame (rt'\<lparr>ppp_outcoming := q\<rparr>) rt \<longleftrightarrow> frame rt' rt"
  "frame (rt'\<lparr>pppoe_outcoming := q\<rparr>) rt \<longleftrightarrow> frame rt' rt"
  "frame (rt'\<lparr>aheap := h\<rparr>) rt \<longleftrightarrow> frame rt' rt"
  "frame (rt'\<lparr>next_aref := n\<rparr>) rt \<longleftrightarrow> frame rt' rt"
  "frame (rt'\<lparr>aaa_sessions := m\<rparr>) rt \<longleftrightarrow> frame rt' rt"
  "frame (rt'\<lparr>auth_clients := ca\<rparr>) rt \<longleftrightarrow> frame rt' rt"
  "frame (rt'\<lparr>acct_clients := ca\<rparr>) rt \<longleftrightarrow> frame rt' rt"
  "frame (rt'\<lparr>vpp := v\<rparr>) rt \<longleftrightarrow> frame rt' rt"
  "frame (rt'\<lparr>nd_pos := n\<rparr>) rt \<longleftrightarrow> frame rt' rt"
  "frame (rt'\<lparr>stray_stores := n\<rparr>) rt \<longleftrightarrow> frame rt' rt"
  by (simp_all add: frame_sym [of _ rt])

lemma frame_small_left [simp]:
  "frame (push_ppp p rt') rt \<longleftrightarrow> frame rt' rt" "frame (push_pppoe p rt') rt \<longleftrightarrow> frame rt' rt"
  "frame (send_session_pkt e p rt') rt \<longleftrightarrow> frame rt' rt" "frame (snd (draw env rt')) rt \<longleftrightarrow> frame rt' rt"
  "frame (snd (draws env n rt')) rt \<longleftrightarrow> frame rt' rt" "frame (upd_aaa a g rt') rt \<longleftrightarrow> frame rt' rt"
  "frame (snd (store8 i b p rt')) rt \<longleftrightarrow> frame rt' rt"
  by (simp_all add: frame_sym [of _ rt])

lemma frame_upd_sess_left [simp]:
  "(\<And>s. sess_ident (f s) = sess_ident s) \<Longrightarrow> frame (upd_sess r f rt') rt \<longleftrightarrow> frame rt' rt"
  by (simp add: frame_sym [of _ rt])

lemma sess_ident_simps [simp]:
  "sess_ident (s\<lparr>started := b\<rparr>) = sess_ident s" "sess_ident (s\<lparr>aaa_session_id := a\<rparr>) = sess_ident s"
  "sess_ident (s\<lparr>cookie := c\<rparr>) = sess_ident s" "sess_ident (s\<lparr>username := c\<rparr>) = sess_ident s"
  "sess_ident (s\<lparr>s_address := a\<rparr>) = sess_ident s" "sess_ident (s\<lparr>ifindex := a\<rparr>) = sess_ident s"
  "sess_ident (s\<lparr>s_vrf := c\<rparr>) = sess_ident s" "sess_ident (s\<lparr>s_unnumbered := c\<rparr>) = sess_ident s"
  "sess_ident (s\<lparr>lcp := l\<rparr>) = sess_ident s" "sess_ident (s\<lparr>auth := p\<rparr>) = sess_ident s"
  "sess_ident (s\<lparr>chap := q\<rparr>) = sess_ident s" "sess_ident (s\<lparr>ipcp := f\<rparr>) = sess_ident s"
  "sess_ident (s\<lparr>our_MRU := m\<rparr>) = sess_ident s" "sess_ident (s\<lparr>peer_MRU := m\<rparr>) = sess_ident s"
  "sess_ident (s\<lparr>our_magic_number := a\<rparr>) = sess_ident s"
  "sess_ident (s\<lparr>peer_magic_number := a\<rparr>) = sess_ident s"
  "sess_ident (s\<lparr>echo_timer := t\<rparr>) = sess_ident s"
  by (simp_all add: sess_ident_def)

end
