(* ===== verification/Strings.thy ===== *)
theory Strings
  imports Runtime_State
begin

text \<open>
  The printed forms of \<^verbatim>\<open>src/string_helpers.cpp\<close> that reach beyond the log: the MAC address
  (RADIUS attributes) and the FSM state (error texts).
\<close>

definition hex_digit :: "nat \<Rightarrow> char" where
  "hex_digit n = ''0123456789abcdef'' ! n"

definition hex_byte :: "byte \<Rightarrow> string" where
  "hex_byte b = [hex_digit (unat b div 16), hex_digit (unat b mod 16)]"

fun mac_to_string :: "mac_t \<Rightarrow> string" where
  "mac_to_string (MAC a b c d e f) =
     hex_byte a @ '':'' @ hex_byte b @ '':'' @ hex_byte c @ '':'' @
     hex_byte d @ '':'' @ hex_byte e @ '':'' @ hex_byte f"

fun state_to_string :: "PPP_FSM_STATE \<Rightarrow> string" where
  "state_to_string Initial = ''Initial''"
| "state_to_string Starting = ''Starting''"
| "state_to_string Closed = ''Closed''"
| "state_to_string Stopped = ''Stopped''"
| "state_to_string Closing = ''Closing''"
| "state_to_string Stopping = ''Stopping''"
| "state_to_string Req_Sent = ''Req_Sent''"
| "state_to_string Ack_Rcvd = ''Ack_Rcvd''"
| "state_to_string Ack_Sent = ''Ack_Sent''"
| "state_to_string Opened = ''Opened''"

end
