(* ===== verification/Ppp_Fsm.thy ===== *)
theory Ppp_Fsm
  imports Strings
begin

text \<open>
  The option negotiation automaton shared by LCP and IPCP: \<open>PPP_FSM\<close> of
  \<^verbatim>\<open>src/ppp_fsm.hpp\<close> and \<^verbatim>\<open>src/ppp_fsm.cpp\<close>.

  A \<^verbatim>\<open>PPP_FSM&\<close> is a record of the object's own members (read and changed through
  \<open>this\<close> and \<open>upd_this\<close>) and of the virtual methods that the base class calls.
\<close>

record fsm_vtable =
  this :: "PPPOERuntime \<Rightarrow> PPP_FSM option"
  upd_this :: "(PPP_FSM \<Rightarrow> PPP_FSM) \<Rightarrow> PPPOERuntime \<Rightarrow> PPPOERuntime"
  v_send_conf_req :: "PPPOERuntime \<Rightarrow> (FSM_RET \<times> PPPOERuntime) option"
  v_check_conf :: "bytes \<Rightarrow> PPPOERuntime \<Rightarrow> (FSM_RET \<times> PPPOERuntime) option"
  v_send_term_ack :: "bytes \<Rightarrow> PPPOERuntime \<Rightarrow> (FSM_RET \<times> PPPOERuntime) option"
  v_send_echo_rep :: "bytes \<Rightarrow> PPPOERuntime \<Rightarrow> (FSM_RET \<times> PPPOERuntime) option"
  v_recv_echo_rep :: "bytes \<Rightarrow> PPPOERuntime \<Rightarrow> (FSM_RET \<times> PPPOERuntime) option"

definition to_state :: "PPP_FSM_STATE \<Rightarrow> PPP_FSM \<Rightarrow> PPP_FSM" where
  "to_state st f = f\<lparr>state := st\<rparr>"

section \<open>Actions\<close>

definition layer_up :: "fsm_vtable \<Rightarrow> PPPOERuntime \<Rightarrow> PPPOERuntime option" where
  "layer_up vt rt = do {
     f \<leftarrow> this vt rt;
     (case state f of
        Initial \<Rightarrow> Some (upd_this vt (to_state Closed) rt)
      | Starting \<Rightarrow> do {
          ((action, err), rt) \<leftarrow> v_send_conf_req vt rt;
          Some (if err \<noteq> '''' then rt else upd_this vt (to_state Req_Sent) rt)
        }
      | _ \<Rightarrow> Some rt)
   }"

definition layer_down :: "fsm_vtable \<Rightarrow> PPPOERuntime \<Rightarrow> PPPOERuntime option" where
  "layer_down vt rt = Some rt"

definition fsm_open :: "fsm_vtable \<Rightarrow> PPPOERuntime \<Rightarrow> PPPOERuntime option" where
  "fsm_open vt rt = do {
     f \<leftarrow> this vt rt;
     (case state f of
        Initial \<Rightarrow> Some (upd_this vt (to_state Starting) rt)
      | Closed \<Rightarrow> do {
          ((action, err), rt) \<leftarrow> v_send_conf_req vt rt;
          Some (if err \<noteq> '''' then rt else upd_this vt (to_state Req_Sent) rt)
        }
      | Closing \<Rightarrow> Some (upd_this vt (to_state Stopping) rt)
      | _ \<Rightarrow> Some rt)
   }"

section \<open>Events\<close>

definition recv_conf_req :: "fsm_vtable \<Rightarrow> bytes \<Rightarrow> PPPOERuntime \<Rightarrow> (FSM_RET \<times> PPPOERuntime) option" where
  "recv_conf_req vt inPkt rt = do {
     f \<leftarrow> this vt rt;
     (case state f of
        Closing \<Rightarrow> Some ((ACT_NONE, ''We're stopping or closing right now''), rt)
      | Stopping \<Rightarrow> Some ((ACT_NONE, ''We're stopping or closing right now''), rt)
      | Closed \<Rightarrow> Some ((ACT_NONE, ''Receive conf req in closed state''), rt)
      | Opened \<Rightarrow> do {
          rt \<leftarrow> layer_down vt rt;
          (ret, rt) \<leftarrow> v_send_conf_req vt rt;
          Some ((LAYER_DOWN, ''''), upd_this vt (to_state Req_Sent) rt)
        }
      | Stopped \<Rightarrow> do {
          (ret, rt) \<leftarrow> v_send_conf_req vt rt;
          v_check_conf vt inPkt (upd_this vt (to_state Req_Sent) rt)
        }
      | _ \<Rightarrow> v_check_conf vt inPkt rt)
   }"

definition recv_conf_ack :: "fsm_vtable \<Rightarrow> bytes \<Rightarrow> PPPOERuntime \<Rightarrow> (FSM_RET \<times> PPPOERuntime) option" where
  "recv_conf_ack vt inPkt rt = do {
     f \<leftarrow> this vt rt;
     identifier \<leftarrow> load8 inPkt 9;
     if identifier \<noteq> pkt_id f
     then Some ((ACT_NONE, ''Packet identifier is not match with our''), rt)
     else do {
       let rt = upd_this vt (\<lambda>f. f\<lparr>seen_ack := True\<rparr>) rt;
       (case state f of
          Req_Sent \<Rightarrow> Some ((ACT_NONE, ''''), upd_this vt (to_state Ack_Rcvd) rt)
        | Ack_Sent \<Rightarrow> do {
            rt \<leftarrow> layer_up vt (upd_this vt (to_state Opened) rt);
            Some ((LAYER_UP, ''''), rt)
          }
        | Opened \<Rightarrow> do {
            (ret, rt) \<leftarrow> v_send_conf_req vt rt;
            Some ((LAYER_DOWN, ''''), upd_this vt (to_state Req_Sent) rt)
          }
        | _ \<Rightarrow> Some ((ACT_NONE, ''''), rt))
     }
   }"

definition recv_term_req :: "fsm_vtable \<Rightarrow> bytes \<Rightarrow> PPPOERuntime \<Rightarrow> (FSM_RET \<times> PPPOERuntime) option" where
  "recv_term_req vt inPkt rt = do {
     f \<leftarrow> this vt rt;
     (case state f of
        Opened \<Rightarrow> do {
          (ret, rt) \<leftarrow> v_send_term_ack vt inPkt (upd_this vt (to_state Stopping) rt);
          Some ((LAYER_DOWN, ''''), rt)
        }
      | st \<Rightarrow> do {
          let rt = (if st = Ack_Rcvd \<or> st = Ack_Sent then upd_this vt (to_state Req_Sent) rt else rt);
          (ret, rt) \<leftarrow> v_send_term_ack vt inPkt rt;
          Some ((ACT_NONE, ''''), rt)
        })
   }"

definition receive :: "fsm_vtable \<Rightarrow> bytes \<Rightarrow> PPPOERuntime \<Rightarrow> (FSM_RET \<times> PPPOERuntime) option" where
  "receive vt inPkt rt = do {
     f \<leftarrow> this vt rt;
     if state f = Initial \<or> state f = Starting
     then Some ((ACT_NONE, ''Received packet in invalid state: '' @ state_to_string (state f)), rt)
     else do {
       code \<leftarrow> load8 inPkt 8;
       (case LCP_CODE_of code of
          Some CONF_REQ \<Rightarrow> recv_conf_req vt inPkt rt
        | Some CONF_ACK \<Rightarrow> recv_conf_ack vt inPkt rt
        | Some TERM_REQ \<Rightarrow> recv_term_req vt inPkt rt
        | Some ECHO_REQ \<Rightarrow> v_send_echo_rep vt inPkt rt
        | Some ECHO_REPLY \<Rightarrow> v_recv_echo_rep vt inPkt rt
        | _ \<Rightarrow> Some ((ACT_NONE, ''''), rt))
     }
   }"

section \<open>The automaton\<close>

text \<open>
  What \<open>check_conf\<close> may do to the state: the request is acknowledged, it is refused, or nothing
  comes of it.
\<close>

definition check_step :: "PPP_FSM_STATE \<Rightarrow> PPP_FSM_ACTION \<Rightarrow> PPP_FSM_STATE \<Rightarrow> bool" where
  "check_step st a st' \<longleftrightarrow>
     (st' = (if st = Ack_Rcvd then Opened else Ack_Sent) \<and> a = (if st = Ack_Rcvd then LAYER_UP else ACT_NONE)) \<or>
     (st' = (if st = Ack_Rcvd then Ack_Rcvd else Req_Sent) \<and> a = ACT_NONE) \<or>
     (st' = st \<and> a = ACT_NONE)"

text \<open>
  The states and actions of the automaton, as an abstract step relation on what is received:
  a Configure-Request, a Configure-Ack with the right identifier, a Terminate-Request.
\<close>

datatype fsm_event = RCR | RCA | RTR

inductive fsm_step :: "PPP_FSM_STATE \<Rightarrow> fsm_event \<Rightarrow> PPP_FSM_ACTION \<Rightarrow> PPP_FSM_STATE \<Rightarrow> bool" where
  rcr_ignored: "st \<in> {Closing, Stopping, Closed} \<Longrightarrow> fsm_step st RCR ACT_NONE st"
| rcr_opened: "fsm_step Opened RCR LAYER_DOWN Req_Sent"
| rcr_stopped: "check_step Req_Sent a st' \<Longrightarrow> fsm_step Stopped RCR a st'"
| rcr_check: "st \<in> {Req_Sent, Ack_Rcvd, Ack_Sent} \<Longrightarrow> check_step st a st' \<Longrightarrow> fsm_step st RCR a st'"
| rca_req_sent: "fsm_step Req_Sent RCA ACT_NONE Ack_Rcvd"
| rca_ack_sent: "fsm_step Ack_Sent RCA LAYER_UP Opened"
| rca_opened: "fsm_step Opened RCA LAYER_DOWN Req_Sent"
| rca_other: "st \<notin> {Req_Sent, Ack_Sent, Opened} \<Longrightarrow> fsm_step st RCA ACT_NONE st"
| rtr_negotiating: "st \<in> {Ack_Rcvd, Ack_Sent} \<Longrightarrow> fsm_step st RTR ACT_NONE Req_Sent"
| rtr_opened: "fsm_step Opened RTR LAYER_DOWN Stopping"
| rtr_other: "st \<notin> {Ack_Rcvd, Ack_Sent, Opened} \<Longrightarrow> fsm_step st RTR ACT_NONE st"

inductive_cases fsm_step_upE: "fsm_step st ev LAYER_UP st'"
inductive_cases fsm_step_downE: "fsm_step st ev LAYER_DOWN st'"
inductive_cases fsm_step_openedE: "fsm_step st ev a Opened"

text \<open>The event of a packet, for an automaton whose last request had identifier \<open>i\<close>.\<close>

definition event_of :: "u8 \<Rightarrow> bytes \<Rightarrow> fsm_event option" where
  "event_of i p = (case LCP_CODE_of (p ! 8) of
       Some CONF_REQ \<Rightarrow> Some RCR
     | Some CONF_ACK \<Rightarrow> if p ! 9 = i then Some RCA else None
     | Some TERM_REQ \<Rightarrow> Some RTR
     | _ \<Rightarrow> None)"

lemma check_step_up: "check_step st LAYER_UP st' \<longleftrightarrow> st = Ack_Rcvd \<and> st' = Opened"
  by (auto simp: check_step_def)

lemma check_step_opened: "check_step st a Opened \<Longrightarrow> a = LAYER_UP \<or> st = Opened"
  by (auto simp: check_step_def split: if_splits)

lemma check_step_down [simp]: "\<not> check_step st LAYER_DOWN st'"
  by (auto simp: check_step_def)

text \<open>The layer comes up exactly on the second of the two acknowledgements.\<close>

lemma fsm_step_up:
  "fsm_step st ev LAYER_UP st' \<Longrightarrow> st' = Opened \<and> (st = Ack_Rcvd \<and> ev = RCR \<or> st = Ack_Sent \<and> ev = RCA)"
  by (erule fsm_step_upE) (auto simp: check_step_up)

lemma fsm_step_opened: "fsm_step st ev a Opened \<Longrightarrow> a = LAYER_UP"
  by (erule fsm_step_openedE) (auto dest: check_step_opened)

lemma fsm_step_down:
  "fsm_step st ev LAYER_DOWN st' \<Longrightarrow> st = Opened \<and> st' \<in> {Req_Sent, Stopping}"
  by (erule fsm_step_downE) auto

text \<open>An automaton that has received an acknowledgement remembers it.\<close>

definition fsm_inv :: "PPP_FSM \<Rightarrow> bool" where
  "fsm_inv f \<longleftrightarrow> (state f \<in> {Ack_Rcvd, Opened} \<longrightarrow> seen_ack f)"

section \<open>Implementations\<close>

text \<open>
  What the base class relies on in a derived class: the members behave as members, sending keeps
  them, \<open>check_conf\<close> makes one of the steps above, and every method leaves the session tables
  alone.
\<close>

locale fsm_impl =
  fixes vt :: fsm_vtable
  assumes this_upd: "this vt rt = Some f \<Longrightarrow> this vt (upd_this vt g rt) = Some (g f)"
    and upd_frame: "frame rt (upd_this vt g rt)"
    and conf_req: "v_send_conf_req vt rt = Some (ret, rt') \<Longrightarrow> frame rt rt' \<and> this vt rt' = this vt rt"
    and check: "this vt rt = Some f \<Longrightarrow> v_check_conf vt p rt = Some ((a, e), rt') \<Longrightarrow> frame rt rt' \<and>
      (\<exists>f'. this vt rt' = Some f' \<and> pkt_id f' = pkt_id f \<and> seen_ack f' = seen_ack f \<and>
        check_step (state f) a (state f'))"
    and term_ack: "v_send_term_ack vt p rt = Some (ret, rt') \<Longrightarrow> frame rt rt' \<and> this vt rt' = this vt rt"
    and echo_rep: "v_send_echo_rep vt p rt = Some ((a, e), rt') \<Longrightarrow>
      frame rt rt' \<and> this vt rt' = this vt rt \<and> a = ACT_NONE"
    and recv_echo: "v_recv_echo_rep vt p rt = Some ((a, e), rt') \<Longrightarrow>
      frame rt rt' \<and> this vt rt' = this vt rt \<and> a = ACT_NONE"
begin

lemma upd_frame_trans: "frame (upd_this vt g rt) rt' \<Longrightarrow> frame rt rt'"
  using upd_frame frame_trans by blast

lemma layer_up_opened:
  "this vt rt = Some f \<Longrightarrow> state f = Opened \<Longrightarrow> layer_up vt rt = Some rt"
  by (simp add: layer_up_def)

lemma send_frame:
  "v_send_conf_req vt rt = Some (ret, rt1) \<Longrightarrow> frame rt (if b then rt1 else upd_this vt g rt1)"
  using frame_trans [OF _ upd_frame [of rt1 g], of rt] conf_req [of rt ret rt1] by simp

lemma layer_up_frame: "layer_up vt rt = Some rt' \<Longrightarrow> frame rt rt'"
proof -
  assume run: "layer_up vt rt = Some rt'"
  then obtain f where f: "this vt rt = Some f" by (auto simp: layer_up_def bind_eq_Some_conv)
  show ?thesis
  proof (cases "state f")
    case Starting
    with run f obtain a err rt1 where "v_send_conf_req vt rt = Some ((a, err), rt1)"
      and "rt' = (if err \<noteq> '''' then rt1 else upd_this vt (to_state Req_Sent) rt1)"
      by (auto simp: layer_up_def bind_eq_Some_conv)
    with send_frame show ?thesis by blast
  qed (use run f upd_frame in \<open>auto simp: layer_up_def\<close>)
qed

lemma open_frame: "fsm_open vt rt = Some rt' \<Longrightarrow> frame rt rt'"
proof -
  assume run: "fsm_open vt rt = Some rt'"
  then obtain f where f: "this vt rt = Some f" by (auto simp: fsm_open_def bind_eq_Some_conv)
  show ?thesis
  proof (cases "state f")
    case Closed
    with run f obtain a err rt1 where "v_send_conf_req vt rt = Some ((a, err), rt1)"
      and "rt' = (if err \<noteq> '''' then rt1 else upd_this vt (to_state Req_Sent) rt1)"
      by (auto simp: fsm_open_def bind_eq_Some_conv)
    with send_frame show ?thesis by blast
  qed (use run f upd_frame in \<open>auto simp: fsm_open_def\<close>)
qed

text \<open>Opening and raising the lower layer from scratch sends the request and waits for the answer.\<close>

lemma start:
  assumes "this vt rt = Some f" and "state f = Initial" and "fsm_open vt rt = Some rt1"
    and "layer_up vt rt1 = Some rt'"
  shows "frame rt rt' \<and> (\<exists>f'. this vt rt' = Some f' \<and> state f' \<in> {Starting, Req_Sent} \<and>
    seen_ack f' = seen_ack f \<and> pkt_id f' = pkt_id f)"
proof -
  have rt1: "rt1 = upd_this vt (to_state Starting) rt"
    using assms(1-3) by (simp add: fsm_open_def)
  then have t1: "this vt rt1 = Some (to_state Starting f)" using this_upd [OF assms(1)] by simp
  with assms(4) obtain a err rt2 where 2: "v_send_conf_req vt rt1 = Some ((a, err), rt2)"
    and rt': "rt' = (if err \<noteq> '''' then rt2 else upd_this vt (to_state Req_Sent) rt2)"
    by (auto simp: layer_up_def to_state_def bind_eq_Some_conv)
  from conf_req [OF 2] t1 have t2: "this vt rt2 = Some (to_state Starting f)" by simp
  have "frame rt rt'"
    using open_frame [OF assms(3)] layer_up_frame [OF assms(4)] frame_trans by blast
  with rt' t2 this_upd [OF t2, of "to_state Req_Sent"] show ?thesis by (auto simp: to_state_def)
qed

text \<open>Every received packet makes a step of the automaton, or none.\<close>

definition result_ok :: "bytes \<Rightarrow> PPPOERuntime \<Rightarrow> PPP_FSM \<Rightarrow> PPP_FSM_ACTION \<Rightarrow> PPPOERuntime \<Rightarrow> bool" where
  "result_ok p rt f a rt' \<longleftrightarrow> frame rt rt' \<and> (\<exists>f'. this vt rt' = Some f' \<and> pkt_id f' = pkt_id f \<and>
     seen_ack f' = (seen_ack f \<or> event_of (pkt_id f) p = Some RCA) \<and>
     (case event_of (pkt_id f) p of
        Some ev \<Rightarrow> fsm_step (state f) ev a (state f')
      | None \<Rightarrow> a = ACT_NONE \<and> state f' = state f))"

lemma recv_conf_req_step:
  assumes f: "this vt rt = Some f" and ev: "event_of (pkt_id f) p = Some RCR"
    and st: "state f \<noteq> Initial" "state f \<noteq> Starting"
    and run: "recv_conf_req vt p rt = Some ((a, e), rt')"
  shows "result_ok p rt f a rt'"
proof -
  have direct: "result_ok p rt f a rt'"
    if "state f \<in> {Req_Sent, Ack_Rcvd, Ack_Sent}" "v_check_conf vt p rt = Some ((a, e), rt')"
    using check [OF f that(2)] ev that(1) by (auto simp: result_ok_def intro: rcr_check)
  show ?thesis
  proof (cases "state f")
    case Opened
    with run f obtain ret rt1 where 1: "v_send_conf_req vt rt = Some (ret, rt1)"
      and 2: "a = LAYER_DOWN" "rt' = upd_this vt (to_state Req_Sent) rt1"
      by (auto simp: recv_conf_req_def layer_down_def bind_eq_Some_conv)
    from conf_req [OF 1] f have "frame rt rt1" and t1: "this vt rt1 = Some f" by simp_all
    with this_upd [OF t1] upd_frame 2 ev Opened show ?thesis
      by (auto simp: result_ok_def to_state_def intro: frame_trans fsm_step.intros)
  next
    case Stopped
    with run f obtain ret rt1 where 1: "v_send_conf_req vt rt = Some (ret, rt1)"
      and 2: "v_check_conf vt p (upd_this vt (to_state Req_Sent) rt1) = Some ((a, e), rt')"
      by (auto simp: recv_conf_req_def bind_eq_Some_conv)
    from conf_req [OF 1] f have fr: "frame rt rt1" and t1: "this vt rt1 = Some f" by simp_all
    from check [OF this_upd [OF t1] 2] have "frame rt rt'"
      using fr upd_frame_trans frame_trans by blast
    with check [OF this_upd [OF t1] 2] ev Stopped show ?thesis
      by (auto simp: result_ok_def to_state_def intro: rcr_stopped)
  qed (use run f ev st direct in \<open>auto simp: recv_conf_req_def result_ok_def intro: rcr_ignored\<close>)
qed

lemma recv_conf_ack_step:
  assumes f: "this vt rt = Some f" and len: "9 < length p"
    and ev: "event_of (pkt_id f) p = (if p ! 9 = pkt_id f then Some RCA else None)"
    and run: "recv_conf_ack vt p rt = Some ((a, e), rt')"
  shows "result_ok p rt f a rt'"
proof (cases "p ! 9 = pkt_id f")
  case False
  with run f len ev show ?thesis by (auto simp: recv_conf_ack_def load8_def result_ok_def)
next
  case True
  let ?rt1 = "upd_this vt (\<lambda>f. f\<lparr>seen_ack := True\<rparr>) rt"
  note t1 = this_upd [OF f, of "\<lambda>f. f\<lparr>seen_ack := True\<rparr>"]
  have fr: "frame rt ?rt1" by (rule upd_frame)
  show ?thesis
  proof (cases "state f")
    case Req_Sent
    with run f len True this_upd [OF t1] fr ev upd_frame show ?thesis
      by (auto simp: recv_conf_ack_def load8_def result_ok_def to_state_def
          intro: frame_trans fsm_step.intros)
  next
    case Ack_Sent
    have t2: "this vt (upd_this vt (to_state Opened) ?rt1) = Some (f\<lparr>seen_ack := True, state := Opened\<rparr>)"
      using this_upd [OF t1, of "to_state Opened"] by (simp add: to_state_def)
    from layer_up_opened [OF t2] Ack_Sent run f len True
    have "a = LAYER_UP \<and> rt' = upd_this vt (to_state Opened) ?rt1"
      by (simp add: recv_conf_ack_def load8_def)
    with t2 fr ev True Ack_Sent upd_frame [of ?rt1] show ?thesis
      by (auto simp: result_ok_def intro: frame_trans fsm_step.intros)
  next
    case Opened
    with run f len True obtain ret rt2 where 2: "v_send_conf_req vt ?rt1 = Some (ret, rt2)"
      and 3: "a = LAYER_DOWN" "rt' = upd_this vt (to_state Req_Sent) rt2"
      by (auto simp: recv_conf_ack_def load8_def bind_eq_Some_conv)
    from conf_req [OF 2] t1 have "frame ?rt1 rt2"
      and t2: "this vt rt2 = Some (f\<lparr>seen_ack := True\<rparr>)" by simp_all
    with fr have "frame rt rt'" using 3 upd_frame frame_trans by blast
    with this_upd [OF t2] 3 ev Opened True show ?thesis
      by (auto simp: result_ok_def to_state_def intro: fsm_step.intros)
  qed (use run f len True t1 fr ev in
      \<open>auto simp: recv_conf_ack_def load8_def result_ok_def intro!: rca_other\<close>)
qed

lemma recv_term_req_step:
  assumes f: "this vt rt = Some f" and ev: "event_of (pkt_id f) p = Some RTR"
    and run: "recv_term_req vt p rt = Some ((a, e), rt')"
  shows "result_ok p rt f a rt'"
proof -
  define st where "st = (case state f of Opened \<Rightarrow> Some Stopping | Ack_Rcvd \<Rightarrow> Some Req_Sent
    | Ack_Sent \<Rightarrow> Some Req_Sent | _ \<Rightarrow> None)"
  define rt1 where "rt1 = (case st of Some s \<Rightarrow> upd_this vt (to_state s) rt | None \<Rightarrow> rt)"
  from run f obtain ret where "v_send_term_ack vt p rt1 = Some (ret, rt')"
    and a: "a = (if state f = Opened then LAYER_DOWN else ACT_NONE)"
    by (cases "state f") (auto simp: recv_term_req_def rt1_def st_def bind_eq_Some_conv)
  from term_ack [OF this(1)] have fr: "frame rt1 rt'" "this vt rt' = this vt rt1" by simp_all
  have "frame rt rt'"
    using fr(1) upd_frame_trans by (auto simp: rt1_def split: option.splits)
  moreover have "this vt rt1 = Some (case st of Some s \<Rightarrow> to_state s f | None \<Rightarrow> f)"
    using f this_upd [OF f] by (auto simp: rt1_def split: option.split)
  ultimately show ?thesis
    using fr(2) a ev by (cases "state f") (auto simp: result_ok_def st_def to_state_def intro: fsm_step.intros)
qed

lemma receive_step:
  assumes f: "this vt rt = Some f" and run: "receive vt p rt = Some ((a, e), rt')"
  shows "frame rt rt' \<and> (if state f \<in> {Initial, Starting} then a = ACT_NONE \<and> rt' = rt
    else result_ok p rt f a rt')"
proof (cases "state f \<in> {Initial, Starting}")
  case True
  with run f show ?thesis by (auto simp: receive_def)
next
  case False
  with run f have len: "8 < length p" by (auto simp: receive_def load8_def split: if_splits)
  have none: "result_ok p rt f a rt'"
    if "event_of (pkt_id f) p = None" "frame rt rt'" "this vt rt' = this vt rt" "a = ACT_NONE"
    using that f by (simp add: result_ok_def)
  have run': "(case LCP_CODE_of (p ! 8) of
          Some CONF_REQ \<Rightarrow> recv_conf_req vt p rt
        | Some CONF_ACK \<Rightarrow> recv_conf_ack vt p rt
        | Some TERM_REQ \<Rightarrow> recv_term_req vt p rt
        | Some ECHO_REQ \<Rightarrow> v_send_echo_rep vt p rt
        | Some ECHO_REPLY \<Rightarrow> v_recv_echo_rep vt p rt
        | _ \<Rightarrow> Some ((ACT_NONE, ''''), rt)) = Some ((a, e), rt')"
    using run f False len by (simp add: receive_def load8_def)
  have "result_ok p rt f a rt'"
  proof (cases "LCP_CODE_of (p ! 8)")
    case None
    with run' none show ?thesis by (simp add: event_of_def)
  next
    case (Some c)
    show ?thesis
    proof (cases c)
      case CONF_REQ
      with Some run' False f recv_conf_req_step show ?thesis by (simp add: event_of_def)
    next
      case CONF_ACK
      with Some run' have r: "recv_conf_ack vt p rt = Some ((a, e), rt')" by simp
      then have "9 < length p" using f by (auto simp: recv_conf_ack_def load8_def split: if_splits)
      with CONF_ACK Some f r recv_conf_ack_step show ?thesis by (simp add: event_of_def)
    next
      case TERM_REQ
      with Some run' f recv_term_req_step show ?thesis by (simp add: event_of_def)
    next
      case ECHO_REQ
      with Some run' have "v_send_echo_rep vt p rt = Some ((a, e), rt')" by simp
      from echo_rep [OF this] ECHO_REQ Some none show ?thesis by (simp add: event_of_def)
    next
      case ECHO_REPLY
      with Some run' have "v_recv_echo_rep vt p rt = Some ((a, e), rt')" by simp
      from recv_echo [OF this] ECHO_REPLY Some none show ?thesis by (simp add: event_of_def)
    qed (use Some run' none in \<open>simp_all add: event_of_def\<close>)
  qed
  with False show ?thesis by (simp add: result_ok_def)
qed

lemma receive_frame:
  assumes "receive vt p rt = Some (ret, rt')"
  shows "frame rt rt'"
proof -
  from assms obtain f where "this vt rt = Some f" by (auto simp: receive_def bind_eq_Some_conv)
  with assms receive_step show ?thesis by (cases ret) blast
qed

lemma receive_inv:
  assumes f: "this vt rt = Some f" and run: "receive vt p rt = Some ((a, e), rt')" and inv: "fsm_inv f"
  shows "\<exists>f'. this vt rt' = Some f' \<and> fsm_inv f'"
proof (cases "state f \<in> {Initial, Starting}")
  case True
  with receive_step [OF f run] f inv show ?thesis by auto
next
  case False
  with receive_step [OF f run] obtain f' where f': "this vt rt' = Some f'"
    "seen_ack f' = (seen_ack f \<or> event_of (pkt_id f) p = Some RCA)"
    "case event_of (pkt_id f) p of Some ev \<Rightarrow> fsm_step (state f) ev a (state f')
       | None \<Rightarrow> a = ACT_NONE \<and> state f' = state f"
    by (auto simp: result_ok_def)
  have "fsm_inv f'"
    using f'(2,3) inv
    by (auto simp: fsm_inv_def check_step_def split: option.splits if_splits elim: fsm_step.cases)
  with f' show ?thesis by blast
qed

text \<open>The layer is up exactly in the state Opened.\<close>

lemma receive_up:
  assumes f: "this vt rt = Some f" and inv: "fsm_inv f" and run: "receive vt p rt = Some ((a, e), rt')"
  shows "\<exists>f'. this vt rt' = Some f' \<and> fsm_inv f' \<and>
    (a = LAYER_UP \<longleftrightarrow> state f \<noteq> Opened \<and> state f' = Opened) \<and>
    (a = LAYER_UP \<longrightarrow> state f \<in> {Ack_Rcvd, Ack_Sent} \<and> seen_ack f') \<and>
    (a = LAYER_DOWN \<longrightarrow> state f = Opened \<and> state f' \<in> {Req_Sent, Stopping})"
proof -
  obtain f' where f': "this vt rt' = Some f'" "fsm_inv f'" using receive_inv [OF f run inv] by blast
  show ?thesis
  proof (cases "state f \<in> {Initial, Starting}")
    case True
    with receive_step [OF f run] f f' show ?thesis by auto
  next
    case False
    with receive_step [OF f run] have ok: "result_ok p rt f a rt'" by simp
    show ?thesis
    proof (cases "event_of (pkt_id f) p")
      case None
      with ok f' show ?thesis by (auto simp: result_ok_def)
    next
      case (Some ev)
      with ok f' have st: "fsm_step (state f) ev a (state f')" by (auto simp: result_ok_def)
      have up: "a = LAYER_UP \<longrightarrow> state f' = Opened \<and> state f \<in> {Ack_Rcvd, Ack_Sent}"
        using st by (auto dest: fsm_step_up)
      moreover have "state f' = Opened \<longrightarrow> a = LAYER_UP" using st by (auto dest: fsm_step_opened)
      moreover have "a = LAYER_DOWN \<longrightarrow> state f = Opened \<and> state f' \<in> {Req_Sent, Stopping}"
        using st by (auto dest: fsm_step_down)
      ultimately show ?thesis using f' by (auto simp: fsm_inv_def)
    qed
  qed
qed

end

end
