(* ===== verification/Options.thy ===== *)
theory Options
  imports Wire
begin

text \<open>
  Option lists as RFC 1661 defines them: what the walks over a Configure-Request are measured
  against. An option is its code and its value; on the wire the length byte counts both header
  bytes.
\<close>

type_synonym ppp_option = "byte \<times> bytes"

fun enc_opt :: "ppp_option \<Rightarrow> bytes" where
  "enc_opt (c, v) = c # of_nat (2 + length v) # v"

definition enc_opts :: "ppp_option list \<Rightarrow> bytes" where
  "enc_opts os = concat (map enc_opt os)"

definition opt_ok :: "ppp_option \<Rightarrow> bool" where
  "opt_ok o' \<longleftrightarrow> length (snd o') \<le> 253"

lemma enc_opts_simps [simp]:
  "enc_opts [] = []" "enc_opts ((c, v) # os) = c # of_nat (2 + length v) # v @ enc_opts os"
  by (simp_all add: enc_opts_def)

lemma enc_opts_append: "enc_opts (os @ os') = enc_opts os @ enc_opts os'"
  by (simp add: enc_opts_def)

lemma enc_opts_eq_Nil [simp]: "enc_opts os = [] \<longleftrightarrow> os = []"
  by (cases os) auto

lemma unat_opt_len: "length v \<le> 253 \<Longrightarrow> unat (of_nat (2 + length v) :: byte) = 2 + length v"
  by (simp only: unat_of_nat) simp

text \<open>The header of an option and its value, behind a prefix.\<close>

lemma load_opt:
  assumes "length pre = n"
  shows "load8 (pre @ c # l # rest) n = Some c" "load8 (pre @ c # l # rest) (Suc n) = Some l"
    "load16 (pre @ c # l # rest) (n + 2) = load16 rest 0" "load32 (pre @ c # l # rest) (n + 2) = load32 rest 0"
    "load_range (pre @ c # l # rest) n (2 + m) = map_option (\<lambda>v. c # l # v) (load_range rest 0 m)"
  using assms
  by (simp_all add: load8_def load16_def load32_def load_range_def nth_append numeral_2_eq_2)

lemma load_value [simp]:
  "length v = 2 \<Longrightarrow> load16 v 0 = Some (mk16 (v ! 0) (v ! 1))"
  "length v = 4 \<Longrightarrow> load32 v 0 = Some (mk32 (v ! 0) (v ! 1) (v ! 2) (v ! 3))"
  "load_range (v @ rest) 0 (length v) = Some v"
  by (simp_all add: load16_def load32_def load_range_def numeral_2_eq_2)

end
