(* ===== verification/Ppp_Lcp.thy ===== *)
theory Ppp_Lcp
  imports Ppp_Fsm Options
begin

text \<open>
  LCP: \<^verbatim>\<open>src/ppp_lcp.hpp\<close> and \<^verbatim>\<open>src/ppp_lcp.cpp\<close>. The methods take the reference \<open>r\<close> of
  the session their object is part of.
\<close>

definition lcp_this :: "nat \<Rightarrow> PPPOERuntime \<Rightarrow> PPP_FSM option" where
  "lcp_this r rt = map_option (\<lambda>s. lcp_fsm (lcp s)) (heap rt r)"

definition upd_lcp :: "nat \<Rightarrow> (PPP_FSM \<Rightarrow> PPP_FSM) \<Rightarrow> PPPOERuntime \<Rightarrow> PPPOERuntime" where
  "upd_lcp r g = upd_sess r (\<lambda>s. s\<lparr>lcp := (lcp s)\<lparr>lcp_fsm := g (lcp_fsm (lcp s))\<rparr>\<rparr>)"

section \<open>Configure-Request\<close>

text \<open>
  The packet: MRU, the authentication protocol the policy asks for, the magic number. The buffer
  is cut to its contents and the size of an Ethernet header.
\<close>

definition lcp_conf_req_pkt :: "LCPPolicy \<Rightarrow> u16 \<Rightarrow> u8 \<Rightarrow> u32 \<Rightarrow> bytes option" where
  "lcp_conf_req_pkt pol sid i magic =
     (let pkt = resize (sizeof_PPPOESESSION_HDR + sizeof_PPP_LCP + 256) [];
          pkt = fill_pppoe_session LCP sid pkt;
          pkt = put8 8 (LCP_CODE_val CONF_REQ) pkt;
          pkt = put8 9 i pkt;
          pkt = LCP_OPT_2B_set 12 MRU (lcp_MRU pol) pkt;
          lcpOpts = 4
      in if \<not> authCHAP pol \<and> \<not> authPAP pol then None
         else
           let (pkt, len) = (if authCHAP pol then (LCP_OPT_3B_set 16 AUTH_PROTO (PPP_PROTO_val CHAP) 5 pkt, 5)
                             else (LCP_OPT_2B_set 16 AUTH_PROTO (PPP_PROTO_val PAP) pkt, 4));
               after_auth = 16 + len;
               lcpOpts = lcpOpts + len;
               pkt = LCP_OPT_4B_set after_auth MAGIC_NUMBER magic pkt;
               lcpOpts = lcpOpts + 6;
               pkt = put16 10 (bswap16 (of_nat (sizeof_PPP_LCP + lcpOpts))) pkt;
               pkt = put16 4 (bswap16 (of_nat (sizeof_PPP_LCP + lcpOpts + 2))) pkt
           in Some (resize (sizeof_ETHERNET_HDR + sizeof_PPPOESESSION_HDR + sizeof_PPP_LCP + lcpOpts) pkt))"

definition LCP_send_conf_req :: "env \<Rightarrow> nat \<Rightarrow> PPPOERuntime \<Rightarrow> (FSM_RET \<times> PPPOERuntime) option" where
  "LCP_send_conf_req env r rt = do {
     s \<leftarrow> heap rt r;
     if \<not> authCHAP (lcp_conf rt) \<and> \<not> authPAP (lcp_conf rt)
     then Some ((ACT_NONE, ''No Auth proto is chosen!''), rt)
     else do {
       let (magic, rt) = (if our_magic_number s = 0 then random_uin32_t env rt else (our_magic_number s, rt));
       let rt = upd_sess r (\<lambda>s. s\<lparr>our_magic_number := magic\<rparr>) rt;
       pkt \<leftarrow> lcp_conf_req_pkt (lcp_conf rt) (fsm_session_id (lcp_fsm (lcp s))) (pkt_id (lcp_fsm (lcp s))) magic;
       Some ((ACT_NONE, ''''), send_session_pkt (encap s) pkt rt)
     }
   }"

section \<open>Answers to a Configure-Request\<close>

definition LCP_send_conf_ack :: "nat \<Rightarrow> bytes \<Rightarrow> PPPOERuntime \<Rightarrow> (FSM_RET \<times> PPPOERuntime) option" where
  "LCP_send_conf_ack r inPkt rt = do {
     s \<leftarrow> heap rt r;
     let rt = send_session_pkt (encap s) (put8 8 (LCP_CODE_val CONF_ACK) inPkt) rt;
     Some ((if state (lcp_fsm (lcp s)) = Opened then LAYER_UP else ACT_NONE, ''''), rt)
   }"

definition LCP_send_conf_nak :: "nat \<Rightarrow> bytes \<Rightarrow> PPPOERuntime \<Rightarrow> (FSM_RET \<times> PPPOERuntime) option" where
  "LCP_send_conf_nak r inPkt rt = do {
     s \<leftarrow> heap rt r;
     Some ((ACT_NONE, ''''), send_session_pkt (encap s) (put8 8 (LCP_CODE_val CONF_NAK) inPkt) rt)
   }"

text \<open>The Configure-Reject packet, which IPCP builds the same way.\<close>

definition conf_rej_pkt :: "PPP_PROTO \<Rightarrow> u16 \<Rightarrow> u8 \<Rightarrow> bytes \<Rightarrow> bytes" where
  "conf_rej_pkt proto sid i rejected_options =
     (let pkt = resize (sizeof_PPPOESESSION_HDR + sizeof_PPP_LCP) [];
          pkt = fill_pppoe_session proto sid pkt;
          pkt = put8 8 (LCP_CODE_val CONF_REJ) pkt;
          pkt = put8 9 i pkt;
          pkt = put16 10 (bswap16 (of_nat (sizeof_PPP_LCP + length rejected_options))) pkt;
          pkt = pkt @ rejected_options
      in put16 4 (bswap16 (of_nat (sizeof_PPP_LCP + length rejected_options + 2))) pkt)"

definition LCP_send_conf_rej :: "nat \<Rightarrow> bytes \<Rightarrow> u8 \<Rightarrow> PPPOERuntime \<Rightarrow> (FSM_RET \<times> PPPOERuntime) option" where
  "LCP_send_conf_rej r rejected_options i rt = do {
     s \<leftarrow> heap rt r;
     let pkt = conf_rej_pkt LCP (fsm_session_id (lcp_fsm (lcp s))) i rejected_options;
     Some ((ACT_NONE, ''''), send_session_pkt (encap s) pkt rt)
   }"

text \<open>
  The loop over the options: MRU and magic number are noted, any other option is rejected. An
  option of length 0 is looked at again and again.
\<close>

partial_function (option) lcp_opt_loop ::
  "nat \<Rightarrow> bytes \<Rightarrow> u32 \<Rightarrow> u32 \<Rightarrow> LCP_CODE \<Rightarrow> bytes \<Rightarrow> PPPOERuntime \<Rightarrow>
   ((LCP_CODE \<times> bytes) \<times> PPPOERuntime) option" where
  "lcp_opt_loop r p len offset code rejected_options rt =
     (if offset < len
      then do {
        let opt = 12 + unat offset;
        optlen \<leftarrow> load8 p (opt + 1);
        let offset = offset + ucast optlen;
        o' \<leftarrow> load8 p opt;
        (if LCP_OPTIONS_of o' = Some MRU
         then do {
           v \<leftarrow> load16 p (opt + 2);
           lcp_opt_loop r p len offset code rejected_options
             (upd_sess r (\<lambda>s. s\<lparr>peer_MRU := bswap16 v\<rparr>) rt)
         }
         else if LCP_OPTIONS_of o' = Some MAGIC_NUMBER
         then do {
           v \<leftarrow> load32 p (opt + 2);
           lcp_opt_loop r p len offset code rejected_options
             (upd_sess r (\<lambda>s. s\<lparr>peer_magic_number := bswap32 v\<rparr>) rt)
         }
         else do {
           bs \<leftarrow> load_range p opt (unat optlen);
           lcp_opt_loop r p len offset CONF_REJ (rejected_options @ bs) rt
         })
      }
      else Some ((code, rejected_options), rt))"

definition LCP_check_conf :: "nat \<Rightarrow> bytes \<Rightarrow> PPPOERuntime \<Rightarrow> (FSM_RET \<times> PPPOERuntime) option" where
  "LCP_check_conf r inPkt rt = do {
     raw \<leftarrow> load16 inPkt 10;
     let len = (ucast (bswap16 raw) :: u32) - of_nat sizeof_PPP_LCP;
     if len = 0 then Some ((ACT_NONE, ''There is no options''), rt)
     else do {
       ((code, rejected_options), rt) \<leftarrow> lcp_opt_loop r inPkt len 0 CONF_ACK [] rt;
       f \<leftarrow> lcp_this r rt;
       if code = CONF_ACK
       then do {
         let rt = upd_lcp r (to_state (if state f = Ack_Rcvd then Opened else Ack_Sent)) rt;
         let rt = upd_lcp r (\<lambda>f. f\<lparr>nak_counter := 0\<rparr>) rt;
         LCP_send_conf_ack r inPkt rt
       }
       else do {
         let rt = (if state f \<noteq> Ack_Rcvd then upd_lcp r (to_state Req_Sent) rt else rt);
         let rt = (if code = CONF_NAK then upd_lcp r (\<lambda>f. f\<lparr>nak_counter := nak_counter f + 1\<rparr>) rt else rt);
         i \<leftarrow> load8 inPkt 9;
         if code = CONF_NAK then LCP_send_conf_nak r inPkt rt
         else if code = CONF_REJ then LCP_send_conf_rej r rejected_options i rt
         else Some ((ACT_NONE, ''''), rt)
       }
     }
   }"

text \<open>
  \<open>layer_up\<close>, called by \<open>check_conf\<close> once the state is \<^const>\<open>Opened\<close>, does nothing there
  (\<open>layer_up_opened\<close>).
\<close>

section \<open>Termination and echo\<close>

definition LCP_send_code_rej :: "PPPOERuntime \<Rightarrow> (FSM_RET \<times> PPPOERuntime) option" where
  "LCP_send_code_rej rt = Some ((ACT_NONE, ''''), rt)"

definition LCP_send_term_req :: "PPPOERuntime \<Rightarrow> (FSM_RET \<times> PPPOERuntime) option" where
  "LCP_send_term_req rt = Some ((ACT_NONE, ''''), rt)"

text \<open>Terminate-Ack and Echo-Reply: both answer only a packet that carries the peer's magic number.\<close>

definition LCP_send_term_ack :: "nat \<Rightarrow> bytes \<Rightarrow> PPPOERuntime \<Rightarrow> (FSM_RET \<times> PPPOERuntime) option" where
  "LCP_send_term_ack r inPkt rt = do {
     s \<leftarrow> heap rt r;
     let inPkt = put8 8 (LCP_CODE_val TERM_ACK) inPkt;
     magic \<leftarrow> load32 inPkt 12;
     if magic \<noteq> bswap32 (peer_magic_number s) then Some ((ACT_NONE, ''Magic number is wrong!''), rt)
     else
       let inPkt = put32 12 (bswap32 (our_magic_number s)) inPkt
       in Some ((ACT_NONE, ''''), send_session_pkt (encap s) inPkt rt)
   }"

definition LCP_send_echo_rep :: "nat \<Rightarrow> bytes \<Rightarrow> PPPOERuntime \<Rightarrow> (FSM_RET \<times> PPPOERuntime) option" where
  "LCP_send_echo_rep r inPkt rt = do {
     s \<leftarrow> heap rt r;
     let inPkt = put8 8 (LCP_CODE_val ECHO_REPLY) inPkt;
     magic \<leftarrow> load32 inPkt 12;
     if magic \<noteq> bswap32 (peer_magic_number s) then Some ((ACT_NONE, ''Magic number is wrong!''), rt)
     else
       let inPkt = put32 12 (bswap32 (our_magic_number s)) inPkt
       in Some ((ACT_NONE, ''''), send_session_pkt (encap s) inPkt rt)
   }"

definition echo_req_pkt :: "u16 \<Rightarrow> u8 \<Rightarrow> u32 \<Rightarrow> bytes" where
  "echo_req_pkt sid i magic =
     (let pkt = resize (sizeof_PPPOESESSION_HDR + sizeof_PPP_LCP + 256) [];
          pkt = fill_pppoe_session LCP sid pkt;
          pkt = put8 8 (LCP_CODE_val ECHO_REQ) pkt;
          pkt = put8 9 i pkt;
          pkt = LCP_OPT_4B_set 12 MAGIC_NUMBER magic pkt;
          lcpOpts = 6;
          pkt = put16 10 (bswap16 (of_nat (sizeof_PPP_LCP + lcpOpts))) pkt;
          pkt = put16 4 (bswap16 (of_nat (sizeof_PPP_LCP + lcpOpts + 2))) pkt
      in resize (sizeof_ETHERNET_HDR + sizeof_PPPOESESSION_HDR + sizeof_PPP_LCP + lcpOpts) pkt)"

definition LCP_send_echo_req :: "nat \<Rightarrow> PPPOERuntime \<Rightarrow> (FSM_RET \<times> PPPOERuntime) option" where
  "LCP_send_echo_req r rt = do {
     s \<leftarrow> heap rt r;
     let pkt = echo_req_pkt (fsm_session_id (lcp_fsm (lcp s))) (pkt_id (lcp_fsm (lcp s))) (our_magic_number s);
     let counter = echo_counter (lcp s) + 1;
     let rt = upd_sess r (\<lambda>s. s\<lparr>lcp := (lcp s)\<lparr>echo_counter := counter\<rparr>\<rparr>) rt;
     if counter > 9 then Some ((LAYER_DOWN, ''We didn't receive at least 9 echo replies''), rt)
     else Some ((ACT_NONE, ''''), send_session_pkt (encap s) pkt rt)
   }"

definition LCP_recv_echo_rep :: "nat \<Rightarrow> bytes \<Rightarrow> PPPOERuntime \<Rightarrow> (FSM_RET \<times> PPPOERuntime) option" where
  "LCP_recv_echo_rep r inPkt rt = do {
     s \<leftarrow> heap rt r;
     Some ((ACT_NONE, ''''), upd_sess r (\<lambda>s. s\<lparr>lcp := (lcp s)\<lparr>echo_counter := 0\<rparr>\<rparr>) rt)
   }"

section \<open>LCP as an implementation of the automaton\<close>

definition LCP_vtable :: "env \<Rightarrow> nat \<Rightarrow> fsm_vtable" where
  "LCP_vtable env r =
     \<lparr>this = lcp_this r, upd_this = upd_lcp r, v_send_conf_req = LCP_send_conf_req env r,
      v_check_conf = LCP_check_conf r, v_send_term_ack = LCP_send_term_ack r,
      v_send_echo_rep = LCP_send_echo_rep r, v_recv_echo_rep = LCP_recv_echo_rep r\<rparr>"

lemma lcp_this_upd_sess [simp]:
  "lcp_this q (upd_sess r g rt) =
     (if q = r then map_option (\<lambda>s. lcp_fsm (lcp (g s))) (heap rt r) else lcp_this q rt)"
  by (simp add: lcp_this_def upd_sess_def option.map_comp comp_def)

lemma lcp_this_push [simp]:
  "lcp_this r (push_ppp p rt) = lcp_this r rt" "lcp_this r (send_session_pkt e p rt) = lcp_this r rt"
  "lcp_this r (snd (draw env rt)) = lcp_this r rt"
  by (simp_all add: lcp_this_def push_ppp_def send_session_pkt_def snd_draw)

lemma frame_upd_lcp [simp]: "frame rt (upd_lcp r g rt') \<longleftrightarrow> frame rt rt'"
  by (simp add: upd_lcp_def)

lemma frame_upd_lcp_left [simp]: "frame (upd_lcp r g rt) rt' \<longleftrightarrow> frame rt rt'"
  by (simp add: upd_lcp_def)

lemma LCP_send_conf_req_frame:
  assumes "LCP_send_conf_req env r rt = Some (ret, rt')"
  shows "frame rt rt' \<and> lcp_this r rt' = lcp_this r rt"
  using assms
  by (auto simp: LCP_send_conf_req_def bind_eq_Some_conv random_uin32_t_def case_prod_unfold Let_def
      lcp_this_def [of r rt] draw_def split: if_splits)
    (simp_all add: lcp_this_def)

lemma send_answers_frame:
  "LCP_send_conf_ack r p rt = Some ((a, e), rt') \<Longrightarrow> frame rt rt' \<and> lcp_this r rt' = lcp_this r rt \<and>
     a = (if map_option state (lcp_this r rt) = Some Opened then LAYER_UP else ACT_NONE)"
  "LCP_send_conf_nak r p rt = Some ((a, e), rt') \<Longrightarrow>
     frame rt rt' \<and> lcp_this r rt' = lcp_this r rt \<and> a = ACT_NONE"
  "LCP_send_conf_rej r rej i rt = Some ((a, e), rt') \<Longrightarrow>
     frame rt rt' \<and> lcp_this r rt' = lcp_this r rt \<and> a = ACT_NONE"
  by (auto simp: LCP_send_conf_ack_def LCP_send_conf_nak_def LCP_send_conf_rej_def bind_eq_Some_conv
      Let_def lcp_this_def [of r rt])

lemma lcp_opt_loop_frame:
  assumes "lcp_opt_loop r p len off code rej rt = Some ((code', rej'), rt')"
  shows "frame rt rt' \<and> lcp_this r rt' = lcp_this r rt \<and> (code' = code \<or> code' = CONF_REJ)"
proof -
  have same: "lcp_this q (upd_sess r (\<lambda>s. s\<lparr>peer_MRU := v\<rparr>) rt) = lcp_this q rt"
    "lcp_this q (upd_sess r (\<lambda>s. s\<lparr>peer_magic_number := w\<rparr>) rt) = lcp_this q rt" for q r v w rt
    by (simp_all add: lcp_this_def upd_sess_def option.map_comp comp_def)
  have "frame rt (snd ((code', rej'), rt')) \<and> lcp_this q (snd ((code', rej'), rt')) = lcp_this q rt \<and>
      (fst (fst ((code', rej'), rt')) = code \<or> fst (fst ((code', rej'), rt')) = CONF_REJ)" for q
  proof (rule lcp_opt_loop.raw_induct [where P = "\<lambda>r p len off code rej rt res. frame rt (snd res) \<and>
      lcp_this q (snd res) = lcp_this q rt \<and> (fst (fst res) = code \<or> fst (fst res) = CONF_REJ)",
      OF _ assms])
    fix loop r p len off code rej rt res
    assume IH: "\<And>r p len off code rej rt res. loop r p len off code rej rt = Some res \<Longrightarrow>
        frame rt (snd res) \<and> lcp_this q (snd res) = lcp_this q rt \<and>
          (fst (fst res) = code \<or> fst (fst res) = CONF_REJ)"
      and eq: "(if off < len
      then do {
        let opt = 12 + unat off;
        optlen \<leftarrow> load8 p (opt + 1);
        let offset = off + ucast optlen;
        o' \<leftarrow> load8 p opt;
        (if LCP_OPTIONS_of o' = Some MRU
         then load16 p (opt + 2) \<bind> (\<lambda>v. loop r p len offset code rej (upd_sess r (\<lambda>s. s\<lparr>peer_MRU := bswap16 v\<rparr>) rt))
         else if LCP_OPTIONS_of o' = Some MAGIC_NUMBER
         then load32 p (opt + 2) \<bind> (\<lambda>v. loop r p len offset code rej (upd_sess r (\<lambda>s. s\<lparr>peer_magic_number := bswap32 v\<rparr>) rt))
         else load_range p opt (unat optlen) \<bind> (\<lambda>bs. loop r p len offset CONF_REJ (rej @ bs) rt))
      }
      else Some ((code, rej), rt)) = Some res"
    from eq show "frame rt (snd res) \<and> lcp_this q (snd res) = lcp_this q rt \<and>
        (fst (fst res) = code \<or> fst (fst res) = CONF_REJ)"
      by (auto simp: bind_eq_Some_conv Let_def same split: if_splits dest!: IH simp del: lcp_this_upd_sess)
  qed
  then show ?thesis by simp
qed

lemma upd_lcp_this [simp]: "lcp_this r (upd_lcp r g rt) = map_option g (lcp_this r rt)"
  by (simp add: upd_lcp_def lcp_this_def [of r rt] option.map_comp comp_def)

lemma LCP_check_conf_step:
  assumes f: "lcp_this r rt = Some f" and run: "LCP_check_conf r p rt = Some ((a, e), rt')"
  shows "frame rt rt' \<and> (\<exists>f'. lcp_this r rt' = Some f' \<and> pkt_id f' = pkt_id f \<and>
    seen_ack f' = seen_ack f \<and> check_step (state f) a (state f'))"
proof -
  from run obtain raw where raw: "load16 p 10 = Some raw" by (auto simp: LCP_check_conf_def bind_eq_Some_conv)
  let ?len = "(ucast (bswap16 raw) :: u32) - of_nat sizeof_PPP_LCP"
  show ?thesis
  proof (cases "?len = 0")
    case True
    with run raw f show ?thesis by (simp add: LCP_check_conf_def check_step_def)
  next
    case False
    with run raw obtain code rej rt1 where loop: "lcp_opt_loop r p ?len 0 CONF_ACK [] rt = Some ((code, rej), rt1)"
      by (auto simp: LCP_check_conf_def bind_eq_Some_conv Let_def)
    from lcp_opt_loop_frame [OF loop] f have fr: "frame rt rt1" and f1: "lcp_this r rt1 = Some f"
      and code: "code = CONF_ACK \<or> code = CONF_REJ" by auto
    show ?thesis
    proof (cases "code = CONF_ACK")
      case True
      with run raw False loop f1 have
        "LCP_send_conf_ack r p (upd_lcp r (\<lambda>f. f\<lparr>nak_counter := 0\<rparr>)
           (upd_lcp r (to_state (if state f = Ack_Rcvd then Opened else Ack_Sent)) rt1)) = Some ((a, e), rt')"
        by (simp add: LCP_check_conf_def Let_def)
      from send_answers_frame(1) [OF this] fr f1 show ?thesis
        using frame_trans [of rt rt1 rt'] by (simp add: to_state_def check_step_def)
    next
      case rej: False
      with code have "code = CONF_REJ" by blast
      with run raw False loop f1 obtain i where
        "LCP_send_conf_rej r rej i (if state f \<noteq> Ack_Rcvd then upd_lcp r (to_state Req_Sent) rt1 else rt1)
          = Some ((a, e), rt')"
        by (auto simp: LCP_check_conf_def Let_def bind_eq_Some_conv)
      from send_answers_frame(3) [OF this] fr f1 show ?thesis
        using frame_trans [of rt rt1 rt'] by (auto simp: to_state_def check_step_def split: if_splits)
    qed
  qed
qed

lemma LCP_echo_frames:
  "LCP_send_term_ack r p rt = Some (ret, rt') \<Longrightarrow> frame rt rt' \<and> lcp_this r rt' = lcp_this r rt"
  "LCP_send_echo_rep r p rt = Some ((a, e), rt') \<Longrightarrow>
     frame rt rt' \<and> lcp_this r rt' = lcp_this r rt \<and> a = ACT_NONE"
  "LCP_recv_echo_rep r p rt = Some ((a, e), rt') \<Longrightarrow>
     frame rt rt' \<and> lcp_this r rt' = lcp_this r rt \<and> a = ACT_NONE"
  "LCP_send_echo_req r rt = Some (ret, rt') \<Longrightarrow> frame rt rt' \<and> lcp_this r rt' = lcp_this r rt"
  by (auto simp: LCP_send_term_ack_def LCP_send_echo_rep_def LCP_recv_echo_rep_def LCP_send_echo_req_def
      bind_eq_Some_conv Let_def lcp_this_def [of r rt] split: if_splits)
    (simp_all add: lcp_this_def)

interpretation lcp_impl: fsm_impl "LCP_vtable env r" for env r
proof unfold_locales
  show "this (LCP_vtable env r) rt = Some f \<Longrightarrow>
      this (LCP_vtable env r) (upd_this (LCP_vtable env r) g rt) = Some (g f)" for rt f g
    by (simp add: LCP_vtable_def)
  show "frame rt (upd_this (LCP_vtable env r) g rt)" for rt g by (simp add: LCP_vtable_def)
  show "v_send_conf_req (LCP_vtable env r) rt = Some (ret, rt') \<Longrightarrow>
      frame rt rt' \<and> this (LCP_vtable env r) rt' = this (LCP_vtable env r) rt" for rt ret rt'
    using LCP_send_conf_req_frame by (simp add: LCP_vtable_def)
  show "this (LCP_vtable env r) rt = Some f \<Longrightarrow> v_check_conf (LCP_vtable env r) p rt = Some ((a, e), rt') \<Longrightarrow>
      frame rt rt' \<and> (\<exists>f'. this (LCP_vtable env r) rt' = Some f' \<and> pkt_id f' = pkt_id f \<and>
        seen_ack f' = seen_ack f \<and> check_step (state f) a (state f'))" for rt f p a e rt'
    using LCP_check_conf_step by (simp add: LCP_vtable_def)
qed (use LCP_echo_frames in \<open>auto simp: LCP_vtable_def\<close>)

end
