(* ===== verification/Radius_Client.thy ===== *)
theory Radius_Client
  imports Strings
begin

text \<open>
  The RADIUS client: \<open>AuthClient\<close> of \<^verbatim>\<open>src/auth_client.hpp\<close> and
  \<^verbatim>\<open>src/auth_client.cpp\<close>. The UDP socket is modelled by what is sent, by the number of
  receive operations waiting and by the buffer a datagram is written to.
\<close>

section \<open>Clients and their constructor\<close>

definition AuthClient_ctor :: "u32 \<Rightarrow> u16 \<Rightarrow> string \<Rightarrow> RadiusDict \<Rightarrow> AuthClient" where
  "AuthClient_ctor ip port s d =
     \<lparr>last_id = 0, dict_of = d, secret = bytes_of_string s, callbacks = [], buf = replicate 1500 0,
      endpoint = (ip, port), receiving = 0, sent = []\<rparr>"

fun get_client :: "client_ref \<Rightarrow> PPPOERuntime \<Rightarrow> AuthClient option" where
  "get_client (Auth_server n) rt = map_of (auth_clients rt) n"
| "get_client (Acct_server n) rt = map_of (acct_clients rt) n"

fun put_client :: "client_ref \<Rightarrow> AuthClient \<Rightarrow> PPPOERuntime \<Rightarrow> PPPOERuntime" where
  "put_client (Auth_server n) c rt = rt\<lparr>auth_clients := om_set n c (auth_clients rt)\<rparr>"
| "put_client (Acct_server n) c rt = rt\<lparr>acct_clients := om_set n c (acct_clients rt)\<rparr>"

section \<open>Sending\<close>

text \<open>\<open>send\<close>: the datagram goes out and one more receive operation is started.\<close>

definition client_send :: "bytes \<Rightarrow> AuthClient \<Rightarrow> AuthClient" where
  "client_send msg c = c\<lparr>sent := sent c @ [(endpoint c, msg)], receiving := receiving c + 1\<rparr>"

text \<open>
  The common part of both templates: the callbacks are stored under the new id and the packet is
  sent; when that id still waits for its answer, the request is dropped.
\<close>

definition register_and_send ::
  "bytes \<Rightarrow> bytes \<Rightarrow> ResponseHandler \<Rightarrow> ErrorHandler \<Rightarrow> AuthClient \<Rightarrow> AuthClient" where
  "register_and_send pkt authenticator h e c =
     (if map_of (callbacks c) (last_id c) = None
      then client_send pkt
             (c\<lparr>callbacks := om_emplace (last_id c)
                  \<lparr>response = h, error_handler = e, rsp_auth = authenticator, timer_cancelled = False\<rparr>
                  (callbacks c)\<rparr>)
      else c)"

text \<open>
  \<open>request\<close>. The type of the request is the template parameter: it enters through its
  \<open>serialize\<close>, a function of dictionary, authenticator and secret.
\<close>

definition request ::
  "env \<Rightarrow> client_ref \<Rightarrow> (RadiusDict \<Rightarrow> bytes \<Rightarrow> bytes \<Rightarrow> bytes) \<Rightarrow> ResponseHandler \<Rightarrow> ErrorHandler \<Rightarrow>
   PPPOERuntime \<Rightarrow> PPPOERuntime option" where
  "request env cl serialize h e rt = do {
     c \<leftarrow> get_client cl rt;
     let c = c\<lparr>last_id := last_id c + 1\<rparr>;
     let pkt = resize sizeof_RadiusPacket [];
     let pkt = put8 0 (RADIUS_CODE_val ACCESS_REQUEST) pkt;
     let pkt = put8 1 (last_id c) pkt;
     let (a, rt) = generateAuthenticator env rt;
     let pkt = put_range 4 a pkt;
     let seravp = serialize (dict_of c) a (secret c);
     let pkt = pkt @ seravp;
     let pkt = put16 2 (be16_value (BE16_of (of_nat (length pkt)))) pkt;
     Some (put_client cl (register_and_send pkt a h e c) rt)
   }"

definition acct_request ::
  "env \<Rightarrow> client_ref \<Rightarrow> (RadiusDict \<Rightarrow> bytes \<Rightarrow> bytes \<Rightarrow> bytes) \<Rightarrow> ResponseHandler \<Rightarrow> ErrorHandler \<Rightarrow>
   PPPOERuntime \<Rightarrow> PPPOERuntime option" where
  "acct_request env cl serialize h e rt = do {
     c \<leftarrow> get_client cl rt;
     let c = c\<lparr>last_id := last_id c + 1\<rparr>;
     let pkt = resize sizeof_RadiusPacket [];
     let pkt = put8 0 (RADIUS_CODE_val ACCOUNTING_REQUEST) pkt;
     let pkt = put8 1 (last_id c) pkt;
     let seravp = serialize (dict_of c) (replicate 16 0) (secret c);
     let pkt = pkt @ seravp;
     let pkt = put16 2 (be16_value (BE16_of (of_nat (length pkt)))) pkt;
     let temp = acct_auth_process (md5 env) pkt seravp (secret c);
     let pkt = put_range 4 temp pkt;
     Some (put_client cl (register_and_send pkt temp h e c) rt)
   }"

section \<open>Receiving\<close>

definition checkRadiusAnswer :: "md5_fn \<Rightarrow> AuthClient \<Rightarrow> bytes \<Rightarrow> bytes \<Rightarrow> bytes \<Rightarrow> bool" where
  "checkRadiusAnswer hash c req_auth res_auth avp \<longleftrightarrow>
     res_auth = take 16 (hash (take 4 (buf c) @ req_auth @ avp @ secret c))"

text \<open>
  \<open>on_rcv\<close>, on the datagram in the buffer; the size the socket reports is not used. A length
  field below the header's size makes the attribute range negative: the vector throws and nothing
  catches it. \<open>respond\<close> runs the stored handler on the packet's code and attributes.
\<close>

definition on_rcv ::
  "env \<Rightarrow> (ResponseHandler \<Rightarrow> byte \<Rightarrow> bytes \<Rightarrow> PPPOERuntime \<Rightarrow> PPPOERuntime option) \<Rightarrow> client_ref \<Rightarrow> bool \<Rightarrow>
   PPPOERuntime \<Rightarrow> PPPOERuntime option" where
  "on_rcv env respond cl ec rt =
     (if ec then Some rt
      else do {
        c \<leftarrow> get_client cl rt;
        i \<leftarrow> load8 (buf c) 1;
        (case map_of (callbacks c) i of
           None \<Rightarrow> Some rt
         | Some it \<Rightarrow> do {
             raw \<leftarrow> load16 (buf c) 2;
             let len = unat (BE16_native (BE16_raw raw));
             if len < sizeof_RadiusPacket then None
             else do {
               avp_buf \<leftarrow> load_range (buf c) sizeof_RadiusPacket (len - sizeof_RadiusPacket);
               authenticator \<leftarrow> load_range (buf c) 4 16;
               code \<leftarrow> load8 (buf c) 0;
               if \<not> checkRadiusAnswer (md5 env) c (rsp_auth it) authenticator avp_buf then Some rt
               else do {
                 rt \<leftarrow> respond (response it) code avp_buf rt;
                 c \<leftarrow> get_client cl rt;
                 Some (put_client cl
                   (c\<lparr>callbacks := map (\<lambda>(k, v). (k, if k = i then v\<lparr>timer_cancelled := True\<rparr> else v))
                        (callbacks c)\<rparr>) rt)
               }
             }
           })
      })"

text \<open>
  A datagram reaches a waiting receive operation: it is copied to the front of the buffer, and
  its sender becomes the endpoint the next request goes to.
\<close>

definition receive_datagram ::
  "env \<Rightarrow> (ResponseHandler \<Rightarrow> byte \<Rightarrow> bytes \<Rightarrow> PPPOERuntime \<Rightarrow> PPPOERuntime option) \<Rightarrow> client_ref \<Rightarrow>
   u32 \<times> u16 \<Rightarrow> bytes \<Rightarrow> PPPOERuntime \<Rightarrow> PPPOERuntime option" where
  "receive_datagram env respond cl sender data rt = do {
     c \<leftarrow> get_client cl rt;
     if receiving c = 0 then Some rt
     else
       let c = c\<lparr>buf := take 1500 data @ drop (length data) (buf c), endpoint := sender,
                 receiving := receiving c - 1\<rparr>
       in on_rcv env respond cl False (put_client cl c rt)
   }"

text \<open>
  \<open>expire_check\<close>: the request's timer ran out, or it was cancelled (\<open>ec\<close>). \<open>fail\<close> runs the
  stored error handler.
\<close>

definition expire_check ::
  "(ErrorHandler \<Rightarrow> string \<Rightarrow> PPPOERuntime \<Rightarrow> PPPOERuntime option) \<Rightarrow> client_ref \<Rightarrow> bool \<Rightarrow> u8 \<Rightarrow>
   PPPOERuntime \<Rightarrow> PPPOERuntime option" where
  "expire_check fail cl ec i rt = do {
     c \<leftarrow> get_client cl rt;
     rt \<leftarrow> (case map_of (callbacks c) i of
            None \<Rightarrow> Some rt
          | Some it \<Rightarrow> if ec then Some rt else fail (error_handler it) ''Timeout for this radius request'' rt);
     c \<leftarrow> get_client cl rt;
     let c = c\<lparr>callbacks := om_erase i (callbacks c)\<rparr>;
     let c = (if callbacks c = [] then c\<lparr>receiving := 0\<rparr> else c);
     Some (put_client cl c rt)
   }"

section \<open>Frames\<close>

lemma frame_put_client [simp]: "frame rt (put_client cl c rt') \<longleftrightarrow> frame rt rt'"
  by (cases cl) simp_all

lemma frame_request [frame_intros]: "request env cl ser h e rt = Some rt' \<Longrightarrow> frame rt rt'"
  by (auto simp: request_def run_splits generateAuthenticator_def case_prod_unfold)

lemma frame_acct_request [frame_intros]: "acct_request env cl ser h e rt = Some rt' \<Longrightarrow> frame rt rt'"
  by (auto simp: acct_request_def run_splits)

section \<open>The answer's authenticator\<close>



end
