(* ===== verification/Aaa_Sessions.thy ===== *)
theory Aaa_Sessions
  imports Radius_Client
begin

text \<open>
  AAA sessions: \<^verbatim>\<open>src/aaa_session.hpp\<close> and \<^verbatim>\<open>src/aaa_session.cpp\<close>. A session gets its
  address from a pool of the configuration and gives it back in its destructor.

  An \<open>AAA_Session\<close> is held by shared pointers in the map of sessions, in the handlers of its
  pending accounting requests and in the handler of its interim timer. It is destroyed when the
  last of them goes. The handler of a cancelled timer only returns: the cancellation drops it.
\<close>

section \<open>Pools of the configuration\<close>

definition find_pool :: "string \<Rightarrow> PPPOERuntime \<Rightarrow> FRAMED_POOL option" where
  "find_pool n rt = map_of (aaa_pools (aaa_conf (conf rt))) n"

definition put_pool :: "string \<Rightarrow> FRAMED_POOL \<Rightarrow> PPPOERuntime \<Rightarrow> PPPOERuntime" where
  "put_pool n p rt =
     rt\<lparr>conf := (conf rt)\<lparr>aaa_conf := (aaa_conf (conf rt))
          \<lparr>aaa_pools := om_set n p (aaa_pools (aaa_conf (conf rt)))\<rparr>\<rparr>\<rparr>"

lemma find_pool_put_pool [simp]:
  "find_pool m (put_pool n p rt) = (if m = n then Some p else find_pool m rt)"
  by (simp add: find_pool_def put_pool_def om_find_set)

lemma frame_put_pool [simp]: "frame rt (put_pool n p rt') \<longleftrightarrow> frame rt rt'"
  by (simp add: put_pool_def)

section \<open>Constructors\<close>

text \<open>The members before a constructor's body runs; \<open>a_ifindex\<close> is uninitialised.\<close>

definition fresh_aaa :: "u32 \<Rightarrow> string \<Rightarrow> u32 \<Rightarrow> string option \<Rightarrow> u32 \<Rightarrow> AAA_Session" where
  "fresh_aaa sid u addr acct junk =
     \<lparr>a_session_id = sid, a_username = u, a_address = addr, a_dns1 = 0, a_dns2 = 0, a_framed_pool = [],
      a_vrf = [], a_unnumbered = [], a_acct = acct, free_ip = False, to_stop_acct = False,
      a_ifindex = junk, a_timer = False\<rparr>"

text \<open>The session without RADIUS: DNS servers, pool and VRF from the template, the address from the pool.\<close>

definition AAA_Session_ctor ::
  "env \<Rightarrow> u32 \<Rightarrow> string \<Rightarrow> string \<Rightarrow> PPPOERuntime \<Rightarrow> (AAA_Session \<times> PPPOERuntime) option" where
  "AAA_Session_ctor env sid u template_name rt =
     (let (junk, rt) = draw env rt;
          s = fresh_aaa sid u 0 None junk;
          s = (case map_of (pppoe_templates (conf rt)) template_name of
                 Some t \<Rightarrow> s\<lparr>a_dns1 := t_dns1 t, a_dns2 := t_dns2 t, a_framed_pool := t_framed_pool t,
                             a_vrf := t_vrf t\<rparr>
               | None \<Rightarrow> s)
      in case find_pool (a_framed_pool s) rt of
           None \<Rightarrow> Some (s, rt)
         | Some fr_pool \<Rightarrow> do {
             (ip, fr_pool') \<leftarrow> allocate_ip fr_pool;
             Some (s\<lparr>a_address := ip, free_ip := True\<rparr>, put_pool (a_framed_pool s) fr_pool' rt)
           })"

text \<open>The session of a RADIUS answer, which overrides the template.\<close>

definition AAA_Session_radius_ctor ::
  "env \<Rightarrow> u32 \<Rightarrow> string \<Rightarrow> string \<Rightarrow> RadiusResponse \<Rightarrow> string \<Rightarrow> PPPOERuntime \<Rightarrow>
   (AAA_Session \<times> PPPOERuntime) option" where
  "AAA_Session_radius_ctor env sid u template_name resp acct rt =
     (let (junk, rt) = draw env rt;
          s = fresh_aaa sid u (framed_ip resp) (Some acct) junk;
          template_to_find = (if pppoe_template resp \<noteq> [] then pppoe_template resp else template_name);
          s = (case map_of (pppoe_templates (conf rt)) template_to_find of
                 Some t \<Rightarrow> s\<lparr>a_dns1 := t_dns1 t, a_dns2 := t_dns2 t, a_framed_pool := t_framed_pool t,
                             a_vrf := t_vrf t, a_unnumbered := t_unnumbered t\<rparr>
               | None \<Rightarrow> s);
          s = (if rs_framed_pool resp \<noteq> [] then s\<lparr>a_framed_pool := rs_framed_pool resp\<rparr> else s);
          s = (if rs_dns1 resp \<noteq> 0 then s\<lparr>a_dns1 := rs_dns1 resp\<rparr> else s);
          s = (if rs_dns2 resp \<noteq> 0 then s\<lparr>a_dns2 := rs_dns2 resp\<rparr> else s)
      in if a_address s = 0 \<and> a_framed_pool s \<noteq> []
         then (case find_pool (a_framed_pool s) rt of
                 None \<Rightarrow> Some (s, rt)
               | Some fr_pool \<Rightarrow> do {
                   (ip, fr_pool') \<leftarrow> allocate_ip fr_pool;
                   Some (s\<lparr>a_address := ip, free_ip := True\<rparr>, put_pool (a_framed_pool s) fr_pool' rt)
                 })
         else Some (s, rt))"

section \<open>Destructor\<close>

definition AAA_Session_dtor :: "AAA_Session \<Rightarrow> PPPOERuntime \<Rightarrow> PPPOERuntime" where
  "AAA_Session_dtor s rt =
     (if free_ip s
      then (case find_pool (a_framed_pool s) rt of
              None \<Rightarrow> rt
            | Some fr_pool \<Rightarrow> put_pool (a_framed_pool s) (deallocate_ip (a_address s) fr_pool) rt)
      else rt)"

text \<open>Who holds a session.\<close>

fun handler_aref :: "ResponseHandler \<Rightarrow> nat option" where
  "handler_aref (On_started r) = Some r"
| "handler_aref (On_interim_answer r) = Some r"
| "handler_aref (On_stopped r) = Some r"
| "handler_aref (ProcessRadiusAnswer _ _) = None"

definition aaa_held :: "nat \<Rightarrow> PPPOERuntime \<Rightarrow> bool" where
  "aaa_held r rt \<longleftrightarrow>
     r \<in> snd ` set (aaa_sessions rt) \<or>
     (case aheap rt r of Some s \<Rightarrow> a_timer s | None \<Rightarrow> False) \<or>
     (\<exists>(n, c) \<in> set (acct_clients rt). \<exists>(i, h) \<in> set (callbacks c). handler_aref (response h) = Some r)"

definition release_aaa :: "nat \<Rightarrow> PPPOERuntime \<Rightarrow> PPPOERuntime" where
  "release_aaa r rt =
     (case aheap rt r of
        None \<Rightarrow> rt
      | Some s \<Rightarrow> if aaa_held r rt then rt else (AAA_Session_dtor s rt)\<lparr>aheap := (aheap rt)(r := None)\<rparr>)"

definition new_aaa :: "AAA_Session \<Rightarrow> PPPOERuntime \<Rightarrow> nat \<times> PPPOERuntime" where
  "new_aaa s rt =
     (next_aref rt, rt\<lparr>aheap := (aheap rt)(next_aref rt \<mapsto> s), next_aref := next_aref rt + 1\<rparr>)"

section \<open>Accounting\<close>

definition empty_acct :: AcctRequest where
  "empty_acct = \<lparr>ac_session_id = [], ac_username = [], ac_nas_id = [], ac_nas_port_id = [],
     acct_status_type = [], ac_calling_station_id = [], in_pkts = 0, out_pkts = 0, in_bytes = 0,
     out_bytes = 0\<rparr>"

definition acct_req :: "AAA_Session \<Rightarrow> string \<Rightarrow> AcctRequest" where
  "acct_req s status = empty_acct
     \<lparr>ac_session_id := ''session_'' @ to_string_digits (unat (a_session_id s)),
      acct_status_type := status, ac_nas_id := ''vBNG'', ac_username := a_username s\<rparr>"

text \<open>The counters are 64 bits wide, the request's fields 32.\<close>

definition with_counters :: "bool \<times> VPPIfaceCounters \<Rightarrow> AcctRequest \<Rightarrow> AcctRequest" where
  "with_counters rc req =
     (let (ret, c) = rc
      in if \<not> ret then req\<lparr>in_pkts := 0, out_pkts := 0, in_bytes := 0, out_bytes := 0\<rparr>
         else req\<lparr>in_pkts := ucast (rxPkts c), out_pkts := ucast (txPkts c),
                  in_bytes := ucast (rxBytes c), out_bytes := ucast (txBytes c)\<rparr>)"

definition send_acct ::
  "env \<Rightarrow> string \<Rightarrow> AcctRequest \<Rightarrow> ResponseHandler \<Rightarrow> nat \<Rightarrow> PPPOERuntime \<Rightarrow> PPPOERuntime option" where
  "send_acct env acct req h r rt =
     acct_request env (Acct_server acct) (\<lambda>dict _ _. serialize_AcctRequest dict req) h (On_failed r) rt"

definition aaa_start :: "env \<Rightarrow> nat \<Rightarrow> PPPOERuntime \<Rightarrow> PPPOERuntime option" where
  "aaa_start env r rt = do {
     s \<leftarrow> aheap rt r;
     (case a_acct s of
        None \<Rightarrow> Some rt
      | Some acct \<Rightarrow> send_acct env acct (acct_req s ''Start'') (On_started r) r rt)
   }"

definition aaa_stop :: "env \<Rightarrow> nat \<Rightarrow> PPPOERuntime \<Rightarrow> PPPOERuntime option" where
  "aaa_stop env r rt = do {
     s \<leftarrow> aheap rt r;
     let rt = upd_aaa r (\<lambda>s. s\<lparr>a_timer := False\<rparr>) rt;
     (case a_acct s of
        None \<Rightarrow> Some rt
      | Some acct \<Rightarrow>
          let req = with_counters (get_counters_by_index (a_ifindex s) (vpp rt)) (acct_req s ''Stop'')
          in send_acct env acct req (On_stopped r) r rt)
   }"

text \<open>\<open>*runtime->aaa->dict\<close> and the junk the parser finds in unassigned fields.\<close>

definition junk_from :: "env \<Rightarrow> PPPOERuntime \<Rightarrow> nat \<Rightarrow> u32" where
  "junk_from env rt i = nondet env (nd_pos rt + i)"

definition parse_acct_answer :: "env \<Rightarrow> bytes \<Rightarrow> PPPOERuntime \<Rightarrow> PPPOERuntime option" where
  "parse_acct_answer env pkt rt = do {
     dict \<leftarrow> aaa_dict rt;
     resp \<leftarrow> deserialize_AcctResponse dict (junk_from env rt) pkt;
     Some (rt\<lparr>nd_pos := nd_pos rt + length pkt\<rparr>)
   }"

definition on_started :: "env \<Rightarrow> nat \<Rightarrow> bytes \<Rightarrow> PPPOERuntime \<Rightarrow> PPPOERuntime option" where
  "on_started env r pkt rt = do {
     rt \<leftarrow> parse_acct_answer env pkt rt;
     Some (upd_aaa r (\<lambda>s. s\<lparr>to_stop_acct := True, a_timer := True\<rparr>) rt)
   }"

definition on_interim_answer :: "env \<Rightarrow> nat \<Rightarrow> bytes \<Rightarrow> PPPOERuntime \<Rightarrow> PPPOERuntime option" where
  "on_interim_answer env r pkt rt = do {
     rt \<leftarrow> parse_acct_answer env pkt rt;
     Some (upd_aaa r (\<lambda>s. s\<lparr>a_timer := True\<rparr>) rt)
   }"

definition on_stopped :: "env \<Rightarrow> nat \<Rightarrow> bytes \<Rightarrow> PPPOERuntime \<Rightarrow> PPPOERuntime option" where
  "on_stopped env r pkt rt = do {
     rt \<leftarrow> parse_acct_answer env pkt rt;
     Some (upd_aaa r (\<lambda>s. s\<lparr>a_timer := False\<rparr>) rt)
   }"

text \<open>\<open>on_failed\<close> only logs.\<close>

definition on_failed :: "nat \<Rightarrow> string \<Rightarrow> PPPOERuntime \<Rightarrow> PPPOERuntime option" where
  "on_failed r err rt = Some rt"

text \<open>
  The interim timer has expired: its handler holds the session while it runs and lets go of it
  at the end.
\<close>

definition on_interim :: "env \<Rightarrow> nat \<Rightarrow> PPPOERuntime \<Rightarrow> PPPOERuntime option" where
  "on_interim env r rt = do {
     s \<leftarrow> aheap rt r;
     let rt = upd_aaa r (\<lambda>s. s\<lparr>a_timer := False\<rparr>) rt;
     rt \<leftarrow> (case a_acct s of
            None \<Rightarrow> Some rt
          | Some acct \<Rightarrow>
              let req = with_counters (get_counters_by_index (a_ifindex s) (vpp rt)) (acct_req s ''Alive'')
              in send_acct env acct req (On_interim_answer r) r rt);
     Some (release_aaa r rt)
   }"

definition map_iface :: "nat \<Rightarrow> u32 \<Rightarrow> PPPOERuntime \<Rightarrow> PPPOERuntime" where
  "map_iface r ifi rt = upd_aaa r (\<lambda>s. s\<lparr>a_ifindex := ifi\<rparr>) rt"

section \<open>Frames\<close>

lemma frame_AAA_Session_ctor [frame_intros]:
  "AAA_Session_ctor env sid u t rt = Some (s, rt') \<Longrightarrow> frame rt rt'"
  by (auto simp: AAA_Session_ctor_def run_splits draw_def split: option.splits prod.splits)

lemma frame_AAA_Session_radius_ctor [frame_intros]:
  "AAA_Session_radius_ctor env sid u t resp acct rt = Some (s, rt') \<Longrightarrow> frame rt rt'"
  by (auto simp: AAA_Session_radius_ctor_def run_splits draw_def split: option.splits prod.splits if_splits)

lemma frame_AAA_Session_dtor [simp]: "frame rt (AAA_Session_dtor s rt') \<longleftrightarrow> frame rt rt'"
  by (simp add: AAA_Session_dtor_def split: option.split)

lemma frame_release_aaa [simp]: "frame rt (release_aaa r rt') \<longleftrightarrow> frame rt rt'"
  by (simp add: release_aaa_def split: option.split)

lemma frame_new_aaa [simp]: "frame rt (snd (new_aaa s rt')) \<longleftrightarrow> frame rt rt'"
  by (simp add: new_aaa_def)

lemma frame_send_acct [frame_intros]: "send_acct env a req h r rt = Some rt' \<Longrightarrow> frame rt rt'"
  by (auto simp: send_acct_def intro: frame_intros)

lemma frame_upd_aaa_trans: "frame (upd_aaa a g rt) rt' \<Longrightarrow> frame rt rt'"
  by (rule frame_trans) simp_all

lemma frame_send_acct_upd: "send_acct env a req h r (upd_aaa q g rt) = Some rt' \<Longrightarrow> frame rt rt'"
  by (rule frame_upd_aaa_trans) (rule frame_send_acct)

lemma frame_aaa_start [frame_intros]: "aaa_start env r rt = Some rt' \<Longrightarrow> frame rt rt'"
  by (auto simp: aaa_start_def run_splits split: option.splits intro: frame_intros)

lemma frame_aaa_stop [frame_intros]: "aaa_stop env r rt = Some rt' \<Longrightarrow> frame rt rt'"
  by (auto simp: aaa_stop_def run_splits split: option.splits dest: frame_send_acct_upd)

lemma frame_parse_acct_answer [frame_intros]: "parse_acct_answer env pkt rt = Some rt' \<Longrightarrow> frame rt rt'"
  by (auto simp: parse_acct_answer_def run_splits)

lemma frame_on_answers [frame_intros]:
  "on_started env r pkt rt = Some rt' \<Longrightarrow> frame rt rt'"
  "on_interim_answer env r pkt rt = Some rt' \<Longrightarrow> frame rt rt'"
  "on_stopped env r pkt rt = Some rt' \<Longrightarrow> frame rt rt'"
  by (auto simp: on_started_def on_interim_answer_def on_stopped_def run_splits intro: frame_intros)

lemma frame_on_interim [frame_intros]: "on_interim env r rt = Some rt' \<Longrightarrow> frame rt rt'"
  by (auto simp: on_interim_def run_splits split: option.splits elim!: frame_send_acct_upd)

lemma frame_map_iface [simp]: "frame rt (map_iface r ifi rt') \<longleftrightarrow> frame rt rt'"
  by (simp add: map_iface_def)

end
