(* ===== verification/Aaa.thy ===== *)
theory Aaa
  imports Aaa_Sessions
begin

text \<open>
  Authentication and session accounting: \<open>AAA\<close> of \<^verbatim>\<open>src/aaa.hpp\<close> and
  \<^verbatim>\<open>src/aaa.cpp\<close>. \<open>call\<close> runs a callback (\<^verbatim>\<open>std::function\<close>) on an AAA session id and
  an error text; the callbacks themselves are the protocol objects' and come later.
\<close>

abbreviation SESSION_ERROR :: u32 where "SESSION_ERROR \<equiv> - 1"

type_synonym call_fn = "aaa_callback \<Rightarrow> u32 \<Rightarrow> string \<Rightarrow> PPPOERuntime \<Rightarrow> PPPOERuntime option"

section \<open>Constructor\<close>

text \<open>
  \<open>files\<close> gives the lines of a dictionary file, none for a file that cannot be opened. Building a
  client without a dictionary dereferences an empty optional. The object is built while the runtime
  is: the global pointer \<open>runtime\<close> is still null, and the message that there are no dictionaries
  goes through it.
\<close>

definition clients_of ::
  "RadiusDict option \<Rightarrow> (string, AAARadConf) omap \<Rightarrow> (string, AuthClient) omap option" where
  "clients_of dict servers =
     (if servers = [] then Some []
      else do {
        d \<leftarrow> dict;
        Some (map (\<lambda>(k, v). (k, AuthClient_ctor (rad_address v) (rad_port v) (rad_secret v) d)) servers)
      })"

definition AAA_ctor :: "(string \<Rightarrow> string list) \<Rightarrow> PPPOERuntime \<Rightarrow> PPPOERuntime option" where
  "AAA_ctor files rt = do {
     let c = aaa_conf (conf rt);
     dict \<leftarrow> (if dictionaries c = [] then None
              else map_option Some (RadiusDict_ctor (map files (dictionaries c)) empty_dict));
     auth \<leftarrow> clients_of dict (auth_servers c);
     acct \<leftarrow> clients_of dict (acct_servers c);
     Some (rt\<lparr>aaa_dict := dict, auth_clients := auth, acct_clients := acct\<rparr>)
   }"

section \<open>Session ids\<close>

text \<open>The loop \<^verbatim>\<open>for( i = 0; i < UINT32_MAX; i++ )\<close> up to the first id not in the map.\<close>

partial_function (option) find_free_sid :: "(u32, nat) omap \<Rightarrow> u32 \<Rightarrow> u32 option" where
  "find_free_sid m i =
     (if i < - 1 then (if map_of m i = None then Some i else find_free_sid m (i + 1)) else Some i)"

section \<open>Starting without RADIUS\<close>

definition startSessionNone ::
  "env \<Rightarrow> string \<Rightarrow> string \<Rightarrow> PPPOERuntime \<Rightarrow> ((u32 \<times> string) \<times> PPPOERuntime) option" where
  "startSessionNone env user pass rt =
     (if local_template (aaa_conf (conf rt)) = []
      then Some ((SESSION_ERROR, ''No template for non-radius pppoe user''), rt)
      else do {
        i \<leftarrow> find_free_sid (aaa_sessions rt) 0;
        if i = - 1 then Some ((SESSION_ERROR, ''No space for new sessions''), rt)
        else do {
          (s, rt) \<leftarrow> AAA_Session_ctor env i user (local_template (aaa_conf (conf rt))) rt;
          let (r, rt) = new_aaa s rt;
          if map_of (aaa_sessions rt) i \<noteq> None
          then Some ((SESSION_ERROR, ''Failed to emplace user''), release_aaa r rt)
          else Some ((i, ''''), rt\<lparr>aaa_sessions := om_emplace i r (aaa_sessions rt)\<rparr>)
        }
      })"

section \<open>Starting with RADIUS\<close>

definition nas_port_id_of :: "encapsulation_t \<Rightarrow> string" where
  "nas_port_id_of e =
     (if outer_vlan e = 0 then ''ethernet'' else ''vlan'' @ to_string_digits (unat (outer_vlan e)))"

text \<open>The request goes to the first server in the map; without servers nothing happens.\<close>

definition startSessionRadius ::
  "env \<Rightarrow> string \<Rightarrow> string \<Rightarrow> encapsulation_t \<Rightarrow> aaa_callback \<Rightarrow> PPPOERuntime \<Rightarrow> PPPOERuntime option" where
  "startSessionRadius env user pass e callback rt =
     (let req = \<lparr>rq_username = user, rq_password = pass, rq_nas_id = ''vBNG'',
            rq_service_type = ''Framed-User'', rq_framed_protocol = ''PPP'',
            rq_calling_station_id = mac_to_string (destination_mac e), rq_nas_port_id = nas_port_id_of e\<rparr>
      in case auth_clients rt of
           [] \<Rightarrow> Some rt
         | (n, _) # _ \<Rightarrow>
             request env (Auth_server n) (\<lambda>dict a sec. serialize_RadiusRequest (md5 env) dict req a sec)
               (ProcessRadiusAnswer callback user) (ProcessRadiusError callback) rt)"

definition startSessionRadiusChap ::
  "env \<Rightarrow> string \<Rightarrow> bytes \<Rightarrow> bytes \<Rightarrow> encapsulation_t \<Rightarrow> aaa_callback \<Rightarrow> PPPOERuntime \<Rightarrow>
   PPPOERuntime option" where
  "startSessionRadiusChap env user chal resp e callback rt =
     (let req = \<lparr>rc_username = user, chap_challenge = string_of_bytes chal,
            chap_response = string_of_bytes resp, rc_nas_id = ''vBNG'', rc_service_type = ''Framed-User'',
            rc_framed_protocol = ''PPP'', rc_calling_station_id = mac_to_string (destination_mac e),
            rc_nas_port_id = nas_port_id_of e\<rparr>
      in case auth_clients rt of
           [] \<Rightarrow> Some rt
         | (n, _) # _ \<Rightarrow>
             request env (Auth_server n) (\<lambda>dict _ _. serialize_RadiusRequestChap dict req)
               (ProcessRadiusAnswer callback user) (ProcessRadiusError callback) rt)"

text \<open>
  The answer. A code other than Access-Accept reports an error to the callback, and the code goes
  on to create the session all the same.
\<close>

definition processRadiusAnswer ::
  "env \<Rightarrow> call_fn \<Rightarrow> aaa_callback \<Rightarrow> string \<Rightarrow> byte \<Rightarrow> bytes \<Rightarrow> PPPOERuntime \<Rightarrow> PPPOERuntime option" where
  "processRadiusAnswer env call callback user code v rt = do {
     dict \<leftarrow> aaa_dict rt;
     res \<leftarrow> deserialize_RadiusResponse dict (junk_from env rt) v;
     let rt = rt\<lparr>nd_pos := nd_pos rt + length v\<rparr>;
     rt \<leftarrow> (if code \<noteq> RADIUS_CODE_val ACCESS_ACCEPT
            then call callback 0 ''RADIUS answered with no accept'' rt
            else Some rt);
     i \<leftarrow> find_free_sid (aaa_sessions rt) 0;
     if i = - 1 then call callback 0 ''No space for new sessions'' rt
     else do {
       acct \<leftarrow> (case acct_clients rt of [] \<Rightarrow> None | (n, _) # _ \<Rightarrow> Some n);
       (s, rt) \<leftarrow> AAA_Session_radius_ctor env i user (local_template (aaa_conf (conf rt))) res acct rt;
       let (r, rt) = new_aaa s rt;
       if map_of (aaa_sessions rt) i \<noteq> None
       then call callback SESSION_ERROR ''Failed to emplace user'' (release_aaa r rt)
       else do {
         rt \<leftarrow> aaa_start env r (rt\<lparr>aaa_sessions := om_emplace i r (aaa_sessions rt)\<rparr>);
         call callback i '''' rt
       }
     }
   }"

definition processRadiusError :: "call_fn \<Rightarrow> aaa_callback \<Rightarrow> string \<Rightarrow> PPPOERuntime \<Rightarrow> PPPOERuntime option" where
  "processRadiusError call callback err rt = call callback 0 (''RADIUS error: '' @ err) rt"

section \<open>The methods in turn\<close>

text \<open>
  The loop over the configured methods. The \<^verbatim>\<open>break\<close> after a successful NONE leaves the
  switch, not the loop. \<open>radius\<close> is the call that ends the loop.
\<close>

fun method_loop ::
  "env \<Rightarrow> call_fn \<Rightarrow> (PPPOERuntime \<Rightarrow> PPPOERuntime option) \<Rightarrow> string \<Rightarrow> string \<Rightarrow> aaa_callback \<Rightarrow>
   AAA_METHODS list \<Rightarrow> PPPOERuntime \<Rightarrow> PPPOERuntime option" where
  "method_loop env call radius user pass callback [] rt = Some rt"
| "method_loop env call radius user pass callback (NONE # ms) rt = do {
     ((sid, err), rt) \<leftarrow> startSessionNone env user pass rt;
     rt \<leftarrow> (if err \<noteq> [] then Some rt else call callback sid err rt);
     method_loop env call radius user pass callback ms rt
   }"
| "method_loop env call radius user pass callback (RADIUS # ms) rt = radius rt"
| "method_loop env call radius user pass callback (LOCAL # ms) rt =
     method_loop env call radius user pass callback ms rt"

definition startSession ::
  "env \<Rightarrow> call_fn \<Rightarrow> string \<Rightarrow> string \<Rightarrow> encapsulation_t \<Rightarrow> aaa_callback \<Rightarrow> PPPOERuntime \<Rightarrow>
   PPPOERuntime option" where
  "startSession env call user pass e callback rt =
     method_loop env call (startSessionRadius env user pass e callback) user pass callback
       (aaa_method (aaa_conf (conf rt))) rt"

definition startSessionCHAP ::
  "env \<Rightarrow> call_fn \<Rightarrow> string \<Rightarrow> bytes \<Rightarrow> bytes \<Rightarrow> encapsulation_t \<Rightarrow> aaa_callback \<Rightarrow> PPPOERuntime \<Rightarrow>
   PPPOERuntime option" where
  "startSessionCHAP env call user chal resp e callback rt =
     method_loop env call (startSessionRadiusChap env user chal resp e callback) user ''CHAP'' callback
       (aaa_method (aaa_conf (conf rt))) rt"

section \<open>Lookup and end of sessions\<close>

definition getSession :: "u32 \<Rightarrow> PPPOERuntime \<Rightarrow> nat option \<times> string" where
  "getSession sid rt =
     (case map_of (aaa_sessions rt) sid of
        None \<Rightarrow> (None, ''Cannot find session id '' @ to_string_digits (unat sid))
      | Some r \<Rightarrow> (Some r, ''''))"

definition stopSession :: "env \<Rightarrow> u32 \<Rightarrow> PPPOERuntime \<Rightarrow> PPPOERuntime option" where
  "stopSession env sid rt =
     (case map_of (aaa_sessions rt) sid of
        None \<Rightarrow> Some rt
      | Some r \<Rightarrow> do {
          rt \<leftarrow> aaa_stop env r rt;
          Some (release_aaa r (rt\<lparr>aaa_sessions := om_erase sid (aaa_sessions rt)\<rparr>))
        })"

definition mapIfaceToSession :: "u32 \<Rightarrow> u32 \<Rightarrow> PPPOERuntime \<Rightarrow> PPPOERuntime" where
  "mapIfaceToSession sid ifi rt =
     (case map_of (aaa_sessions rt) sid of None \<Rightarrow> rt | Some r \<Rightarrow> map_iface r ifi rt)"

fun stop_each :: "env \<Rightarrow> nat list \<Rightarrow> PPPOERuntime \<Rightarrow> PPPOERuntime option" where
  "stop_each env [] rt = Some rt"
| "stop_each env (r # rs) rt = do { rt \<leftarrow> aaa_stop env r rt; stop_each env rs rt }"

definition stopAllSessions :: "env \<Rightarrow> PPPOERuntime \<Rightarrow> PPPOERuntime option" where
  "stopAllSessions env rt = do {
     let rs = map snd (aaa_sessions rt);
     rt \<leftarrow> stop_each env rs rt;
     Some (fold release_aaa rs (rt\<lparr>aaa_sessions := []\<rparr>))
   }"

section \<open>Frames\<close>

lemma frame_startSessionNone [frame_intros]:
  "startSessionNone env u p rt = Some (r, rt') \<Longrightarrow> frame rt rt'"
  by (auto simp: startSessionNone_def new_aaa_def run_splits split: if_splits dest: frame_AAA_Session_ctor)

lemma frame_startSessionRadius [frame_intros]:
  "startSessionRadius env u p e cb rt = Some rt' \<Longrightarrow> frame rt rt'"
  "startSessionRadiusChap env u c d e cb rt = Some rt' \<Longrightarrow> frame rt rt'"
  by (auto simp: startSessionRadius_def startSessionRadiusChap_def Let_def split: list.splits
      dest: frame_request)

text \<open>A callback that keeps the frame makes the operations that may run it keep it too.\<close>

definition call_frames :: "call_fn \<Rightarrow> bool" where
  "call_frames call \<longleftrightarrow> (\<forall>cb sid err rt rt'. call cb sid err rt = Some rt' \<longrightarrow> frame rt rt')"

lemma call_framesD: "call_frames call \<Longrightarrow> call cb sid err rt = Some rt' \<Longrightarrow> frame rt rt'"
  by (simp add: call_frames_def)

lemma frame_method_loop:
  assumes "call_frames call" and "\<And>rt rt'. radius rt = Some rt' \<Longrightarrow> frame rt rt'"
  shows "method_loop env call radius u p cb ms rt = Some rt' \<Longrightarrow> frame rt rt'"
proof (induction ms arbitrary: rt)
  case (Cons m ms)
  show ?case
  proof (cases m)
    case NONE
    with Cons.prems obtain sid err rt1 rt2 where 1: "startSessionNone env u p rt = Some ((sid, err), rt1)"
      and 2: "(if err \<noteq> [] then Some rt1 else call cb sid err rt1) = Some rt2"
      and 3: "method_loop env call radius u p cb ms rt2 = Some rt'"
      by (auto simp: bind_eq_Some_conv)
    have "frame rt1 rt2" using 2 assms(1) by (auto split: if_splits dest: call_framesD)
    with frame_startSessionNone [OF 1] Cons.IH [OF 3] show ?thesis by (blast intro: frame_trans)
  qed (use Cons in \<open>auto simp: assms(2)\<close>)
qed simp

lemma frame_startSession:
  assumes "call_frames call"
  shows "startSession env call u p e cb rt = Some rt' \<Longrightarrow> frame rt rt'"
    and "startSessionCHAP env call u c d e cb rt = Some rt' \<Longrightarrow> frame rt rt'"
  unfolding startSession_def startSessionCHAP_def
  by (blast intro: frame_method_loop [OF assms] frame_startSessionRadius)+

lemma frame_processRadiusAnswer:
  assumes call: "call_frames call" and run: "processRadiusAnswer env call cb u code v rt = Some rt'"
  shows "frame rt rt'"
proof -
  from run obtain dict res rt1 i where
    1: "(if code \<noteq> RADIUS_CODE_val ACCESS_ACCEPT
         then call cb 0 ''RADIUS answered with no accept'' (rt\<lparr>nd_pos := nd_pos rt + length v\<rparr>)
         else Some (rt\<lparr>nd_pos := nd_pos rt + length v\<rparr>)) = Some rt1"
    and 2: "(if i = - 1 then call cb 0 ''No space for new sessions'' rt1
         else do {
           acct \<leftarrow> (case acct_clients rt1 of [] \<Rightarrow> None | (n, _) # _ \<Rightarrow> Some n);
           (s, rt) \<leftarrow> AAA_Session_radius_ctor env i u (local_template (aaa_conf (conf rt1))) res acct rt1;
           let (r, rt) = new_aaa s rt;
           if map_of (aaa_sessions rt) i \<noteq> None
           then call cb SESSION_ERROR ''Failed to emplace user'' (release_aaa r rt)
           else do {
             rt \<leftarrow> aaa_start env r (rt\<lparr>aaa_sessions := om_emplace i r (aaa_sessions rt)\<rparr>);
             call cb i '''' rt
           }
         }) = Some rt'"
    unfolding processRadiusAnswer_def Let_def by (auto simp only: bind_eq_Some_conv)
  have f1: "frame rt rt1"
    using 1 call by (auto split: if_splits dest!: call_framesD elim: frame_trans [rotated])
  show ?thesis
  proof (cases "i = - 1")
    case True
    with 2 f1 call show ?thesis by (auto dest: call_framesD elim: frame_trans)
  next
    case False
    with 2 obtain acct s rt2 where
      3: "AAA_Session_radius_ctor env i u (local_template (aaa_conf (conf rt1))) res acct rt1 = Some (s, rt2)"
      and 4: "(let (r, rt) = new_aaa s rt2 in
           if map_of (aaa_sessions rt) i \<noteq> None
           then call cb SESSION_ERROR ''Failed to emplace user'' (release_aaa r rt)
           else do {
             rt \<leftarrow> aaa_start env r (rt\<lparr>aaa_sessions := om_emplace i r (aaa_sessions rt)\<rparr>);
             call cb i '''' rt
           }) = Some rt'"
      by (auto simp only: bind_eq_Some_conv if_False split_paired_Ex prod.case)
    have "frame rt2 rt'"
      using 4 call
      by (auto simp: new_aaa_def bind_eq_Some_conv split: if_splits dest!: call_framesD frame_aaa_start
          elim: frame_trans [rotated])
    with f1 frame_AAA_Session_radius_ctor [OF 3] show ?thesis by (blast intro: frame_trans)
  qed
qed

lemma frame_stopSession [frame_intros]: "stopSession env sid rt = Some rt' \<Longrightarrow> frame rt rt'"
  by (auto simp: stopSession_def run_splits split: option.splits dest: frame_aaa_stop)

lemma frame_mapIfaceToSession [simp]: "frame rt (mapIfaceToSession sid ifi rt') \<longleftrightarrow> frame rt rt'"
  by (simp add: mapIfaceToSession_def split: option.split)

lemma frame_stop_each: "stop_each env rs rt = Some rt' \<Longrightarrow> frame rt rt'"
proof (induction rs arbitrary: rt)
  case (Cons r rs)
  then show ?case by (auto simp: bind_eq_Some_conv dest: frame_aaa_stop intro: frame_trans)
qed simp

lemma frame_release_all [simp]: "frame rt (fold release_aaa rs rt') \<longleftrightarrow> frame rt rt'"
  by (induction rs arbitrary: rt') simp_all

lemma frame_stopAllSessions [frame_intros]: "stopAllSessions env rt = Some rt' \<Longrightarrow> frame rt rt'"
  by (auto simp: stopAllSessions_def run_splits dest: frame_stop_each)

end
