(* ===== verification/Sessions.thy ===== *)
theory Sessions
  imports Aaa
begin

text \<open>
  The sessions and their tables: constructor, destructor and dataplane provisioning of
  \<^verbatim>\<open>src/session.cpp\<close>, and the tables of \<^verbatim>\<open>src/runtime.cpp\<close>.
\<close>

section \<open>PPPoE sessions\<close>

definition PPPOESession_ctor :: "env \<Rightarrow> encapsulation_t \<Rightarrow> u16 \<Rightarrow> PPPOERuntime \<Rightarrow> PPPOESession \<times> PPPOERuntime" where
  "PPPOESession_ctor env e sid rt =
     (let (addr, rt) = draw env rt; (omru, rt) = draw env rt; (pmru, rt) = draw env rt;
          (omn, rt) = draw env rt; (pmn, rt) = draw env rt
      in (\<lparr>encap = e, started = False, aaa_session_id = - 1, session_id = sid, cookie = [],
           username = [], s_address = addr, ifindex = - 1, s_vrf = [], s_unnumbered = [],
           lcp = \<lparr>lcp_fsm = PPP_FSM_ctor sid, echo_counter = 0\<rparr>,
           auth = \<lparr>auth_pkt_id = 1, auth_started = False\<rparr>,
           chap = \<lparr>chap_pkt_id = 1, chap_started = False, challenge = []\<rparr>,
           ipcp = PPP_FSM_ctor sid,
           our_MRU = ucast omru, peer_MRU = ucast pmru, our_magic_number = omn,
           peer_magic_number = pmn, echo_timer = None\<rparr>, rt))"

text \<open>Run a VPP operation on the runtime.\<close>

definition on_vpp :: "(vpp_state \<Rightarrow> 'a \<times> vpp_state) \<Rightarrow> PPPOERuntime \<Rightarrow> 'a \<times> PPPOERuntime" where
  "on_vpp f rt = (let (a, v) = f (vpp rt) in (a, rt\<lparr>vpp := v\<rparr>))"

definition provision_dp :: "env \<Rightarrow> nat \<Rightarrow> PPPOERuntime \<Rightarrow> (string \<times> PPPOERuntime) option" where
  "provision_dp env r rt = do {
     s \<leftarrow> heap rt r;
     let ((ret, ifi), rt) = on_vpp (add_pppoe_session (vapi env) (s_address s) (session_id s)
            (source_mac (encap s)) (s_vrf s) True) rt;
     if \<not> ret then Some (''Cannot add new session to vpp '', rt)
     else do {
       let rt = upd_sess r (\<lambda>s. s\<lparr>ifindex := ifi\<rparr>) rt;
       let (moved, rt) = (if s_vrf s \<noteq> [] then on_vpp (set_interface_table (vapi env) ifi (s_vrf s)) rt
                          else (True, rt));
       if \<not> moved then Some (''Cannot move new session to vrf'', rt)
       else if s_unnumbered s \<noteq> [] then
         (let ((sw_ifi, success), rt) = on_vpp (get_iface_by_name (vapi env) (s_unnumbered s)) rt
          in if \<not> success
             then Some (''Cannot set unnumbered to new session: can't find interface with such name'', rt)
             else
               let (ok, rt) = on_vpp (set_unnumbered (vapi env) ifi sw_ifi True) rt
               in if \<not> ok then Some (''Cannot set unnumbered to new session'', rt) else Some ('''', rt))
       else Some ('''', rt)
     }
   }"

text \<open>On the object itself, which the destructor also calls it on.\<close>

definition clear_unnumbered :: "env \<Rightarrow> VPPUnnumbered \<Rightarrow> PPPOERuntime \<Rightarrow> PPPOERuntime" where
  "clear_unnumbered env el rt =
     snd (on_vpp (set_unnumbered (vapi env) (unnumbered_sw_if_index el) (iface_sw_if_index el) False) rt)"

definition deprovision_dp :: "env \<Rightarrow> PPPOESession \<Rightarrow> PPPOERuntime \<Rightarrow> string \<times> PPPOERuntime" where
  "deprovision_dp env s rt =
     (let (els, rt) = on_vpp (dump_unnumbered (vapi env) (ifindex s)) rt;
          rt = fold (clear_unnumbered env) els rt;
          ((ret, ifi), rt) = on_vpp (add_pppoe_session (vapi env) (s_address s) (session_id s)
            (source_mac (encap s)) (s_vrf s) False) rt
      in (if \<not> ret then ''Cannot delete session from vpp '' else '''', rt))"

text \<open>The destructor: the pending echo wait is cancelled, the dataplane entry removed.\<close>

definition PPPOESession_dtor :: "env \<Rightarrow> PPPOESession \<Rightarrow> PPPOERuntime \<Rightarrow> PPPOERuntime" where
  "PPPOESession_dtor env s rt = snd (deprovision_dp env s rt)"

text \<open>
  A session is held by \<open>activeSessions\<close> and by the handler of its echo timer. Letting go of one
  destroys the object when nothing else holds it.
\<close>

definition sess_held :: "nat \<Rightarrow> PPPOERuntime \<Rightarrow> bool" where
  "sess_held r rt \<longleftrightarrow>
     r \<in> snd ` set (activeSessions rt) \<or>
     (case heap rt r of Some s \<Rightarrow> echo_timer s \<noteq> None | None \<Rightarrow> False)"

definition release_sess :: "env \<Rightarrow> nat \<Rightarrow> PPPOERuntime \<Rightarrow> PPPOERuntime" where
  "release_sess env r rt =
     (case heap rt r of
        None \<Rightarrow> rt
      | Some s \<Rightarrow> if sess_held r rt then rt else (PPPOESession_dtor env s rt)\<lparr>heap := (heap rt)(r := None)\<rparr>)"

definition startEcho :: "env \<Rightarrow> nat \<Rightarrow> PPPOERuntime \<Rightarrow> PPPOERuntime" where
  "startEcho env r rt =
     (let (v, rt) = draw env rt; random_interval = 20 + unat v mod 11
      in upd_sess r (\<lambda>s. s\<lparr>echo_timer := Some random_interval\<rparr>) rt)"

section \<open>Pending sessions\<close>

definition pendeSession :: "mac_t \<Rightarrow> u16 \<Rightarrow> u16 \<Rightarrow> string \<Rightarrow> PPPOERuntime \<Rightarrow> string \<times> PPPOERuntime" where
  "pendeSession mac outr innr cook rt =
     (let key = Pppoe_conn mac outr innr cook
      in if key \<in> pendingSession rt then (''Cannot allocate new Pending session'', rt)
         else ('''', rt\<lparr>pendingSession := insert key (pendingSession rt),
                       pending_timers := key # pending_timers rt\<rparr>))"

definition checkSession :: "mac_t \<Rightarrow> u16 \<Rightarrow> u16 \<Rightarrow> string \<Rightarrow> PPPOERuntime \<Rightarrow> bool \<times> PPPOERuntime" where
  "checkSession mac outr innr cook rt =
     (let key = Pppoe_conn mac outr innr cook
      in if key \<in> pendingSession rt
         then (True, rt\<lparr>pendingSession := pendingSession rt - {key}\<rparr>)
         else (False, rt))"

definition clearPendingSession :: "pppoe_conn_t \<Rightarrow> PPPOERuntime \<Rightarrow> PPPOERuntime" where
  "clearPendingSession key rt =
     (if key \<in> pendingSession rt then rt\<lparr>pendingSession := pendingSession rt - {key}\<rparr> else rt)"

section \<open>Session ids\<close>

text \<open>The search of \<open>allocateSession\<close>: the do-while loop from \<open>start_id\<close> round to it again.\<close>

partial_function (option) sid_search :: "u16 set \<Rightarrow> u16 \<Rightarrow> u16 \<Rightarrow> u16 option option" where
  "sid_search used start_id current_id =
     (let current_id = (if current_id = 0 then 1 else current_id)
      in if current_id \<notin> used then Some (Some current_id)
         else
           let current_id = current_id + 1;
               current_id = (if current_id = 0 then 1 else current_id)
           in if current_id \<noteq> start_id then sid_search used start_id current_id else Some None)"

text \<open>
  \<open>allocateSession\<close>. The insertion into \<open>sessionSet\<close> cannot fail: the id was not found in it.
\<close>

definition allocateSession ::
  "env \<Rightarrow> encapsulation_t \<Rightarrow> PPPOERuntime \<Rightarrow> ((u16 \<times> string) \<times> PPPOERuntime) option" where
  "allocateSession env e rt = do {
     found \<leftarrow> sid_search (sessionSet rt) (next_session_id rt) (next_session_id rt);
     (case found of
        None \<Rightarrow> Some ((0, ''Maximum of sessions''), rt)
      | Some current_id \<Rightarrow>
          let rt = rt\<lparr>sessionSet := insert current_id (sessionSet rt)\<rparr>;
              (s, rt) = PPPOESession_ctor env e current_id rt;
              r = next_ref rt;
              rt = rt\<lparr>heap := (heap rt)(r \<mapsto> s), next_ref := next_ref rt + 1\<rparr>;
              key = key_of_encap e current_id
          in if map_of (activeSessions rt) key \<noteq> None
             then Some ((0, ''Cannot allocate session: cannot emplace new PPPOESession''),
                        release_sess env r (rt\<lparr>sessionSet := sessionSet rt - {current_id}\<rparr>))
             else
               let rt = rt\<lparr>activeSessions := om_emplace key r (activeSessions rt)\<rparr>;
                   nxt = current_id + 1
               in Some ((current_id, ''''), rt\<lparr>next_session_id := (if nxt = 0 then 1 else nxt)\<rparr>))
   }"

text \<open>The first active session, in key order, with the given id.\<close>

definition find_by_sid :: "u16 \<Rightarrow> PPPOERuntime \<Rightarrow> (pppoe_key_t \<times> nat) option" where
  "find_by_sid sid rt = find (\<lambda>(k, r). map_option session_id (heap rt r) = Some sid) (activeSessions rt)"

text \<open>\<open>deallocateSession\<close>; its detection of batches of deallocations only writes to the log.\<close>

definition deallocateSession :: "env \<Rightarrow> u16 \<Rightarrow> PPPOERuntime \<Rightarrow> (string \<times> PPPOERuntime) option" where
  "deallocateSession env sid rt =
     (if sid \<notin> sessionSet rt then Some (''Cannot find session with this session id'', rt)
      else do {
        rt \<leftarrow> (case find_by_sid sid rt of
               None \<Rightarrow> Some rt
             | Some (k, r) \<Rightarrow> do {
                 s \<leftarrow> heap rt r;
                 rt \<leftarrow> stopSession env (aaa_session_id s) rt;
                 Some (release_sess env r (rt\<lparr>activeSessions := om_erase k (activeSessions rt)\<rparr>))
               });
        Some ('''', rt\<lparr>sessionSet := sessionSet rt - {sid}\<rparr>)
      })"

section \<open>Shutdown and reload\<close>

definition cleanup :: "env \<Rightarrow> PPPOERuntime \<Rightarrow> PPPOERuntime option" where
  "cleanup env rt = do {
     rt \<leftarrow> stopAllSessions env rt;
     let rs = map snd (activeSessions rt);
     let rt = fold (release_sess env) rs (rt\<lparr>activeSessions := []\<rparr>);
     Some (rt\<lparr>sessionSet := {}, pendingSession := {}\<rparr>)
   }"

text \<open>
  \<open>reloadConfig\<close>, given what the YAML file at the configured path decodes to, or
  \<^const>\<open>None\<close> when reading it throws: the configuration is replaced whole, pools included.
\<close>

definition reloadConfig :: "PPPOEGlobalConf option \<Rightarrow> PPPOERuntime \<Rightarrow> PPPOERuntime" where
  "reloadConfig file rt = (case file of None \<Rightarrow> rt | Some c \<Rightarrow> rt\<lparr>conf := c\<rparr>)"

end
