(* ===== verification/Samples.thy ===== *)
theory Samples
  imports Sessions
begin

text \<open>
  A small running daemon for the examples: one subscriber without VLANs, its session with id 1,
  and the AAA session it authenticated as.
\<close>

definition sample_encap :: encapsulation_t where
  "sample_encap = \<lparr>source_mac = MAC 2 0 0 0 0 1, destination_mac = MAC 2 0 0 0 0 9, outer_vlan = 0,
     inner_vlan = 0, encap_type = Some ETH_PPPOE_SESSION\<rparr>"

definition sample_session :: PPPOESession where
  "sample_session = fst (PPPOESession_ctor sample_env sample_encap 1 (runtime_init sample_conf))
     \<lparr>aaa_session_id := 0\<rparr>"

definition sample_aaa :: AAA_Session where
  "sample_aaa = \<lparr>a_session_id = 0, a_username = ''u'', a_address = 0x64400002, a_dns1 = 0x08080808,
     a_dns2 = 0x01010101, a_framed_pool = ''p1'', a_vrf = [], a_unnumbered = [], a_acct = None,
     free_ip = True, to_stop_acct = False, a_ifindex = 0, a_timer = False\<rparr>"

definition sample_rt :: PPPOERuntime where
  "sample_rt = (runtime_init sample_conf)
     \<lparr>heap := [0 \<mapsto> sample_session], next_ref := 1,
      activeSessions := [(key_of_encap sample_encap 1, 0)], sessionSet := {1}, next_session_id := 2,
      aheap := [0 \<mapsto> sample_aaa], next_aref := 1, aaa_sessions := [(0, 0)]\<rparr>"

lemma sample_session_simps [simp]:
  "encap sample_session = sample_encap" "started sample_session = False"
  "aaa_session_id sample_session = 0" "session_id sample_session = 1"
  "lcp sample_session = \<lparr>lcp_fsm = PPP_FSM_ctor 1, echo_counter = 0\<rparr>"
  "ipcp sample_session = PPP_FSM_ctor 1"
  "auth sample_session = \<lparr>auth_pkt_id = 1, auth_started = False\<rparr>"
  "chap sample_session = \<lparr>chap_pkt_id = 1, chap_started = False, challenge = []\<rparr>"
  "our_magic_number sample_session = 7" "peer_magic_number sample_session = 7"
  "echo_timer sample_session = None"
  by (simp_all add: sample_session_def PPPOESession_ctor_def draw_def)

lemma sample_rt_simps [simp]:
  "heap sample_rt = [0 \<mapsto> sample_session]" "aheap sample_rt = [0 \<mapsto> sample_aaa]"
  "aaa_sessions sample_rt = [(0, 0)]" "conf sample_rt = sample_conf"
  "activeSessions sample_rt = [(key_of_encap sample_encap 1, 0)]" "sessionSet sample_rt = {1}"
  "hwaddr sample_rt = zero_mac" "lcp_conf sample_rt = conf_lcp sample_conf"
  "next_ref sample_rt = 1" "next_session_id sample_rt = 2" "ppp_outcoming sample_rt = []"
  "pppoe_outcoming sample_rt = []" "pendingSession sample_rt = {}" "stray_stores sample_rt = 0"
  by (simp_all add: sample_rt_def runtime_init_def)

end
