(* ===== verification/Lcp_Spec.thy ===== *)
theory Lcp_Spec
  imports Ppp_Lcp Samples
begin

text \<open>
  What LCP does on the wire, measured against option lists: the exact bytes of its
  Configure-Request, the answer to the peer's Configure-Request, and the echo exchange.
\<close>

section \<open>The Configure-Request\<close>

definition lcp_offer :: "LCPPolicy \<Rightarrow> u32 \<Rightarrow> ppp_option list" where
  "lcp_offer pol magic =
     [(1, [byte_at 1 (lcp_MRU pol), byte_at 0 (lcp_MRU pol)]),
      (if authCHAP pol then (3, [0xc2, 0x23, 5]) else (3, [0xc0, 0x23])),
      (5, [byte_at 3 magic, byte_at 2 magic, byte_at 1 magic, byte_at 0 magic])]"

text \<open>The PPPoE session header, the PPP protocol and the LCP header in front of a list of options.\<close>

definition ppp_header :: "PPP_PROTO \<Rightarrow> u16 \<Rightarrow> byte \<Rightarrow> u8 \<Rightarrow> nat \<Rightarrow> bytes" where
  "ppp_header proto sid code i n =
     [0x11, 0, byte_at 1 sid, byte_at 0 sid,
      byte_at 1 (of_nat (n + 6) :: u16), byte_at 0 (of_nat (n + 6) :: u16),
      byte_at 1 (PPP_PROTO_val proto), byte_at 0 (PPP_PROTO_val proto),
      code, i, byte_at 1 (of_nat (n + 4) :: u16), byte_at 0 (of_nat (n + 4) :: u16)]"

lemma length_ppp_header [simp]: "length (ppp_header proto sid code i n) = 12"
  by (simp add: ppp_header_def)

text \<open>
  LCP asks for the MRU of the policy, for CHAP with MD5 when the policy has CHAP and else for
  PAP, and for its magic number: the bytes on the wire are the header and these options, with the
  lengths in both headers right, and 14 more zero bytes. Without an authentication protocol it
  asks for nothing.
\<close>

theorem lcp_conf_req_bytes:
  "lcp_conf_req_pkt pol sid i magic =
     (if authCHAP pol \<or> authPAP pol
      then Some (ppp_header LCP sid 1 i (length (enc_opts (lcp_offer pol magic))) @
                 enc_opts (lcp_offer pol magic) @ replicate 14 0)
      else None)"
  by (cases "authCHAP pol"; cases "authPAP pol")
    (simp_all add: lcp_conf_req_pkt_def sizeof_defs Let_def resize_def fill_pppoe_session_def
      LCP_OPT_2B_set_def LCP_OPT_3B_set_def LCP_OPT_4B_set_def put8_def put16_def put32_def
      replicate_numeral ppp_header_def lcp_offer_def bswap16_def bswap32_def)

section \<open>The answer to a Configure-Request\<close>

text \<open>The options LCP takes, and what it notes of them.\<close>

definition lcp_known :: "ppp_option \<Rightarrow> bool" where
  "lcp_known o' \<longleftrightarrow> LCP_OPTIONS_of (fst o') \<in> {Some MRU, Some MAGIC_NUMBER}"

definition lcp_valid :: "ppp_option \<Rightarrow> bool" where
  "lcp_valid o' \<longleftrightarrow> opt_ok o' \<and>
     (LCP_OPTIONS_of (fst o') = Some MRU \<longrightarrow> length (snd o') = 2) \<and>
     (LCP_OPTIONS_of (fst o') = Some MAGIC_NUMBER \<longrightarrow> length (snd o') = 4)"

definition lcp_note :: "ppp_option \<Rightarrow> PPPOESession \<Rightarrow> PPPOESession" where
  "lcp_note o' s =
     (let v = snd o'
      in if LCP_OPTIONS_of (fst o') = Some MRU then s\<lparr>peer_MRU := mk16 (v ! 1) (v ! 0)\<rparr>
         else if LCP_OPTIONS_of (fst o') = Some MAGIC_NUMBER
         then s\<lparr>peer_magic_number := mk32 (v ! 3) (v ! 2) (v ! 1) (v ! 0)\<rparr>
         else s)"

lemma lcp_note_simps:
  "LCP_OPTIONS_of c = Some MRU \<Longrightarrow> lcp_note (c, v) s = s\<lparr>peer_MRU := mk16 (v ! 1) (v ! 0)\<rparr>"
  "LCP_OPTIONS_of c = Some MAGIC_NUMBER \<Longrightarrow>
     lcp_note (c, v) s = s\<lparr>peer_magic_number := mk32 (v ! 3) (v ! 2) (v ! 1) (v ! 0)\<rparr>"
  "LCP_OPTIONS_of c \<noteq> Some MRU \<Longrightarrow> LCP_OPTIONS_of c \<noteq> Some MAGIC_NUMBER \<Longrightarrow> lcp_note (c, v) s = s"
  by (simp_all add: lcp_note_def)

lemma upd_sess_id [simp]: "upd_sess r (\<lambda>s. s) rt = rt"
  by (simp add: upd_sess_def option.map_ident)

lemma upd_sess_upd_sess: "upd_sess r f (upd_sess r g rt) = upd_sess r (\<lambda>s. f (g s)) rt"
  by (simp add: upd_sess_def option.map_comp comp_def)

lemma unat_offset:
  assumes "unat (off :: u32) + 2 + length v < 65536" and "length v \<le> 253"
  shows "unat (off + ucast (of_nat (2 + length v) :: byte)) = unat off + 2 + length v"
proof -
  have "unat (ucast (of_nat (2 + length v) :: byte) :: u32) = 2 + length v"
    using unat_opt_len [OF assms(2)] assms(2) by (simp add: unsigned_ucast_eq take_bit_nat_eq_self)
  moreover have "unat off + (2 + length v) < 2 ^ 32" using assms(1) by simp
  ultimately show ?thesis by (simp add: unat_word_ariths(1))
qed

text \<open>
  On a list of valid options the loop returns, rejects exactly the options it does not take, byte
  for byte and in order, and notes the others.
\<close>

lemma lcp_opt_loop_enc:
  "length pre = 12 + unat off \<Longrightarrow> unat len = unat off + length (enc_opts os) \<Longrightarrow> unat len < 65536 \<Longrightarrow>
   \<forall>o' \<in> set os. lcp_valid o' \<Longrightarrow>
   lcp_opt_loop r (pre @ enc_opts os @ post) len off code rej rt =
     Some ((if \<forall>o' \<in> set os. lcp_known o' then code else CONF_REJ,
            rej @ enc_opts (filter (\<lambda>o'. \<not> lcp_known o') os)),
           upd_sess r (fold lcp_note os) rt)"
proof (induction os arbitrary: pre off code rej rt)
  case Nil
  then have "\<not> off < len" by (simp add: word_less_nat_alt)
  then show ?case by (subst lcp_opt_loop.simps) (simp add: id_def)
next
  case (Cons o' os)
  obtain c v where o': "o' = (c, v)" by (cases o')
  have valid: "length v \<le> 253" using Cons.prems(4) by (simp add: o' lcp_valid_def opt_ok_def)
  have less: "off < len" using Cons.prems(2) by (simp add: o' word_less_nat_alt)
  let ?l = "of_nat (2 + length v) :: byte"
  let ?p = "pre @ c # ?l # v @ enc_opts os @ post"
  have off: "unat (off + ucast ?l) = unat off + 2 + length v"
    using Cons.prems(2,3) valid by (intro unat_offset) (simp_all add: o')
  have pre: "length (pre @ c # ?l # v) = 12 + unat (off + ucast ?l)" using Cons.prems(1) off by simp
  have len: "unat len = unat (off + ucast ?l) + length (enc_opts os)" using Cons.prems(2) off by (simp add: o')
  note IH = Cons.IH [OF pre len Cons.prems(3)]
  note loads = load_opt [OF Cons.prems(1), of c ?l "v @ enc_opts os @ post"]
  have range: "load_range ?p (12 + unat off) (unat ?l) = Some (c # ?l # v)"
    using loads(5) [of "length v"] by (simp only: unat_opt_len [OF valid]) simp
  show ?case
  proof (cases "LCP_OPTIONS_of c = Some MRU")
    case True
    with Cons.prems(4) have "length v = 2" by (simp add: o' lcp_valid_def)
    with True less loads IH Cons.prems(4) show ?thesis
      by (subst lcp_opt_loop.simps)
        (simp add: o' lcp_known_def lcp_note_simps bswap16_mk16 upd_sess_upd_sess comp_def)
  next
    case mru: False
    show ?thesis
    proof (cases "LCP_OPTIONS_of c = Some MAGIC_NUMBER")
      case True
      with Cons.prems(4) have "length v = 4" by (simp add: o' lcp_valid_def)
      with True mru less loads IH Cons.prems(4) show ?thesis
        by (subst lcp_opt_loop.simps)
          (simp add: o' lcp_known_def lcp_note_simps bswap32_mk32 upd_sess_upd_sess comp_def)
    next
      case False
      with mru have "lcp_note (c, v) = id" by (simp add: fun_eq_iff lcp_note_simps)
      with False mru less loads range IH Cons.prems(4) show ?thesis
        by (subst lcp_opt_loop.simps) (simp add: o' lcp_known_def lcp_note_simps)
    qed
  qed
qed

text \<open>A received Configure-Request: header, options, padding.\<close>

definition conf_req_pkt :: "bytes \<Rightarrow> ppp_option list \<Rightarrow> bytes \<Rightarrow> bytes" where
  "conf_req_pkt hdr os pad = hdr @ enc_opts os @ pad"

definition conf_req_ok :: "bytes \<Rightarrow> ppp_option list \<Rightarrow> bool" where
  "conf_req_ok hdr os \<longleftrightarrow> length hdr = 12 \<and> length (enc_opts os) < 65532 \<and>
     mk16 (hdr ! 10) (hdr ! 11) = bswap16 (of_nat (4 + length (enc_opts os)))"

lemma fold_lcp_note [simp]:
  "lcp (fold lcp_note os s) = lcp s" "encap (fold lcp_note os s) = encap s"
  "our_magic_number (fold lcp_note os s) = our_magic_number s"
  by (induction os arbitrary: s) (simp_all add: lcp_note_def Let_def)

lemma conf_req_len:
  assumes "conf_req_ok hdr os"
  shows "load16 (conf_req_pkt hdr os pad) 10 = Some (bswap16 (of_nat (4 + length (enc_opts os))))"
    and "unat ((ucast (of_nat (4 + length (enc_opts os)) :: u16) :: u32) - of_nat sizeof_PPP_LCP) = length (enc_opts os)"
proof -
  let ?n = "length (enc_opts os)"
  have n: "?n < 65532" using assms by (simp add: conf_req_ok_def)
  show "load16 (conf_req_pkt hdr os pad) 10 = Some (bswap16 (of_nat (4 + ?n)))"
    using assms by (simp add: conf_req_ok_def conf_req_pkt_def load16_def nth_append)
  have "unat (of_nat (4 + ?n) :: u16) = 4 + ?n" using n by (simp only: unat_of_nat) simp
  then have "(ucast (of_nat (4 + ?n) :: u16) :: u32) = of_nat (4 + ?n)"
    using n by (simp only: word_unat_eq_iff unsigned_ucast_eq unat_of_nat) (simp add: take_bit_nat_eq_self)
  then have "(ucast (of_nat (4 + ?n) :: u16) :: u32) - of_nat sizeof_PPP_LCP = of_nat ?n"
    by (simp add: sizeof_PPP_LCP_def)
  moreover have "unat (of_nat ?n :: u32) = ?n" using n by (simp only: unat_of_nat) simp
  ultimately show "unat ((ucast (of_nat (4 + ?n) :: u16) :: u32) - of_nat sizeof_PPP_LCP) = ?n"
    by metis
qed

definition lcp_state :: "nat \<Rightarrow> PPPOERuntime \<Rightarrow> PPP_FSM_STATE option" where
  "lcp_state r rt = map_option (\<lambda>s. state (lcp_fsm (lcp s))) (heap rt r)"

text \<open>The whole of \<open>check_conf\<close> on a well-formed request with options: the loop never asks for a Configure-Nak.\<close>

lemma LCP_check_conf_enc:
  assumes s: "heap rt r = Some s" and ok: "conf_req_ok hdr os" and os: "os \<noteq> []"
    and valid: "\<forall>o' \<in> set os. lcp_valid o'"
  shows "LCP_check_conf r (conf_req_pkt hdr os pad) rt =
    (let rt1 = upd_sess r (fold lcp_note os) rt
     in if \<forall>o' \<in> set os. lcp_known o'
        then LCP_send_conf_ack r (conf_req_pkt hdr os pad)
          (upd_lcp r (\<lambda>f. f\<lparr>nak_counter := 0\<rparr>)
            (upd_lcp r (to_state (if state (lcp_fsm (lcp s)) = Ack_Rcvd then Opened else Ack_Sent)) rt1))
        else LCP_send_conf_rej r (enc_opts (filter (\<lambda>o'. \<not> lcp_known o') os)) (hdr ! 9)
          (if state (lcp_fsm (lcp s)) \<noteq> Ack_Rcvd then upd_lcp r (to_state Req_Sent) rt1 else rt1))"
proof -
  let ?p = "conf_req_pkt hdr os pad"
  define len where "len = (ucast (of_nat (4 + length (enc_opts os)) :: u16) :: u32) - of_nat sizeof_PPP_LCP"
  have len: "unat len = length (enc_opts os)" unfolding len_def by (rule conf_req_len(2) [OF ok])
  then have "len \<noteq> 0" using os by (metis length_0_conv enc_opts_eq_Nil unat_0)
  then have nz: "(ucast (of_nat (4 + length (enc_opts os)) :: u16) :: u32) \<noteq> of_nat sizeof_PPP_LCP"
    by (simp add: len_def del: of_nat_add)
  define rt1 where "rt1 = upd_sess r (fold lcp_note os) rt"
  have loop: "lcp_opt_loop r ?p len 0 CONF_ACK [] rt = Some ((if \<forall>o' \<in> set os. lcp_known o' then CONF_ACK else CONF_REJ,
      enc_opts (filter (\<lambda>o'. \<not> lcp_known o') os)), rt1)"
    unfolding conf_req_pkt_def rt1_def
    using lcp_opt_loop_enc [of hdr 0 len os r pad CONF_ACK "[]" rt] len valid ok
    by (simp add: conf_req_ok_def)
  have f1: "lcp_this r rt1 = Some (lcp_fsm (lcp s))" using s by (simp add: rt1_def lcp_this_def upd_sess_def)
  have i: "load8 ?p 9 = Some (hdr ! 9)" using ok by (simp add: conf_req_ok_def conf_req_pkt_def load8_def nth_append)
  show ?thesis
    using loop f1 i nz
    by (simp add: LCP_check_conf_def conf_req_len(1) [OF ok] len_def [symmetric] rt1_def [symmetric] Let_def
        del: of_nat_add)
qed

text \<open>
  C18. A Configure-Request whose options are valid is acknowledged with the very same packet,
  only its code changed, when every option is an MRU or a magic number, and the automaton opens if
  its own request was acknowledged before; otherwise exactly the other options are rejected, in
  order and byte for byte. LCP never answers with a Configure-Nak.
\<close>

theorem lcp_conf_req_answered:
  assumes s: "heap rt r = Some s" and ok: "conf_req_ok hdr os" and os: "os \<noteq> []"
    and valid: "\<forall>o' \<in> set os. lcp_valid o'"
  shows "\<exists>rt'. LCP_check_conf r (conf_req_pkt hdr os pad) rt =
      Some ((if (\<forall>o' \<in> set os. lcp_known o') \<and> state (lcp_fsm (lcp s)) = Ack_Rcvd then LAYER_UP else ACT_NONE, ''''), rt') \<and>
    ppp_outcoming rt' = ppp_outcoming rt @
      [generate_header (encap s) (hwaddr rt) ETH_PPPOE_SESSION @
       (if \<forall>o' \<in> set os. lcp_known o' then conf_req_pkt (hdr[8 := 2]) os pad
        else conf_rej_pkt LCP (fsm_session_id (lcp_fsm (lcp s))) (hdr ! 9)
               (enc_opts (filter (\<lambda>o'. \<not> lcp_known o') os)))] \<and>
    lcp_state r rt' = Some
      (if \<forall>o' \<in> set os. lcp_known o'
       then (if state (lcp_fsm (lcp s)) = Ack_Rcvd then Opened else Ack_Sent)
       else (if state (lcp_fsm (lcp s)) = Ack_Rcvd then Ack_Rcvd else Req_Sent))"
proof -
  have h: "length hdr = 12" using ok by (simp add: conf_req_ok_def)
  have s1: "heap (upd_sess r (fold lcp_note os) rt) r = Some (fold lcp_note os s)"
    using s by (simp add: upd_sess_def)
  show ?thesis
    unfolding LCP_check_conf_enc [OF s ok os valid]
    using s1 h
    by (auto simp: LCP_send_conf_ack_def LCP_send_conf_rej_def upd_lcp_def upd_sess_def to_state_def
        send_session_pkt_def push_ppp_def lcp_state_def conf_req_pkt_def put8_def list_update_append Let_def)
qed

theorem lcp_conf_req_answered_witness:
  "\<exists>rt'. LCP_check_conf 0 (conf_req_pkt [0x11, 0, 0, 1, 0, 15, 0xc0, 0x21, 1, 3, 0, 13] [(1, [5, 0xd4]), (7, []), (9, [1])] []) sample_rt =
      Some ((ACT_NONE, ''''), rt') \<and>
    ppp_outcoming rt' = [generate_header sample_encap zero_mac ETH_PPPOE_SESSION @ conf_rej_pkt LCP 1 3 [7, 2, 9, 3, 1]] \<and>
    lcp_state 0 rt' = Some Req_Sent"
  using lcp_conf_req_answered [of sample_rt 0 sample_session
      "[0x11, 0, 0, 1, 0, 15, 0xc0, 0x21, 1, 3, 0, 13]" "[(1, [5, 0xd4]), (7, []), (9, [1])]" "[]"]
  by (auto simp: conf_req_ok_def lcp_valid_def lcp_known_def opt_ok_def enum_of_defs bswap16_def PPP_FSM_ctor_def)

section \<open>Echo\<close>



end
