(* ===== verification/Ppp_Ipcp.thy ===== *)
theory Ppp_Ipcp
  imports Ppp_Lcp Aaa
begin

text \<open>
  IPCP: \<^verbatim>\<open>src/ppp_ipcp.hpp\<close> and \<^verbatim>\<open>src/ppp_ipcp.cpp\<close>. The peer's address and DNS
  servers are those of its AAA session.
\<close>

definition ipcp_this :: "nat \<Rightarrow> PPPOERuntime \<Rightarrow> PPP_FSM option" where
  "ipcp_this r rt = map_option ipcp (heap rt r)"

definition upd_ipcp :: "nat \<Rightarrow> (PPP_FSM \<Rightarrow> PPP_FSM) \<Rightarrow> PPPOERuntime \<Rightarrow> PPPOERuntime" where
  "upd_ipcp r g = upd_sess r (\<lambda>s. s\<lparr>ipcp := g (ipcp s)\<rparr>)"

section \<open>Sending\<close>

definition ipcp_conf_req_pkt :: "u16 \<Rightarrow> u8 \<Rightarrow> bytes" where
  "ipcp_conf_req_pkt sid i =
     (let pkt = resize (sizeof_ETHERNET_HDR + sizeof_PPPOESESSION_HDR + 256) [];
          pkt = fill_pppoe_session IPCP sid pkt;
          pkt = put8 8 (LCP_CODE_val CONF_REQ) pkt;
          pkt = put8 9 i pkt;
          pkt = IPCP_OPT_4B_set 12 IP_ADDRESS 0x64400001 pkt;
          ipcpOpts = 6;
          pkt = put16 10 (bswap16 (of_nat (sizeof_PPP_LCP + ipcpOpts))) pkt;
          pkt = put16 4 (bswap16 (of_nat (sizeof_PPP_LCP + ipcpOpts + 2))) pkt
      in resize (sizeof_ETHERNET_HDR + sizeof_PPPOESESSION_HDR + sizeof_PPP_LCP + ipcpOpts) pkt)"

definition IPCP_send_conf_req :: "nat \<Rightarrow> PPPOERuntime \<Rightarrow> (FSM_RET \<times> PPPOERuntime) option" where
  "IPCP_send_conf_req r rt = do {
     s \<leftarrow> heap rt r;
     let pkt = ipcp_conf_req_pkt (fsm_session_id (ipcp s)) (pkt_id (ipcp s));
     Some ((ACT_NONE, ''''), send_session_pkt (encap s) pkt rt)
   }"

definition IPCP_send_conf_ack :: "nat \<Rightarrow> bytes \<Rightarrow> PPPOERuntime \<Rightarrow> (FSM_RET \<times> PPPOERuntime) option" where
  "IPCP_send_conf_ack r inPkt rt = do {
     s \<leftarrow> heap rt r;
     let rt = send_session_pkt (encap s) (put8 8 (LCP_CODE_val CONF_ACK) inPkt) rt;
     Some ((if state (ipcp s) = Opened then LAYER_UP else ACT_NONE, ''''), rt)
   }"

text \<open>
  A value is stored at its option without regard to the option's length: bytes past the end of the
  packet are stray stores.
\<close>

definition store32 :: "nat \<Rightarrow> u32 \<Rightarrow> bytes \<Rightarrow> PPPOERuntime \<Rightarrow> bytes \<times> PPPOERuntime" where
  "store32 i v p rt =
     (put32 i v p,
      if i + 4 \<le> length p then rt else rt\<lparr>stray_stores := stray_stores rt + (i + 4 - max i (length p))\<rparr>)"

text \<open>The value of a known option, from the AAA session.\<close>

fun ipcp_value :: "IPCP_OPTIONS \<Rightarrow> AAA_Session \<Rightarrow> u32" where
  "ipcp_value IP_ADDRESS a = a_address a"
| "ipcp_value PRIMARY_DNS a = a_dns1 a"
| "ipcp_value SECONDARY_DNS a = a_dns2 a"

fun set_parameters :: "AAA_Session \<Rightarrow> nat list \<Rightarrow> bytes \<Rightarrow> PPPOERuntime \<Rightarrow> (bytes \<times> PPPOERuntime) option" where
  "set_parameters a [] p rt = Some (p, rt)"
| "set_parameters a (opt # opts) p rt = do {
     o' \<leftarrow> load8 p opt;
     (case IPCP_OPTIONS_of o' of
        None \<Rightarrow> set_parameters a opts p rt
      | Some k \<Rightarrow>
          let (p, rt) = store32 (opt + 2) (bswap32 (ipcp_value k a)) p rt
          in set_parameters a opts p rt)
   }"

definition IPCP_send_conf_nak :: "nat \<Rightarrow> bytes \<Rightarrow> PPPOERuntime \<Rightarrow> (FSM_RET \<times> PPPOERuntime) option" where
  "IPCP_send_conf_nak r inPkt rt = do {
     s \<leftarrow> heap rt r;
     (case getSession (aaa_session_id s) rt of
        (None, err) \<Rightarrow> Some ((ACT_NONE, ''Cannot send conf nak cause: '' @ err), rt)
      | (Some ar, err) \<Rightarrow> do {
          a \<leftarrow> aheap rt ar;
          let inPkt = put8 8 (LCP_CODE_val CONF_NAK) inPkt;
          opts \<leftarrow> parseIPCPOptions inPkt;
          (inPkt, rt) \<leftarrow> set_parameters a opts inPkt rt;
          Some ((ACT_NONE, ''''), send_session_pkt (encap s) inPkt rt)
        })
   }"

definition IPCP_send_conf_rej :: "nat \<Rightarrow> bytes \<Rightarrow> u8 \<Rightarrow> PPPOERuntime \<Rightarrow> (FSM_RET \<times> PPPOERuntime) option" where
  "IPCP_send_conf_rej r rejected_options i rt = do {
     s \<leftarrow> heap rt r;
     let pkt = conf_rej_pkt IPCP (fsm_session_id (ipcp s)) i rejected_options;
     Some ((ACT_NONE, ''''), send_session_pkt (encap s) pkt rt)
   }"

section \<open>Checking a Configure-Request\<close>

text \<open>The options that are none of address and DNS servers, copied as they stand.\<close>

fun collect_rejected :: "bytes \<Rightarrow> nat list \<Rightarrow> bytes option" where
  "collect_rejected p [] = Some []"
| "collect_rejected p (opt # opts) = do {
     o' \<leftarrow> load8 p opt;
     if IPCP_OPTIONS_of o' \<noteq> None then collect_rejected p opts
     else do {
       len \<leftarrow> load8 p (opt + 1);
       bs \<leftarrow> load_range p opt (unat len);
       rest \<leftarrow> collect_rejected p opts;
       Some (bs @ rest)
     }
   }"

fun compare_parameters :: "AAA_Session \<Rightarrow> bytes \<Rightarrow> nat list \<Rightarrow> LCP_CODE \<Rightarrow> LCP_CODE option" where
  "compare_parameters a p [] code = Some code"
| "compare_parameters a p (opt # opts) code = do {
     o' \<leftarrow> load8 p opt;
     (case IPCP_OPTIONS_of o' of
        None \<Rightarrow> compare_parameters a p opts code
      | Some k \<Rightarrow> do {
          v \<leftarrow> load32 p (opt + 2);
          compare_parameters a p opts (if v \<noteq> bswap32 (ipcp_value k a) then CONF_NAK else code)
        })
   }"

text \<open>The second half of \<open>check_conf\<close>: the options are known, the request is answered.\<close>

definition IPCP_answer_conf ::
  "nat \<Rightarrow> bytes \<Rightarrow> nat list \<Rightarrow> AAA_Session \<Rightarrow> PPPOERuntime \<Rightarrow> (FSM_RET \<times> PPPOERuntime) option" where
  "IPCP_answer_conf r inPkt opts a rt = do {
     rejected_options \<leftarrow> collect_rejected inPkt opts;
     if rejected_options \<noteq> [] then do {
       i \<leftarrow> load8 inPkt 9;
       IPCP_send_conf_rej r rejected_options i rt
     }
     else do {
       code \<leftarrow> compare_parameters a inPkt opts CONF_ACK;
       f \<leftarrow> ipcp_this r rt;
       if code = CONF_ACK
       then do {
         let rt = upd_ipcp r (to_state (if state f = Ack_Rcvd then Opened else Ack_Sent)) rt;
         let rt = upd_ipcp r (\<lambda>f. f\<lparr>nak_counter := 0\<rparr>) rt;
         IPCP_send_conf_ack r inPkt rt
       }
       else do {
         let rt = (if state f \<noteq> Ack_Rcvd then upd_ipcp r (to_state Req_Sent) rt else rt);
         let rt = (if code = CONF_NAK then upd_ipcp r (\<lambda>f. f\<lparr>nak_counter := nak_counter f + 1\<rparr>) rt
                   else rt);
         IPCP_send_conf_nak r inPkt rt
       }
     }
   }"

definition IPCP_check_conf :: "nat \<Rightarrow> bytes \<Rightarrow> PPPOERuntime \<Rightarrow> (FSM_RET \<times> PPPOERuntime) option" where
  "IPCP_check_conf r inPkt rt = do {
     s \<leftarrow> heap rt r;
     raw \<leftarrow> load16 inPkt 10;
     let len = (ucast (bswap16 raw) :: u32) - of_nat sizeof_PPP_LCP;
     if len = 0 then Some ((ACT_NONE, ''There is no options''), rt)
     else (case getSession (aaa_session_id s) rt of
        (None, err) \<Rightarrow> Some ((ACT_NONE, ''Cannot send conf nak cause: '' @ err), rt)
      | (Some ar, err) \<Rightarrow> do {
          a \<leftarrow> aheap rt ar;
          let rt = upd_sess r (\<lambda>s. s\<lparr>s_address := a_address a, s_vrf := a_vrf a,
                                      s_unnumbered := a_unnumbered a\<rparr>) rt;
          opts \<leftarrow> parseIPCPOptions inPkt;
          IPCP_answer_conf r inPkt opts a rt
        })
   }"

section \<open>The rest\<close>

definition IPCP_send_code_rej :: "PPPOERuntime \<Rightarrow> (FSM_RET \<times> PPPOERuntime) option" where
  "IPCP_send_code_rej rt = Some ((ACT_NONE, ''''), rt)"

definition IPCP_send_term_req :: "PPPOERuntime \<Rightarrow> (FSM_RET \<times> PPPOERuntime) option" where
  "IPCP_send_term_req rt = Some ((ACT_NONE, ''''), rt)"

definition IPCP_send_term_ack :: "bytes \<Rightarrow> PPPOERuntime \<Rightarrow> (FSM_RET \<times> PPPOERuntime) option" where
  "IPCP_send_term_ack inPkt rt = Some ((ACT_NONE, ''''), rt)"

definition IPCP_send_echo_rep :: "bytes \<Rightarrow> PPPOERuntime \<Rightarrow> (FSM_RET \<times> PPPOERuntime) option" where
  "IPCP_send_echo_rep inPkt rt = Some ((ACT_NONE, ''''), rt)"

definition IPCP_recv_echo_rep :: "bytes \<Rightarrow> PPPOERuntime \<Rightarrow> (FSM_RET \<times> PPPOERuntime) option" where
  "IPCP_recv_echo_rep inPkt rt = Some ((ACT_NONE, ''''), rt)"

definition IPCP_vtable :: "nat \<Rightarrow> fsm_vtable" where
  "IPCP_vtable r =
     \<lparr>this = ipcp_this r, upd_this = upd_ipcp r, v_send_conf_req = IPCP_send_conf_req r,
      v_check_conf = IPCP_check_conf r, v_send_term_ack = IPCP_send_term_ack,
      v_send_echo_rep = IPCP_send_echo_rep, v_recv_echo_rep = IPCP_recv_echo_rep\<rparr>"

section \<open>IPCP as an implementation of the automaton\<close>

lemma ipcp_this_upd_sess [simp]:
  "ipcp_this q (upd_sess r g rt) = (if q = r then map_option (\<lambda>s. ipcp (g s)) (heap rt r) else ipcp_this q rt)"
  by (simp add: ipcp_this_def upd_sess_def option.map_comp comp_def)

lemma ipcp_this_send [simp]: "ipcp_this r (send_session_pkt e p rt) = ipcp_this r rt"
  by (simp add: ipcp_this_def send_session_pkt_def push_ppp_def)

lemma frame_upd_ipcp [simp]:
  "frame rt (upd_ipcp r g rt') \<longleftrightarrow> frame rt rt'" "frame (upd_ipcp r g rt) rt' \<longleftrightarrow> frame rt rt'"
  by (simp_all add: upd_ipcp_def)

lemma upd_ipcp_this [simp]: "ipcp_this r (upd_ipcp r g rt) = map_option g (ipcp_this r rt)"
  by (simp add: upd_ipcp_def ipcp_this_def [of r rt] option.map_comp comp_def)

lemma store32_frame [simp]: "frame rt (snd (store32 i v p rt))" "heap (snd (store32 i v p rt)) = heap rt"
  by (simp_all add: store32_def)

lemma set_parameters_frame:
  "set_parameters a opts p rt = Some (p', rt') \<Longrightarrow> frame rt rt' \<and> heap rt' = heap rt"
proof (induction opts arbitrary: p rt)
  case (Cons opt opts)
  then obtain o' where o': "load8 p opt = Some o'" by (auto simp: bind_eq_Some_conv)
  show ?case
  proof (cases "IPCP_OPTIONS_of o'")
    case None
    with Cons o' show ?thesis by simp
  next
    case (Some k)
    let ?st = "store32 (opt + 2) (bswap32 (ipcp_value k a)) p rt"
    from Some Cons.prems o' have "set_parameters a opts (fst ?st) (snd ?st) = Some (p', rt')"
      by (simp add: case_prod_unfold Let_def)
    from Cons.IH [OF this] show ?thesis by (auto intro: frame_trans [OF store32_frame(1)])
  qed
qed simp

lemma IPCP_send_frames:
  "IPCP_send_conf_req r rt = Some (ret, rt') \<Longrightarrow> frame rt rt' \<and> ipcp_this r rt' = ipcp_this r rt"
  "IPCP_send_conf_ack r p rt = Some ((act, e), rt') \<Longrightarrow> frame rt rt' \<and> ipcp_this r rt' = ipcp_this r rt \<and>
     act = (if map_option state (ipcp_this r rt) = Some Opened then LAYER_UP else ACT_NONE)"
  "IPCP_send_conf_rej r rej i rt = Some ((act, e), rt') \<Longrightarrow>
     frame rt rt' \<and> ipcp_this r rt' = ipcp_this r rt \<and> act = ACT_NONE"
  by (auto simp: IPCP_send_conf_req_def IPCP_send_conf_ack_def IPCP_send_conf_rej_def bind_eq_Some_conv
      Let_def ipcp_this_def [of r rt])

lemma IPCP_send_conf_nak_frame:
  assumes "IPCP_send_conf_nak r p rt = Some ((act, e), rt')"
  shows "frame rt rt' \<and> ipcp_this r rt' = ipcp_this r rt \<and> act = ACT_NONE"
proof -
  from assms obtain s where s: "heap rt r = Some s" by (auto simp: IPCP_send_conf_nak_def bind_eq_Some_conv)
  show ?thesis
  proof (cases "getSession (aaa_session_id s) rt")
    case (Pair q err)
    with assms s show ?thesis
      by (cases q) (auto simp: IPCP_send_conf_nak_def bind_eq_Some_conv Let_def ipcp_this_def
          send_session_pkt_def push_ppp_def dest!: set_parameters_frame)
  qed
qed

lemma IPCP_answer_conf_step:
  assumes f: "ipcp_this r rt = Some f" and run: "IPCP_answer_conf r p opts a rt = Some ((act, e), rt')"
  shows "frame rt rt' \<and> (\<exists>f'. ipcp_this r rt' = Some f' \<and> pkt_id f' = pkt_id f \<and>
    seen_ack f' = seen_ack f \<and> check_step (state f) act (state f'))"
proof -
  from run obtain rej where rej: "collect_rejected p opts = Some rej"
    by (auto simp: IPCP_answer_conf_def bind_eq_Some_conv)
  show ?thesis
  proof (cases "rej = []")
    case False
    with run rej obtain i where "IPCP_send_conf_rej r rej i rt = Some ((act, e), rt')"
      by (auto simp: IPCP_answer_conf_def bind_eq_Some_conv)
    from IPCP_send_frames(3) [OF this] f show ?thesis by (simp add: check_step_def)
  next
    case True
    with run rej f obtain code where code: "compare_parameters a p opts CONF_ACK = Some code"
      by (auto simp: IPCP_answer_conf_def bind_eq_Some_conv)
    show ?thesis
    proof (cases "code = CONF_ACK")
      case True
      with run code f rej \<open>rej = []\<close> have "IPCP_send_conf_ack r p (upd_ipcp r (\<lambda>f. f\<lparr>nak_counter := 0\<rparr>)
          (upd_ipcp r (to_state (if state f = Ack_Rcvd then Opened else Ack_Sent)) rt)) = Some ((act, e), rt')"
        by (simp add: IPCP_answer_conf_def Let_def)
      from IPCP_send_frames(2) [OF this] f show ?thesis by (simp add: to_state_def check_step_def)
    next
      case False
      with run code f rej \<open>rej = []\<close> obtain rt2 where
        2: "rt2 = (if state f \<noteq> Ack_Rcvd then upd_ipcp r (to_state Req_Sent) rt else rt)"
        and 3: "IPCP_send_conf_nak r p (if code = CONF_NAK
          then upd_ipcp r (\<lambda>f. f\<lparr>nak_counter := nak_counter f + 1\<rparr>) rt2 else rt2) = Some ((act, e), rt')"
        by (simp add: IPCP_answer_conf_def Let_def)
      from IPCP_send_conf_nak_frame [OF 3] f show ?thesis
        by (auto simp: 2 to_state_def check_step_def split: if_splits)
    qed
  qed
qed

lemma IPCP_check_conf_step:
  assumes f: "ipcp_this r rt = Some f" and run: "IPCP_check_conf r p rt = Some ((act, e), rt')"
  shows "frame rt rt' \<and> (\<exists>f'. ipcp_this r rt' = Some f' \<and> pkt_id f' = pkt_id f \<and>
    seen_ack f' = seen_ack f \<and> check_step (state f) act (state f'))"
proof -
  from run obtain s raw where s: "heap rt r = Some s" and raw: "load16 p 10 = Some raw"
    by (auto simp: IPCP_check_conf_def bind_eq_Some_conv)
  let ?len = "(ucast (bswap16 raw) :: u32) - of_nat sizeof_PPP_LCP"
  obtain q err where q: "getSession (aaa_session_id s) rt = (q, err)" by (cases "getSession (aaa_session_id s) rt")
  show ?thesis
  proof (cases "?len = 0 \<or> q = None")
    case True
    then have "rt' = rt \<and> act = ACT_NONE"
      using run s raw q by (auto simp: IPCP_check_conf_def Let_def split: if_splits)
    with f show ?thesis by (simp add: check_step_def)
  next
    case False
    define rt1 where "rt1 = (\<lambda>a :: AAA_Session. upd_sess r (\<lambda>s. s\<lparr>s_address := a_address a, s_vrf := a_vrf a,
        s_unnumbered := a_unnumbered a\<rparr>) rt)"
    from run s raw q False obtain a opts where "IPCP_answer_conf r p opts a (rt1 a) = Some ((act, e), rt')"
      unfolding rt1_def by (auto simp: IPCP_check_conf_def bind_eq_Some_conv Let_def)
    moreover have "frame rt (rt1 a)" "ipcp_this r (rt1 a) = Some f" for a
      using f by (simp_all add: rt1_def ipcp_this_def [of r rt] option.map_comp comp_def)
    ultimately show ?thesis using IPCP_answer_conf_step frame_trans by blast
  qed
qed

interpretation ipcp_impl: fsm_impl "IPCP_vtable r" for r
proof unfold_locales
  show "this (IPCP_vtable r) rt = Some f \<Longrightarrow>
      this (IPCP_vtable r) (upd_this (IPCP_vtable r) g rt) = Some (g f)" for rt f g
    by (simp add: IPCP_vtable_def)
  show "v_check_conf (IPCP_vtable r) p rt = Some ((a, e), rt') \<Longrightarrow>
      frame rt rt' \<and> (\<exists>f'. this (IPCP_vtable r) rt' = Some f' \<and> pkt_id f' = pkt_id f \<and>
        seen_ack f' = seen_ack f \<and> check_step (state f) a (state f'))"
    if "this (IPCP_vtable r) rt = Some f" for rt f p a e rt'
    using IPCP_check_conf_step that by (simp add: IPCP_vtable_def)
qed (use IPCP_send_frames in \<open>auto simp: IPCP_vtable_def IPCP_send_term_ack_def IPCP_send_echo_rep_def
    IPCP_recv_echo_rep_def\<close>)

end
