(* ===== verification/Ipcp_Spec.thy ===== *)
theory Ipcp_Spec
  imports Lcp_Spec Ppp_Ipcp Samples
begin

text \<open>
  What IPCP answers to the peer's Configure-Request, measured against option lists: the address
  and the DNS servers of the AAA session are the only values it acknowledges, and the values it
  offers in their place.
\<close>

section \<open>The walk over encoded options\<close>

fun opt_pos :: "nat \<Rightarrow> ppp_option list \<Rightarrow> nat list" where
  "opt_pos i [] = []"
| "opt_pos i ((c, v) # os) = i # opt_pos (i + 2 + length v) os"

lemma ipcp_opts_walk_enc:
  "length pre = 12 + off \<Longrightarrow> \<forall>o' \<in> set os. opt_ok o' \<Longrightarrow>
   ipcp_opts_walk (pre @ enc_opts os @ post) (4 + off + length (enc_opts os)) off = Some (opt_pos (12 + off) os)"
proof (induction os arbitrary: pre off)
  case Nil
  then show ?case by (subst ipcp_opts_walk_unfold) simp
next
  case (Cons o' os)
  obtain c v where o': "o' = (c, v)" by (cases o')
  let ?l = "of_nat (2 + length v) :: byte"
  have l: "unat ?l = 2 + length v"
    using Cons.prems(2) by (intro unat_opt_len) (simp add: o' opt_ok_def)
  have nth: "(pre @ c # ?l # rest) ! (13 + off) = ?l" for rest
    using Cons.prems(1) by (simp add: nth_append)
  have "ipcp_opts_walk ((pre @ c # ?l # v) @ enc_opts os @ post)
      (4 + (off + (2 + length v)) + length (enc_opts os)) (off + (2 + length v)) =
      Some (opt_pos (12 + (off + (2 + length v))) os)"
    using Cons.prems by (intro Cons.IH) simp_all
  moreover have "ipcp_opts_walk (pre @ enc_opts (o' # os) @ post) (4 + off + length (enc_opts (o' # os))) off =
      map_option ((#) (12 + off)) (ipcp_opts_walk ((pre @ c # ?l # v) @ enc_opts os @ post)
        (4 + (off + (2 + length v)) + length (enc_opts os)) (off + (2 + length v)))"
    using Cons.prems(1) nth [of "v @ enc_opts os @ post"] l
    by (subst ipcp_opts_walk_unfold) (simp add: o' add.assoc del: of_nat_add of_nat_Suc)
  ultimately show ?case by (simp add: o' add.assoc)
qed

section \<open>What is accepted, rejected and offered\<close>

definition be32_bytes :: "u32 \<Rightarrow> bytes" where
  "be32_bytes x = [byte_at 3 x, byte_at 2 x, byte_at 1 x, byte_at 0 x]"

definition ipcp_known :: "ppp_option \<Rightarrow> bool" where
  "ipcp_known o' \<longleftrightarrow> IPCP_OPTIONS_of (fst o') \<noteq> None"

definition ipcp_valid :: "ppp_option \<Rightarrow> bool" where
  "ipcp_valid o' \<longleftrightarrow> opt_ok o' \<and> (ipcp_known o' \<longrightarrow> length (snd o') = 4)"

text \<open>The option with the value of the AAA session, and whether it has that value already.\<close>

definition ipcp_assigned :: "AAA_Session \<Rightarrow> ppp_option \<Rightarrow> ppp_option" where
  "ipcp_assigned a o' =
     (case IPCP_OPTIONS_of (fst o') of
        None \<Rightarrow> o'
      | Some k \<Rightarrow> (fst o', be32_bytes (ipcp_value k a)))"

definition ipcp_agrees :: "AAA_Session \<Rightarrow> ppp_option list \<Rightarrow> bool" where
  "ipcp_agrees a os \<longleftrightarrow> (\<forall>o' \<in> set os. ipcp_assigned a o' = o')"

lemma mk32_eq_bswap32:
  "mk32 a b c d = bswap32 x \<longleftrightarrow> [a, b, c, d] = be32_bytes x"
proof
  assume "mk32 a b c d = bswap32 x"
  then have "bswap32 (mk32 a b c d) = x" by simp
  then show "[a, b, c, d] = be32_bytes x" by (auto simp: bswap32_mk32 be32_bytes_def)
qed (simp add: bswap32_def be32_bytes_def)

lemma collect_rejected_enc:
  "\<forall>o' \<in> set os. opt_ok o' \<Longrightarrow>
   collect_rejected (pre @ enc_opts os @ post) (opt_pos (length pre) os) =
     Some (enc_opts (filter (\<lambda>o'. \<not> ipcp_known o') os))"
proof (induction os arbitrary: pre)
  case (Cons o' os)
  obtain c v where o': "o' = (c, v)" by (cases o')
  let ?l = "of_nat (2 + length v) :: byte"
  have l: "unat ?l = 2 + length v"
    using Cons.prems by (intro unat_opt_len) (simp add: o' opt_ok_def)
  note loads = load_opt [of pre "length pre" c ?l "v @ enc_opts os @ post", OF refl]
  have "collect_rejected ((pre @ c # ?l # v) @ enc_opts os @ post) (opt_pos (length (pre @ c # ?l # v)) os) =
      Some (enc_opts (filter (\<lambda>o'. \<not> ipcp_known o') os))"
    using Cons.prems by (intro Cons.IH) simp
  moreover have "load_range (pre @ c # ?l # v @ enc_opts os @ post) (length pre) (unat ?l) = Some (c # ?l # v)"
    using loads(5) [of "length v"] by (simp only: l) simp
  ultimately show ?case using loads(1,2) by (simp add: o' ipcp_known_def)
qed simp

lemma compare_parameters_enc:
  "\<forall>o' \<in> set os. ipcp_valid o' \<Longrightarrow>
   compare_parameters a (pre @ enc_opts os @ post) (opt_pos (length pre) os) code =
     Some (if ipcp_agrees a os then code else CONF_NAK)"
proof (induction os arbitrary: pre code)
  case (Cons o' os)
  obtain c v where o': "o' = (c, v)" by (cases o')
  let ?l = "of_nat (2 + length v) :: byte"
  note loads = load_opt [of pre "length pre" c ?l "v @ enc_opts os @ post", OF refl]
  have IH: "compare_parameters a (pre @ c # ?l # v @ enc_opts os @ post)
      (opt_pos (Suc (Suc (length pre + length v))) os) code =
      Some (if ipcp_agrees a os then code else CONF_NAK)" for code
    using Cons.IH [of "pre @ c # ?l # v" code] Cons.prems by simp
  show ?case
  proof (cases "IPCP_OPTIONS_of c")
    case None
    with IH loads(1) show ?thesis by (simp add: o' ipcp_agrees_def ipcp_assigned_def)
  next
    case (Some k)
    with Cons.prems have "length v = 4" by (simp add: o' ipcp_valid_def ipcp_known_def)
    then obtain v0 v1 v2 v3 where v: "v = [v0, v1, v2, v3]"
      by (auto simp: numeral_eq_Suc length_Suc_conv)
    from loads(4) v have "load32 (pre @ c # ?l # v @ enc_opts os @ post) (length pre + 2) = Some (mk32 v0 v1 v2 v3)"
      by (simp add: load32_def)
    with Some IH loads(1) show ?thesis
      by (auto simp: o' v ipcp_agrees_def ipcp_assigned_def mk32_eq_bswap32)
  qed
qed (simp add: ipcp_agrees_def)

lemma set_parameters_enc:
  "\<forall>o' \<in> set os. ipcp_valid o' \<Longrightarrow>
   set_parameters a (opt_pos (length pre) os) (pre @ enc_opts os @ post) rt =
     Some (pre @ enc_opts (map (ipcp_assigned a) os) @ post, rt)"
proof (induction os arbitrary: pre)
  case (Cons o' os)
  obtain c v where o': "o' = (c, v)" by (cases o')
  let ?l = "of_nat (2 + length v) :: byte"
  note loads = load_opt [of pre "length pre" c ?l "v @ enc_opts os @ post", OF refl]
  have IH: "length w = length v \<Longrightarrow> set_parameters a (opt_pos (Suc (Suc (length pre + length v))) os)
      (pre @ c # ?l # w @ enc_opts os @ post) rt =
      Some (pre @ c # ?l # w @ enc_opts (map (ipcp_assigned a) os) @ post, rt)" for w
    using Cons.IH [of "pre @ c # ?l # w"] Cons.prems by simp
  show ?case
  proof (cases "IPCP_OPTIONS_of c")
    case None
    with IH [of v] loads(1) show ?thesis by (simp add: o' ipcp_assigned_def [of a "(c, v)"])
  next
    case (Some k)
    with Cons.prems have "length v = 4" by (simp add: o' ipcp_valid_def ipcp_known_def)
    then obtain v0 v1 v2 v3 where v: "v = [v0, v1, v2, v3]"
      by (auto simp: numeral_eq_Suc length_Suc_conv)
    have "store32 (length pre + 2) (bswap32 x) (pre @ c # ?l # v @ rest) rt =
        (pre @ c # ?l # be32_bytes x @ rest, rt)" for x rest
      by (simp add: store32_def v be32_bytes_def put32_def bswap32_def list_update_append numeral_eq_Suc)
    with Some IH [of "be32_bytes (ipcp_value k a)"] loads(1) show ?thesis
      by (simp add: o' v ipcp_assigned_def [of a "(c, _)"] be32_bytes_def)
  qed
qed simp

section \<open>The answer\<close>

definition ipcp_verdict :: "AAA_Session \<Rightarrow> ppp_option list \<Rightarrow> LCP_CODE" where
  "ipcp_verdict a os =
     (if \<exists>o' \<in> set os. \<not> ipcp_known o' then CONF_REJ else if ipcp_agrees a os then CONF_ACK else CONF_NAK)"

definition ipcp_reply :: "bytes \<Rightarrow> ppp_option list \<Rightarrow> bytes \<Rightarrow> AAA_Session \<Rightarrow> u16 \<Rightarrow> bytes" where
  "ipcp_reply hdr os pad a sid =
     (if ipcp_verdict a os = CONF_REJ
      then conf_rej_pkt IPCP sid (hdr ! 9) (enc_opts (filter (\<lambda>o'. \<not> ipcp_known o') os))
      else if ipcp_verdict a os = CONF_ACK then conf_req_pkt (hdr[8 := 2]) os pad
      else conf_req_pkt (hdr[8 := 3]) (map (ipcp_assigned a) os) pad)"

definition ipcp_next :: "LCP_CODE \<Rightarrow> PPP_FSM \<Rightarrow> PPP_FSM" where
  "ipcp_next verdict f =
     (if verdict = CONF_REJ then f
      else if verdict = CONF_ACK
      then f\<lparr>state := (if state f = Ack_Rcvd then Opened else Ack_Sent), nak_counter := 0\<rparr>
      else (if state f = Ack_Rcvd then f else f\<lparr>state := Req_Sent\<rparr>)\<lparr>nak_counter := nak_counter f + 1\<rparr>)"

definition ipcp_noted :: "AAA_Session \<Rightarrow> PPPOESession \<Rightarrow> PPPOESession" where
  "ipcp_noted a s = s\<lparr>s_address := a_address a, s_vrf := a_vrf a, s_unnumbered := a_unnumbered a\<rparr>"

lemma ipcp_noted_simps [simp]:
  "ipcp (ipcp_noted a s) = ipcp s" "encap (ipcp_noted a s) = encap s"
  "aaa_session_id (ipcp_noted a s) = aaa_session_id s"
  by (simp_all add: ipcp_noted_def)

lemma parse_conf_req:
  assumes "conf_req_ok hdr os" and "\<forall>o' \<in> set os. opt_ok o'"
  shows "parseIPCPOptions (conf_req_pkt (hdr[8 := c]) os pad) = Some (opt_pos 12 os)"
proof -
  have ok: "conf_req_ok (hdr[8 := c]) os" using assms(1) by (simp add: conf_req_ok_def)
  have "unat (of_nat (4 + length (enc_opts os)) :: u16) = 4 + length (enc_opts os)"
    using assms(1) by (simp only: unat_of_nat) (simp add: conf_req_ok_def)
  moreover have "length (hdr[8 := c]) = 12 + 0" using assms(1) by (simp add: conf_req_ok_def)
  ultimately show ?thesis
    using ipcp_opts_walk_enc [of "hdr[8 := c]" 0 os pad] assms(2) conf_req_len(1) [OF ok, of pad]
    by (simp add: parseIPCPOptions_def conf_req_pkt_def del: of_nat_add)
qed

lemma put8_code: "length hdr = 12 \<Longrightarrow> put8 8 c (conf_req_pkt hdr os pad) = conf_req_pkt (hdr[8 := c]) os pad"
  by (simp add: put8_def conf_req_pkt_def list_update_append)

lemma IPCP_answer_conf_enc:
  assumes s: "heap rt r = Some s" and aaa: "map_of (aaa_sessions rt) (aaa_session_id s) = Some ar"
    and a: "aheap rt ar = Some a" and ok: "conf_req_ok hdr os" and valid: "\<forall>o' \<in> set os. ipcp_valid o'"
  shows "IPCP_answer_conf r (conf_req_pkt hdr os pad) (opt_pos 12 os) a rt =
    Some ((if ipcp_verdict a os = CONF_ACK \<and> state (ipcp s) = Ack_Rcvd then LAYER_UP else ACT_NONE, ''''),
      send_session_pkt (encap s) (ipcp_reply hdr os pad a (fsm_session_id (ipcp s)))
        (upd_sess r (\<lambda>s. s\<lparr>ipcp := ipcp_next (ipcp_verdict a os) (ipcp s)\<rparr>) rt))"
proof -
  let ?p = "conf_req_pkt hdr os pad"
  have opt_ok: "\<forall>o' \<in> set os. opt_ok o'" using valid by (auto simp: ipcp_valid_def)
  have h: "length hdr = 12" using ok by (simp add: conf_req_ok_def)
  have parse: "parseIPCPOptions (conf_req_pkt (hdr[8 := c]) os pad) = Some (opt_pos 12 os)" for c
    by (rule parse_conf_req [OF ok opt_ok])
  have rej: "collect_rejected ?p (opt_pos 12 os) = Some (enc_opts (filter (\<lambda>o'. \<not> ipcp_known o') os))"
    using collect_rejected_enc [OF opt_ok, of hdr pad] h by (simp add: conf_req_pkt_def)
  have cmp: "compare_parameters a ?p (opt_pos 12 os) CONF_ACK =
      Some (if ipcp_agrees a os then CONF_ACK else CONF_NAK)"
    using compare_parameters_enc [OF valid, of a hdr pad CONF_ACK] h by (simp add: conf_req_pkt_def)
  have set: "set_parameters a (opt_pos 12 os) (conf_req_pkt (hdr[8 := c]) os pad) q =
      Some (conf_req_pkt (hdr[8 := c]) (map (ipcp_assigned a) os) pad, q)" for c q
    using set_parameters_enc [OF valid, of a "hdr[8 := c]" pad q] h by (simp add: conf_req_pkt_def)
  have i: "load8 ?p 9 = Some (hdr ! 9)" using h by (simp add: load8_def conf_req_pkt_def nth_append)
  have this: "ipcp_this r rt = Some (ipcp s)" using s by (simp add: ipcp_this_def)
  note simps = IPCP_answer_conf_def rej cmp i this s ipcp_verdict_def ipcp_reply_def ipcp_next_def
    upd_ipcp_def upd_sess_upd_sess to_state_def Let_def put8_code [OF h]
  show ?thesis
  proof (cases "\<exists>o' \<in> set os. \<not> ipcp_known o'")
    case True
    then show ?thesis by (simp add: simps IPCP_send_conf_rej_def filter_empty_conv)
  next
    case known: False
    then have none: "filter (\<lambda>o'. \<not> ipcp_known o') os = []" by (simp add: filter_empty_conv)
    show ?thesis
    proof (cases "ipcp_agrees a os")
      case True
      with known none show ?thesis
        by (simp add: simps IPCP_send_conf_ack_def upd_sess_def)
    next
      case False
      with known none show ?thesis
        by (simp add: simps IPCP_send_conf_nak_def upd_sess_def getSession_def aaa a parse set)
    qed
  qed
qed

text \<open>The whole of \<open>check_conf\<close> on a well-formed request with options.\<close>

lemma IPCP_check_conf_enc:
  assumes s: "heap rt r = Some s" and aaa: "map_of (aaa_sessions rt) (aaa_session_id s) = Some ar"
    and a: "aheap rt ar = Some a" and ok: "conf_req_ok hdr os" and os: "os \<noteq> []"
    and valid: "\<forall>o' \<in> set os. ipcp_valid o'"
  shows "IPCP_check_conf r (conf_req_pkt hdr os pad) rt =
    Some ((if ipcp_verdict a os = CONF_ACK \<and> state (ipcp s) = Ack_Rcvd then LAYER_UP else ACT_NONE, ''''),
      send_session_pkt (encap s) (ipcp_reply hdr os pad a (fsm_session_id (ipcp s)))
        (upd_sess r (\<lambda>s. (ipcp_noted a s)\<lparr>ipcp := ipcp_next (ipcp_verdict a os) (ipcp s)\<rparr>) rt))"
proof -
  let ?n = "4 + length (enc_opts os)"
  have opt_ok: "\<forall>o' \<in> set os. opt_ok o'" using valid by (auto simp: ipcp_valid_def)
  have h: "hdr[8 := hdr ! 8] = hdr" using ok by (simp add: conf_req_ok_def)
  have "unat ((ucast (of_nat ?n :: u16) :: u32) - of_nat sizeof_PPP_LCP) = length (enc_opts os)"
    by (rule conf_req_len(2) [OF ok])
  with os have len: "(ucast (of_nat ?n :: u16) :: u32) \<noteq> of_nat sizeof_PPP_LCP"
    by (metis diff_self enc_opts_eq_Nil length_0_conv unat_0)
  define rt1 where "rt1 = upd_sess r (ipcp_noted a) rt"
  have rt1: "heap rt1 r = Some (ipcp_noted a s)" "aaa_sessions rt1 = aaa_sessions rt" "aheap rt1 = aheap rt"
    using s by (simp_all add: rt1_def upd_sess_def)
  have "IPCP_check_conf r (conf_req_pkt hdr os pad) rt =
      IPCP_answer_conf r (conf_req_pkt hdr os pad) (opt_pos 12 os) a rt1"
    using s aaa a len parse_conf_req [OF ok opt_ok, of "hdr ! 8" pad] h conf_req_len(1) [OF ok, of pad]
    by (simp add: IPCP_check_conf_def getSession_def rt1_def ipcp_noted_def [abs_def] del: of_nat_add)
  with IPCP_answer_conf_enc [of rt1 r "ipcp_noted a s" ar a hdr os pad] rt1 aaa a ok valid
  show ?thesis by (simp add: rt1_def upd_sess_upd_sess)
qed

text \<open>
  C16. IPCP answers a well-formed Configure-Request by its options: if there are options other
  than the address and the two DNS servers, exactly those are rejected; otherwise, if every option
  carries the value of the AAA session, the very same packet comes back as a Configure-Ack (and
  the automaton opens if its own request was acknowledged before); otherwise the packet comes back
  as a Configure-Nak with each value replaced by that of the AAA session. The session takes the
  address of the AAA session in every case.
\<close>

theorem ipcp_conf_req_answered:
  assumes "heap rt r = Some s" and "map_of (aaa_sessions rt) (aaa_session_id s) = Some ar"
    and "aheap rt ar = Some a" and "conf_req_ok hdr os" and "os \<noteq> []" and "\<forall>o' \<in> set os. ipcp_valid o'"
  shows "\<exists>rt' s'. IPCP_check_conf r (conf_req_pkt hdr os pad) rt =
      Some ((if ipcp_verdict a os = CONF_ACK \<and> state (ipcp s) = Ack_Rcvd then LAYER_UP else ACT_NONE, ''''), rt') \<and>
    ppp_outcoming rt' = ppp_outcoming rt @
      [generate_header (encap s) (hwaddr rt) ETH_PPPOE_SESSION @
       (if \<exists>o' \<in> set os. \<not> ipcp_known o'
        then conf_rej_pkt IPCP (fsm_session_id (ipcp s)) (hdr ! 9) (enc_opts (filter (\<lambda>o'. \<not> ipcp_known o') os))
        else if \<forall>o' \<in> set os. ipcp_assigned a o' = o' then conf_req_pkt (hdr[8 := 2]) os pad
        else conf_req_pkt (hdr[8 := 3]) (map (ipcp_assigned a) os) pad)] \<and>
    heap rt' r = Some s' \<and> s_address s' = a_address a \<and> ipcp s' = ipcp_next (ipcp_verdict a os) (ipcp s)"
  using assms
  by (subst IPCP_check_conf_enc [OF assms])
    (simp add: upd_sess_def send_session_pkt_def push_ppp_def ipcp_reply_def ipcp_verdict_def
      ipcp_agrees_def ipcp_noted_def)

theorem ipcp_conf_req_answered_witness:
  "\<exists>rt' s'. IPCP_check_conf 0 (conf_req_pkt [0x11, 0, 0, 1, 0, 12, 0x80, 0x21, 1, 9, 0, 10] [(3, [0, 0, 0, 0])] []) sample_rt =
      Some ((ACT_NONE, ''''), rt') \<and>
    ppp_outcoming rt' = [generate_header sample_encap zero_mac ETH_PPPOE_SESSION @
       [0x11, 0, 0, 1, 0, 12, 0x80, 0x21, 3, 9, 0, 10, 3, 6, 100, 64, 0, 2]] \<and>
    heap rt' 0 = Some s' \<and> s_address s' = 0x64400002"
proof -
  have "IPCP_OPTIONS_of 3 = Some IP_ADDRESS" by (simp add: enum_of_defs)
  then show ?thesis
    using ipcp_conf_req_answered [of sample_rt 0 sample_session 0 sample_aaa
      "[0x11, 0, 0, 1, 0, 12, 0x80, 0x21, 1, 9, 0, 10]" "[(3, [0, 0, 0, 0])]" "[]"]
    by (auto simp: conf_req_ok_def ipcp_valid_def ipcp_known_def opt_ok_def ipcp_verdict_def
        bswap16_def ipcp_assigned_def be32_bytes_def sample_aaa_def conf_req_pkt_def PPP_FSM_ctor_def)
qed

section \<open>Convergence\<close>

lemma ipcp_assigned_idem [simp]: "ipcp_assigned a (ipcp_assigned a o') = ipcp_assigned a o'"
  by (auto simp: ipcp_assigned_def split: option.split)

lemma ipcp_assigned_valid:
  "ipcp_valid o' \<Longrightarrow> ipcp_valid (ipcp_assigned a o')" "ipcp_known (ipcp_assigned a o') = ipcp_known o'"
  by (auto simp: ipcp_assigned_def ipcp_valid_def ipcp_known_def opt_ok_def be32_bytes_def
      split: option.split)

lemma ipcp_verdict_assigned:
  "\<forall>o' \<in> set os. ipcp_known o' \<Longrightarrow> ipcp_verdict a (map (ipcp_assigned a) os) = CONF_ACK"
  by (simp add: ipcp_verdict_def ipcp_agrees_def ipcp_assigned_valid)

text \<open>
  C17. The negotiation of addresses ends: whatever values the peer asks for first, once it repeats
  its request with the values it was offered, that request is acknowledged as it stands.
\<close>

theorem ipcp_nak_converges:
  assumes s: "heap rt r = Some s" and aaa: "map_of (aaa_sessions rt) (aaa_session_id s) = Some ar"
    and a: "aheap rt ar = Some a" and os: "os \<noteq> []"
    and valid: "\<forall>o' \<in> set os. ipcp_valid o' \<and> ipcp_known o'"
    and first: "conf_req_ok hdr os" "IPCP_check_conf r (conf_req_pkt hdr os pad) rt = Some (ret, rt1)"
    and again: "conf_req_ok hdr' (map (ipcp_assigned a) os)"
  shows "\<exists>act rt2. IPCP_check_conf r (conf_req_pkt hdr' (map (ipcp_assigned a) os) pad') rt1 = Some ((act, ''''), rt2) \<and>
    last (ppp_outcoming rt2) = generate_header (encap s) (hwaddr rt) ETH_PPPOE_SESSION @
      conf_req_pkt (hdr'[8 := 2]) (map (ipcp_assigned a) os) pad'"
proof -
  have "\<forall>o' \<in> set os. ipcp_valid o'" using valid by blast
  from IPCP_check_conf_enc [OF s aaa a first(1) os this, of pad] first(2)
  have rt1: "rt1 = send_session_pkt (encap s) (ipcp_reply hdr os pad a (fsm_session_id (ipcp s)))
      (upd_sess r (\<lambda>s. (ipcp_noted a s)\<lparr>ipcp := ipcp_next (ipcp_verdict a os) (ipcp s)\<rparr>) rt)" by simp
  then obtain s1 where s1: "heap rt1 r = Some s1" "aaa_session_id s1 = aaa_session_id s" "encap s1 = encap s"
    using s by (simp add: send_session_pkt_def push_ppp_def upd_sess_def)
  have same: "aaa_sessions rt1 = aaa_sessions rt" "aheap rt1 = aheap rt" "hwaddr rt1 = hwaddr rt"
    by (simp_all add: rt1 send_session_pkt_def push_ppp_def upd_sess_def)
  have "\<forall>o' \<in> set (map (ipcp_assigned a) os). ipcp_valid o'" using valid by (auto intro: ipcp_assigned_valid)
  from IPCP_check_conf_enc [where ar = ar and pad = pad', OF s1(1) _ _ again _ this] s1 same aaa a os valid
  show ?thesis
    by (simp add: ipcp_verdict_assigned ipcp_reply_def send_session_pkt_def push_ppp_def upd_sess_def)
qed

theorem ipcp_nak_converges_witness:
  "\<exists>rt1 act rt2. IPCP_check_conf 0 (conf_req_pkt [0x11, 0, 0, 1, 0, 12, 0x80, 0x21, 1, 9, 0, 10] [(3, [0, 0, 0, 0])] []) sample_rt = Some ((ACT_NONE, ''''), rt1) \<and>
    IPCP_check_conf 0 (conf_req_pkt [0x11, 0, 0, 1, 0, 12, 0x80, 0x21, 1, 10, 0, 10] [(3, [100, 64, 0, 2])] []) rt1 = Some ((act, ''''), rt2) \<and>
    last (ppp_outcoming rt2) = generate_header sample_encap zero_mac ETH_PPPOE_SESSION @
      [0x11, 0, 0, 1, 0, 12, 0x80, 0x21, 2, 10, 0, 10, 3, 6, 100, 64, 0, 2]"
proof -
  have k: "IPCP_OPTIONS_of 3 = Some IP_ADDRESS" by (simp add: enum_of_defs)
  have as: "ipcp_assigned sample_aaa (3, [0, 0, 0, 0]) = (3, [100, 64, 0, 2])"
    by (simp add: ipcp_assigned_def k be32_bytes_def sample_aaa_def)
  have ok: "conf_req_ok [0x11, 0, 0, 1, 0, 12, 0x80, 0x21, 1, 9, 0, 10] [(3, [0, 0, 0, 0])]"
    "conf_req_ok [0x11, 0, 0, 1, 0, 12, 0x80, 0x21, 1, 10, 0, 10] [(3, [100, 64, 0, 2])]"
    by (simp_all add: conf_req_ok_def bswap16_def)
  have valid: "ipcp_valid (3, [0, 0, 0, 0])" "ipcp_known (3, [0, 0, 0, 0])"
    by (simp_all add: ipcp_valid_def ipcp_known_def opt_ok_def k)
  have v: "ipcp_verdict sample_aaa [(3, [0, 0, 0, 0])] = CONF_NAK"
    using valid by (simp add: ipcp_verdict_def ipcp_agrees_def as)
  obtain rt1 where rt1: "IPCP_check_conf 0 (conf_req_pkt [0x11, 0, 0, 1, 0, 12, 0x80, 0x21, 1, 9, 0, 10] [(3, [0, 0, 0, 0])] []) sample_rt = Some ((ACT_NONE, ''''), rt1)"
    using IPCP_check_conf_enc [of sample_rt 0 sample_session 0 sample_aaa
      "[0x11, 0, 0, 1, 0, 12, 0x80, 0x21, 1, 9, 0, 10]" "[(3, [0, 0, 0, 0])]" "[]"] ok valid v by simp
  from ipcp_nak_converges [of sample_rt 0 sample_session 0 sample_aaa "[(3, [0, 0, 0, 0])]" _ _ _ _
      "[0x11, 0, 0, 1, 0, 12, 0x80, 0x21, 1, 10, 0, 10]" "[]", OF _ _ _ _ _ ok(1) rt1] ok(2) valid rt1
  show ?thesis by (auto simp: as conf_req_pkt_def)
qed

end
