(* ===== verification/Session_Tables.thy ===== *)
theory Session_Tables
  imports Sessions
begin

text \<open>
  The tables of sessions as an allocator of session ids: the search for a free id, the invariant
  that ties \<open>sessionSet\<close>, \<open>activeSessions\<close> and the session objects together, and its
  preservation by every operation on the tables.
\<close>

section \<open>The search for a free id\<close>

text \<open>How far round from \<open>start\<close> an id is, in the cycle 1, ..., 65535.\<close>

definition sid_dist :: "u16 \<Rightarrow> u16 \<Rightarrow> nat" where
  "sid_dist start i =
     (if unat start \<le> unat i then unat i - unat start else unat i + 65535 - unat start)"

lemma unat_sid: "unat (i :: u16) \<le> 65535" "(i :: u16) \<noteq> 0 \<Longrightarrow> 1 \<le> unat i"
proof -
  have "unat i < 65536" using unsigned_less [of i] by simp
  then show "unat i \<le> 65535" by simp
  show "i \<noteq> 0 \<Longrightarrow> 1 \<le> unat i" by (simp add: Suc_le_eq unat_gt_0)
qed

lemma unat_sid_next: "unat ((i :: u16) + 1) = (if unat i = 65535 then 0 else unat i + 1)"
proof (cases "unat i = 65535")
  case True
  then have "i = 65535" by (simp add: word_unat_eq_iff)
  then show ?thesis by simp
next
  case False
  then have "unat i + 1 < 65536" using unat_sid(1) [of i] by simp
  then have "unat (of_nat (unat i + 1) :: u16) = unat i + 1" by (simp only: unat_of_nat) simp
  with False show ?thesis by (simp add: add.commute)
qed

definition next_sid :: "u16 \<Rightarrow> u16" where
  "next_sid i = (if i + 1 = 0 then 1 else i + 1)"

lemma next_sid_nonzero [simp]: "next_sid i \<noteq> 0"
  by (simp add: next_sid_def)

lemma unat_next_sid: "unat (next_sid i) = (if unat i = 65535 then 1 else unat i + 1)"
  using unat_sid_next [of i] by (auto simp: next_sid_def unat_eq_0)

lemma sid_dist_next:
  "start \<noteq> 0 \<Longrightarrow> i \<noteq> 0 \<Longrightarrow> next_sid i \<noteq> start \<Longrightarrow> sid_dist start (next_sid i) = sid_dist start i + 1"
  using unat_sid [of start] unat_sid [of i] unat_next_sid [of i]
  by (auto simp: sid_dist_def word_unat_eq_iff split: if_splits)

lemma sid_dist_last:
  "start \<noteq> 0 \<Longrightarrow> i \<noteq> 0 \<Longrightarrow> next_sid i = start \<Longrightarrow> j \<noteq> 0 \<Longrightarrow> sid_dist start j \<le> sid_dist start i"
  using unat_sid [of start] unat_sid [of i] unat_sid [of j] unat_next_sid [of i]
  by (auto simp: sid_dist_def split: if_splits)

lemma sid_dist_inject:
  "start \<noteq> 0 \<Longrightarrow> i \<noteq> 0 \<Longrightarrow> j \<noteq> 0 \<Longrightarrow> sid_dist start i = sid_dist start j \<Longrightarrow> i = j"
  using unat_sid [of start] unat_sid [of i] unat_sid [of j]
  by (auto simp: sid_dist_def word_unat_eq_iff split: if_splits)

lemma sid_search_unfold:
  "i \<noteq> 0 \<Longrightarrow> sid_search used start i =
     (if i \<notin> used then Some (Some i)
      else if next_sid i \<noteq> start then sid_search used start (next_sid i) else Some None)"
  by (subst sid_search.simps) (simp add: next_sid_def Let_def)

text \<open>The search returns: the first free id going round, or none when every id is taken.\<close>

lemma sid_search_from:
  assumes start: "start \<noteq> 0" and i: "i \<noteq> 0"
    and before: "\<And>j. j \<noteq> 0 \<Longrightarrow> sid_dist start j < sid_dist start i \<Longrightarrow> j \<in> used"
  shows "(\<exists>j. sid_search used start i = Some (Some j) \<and> j \<notin> used \<and> j \<noteq> 0 \<and>
      (\<forall>k. k \<noteq> 0 \<and> sid_dist start k < sid_dist start j \<longrightarrow> k \<in> used)) \<or>
    (sid_search used start i = Some None \<and> (\<forall>j. j \<noteq> 0 \<longrightarrow> j \<in> used))"
  using i before
proof (induction "65535 - sid_dist start i" arbitrary: i rule: less_induct)
  case less
  show ?case
  proof (cases "i \<in> used")
    case False
    then show ?thesis using less.prems by (simp add: sid_search_unfold)
  next
    case used: True
    show ?thesis
    proof (cases "next_sid i = start")
      case True
      have "j \<in> used" if "j \<noteq> 0" for j
        using sid_dist_last [OF start less.prems(1) True that] less.prems(2) [OF that]
          sid_dist_inject [OF start less.prems(1) that] used
        by (metis le_neq_implies_less)
      with True used less.prems(1) show ?thesis by (simp add: sid_search_unfold)
    next
      case False
      note d = sid_dist_next [OF start less.prems(1) False]
      have "sid_dist start (next_sid i) \<le> 65534"
        using unat_sid [of start] unat_sid [of "next_sid i"] start by (auto simp: sid_dist_def)
      then have smaller: "65535 - sid_dist start (next_sid i) < 65535 - sid_dist start i" using d by simp
      have "j \<in> used" if "j \<noteq> 0" "sid_dist start j < sid_dist start (next_sid i)" for j
      proof (cases "sid_dist start j = sid_dist start i")
        case True
        with sid_dist_inject [OF start that(1) less.prems(1)] used show ?thesis by simp
      next
        case False
        with that d less.prems(2) show ?thesis by simp
      qed
      from less.hyps [OF smaller _ this] used False less.prems(1) show ?thesis
        by (simp add: sid_search_unfold)
    qed
  qed
qed

lemma sid_dist_self [simp]: "sid_dist start start = 0"
  by (simp add: sid_dist_def)

lemma sid_search_cases:
  assumes "start \<noteq> 0"
  obtains (found) i where "sid_search used start start = Some (Some i)" "i \<notin> used" "i \<noteq> 0"
  | (full) "sid_search used start start = Some None" "\<And>j. j \<noteq> 0 \<Longrightarrow> j \<in> used"
  using sid_search_from [OF assms assms, of used] by auto

section \<open>Frames of the session operations\<close>

lemma frame_on_vpp [simp]:
  "frame rt (snd (on_vpp f rt')) \<longleftrightarrow> frame rt rt'" "frame (snd (on_vpp f rt')) rt \<longleftrightarrow> frame rt' rt"
  by (simp_all add: on_vpp_def case_prod_unfold Let_def)

lemma on_vpp_frame: "on_vpp f rt = (a, rt') \<Longrightarrow> frame rt rt'"
  using frame_on_vpp(1) [of rt f rt] by simp

lemma heap_on_vpp [simp]: "heap (snd (on_vpp f rt)) = heap rt"
  by (simp add: on_vpp_def case_prod_unfold Let_def)

lemma frame_provision_dp [frame_intros]:
  "provision_dp env r rt = Some (err, rt') \<Longrightarrow> frame rt rt'"
  by (auto simp: provision_dp_def run_splits case_prod_unfold split: if_splits)

lemma frame_clear_unnumbered [simp]: "frame rt (fold (clear_unnumbered env) els rt') \<longleftrightarrow> frame rt rt'"
  by (induction els arbitrary: rt') (simp_all add: clear_unnumbered_def)

lemma frame_deprovision_dp [simp]: "frame rt (snd (deprovision_dp env s rt')) \<longleftrightarrow> frame rt rt'"
  by (simp add: deprovision_dp_def case_prod_unfold Let_def)

lemma frame_PPPOESession_dtor [simp]: "frame rt (PPPOESession_dtor env s rt') \<longleftrightarrow> frame rt rt'"
  by (simp add: PPPOESession_dtor_def)

lemma frame_startEcho [simp]: "frame rt (startEcho env r rt') \<longleftrightarrow> frame rt rt'"
  by (simp add: startEcho_def case_prod_unfold Let_def)

lemma PPPOESession_ctor_frame [simp]:
  "frame rt (snd (PPPOESession_ctor env e sid rt')) \<longleftrightarrow> frame rt rt'"
  "sess_ident (fst (PPPOESession_ctor env e sid rt')) = (sid, e)"
  by (simp_all add: PPPOESession_ctor_def case_prod_unfold Let_def sess_ident_def)

section \<open>The invariant\<close>

text \<open>
  The map of active sessions is a map; every entry's object exists, is filed under the key made of
  its own encapsulation and id, and its id is marked as taken; every taken id is the id of exactly
  one entry; 0 is never taken; new references and the next id are valid.
\<close>

definition ident_at :: "PPPOERuntime \<Rightarrow> nat \<Rightarrow> (u16 \<times> encapsulation_t) option" where
  "ident_at rt r = map_option sess_ident (heap rt r)"

definition tables_ok :: "PPPOERuntime \<Rightarrow> bool" where
  "tables_ok rt \<longleftrightarrow>
     om_ok (activeSessions rt) \<and>
     (\<forall>(k, r) \<in> set (activeSessions rt). \<exists>sid e.
        ident_at rt r = Some (sid, e) \<and> k = key_of_encap e sid \<and> sid \<in> sessionSet rt) \<and>
     (\<forall>sid \<in> sessionSet rt. \<exists>(k, r) \<in> set (activeSessions rt). key_session_id k = sid) \<and>
     inj_on key_session_id (fst ` set (activeSessions rt)) \<and>
     0 \<notin> sessionSet rt \<and> next_session_id rt \<noteq> 0 \<and>
     (\<forall>r \<ge> next_ref rt. heap rt r = None)"

lemma tables_ok_frame:
  assumes "frame rt rt'" and "tables_ok rt"
  shows "tables_ok rt'"
proof -
  have "ident_at rt' = ident_at rt" using assms(1) by (simp add: frame_def ident_at_def fun_eq_iff)
  moreover have "heap rt' r = None \<longleftrightarrow> heap rt r = None" for r
    using assms(1) by (metis frame_def option.map_disc_iff)
  ultimately show ?thesis using assms by (simp add: tables_ok_def frame_def)
qed

lemma tables_ok_frame_iff: "frame rt rt' \<Longrightarrow> tables_ok rt' \<longleftrightarrow> tables_ok rt"
  using tables_ok_frame frame_sym by blast

lemma tables_ok_init [simp]: "tables_ok (runtime_init c)"
  by (simp add: tables_ok_def runtime_init_def)

lemma key_of_encap_sel [simp]: "key_session_id (key_of_encap e sid) = sid"
  by (simp add: key_of_encap_def)

lemma tables_ok_entry:
  assumes "tables_ok rt" and "(k, r) \<in> set (activeSessions rt)"
  obtains sid e where "ident_at rt r = Some (sid, e)" "k = key_of_encap e sid" "sid \<in> sessionSet rt"
  using assms by (auto simp: tables_ok_def)

text \<open>Destroying an object no table entry refers to.\<close>

lemma tables_ok_drop:
  assumes "tables_ok rt" and "r \<notin> snd ` set (activeSessions rt)"
  shows "tables_ok (rt\<lparr>heap := (heap rt)(r := None)\<rparr>)"
proof -
  have "ident_at (rt\<lparr>heap := (heap rt)(r := None)\<rparr>) q = ident_at rt q"
    if "(k, q) \<in> set (activeSessions rt)" for k q
    using that assms(2) by (force simp: ident_at_def)
  with assms(1) show ?thesis by (fastforce simp: tables_ok_def)
qed

lemma release_sess_cases:
  obtains (kept) "release_sess env r rt = rt"
  | (gone) rt1 where "frame rt rt1" "release_sess env r rt = rt1\<lparr>heap := (heap rt)(r := None)\<rparr>"
      "heap rt1 = heap rt" "r \<notin> snd ` set (activeSessions rt)"
proof (cases "heap rt r = None \<or> sess_held r rt")
  case True
  then show thesis by (auto simp: release_sess_def split: option.splits intro: kept)
next
  case False
  then obtain s where s: "heap rt r = Some s" by auto
  have f: "heap (fold (clear_unnumbered env) els q) = heap q" for els q
    by (induction els arbitrary: q) (simp_all add: clear_unnumbered_def)
  have "heap (PPPOESession_dtor env s rt) = heap rt"
    by (simp add: PPPOESession_dtor_def deprovision_dp_def case_prod_unfold Let_def f)
  with False s show thesis
    by (auto simp: release_sess_def sess_held_def intro!: gone [of "PPPOESession_dtor env s rt"])
qed

lemma tables_ok_release [simp]:
  assumes "tables_ok rt"
  shows "tables_ok (release_sess env r rt)"
proof (cases rule: release_sess_cases [of env r rt])
  case kept
  with assms show ?thesis by simp
next
  case (gone rt1)
  have "r \<notin> snd ` set (activeSessions rt1)" using gone(1,4) by (simp add: frame_def)
  with tables_ok_drop [OF tables_ok_frame [OF gone(1) assms]] gone(2,3) show ?thesis by simp
qed

lemma release_sess_fields [simp]:
  "activeSessions (release_sess env r rt) = activeSessions rt"
  "sessionSet (release_sess env r rt) = sessionSet rt"
  "pendingSession (release_sess env r rt) = pendingSession rt"
  "next_session_id (release_sess env r rt) = next_session_id rt"
  "next_ref (release_sess env r rt) = next_ref rt"
  by (cases rule: release_sess_cases [of env r rt]; simp add: frame_def)+

section \<open>Allocation\<close>

text \<open>A new entry under a free id.\<close>

lemma tables_ok_insert:
  assumes ok: "tables_ok rt" and i: "i \<notin> sessionSet rt" "i \<noteq> 0" and n: "n \<noteq> 0"
    and s: "sess_ident s = (i, e)"
  shows "map_of (activeSessions rt) (key_of_encap e i) = None"
    and "tables_ok (rt\<lparr>sessionSet := insert i (sessionSet rt), heap := (heap rt)(next_ref rt \<mapsto> s),
      next_ref := next_ref rt + 1, next_session_id := n,
      activeSessions := om_emplace (key_of_encap e i) (next_ref rt) (activeSessions rt)\<rparr>)"
proof -
  let ?k = "key_of_encap e i" and ?act = "activeSessions rt"
  have ids: "key_session_id k \<in> sessionSet rt" if "(k, r) \<in> set ?act" for k r
    by (rule tables_ok_entry [OF ok that]) simp
  show free: "map_of ?act ?k = None"
    using ids [of ?k] i(1) by (auto simp: map_of_eq_None_iff)
  have new: "set (om_emplace ?k (next_ref rt) ?act) = insert (?k, next_ref rt) (set ?act)"
    using free by (simp add: set_om_emplace)
  have old: "r \<noteq> next_ref rt" if "(k, r) \<in> set ?act" for k r
    using tables_ok_entry [OF ok that] ok by (force simp: tables_ok_def ident_at_def)
  have "inj_on key_session_id (insert ?k (fst ` set ?act))"
    using ok ids i(1) by (fastforce simp: tables_ok_def)
  moreover have "\<exists>sid e. ident_at (rt\<lparr>sessionSet := insert i (sessionSet rt), heap := (heap rt)(next_ref rt \<mapsto> s),
      next_ref := next_ref rt + 1, next_session_id := n,
      activeSessions := om_emplace ?k (next_ref rt) ?act\<rparr>) r = Some (sid, e) \<and>
      k = key_of_encap e sid \<and> sid \<in> insert i (sessionSet rt)"
    if "(k, r) \<in> insert (?k, next_ref rt) (set ?act)" for k r
  proof (cases "(k, r) \<in> set ?act")
    case True
    from tables_ok_entry [OF ok this] obtain sid e' where "ident_at rt r = Some (sid, e')"
      "k = key_of_encap e' sid" "sid \<in> sessionSet rt" by blast
    with old [OF True] show ?thesis by (auto simp: ident_at_def)
  next
    case False
    with that s show ?thesis by (auto simp: ident_at_def)
  qed
  moreover have "om_ok (om_emplace ?k (next_ref rt) ?act)"
    using ok by (simp add: tables_ok_def om_ok_emplace)
  ultimately show "tables_ok (rt\<lparr>sessionSet := insert i (sessionSet rt), heap := (heap rt)(next_ref rt \<mapsto> s),
      next_ref := next_ref rt + 1, next_session_id := n,
      activeSessions := om_emplace ?k (next_ref rt) ?act\<rparr>)"
    using ok i(2) n by (auto simp: tables_ok_def new)
qed

lemma allocateSession_found:
  assumes ok: "tables_ok rt" and found: "sid_search (sessionSet rt) (next_session_id rt) (next_session_id rt) = Some (Some i)"
  shows "i \<notin> sessionSet rt" "i \<noteq> 0"
    "allocateSession env e rt = Some ((i, ''''), (rt\<lparr>nd_pos := nd_pos rt + 5\<rparr>)
       \<lparr>sessionSet := insert i (sessionSet rt), heap := (heap rt)(next_ref rt \<mapsto> fst (PPPOESession_ctor env e i rt)),
        next_ref := next_ref rt + 1, next_session_id := next_sid i,
        activeSessions := om_emplace (key_of_encap e i) (next_ref rt) (activeSessions rt)\<rparr>)"
proof -
  have n: "next_session_id rt \<noteq> 0" using ok by (simp add: tables_ok_def)
  show i: "i \<notin> sessionSet rt" "i \<noteq> 0"
    using found by (cases rule: sid_search_cases [OF n, of "sessionSet rt"]; simp)+
  have c: "PPPOESession_ctor env e i (rt\<lparr>sessionSet := insert i (sessionSet rt)\<rparr>) =
      (fst (PPPOESession_ctor env e i rt), rt\<lparr>sessionSet := insert i (sessionSet rt), nd_pos := nd_pos rt + 5\<rparr>)"
    by (simp add: PPPOESession_ctor_def draw_def Let_def)
  have "map_of (activeSessions rt) (key_of_encap e i) = None"
    using tables_ok_insert(1) [OF ok i n] PPPOESession_ctor_frame(2) by blast
  with c found show "allocateSession env e rt = Some ((i, ''''), (rt\<lparr>nd_pos := nd_pos rt + 5\<rparr>)
       \<lparr>sessionSet := insert i (sessionSet rt), heap := (heap rt)(next_ref rt \<mapsto> fst (PPPOESession_ctor env e i rt)),
        next_ref := next_ref rt + 1, next_session_id := next_sid i,
        activeSessions := om_emplace (key_of_encap e i) (next_ref rt) (activeSessions rt)\<rparr>)"
    by (simp add: allocateSession_def next_sid_def Let_def)
qed

lemma allocateSession_cases:
  assumes ok: "tables_ok rt"
  obtains (found) i s rt1 where "i \<notin> sessionSet rt" "i \<noteq> 0" "sess_ident s = (i, e)"
      "frame rt rt1" "heap rt1 = heap rt"
      "allocateSession env e rt = Some ((i, ''''),
        rt1\<lparr>sessionSet := insert i (sessionSet rt), heap := (heap rt)(next_ref rt \<mapsto> s),
            next_ref := next_ref rt + 1, next_session_id := next_sid i,
            activeSessions := om_emplace (key_of_encap e i) (next_ref rt) (activeSessions rt)\<rparr>)"
      "rt1 = rt\<lparr>nd_pos := nd_pos rt1\<rparr>"
  | (full) "allocateSession env e rt = Some ((0, ''Maximum of sessions''), rt)"
      "\<And>j. j \<noteq> 0 \<Longrightarrow> j \<in> sessionSet rt"
proof -
  have n: "next_session_id rt \<noteq> 0" using ok by (simp add: tables_ok_def)
  show thesis
  proof (cases rule: sid_search_cases [OF n, of "sessionSet rt", case_names found full])
    case (found i)
    note alloc = allocateSession_found(3) [OF ok found(1), of env e]
    show thesis
      by (rule that(1) [OF found(2,3) PPPOESession_ctor_frame(2) _ _ alloc]) simp_all
  next
    case full
    then show thesis by (intro that(2)) (simp_all add: allocateSession_def)
  qed
qed

lemma tables_ok_allocateSession:
  assumes ok: "tables_ok rt" and run: "allocateSession env e rt = Some ((i, err), rt')"
  shows "tables_ok rt'"
proof (cases rule: allocateSession_cases [OF ok, of e env, case_names found full])
  case (found j s rt1)
  have ok1: "tables_ok rt1" using tables_ok_frame [OF found(4) ok] .
  from found(4) have "sessionSet rt1 = sessionSet rt" "next_ref rt1 = next_ref rt"
    "activeSessions rt1 = activeSessions rt"
    by (simp_all add: frame_def)
  with tables_ok_insert(2) [OF ok1 _ found(2) next_sid_nonzero found(3), of j] found(1,5,6) run
  show ?thesis by simp
next
  case full
  with ok run show ?thesis by simp
qed

section \<open>Deallocation\<close>

lemma tables_ok_remove:
  assumes ok: "tables_ok rt" and k: "(k, r) \<in> set (activeSessions rt)"
  shows "tables_ok (rt\<lparr>activeSessions := om_erase k (activeSessions rt),
    sessionSet := sessionSet rt - {key_session_id k}\<rparr>)"
proof -
  let ?act = "om_erase k (activeSessions rt)"
  have sub: "set ?act = {(k', q) \<in> set (activeSessions rt). k' \<noteq> k}" by (simp add: set_om_erase)
  have inj: "key_session_id k' \<noteq> key_session_id k" if "(k', q) \<in> set ?act" for k' q
    using ok k that sub by (force simp: tables_ok_def inj_on_def)
  have "inj_on key_session_id (fst ` set ?act)"
    using ok by (auto simp: tables_ok_def sub intro: inj_on_subset)
  moreover have "\<exists>sid e. ident_at rt q = Some (sid, e) \<and> k' = key_of_encap e sid \<and>
      sid \<in> sessionSet rt - {key_session_id k}" if "(k', q) \<in> set ?act" for k' q
  proof -
    have "(k', q) \<in> set (activeSessions rt)" using that sub by simp
    from tables_ok_entry [OF ok this] inj [OF that] show ?thesis by fastforce
  qed
  moreover have "\<exists>(k', q) \<in> set ?act. key_session_id k' = sid"
    if "sid \<in> sessionSet rt - {key_session_id k}" for sid
    using ok that by (fastforce simp: tables_ok_def sub)
  ultimately show ?thesis
    using ok by (auto simp: tables_ok_def om_ok_erase ident_at_def)
qed

lemma find_by_sid_active:
  assumes ok: "tables_ok rt" and "find_by_sid sid rt = Some (k, r)"
  shows "(k, r) \<in> set (activeSessions rt) \<and> key_session_id k = sid"
proof -
  from find_SomeD [OF assms(2) [unfolded find_by_sid_def]]
  have in_act: "(k, r) \<in> set (activeSessions rt)" and "map_option session_id (heap rt r) = Some sid" by simp_all
  with tables_ok_entry [OF ok in_act] show ?thesis by (force simp: ident_at_def sess_ident_def)
qed

lemma find_by_sid_found:
  assumes ok: "tables_ok rt" and "sid \<in> sessionSet rt"
  shows "\<exists>k r. find_by_sid sid rt = Some (k, r)"
proof -
  obtain k r where kr: "(k, r) \<in> set (activeSessions rt)" "key_session_id k = sid"
    using assms by (force simp: tables_ok_def)
  from tables_ok_entry [OF ok kr(1)] kr(2) have "map_option session_id (heap rt r) = Some sid"
    by (force simp: ident_at_def sess_ident_def)
  with kr(1) have "\<not> (\<exists>x \<in> set (activeSessions rt). case x of (k, r) \<Rightarrow> map_option session_id (heap rt r) = Some sid) \<Longrightarrow> False"
    by blast
  then have "find_by_sid sid rt \<noteq> None" by (auto simp: find_by_sid_def find_None_iff)
  then show ?thesis by auto
qed

lemma deallocateSession_cases:
  assumes ok: "tables_ok rt" and run: "deallocateSession env sid rt = Some (err, rt')"
  obtains (unknown) "sid \<notin> sessionSet rt" "err = ''Cannot find session with this session id''" "rt' = rt"
  | (freed) k r rt1 where "sid \<in> sessionSet rt" "err = ''''" "(k, r) \<in> set (activeSessions rt)"
      "key_session_id k = sid" "frame rt rt1"
      "rt' = (release_sess env r (rt1\<lparr>activeSessions := om_erase k (activeSessions rt)\<rparr>))
         \<lparr>sessionSet := sessionSet rt - {sid}\<rparr>"
proof (cases "sid \<in> sessionSet rt")
  case False
  with run show thesis by (intro unknown) (simp_all add: deallocateSession_def)
next
  case True
  from find_by_sid_found [OF ok this] obtain k r where f: "find_by_sid sid rt = Some (k, r)" by blast
  with run True have "\<exists>s rt1. heap rt r = Some s \<and> stopSession env (aaa_session_id s) rt = Some rt1 \<and>
      rt' = (release_sess env r (rt1\<lparr>activeSessions := om_erase k (activeSessions rt1)\<rparr>))
        \<lparr>sessionSet := sessionSet rt1 - {sid}\<rparr> \<and> err = ''''"
    by (auto simp: deallocateSession_def bind_eq_Some_conv)
  then obtain s rt1 where "heap rt r = Some s" and st: "stopSession env (aaa_session_id s) rt = Some rt1"
    and rt': "rt' = (release_sess env r (rt1\<lparr>activeSessions := om_erase k (activeSessions rt1)\<rparr>))
         \<lparr>sessionSet := sessionSet rt1 - {sid}\<rparr>" "err = ''''"
    by blast
  have fr: "frame rt rt1" using frame_stopSession [OF st] .
  then have "activeSessions rt1 = activeSessions rt" "sessionSet rt1 = sessionSet rt"
    by (simp_all add: frame_def)
  with find_by_sid_active [OF ok f] True rt' fr show thesis by (intro freed [of k r rt1]) auto
qed

lemma tables_ok_deallocateSession:
  assumes ok: "tables_ok rt" and run: "deallocateSession env sid rt = Some (err, rt')"
  shows "tables_ok rt'"
proof (cases rule: deallocateSession_cases [OF ok run, case_names unknown freed])
  case unknown
  with ok show ?thesis by simp
next
  case (freed k r rt1)
  let ?q = "rt1\<lparr>activeSessions := om_erase k (activeSessions rt)\<rparr>"
  have same: "activeSessions rt1 = activeSessions rt" "sessionSet rt1 = sessionSet rt"
    using freed(5) by (simp_all add: frame_def)
  have q_ok: "tables_ok (?q\<lparr>sessionSet := sessionSet rt - {sid}\<rparr>)"
    using tables_ok_remove [OF tables_ok_frame [OF freed(5) ok], of k r] freed(3,4) same by simp
  show ?thesis
  proof (cases rule: release_sess_cases [of env r ?q])
    case kept
    with freed(6) q_ok show ?thesis by simp
  next
    case (gone rt2)
    have fr: "frame (?q\<lparr>sessionSet := sessionSet rt - {sid}\<rparr>) (rt2\<lparr>sessionSet := sessionSet rt - {sid}\<rparr>)"
      using gone(1) by (simp add: frame_def)
    moreover have "rt' = rt2\<lparr>sessionSet := sessionSet rt - {sid}, heap := (heap rt2)(r := None)\<rparr>"
      using gone(2,3) freed(6) by simp
    moreover have "activeSessions rt2 = activeSessions ?q" using gone(1) by (simp add: frame_def)
    ultimately show ?thesis
      using tables_ok_drop [OF tables_ok_frame [OF fr q_ok], of r] gone(4) by simp
  qed
qed

lemma sessionSet_deallocateSession:
  "tables_ok rt \<Longrightarrow> deallocateSession env sid rt = Some (err, rt') \<Longrightarrow> sessionSet rt' = sessionSet rt - {sid}"
  by (erule (1) deallocateSession_cases) auto

section \<open>The other operations\<close>

lemma tables_ok_pending [simp]:
  "tables_ok (rt\<lparr>pendingSession := p\<rparr>) \<longleftrightarrow> tables_ok rt"
  "tables_ok (rt\<lparr>pending_timers := ts\<rparr>) \<longleftrightarrow> tables_ok rt"
  by (simp_all add: tables_ok_def ident_at_def)

lemma tables_ok_pendeSession: "pendeSession m o' i c rt = (err, rt') \<Longrightarrow> tables_ok rt \<Longrightarrow> tables_ok rt'"
  by (auto simp: pendeSession_def Let_def split: if_splits)

lemma tables_ok_checkSession: "checkSession m o' i c rt = (b, rt') \<Longrightarrow> tables_ok rt \<Longrightarrow> tables_ok rt'"
  by (auto simp: checkSession_def Let_def split: if_splits)

lemma tables_ok_clearPendingSession [simp]: "tables_ok (clearPendingSession key rt) \<longleftrightarrow> tables_ok rt"
  by (simp add: clearPendingSession_def)

lemma tables_ok_reloadConfig [simp]: "tables_ok (reloadConfig file rt) \<longleftrightarrow> tables_ok rt"
  by (simp add: reloadConfig_def tables_ok_def ident_at_def split: option.split)

section \<open>Session ids as an allocator\<close>

text \<open>What \<open>process_padr\<close> sees of an allocation: the id, unless there is an error text.\<close>

definition sid_alloc :: "env \<Rightarrow> encapsulation_t \<Rightarrow> PPPOERuntime \<Rightarrow> (u16 \<times> PPPOERuntime) option" where
  "sid_alloc env e rt = (case allocateSession env e rt of
       Some ((i, err), rt') \<Rightarrow> if err = '''' then Some (i, rt') else None
     | None \<Rightarrow> None)"

definition sid_free :: "env \<Rightarrow> u16 \<Rightarrow> PPPOERuntime \<Rightarrow> PPPOERuntime option" where
  "sid_free env i rt = map_option snd (deallocateSession env i rt)"

lemma sid_alloc_Some:
  assumes "tables_ok rt" and "sid_alloc env e rt = Some (i, rt')"
  shows "allocateSession env e rt = Some ((i, ''''), rt') \<and> i \<notin> sessionSet rt \<and> i \<noteq> 0 \<and>
    sessionSet rt' = insert i (sessionSet rt)"
  by (cases rule: allocateSession_cases [OF assms(1), of e env])
    (use assms(2) in \<open>auto simp: sid_alloc_def\<close>)

interpretation sid: allocator "sid_alloc env e" "sid_free env" sessionSet tables_ok for env e
proof unfold_locales
  fix rt i rt'
  assume ok: "tables_ok rt"
  note alloc = sid_alloc_Some [OF ok]
  show "sid_alloc env e rt = Some (i, rt') \<Longrightarrow> i \<notin> sessionSet rt" using alloc by blast
  show "sid_alloc env e rt = Some (i, rt') \<Longrightarrow> sessionSet rt' = insert i (sessionSet rt)" using alloc by blast
  show "sid_alloc env e rt = Some (i, rt') \<Longrightarrow> tables_ok rt'" using alloc tables_ok_allocateSession [OF ok] by blast
  show "sid_free env i rt = Some rt' \<Longrightarrow> sessionSet rt' = sessionSet rt - {i}"
    using sessionSet_deallocateSession [OF ok] by (auto simp: sid_free_def)
  show "sid_free env i rt = Some rt' \<Longrightarrow> tables_ok rt'"
    using tables_ok_deallocateSession [OF ok] by (auto simp: sid_free_def)
qed

end
