(* ===== verification/Ppp_Auth.thy ===== *)
theory Ppp_Auth
  imports Ipcp_Spec Session_Tables
begin

text \<open>
  Authentication of the peer: PAP (\<^verbatim>\<open>src/ppp_auth.hpp\<close>, \<^verbatim>\<open>src/ppp_auth.cpp\<close>) and CHAP
  (\<^verbatim>\<open>src/ppp_chap.hpp\<close>, \<^verbatim>\<open>src/ppp_chap.cpp\<close>). Either hands the peer's credentials to
  the AAA and answers from its callback; an accepted peer starts IPCP.
\<close>

section \<open>Starting IPCP\<close>

definition ipcp_start :: "nat \<Rightarrow> PPPOERuntime \<Rightarrow> PPPOERuntime option" where
  "ipcp_start r rt = do {
     rt \<leftarrow> fsm_open (IPCP_vtable r) rt;
     layer_up (IPCP_vtable r) rt
   }"

section \<open>PAP\<close>

text \<open>
  The reply is as long as its headers; the message length byte is stored behind them, past the
  end of the packet. The identifier of the request is not copied.
\<close>

definition pap_reply :: "PAP_CODE \<Rightarrow> u16 \<Rightarrow> PPPOERuntime \<Rightarrow> bytes \<times> PPPOERuntime" where
  "pap_reply code sid rt =
     (let pkt = resize (sizeof_PPPOESESSION_HDR + sizeof_PPP_AUTH_HDR) [];
          pkt = fill_pppoe_session PAP sid pkt;
          pkt = put8 8 (PAP_CODE_val code) pkt;
          (pkt, rt) = store8 12 0 pkt rt;
          pkt = put16 10 (bswap16 (of_nat sizeof_PPP_AUTH_HDR)) pkt;
          pkt = put16 4 (bswap16 (of_nat (sizeof_PPP_AUTH_HDR + 2))) pkt
      in (pkt, rt))"

definition PAP_send_auth_ack :: "nat \<Rightarrow> PPPOERuntime \<Rightarrow> (FSM_RET \<times> PPPOERuntime) option" where
  "PAP_send_auth_ack r rt = do {
     s \<leftarrow> heap rt r;
     let (pkt, rt) = pap_reply AUTHENTICATE_ACK (session_id s) rt;
     rt \<leftarrow> ipcp_start r (send_session_pkt (encap s) pkt rt);
     Some ((LAYER_UP, ''''), rt)
   }"

definition PAP_send_auth_nak :: "nat \<Rightarrow> PPPOERuntime \<Rightarrow> (FSM_RET \<times> PPPOERuntime) option" where
  "PAP_send_auth_nak r rt = do {
     s \<leftarrow> heap rt r;
     let (pkt, rt) = pap_reply AUTHENTICATE_NAK (session_id s) rt;
     Some ((ACT_NONE, ''''), send_session_pkt (encap s) pkt rt)
   }"

definition PAP_callback :: "nat \<Rightarrow> u32 \<Rightarrow> string \<Rightarrow> PPPOERuntime \<Rightarrow> (FSM_RET \<times> PPPOERuntime) option" where
  "PAP_callback r sid err rt = do {
     s \<leftarrow> heap rt r;
     if err = ''''
     then PAP_send_auth_ack r
            (upd_sess r (\<lambda>s. s\<lparr>aaa_session_id := sid, auth := (auth s)\<lparr>auth_started := True\<rparr>\<rparr>) rt)
     else PAP_send_auth_nak r rt
   }"

section \<open>CHAP\<close>

definition chap_reply :: "CHAP_CODE \<Rightarrow> u16 \<Rightarrow> PPPOERuntime \<Rightarrow> bytes \<times> PPPOERuntime" where
  "chap_reply code sid rt =
     (let pkt = resize (sizeof_PPPOESESSION_HDR + sizeof_PPP_CHAP_HDR) [];
          pkt = fill_pppoe_session CHAP sid pkt;
          pkt = put8 8 (CHAP_CODE_val code) pkt;
          (pkt, rt) = store8 29 0 pkt rt;
          pkt = put16 10 (bswap16 (of_nat sizeof_PPP_CHAP_HDR)) pkt;
          pkt = put16 4 (bswap16 (of_nat (sizeof_PPP_CHAP_HDR + 2))) pkt
      in (pkt, rt))"

definition CHAP_send_auth_ack :: "nat \<Rightarrow> PPPOERuntime \<Rightarrow> (FSM_RET \<times> PPPOERuntime) option" where
  "CHAP_send_auth_ack r rt = do {
     s \<leftarrow> heap rt r;
     let (pkt, rt) = chap_reply SUCCESS (session_id s) rt;
     rt \<leftarrow> ipcp_start r (send_session_pkt (encap s) pkt rt);
     Some ((LAYER_UP, ''''), rt)
   }"

definition CHAP_send_auth_nak :: "nat \<Rightarrow> PPPOERuntime \<Rightarrow> (FSM_RET \<times> PPPOERuntime) option" where
  "CHAP_send_auth_nak r rt = do {
     s \<leftarrow> heap rt r;
     let (pkt, rt) = chap_reply FAILURE (session_id s) rt;
     Some ((ACT_NONE, ''''), send_session_pkt (encap s) pkt rt)
   }"

definition CHAP_callback :: "nat \<Rightarrow> u32 \<Rightarrow> string \<Rightarrow> PPPOERuntime \<Rightarrow> (FSM_RET \<times> PPPOERuntime) option" where
  "CHAP_callback r sid err rt = do {
     s \<leftarrow> heap rt r;
     if err = ''''
     then CHAP_send_auth_ack r
            (upd_sess r (\<lambda>s. s\<lparr>aaa_session_id := sid, chap := (chap s)\<lparr>chap_started := True\<rparr>\<rparr>) rt)
     else CHAP_send_auth_nak r rt
   }"

text \<open>Running a stored callback: the object it is bound to must still be there.\<close>

fun run_callback :: call_fn where
  "run_callback (PAP_auth_callback r) sid err rt = map_option snd (PAP_callback r sid err rt)"
| "run_callback (CHAP_auth_callback r) sid err rt = map_option snd (CHAP_callback r sid err rt)"

section \<open>Requests\<close>

definition PAP_recv_auth_req :: "env \<Rightarrow> nat \<Rightarrow> bytes \<Rightarrow> PPPOERuntime \<Rightarrow> PPPOERuntime option" where
  "PAP_recv_auth_req env r inPkt rt = do {
     s \<leftarrow> heap rt r;
     if auth_started (auth s) then map_option snd (PAP_send_auth_ack r rt)
     else do {
       user_len \<leftarrow> load8 inPkt 12;
       uname \<leftarrow> load_range inPkt 13 (unat user_len);
       pass_len \<leftarrow> load8 inPkt (12 + unat user_len + 1);
       password \<leftarrow> load_range inPkt (12 + 1 + unat user_len + 1) (unat pass_len);
       let rt = upd_sess r (\<lambda>s. s\<lparr>username := string_of_bytes uname\<rparr>) rt;
       startSession env run_callback (string_of_bytes uname) (string_of_bytes password) (encap s)
         (PAP_auth_callback r) rt
     }
   }"

definition PAP_receive :: "env \<Rightarrow> nat \<Rightarrow> bytes \<Rightarrow> PPPOERuntime \<Rightarrow> (FSM_RET \<times> PPPOERuntime) option" where
  "PAP_receive env r inPkt rt = do {
     code \<leftarrow> load8 inPkt 8;
     rt \<leftarrow> (case PAP_CODE_of code of
            Some AUTHENTICATE_REQ \<Rightarrow> PAP_recv_auth_req env r inPkt rt
          | _ \<Rightarrow> Some rt);
     Some ((ACT_NONE, ''''), rt)
   }"

text \<open>\<open>open\<close> is empty: PAP waits for the peer.\<close>

definition PAP_open :: "nat \<Rightarrow> PPPOERuntime \<Rightarrow> PPPOERuntime" where
  "PAP_open r rt = rt"

text \<open>The length of the name is computed in eight bits.\<close>

definition CHAP_recv_auth_req :: "env \<Rightarrow> nat \<Rightarrow> bytes \<Rightarrow> PPPOERuntime \<Rightarrow> PPPOERuntime option" where
  "CHAP_recv_auth_req env r inPkt rt = do {
     s \<leftarrow> heap rt r;
     if chap_started (chap s) then map_option snd (CHAP_send_auth_ack r rt)
     else do {
       len \<leftarrow> load16 inPkt 10;
       let user_len = (ucast (bswap16 len - of_nat sizeof_PPP_CHAP_HDR) :: byte);
       uname \<leftarrow> load_range inPkt 29 (unat user_len);
       val \<leftarrow> load_range inPkt 13 16;
       identifier \<leftarrow> load8 inPkt 9;
       let resp = identifier # val;
       let rt = upd_sess r (\<lambda>s. s\<lparr>username := string_of_bytes uname\<rparr>) rt;
       startSessionCHAP env run_callback (string_of_bytes uname) (challenge (chap s)) resp (encap s)
         (CHAP_auth_callback r) rt
     }
   }"

definition CHAP_receive :: "env \<Rightarrow> nat \<Rightarrow> bytes \<Rightarrow> PPPOERuntime \<Rightarrow> (FSM_RET \<times> PPPOERuntime) option" where
  "CHAP_receive env r inPkt rt = do {
     code \<leftarrow> load8 inPkt 8;
     rt \<leftarrow> (case CHAP_CODE_of code of
            Some RESPONSE \<Rightarrow> CHAP_recv_auth_req env r inPkt rt
          | _ \<Rightarrow> Some rt);
     Some ((ACT_NONE, ''''), rt)
   }"

text \<open>The challenge: the MD5 of 32 random characters, cut or filled to 16 bytes.\<close>

definition chap_challenge_pkt :: "u16 \<Rightarrow> bytes \<Rightarrow> string \<Rightarrow> bytes" where
  "chap_challenge_pkt sid chal ac =
     (let pkt = resize (sizeof_PPPOESESSION_HDR + sizeof_PPP_CHAP_HDR) [];
          pkt = fill_pppoe_session CHAP sid pkt;
          pkt = put8 8 (CHAP_CODE_val CHALLENGE) pkt;
          pkt = put_range 13 chal pkt;
          pkt = put8 12 16 pkt;
          pkt = pkt @ bytes_of_string ac;
          pkt = put16 10 (bswap16 (of_nat (sizeof_PPP_CHAP_HDR + length ac))) pkt;
          pkt = put16 4 (bswap16 (of_nat (sizeof_PPP_CHAP_HDR + length ac + 2))) pkt
      in pkt)"

definition CHAP_send_conf_req :: "env \<Rightarrow> nat \<Rightarrow> PPPOERuntime \<Rightarrow> (FSM_RET \<times> PPPOERuntime) option" where
  "CHAP_send_conf_req env r rt = do {
     s \<leftarrow> heap rt r;
     let pppoe_conf = pppoe_policy (conf rt) (outer_vlan (encap s));
     let (str, rt) = random_string env 32 rt;
     let chal = resize 16 (md5 env (bytes_of_string str));
     let rt = upd_sess r (\<lambda>s. s\<lparr>chap := (chap s)\<lparr>challenge := chal\<rparr>\<rparr>) rt;
     let pkt = chap_challenge_pkt (session_id s) chal (ac_name pppoe_conf);
     Some ((ACT_NONE, ''''), send_session_pkt (encap s) pkt rt)
   }"

definition CHAP_open :: "env \<Rightarrow> nat \<Rightarrow> PPPOERuntime \<Rightarrow> PPPOERuntime option" where
  "CHAP_open env r rt = map_option snd (CHAP_send_conf_req env r rt)"

section \<open>Frames\<close>

lemma frame_ipcp_start [frame_intros]: "ipcp_start r rt = Some rt' \<Longrightarrow> frame rt rt'"
  by (auto simp: ipcp_start_def bind_eq_Some_conv
      intro: frame_trans dest!: ipcp_impl.open_frame ipcp_impl.layer_up_frame)

lemma frame_replies [simp]:
  "frame rt (snd (pap_reply code sid rt')) \<longleftrightarrow> frame rt rt'"
  "frame rt (snd (chap_reply ccode sid rt')) \<longleftrightarrow> frame rt rt'"
  by (simp_all add: pap_reply_def chap_reply_def store8_def Let_def)

lemma frame_from: "ipcp_start r rt1 = Some rt' \<Longrightarrow> frame rt rt1 \<Longrightarrow> frame rt rt'"
  using frame_ipcp_start frame_trans by blast

lemma frame_send_auth:
  "PAP_send_auth_ack r rt = Some (ret, rt') \<Longrightarrow> frame rt rt'"
  "PAP_send_auth_nak r rt = Some (ret, rt') \<Longrightarrow> frame rt rt'"
  "CHAP_send_auth_ack r rt = Some (ret, rt') \<Longrightarrow> frame rt rt'"
  "CHAP_send_auth_nak r rt = Some (ret, rt') \<Longrightarrow> frame rt rt'"
  by (auto simp: PAP_send_auth_ack_def PAP_send_auth_nak_def CHAP_send_auth_ack_def CHAP_send_auth_nak_def
      run_splits case_prod_unfold elim!: frame_from)

lemma frame_upd_sess_trans:
  "frame (upd_sess r g rt) rt' \<Longrightarrow> (\<And>s. sess_ident (g s) = sess_ident s) \<Longrightarrow> frame rt rt'"
  by simp

lemma call_frames_run_callback [simp]: "call_frames run_callback"
proof -
  have "frame rt rt'" if "run_callback cb sid err rt = Some rt'" for cb sid err rt rt'
    using that
    by (cases cb) (auto simp: PAP_callback_def CHAP_callback_def bind_eq_Some_conv split: if_splits
        dest!: frame_send_auth)
  then show ?thesis by (simp add: call_frames_def)
qed

lemma frame_PAP_recv_auth_req [frame_intros]: "PAP_recv_auth_req env r p rt = Some rt' \<Longrightarrow> frame rt rt'"
  by (auto simp: PAP_recv_auth_req_def run_splits split: if_splits
      dest!: frame_send_auth frame_startSession(1) [OF call_frames_run_callback])

lemma frame_CHAP_recv_auth_req [frame_intros]: "CHAP_recv_auth_req env r p rt = Some rt' \<Longrightarrow> frame rt rt'"
  by (auto simp: CHAP_recv_auth_req_def run_splits split: if_splits
      dest!: frame_send_auth frame_startSession(2) [OF call_frames_run_callback])

lemma frame_PAP_receive [frame_intros]:
  assumes "PAP_receive env r p rt = Some (ret, rt')"
  shows "frame rt rt'"
proof -
  from assms obtain code where c: "(case PAP_CODE_of code of
      Some AUTHENTICATE_REQ \<Rightarrow> PAP_recv_auth_req env r p rt | _ \<Rightarrow> Some rt) = Some rt'"
    by (auto simp: PAP_receive_def bind_eq_Some_conv)
  show ?thesis
  proof (cases "PAP_CODE_of code = Some AUTHENTICATE_REQ")
    case True
    with c frame_PAP_recv_auth_req show ?thesis by simp
  next
    case False
    with c have "rt' = rt" by (simp split: option.splits PAP_CODE.splits)
    then show ?thesis by simp
  qed
qed

lemma frame_CHAP_receive [frame_intros]:
  assumes "CHAP_receive env r p rt = Some (ret, rt')"
  shows "frame rt rt'"
proof -
  from assms obtain code where c: "(case CHAP_CODE_of code of
      Some RESPONSE \<Rightarrow> CHAP_recv_auth_req env r p rt | _ \<Rightarrow> Some rt) = Some rt'"
    by (auto simp: CHAP_receive_def bind_eq_Some_conv)
  show ?thesis
  proof (cases "CHAP_CODE_of code = Some RESPONSE")
    case True
    with c frame_CHAP_recv_auth_req show ?thesis by simp
  next
    case False
    with c have "rt' = rt" by (simp split: option.splits CHAP_CODE.splits)
    then show ?thesis by simp
  qed
qed

lemma frame_CHAP_open [frame_intros]: "CHAP_open env r rt = Some rt' \<Longrightarrow> frame rt rt'"
  by (auto simp: CHAP_open_def CHAP_send_conf_req_def run_splits random_string_def case_prod_unfold)

section \<open>What the callbacks send\<close>

definition ipcp_offer :: "ppp_option list" where
  "ipcp_offer = [(3, [100, 64, 0, 1])]"

lemma ipcp_conf_req_bytes:
  "ipcp_conf_req_pkt sid i = ppp_header IPCP sid 1 i 6 @ enc_opts ipcp_offer @ replicate 14 0"
  by (simp add: ipcp_conf_req_pkt_def sizeof_defs Let_def resize_def fill_pppoe_session_def
      IPCP_OPT_4B_set_def put8_def put16_def put32_def replicate_numeral ppp_header_def ipcp_offer_def
      bswap16_def bswap32_def)

lemma pap_reply_bytes:
  "pap_reply code sid rt =
     (ppp_header PAP sid (PAP_CODE_val code) 0 0, rt\<lparr>stray_stores := stray_stores rt + 1\<rparr>)"
  by (simp add: pap_reply_def store8_def sizeof_defs Let_def resize_def fill_pppoe_session_def
      put8_def put16_def replicate_numeral ppp_header_def bswap16_def)

text \<open>From the initial state IPCP sends its request and waits for the acknowledgement.\<close>

lemma ipcp_start_initial:
  assumes "heap rt r = Some s" and "state (ipcp s) = Initial"
  shows "ipcp_start r rt = Some
    (upd_sess r (\<lambda>s. s\<lparr>ipcp := (ipcp s)\<lparr>state := Req_Sent\<rparr>\<rparr>)
      (send_session_pkt (encap s) (ipcp_conf_req_pkt (fsm_session_id (ipcp s)) (pkt_id (ipcp s))) rt))"
  using assms
  by (simp add: ipcp_start_def fsm_open_def layer_up_def IPCP_vtable_def ipcp_this_def upd_ipcp_def
      upd_sess_def to_state_def IPCP_send_conf_req_def send_session_pkt_def push_ppp_def)

definition pap_accepted :: "u32 \<Rightarrow> PPPOESession \<Rightarrow> PPPOESession" where
  "pap_accepted sid s = s\<lparr>aaa_session_id := sid, auth := (auth s)\<lparr>auth_started := True\<rparr>,
     ipcp := (ipcp s)\<lparr>state := Req_Sent\<rparr>\<rparr>"

definition pap_welcome :: "PPPOESession \<Rightarrow> mac_t \<Rightarrow> bytes list" where
  "pap_welcome s hw =
     [generate_header (encap s) hw ETH_PPPOE_SESSION @ ppp_header PAP (session_id s) 2 0 0,
      generate_header (encap s) hw ETH_PPPOE_SESSION @
        ppp_header IPCP (fsm_session_id (ipcp s)) 1 (pkt_id (ipcp s)) 6 @ [3, 6, 100, 64, 0, 1] @ replicate 14 0]"

lemma PAP_callback_ok:
  assumes "heap rt r = Some s" and "state (ipcp s) = Initial"
  shows "PAP_callback r sid '''' rt = Some ((LAYER_UP, ''''),
    rt\<lparr>heap := (heap rt)(r \<mapsto> pap_accepted sid s), ppp_outcoming := ppp_outcoming rt @ pap_welcome s (hwaddr rt),
       stray_stores := stray_stores rt + 1\<rparr>)"
  using assms
  by (simp add: PAP_callback_def PAP_send_auth_ack_def pap_reply_bytes pap_accepted_def pap_welcome_def
      ipcp_start_initial upd_sess_def [of r _ rt] send_session_pkt_def push_ppp_def)
    (simp add: upd_sess_def send_session_pkt_def push_ppp_def ipcp_conf_req_bytes ipcp_offer_def)

lemma PAP_callback_refused:
  "heap rt r = Some s \<Longrightarrow> err \<noteq> '''' \<Longrightarrow> PAP_callback r sid err rt = Some ((ACT_NONE, ''''),
     send_session_pkt (encap s) (ppp_header PAP (session_id s) 3 0 0) (rt\<lparr>stray_stores := stray_stores rt + 1\<rparr>))"
  by (simp add: PAP_callback_def PAP_send_auth_nak_def pap_reply_bytes)

text \<open>
  The PAP callback. On success the session takes the id of its AAA session, an
  Authenticate-Ack goes out, followed by IPCP's Configure-Request for 100.64.0.1, and IPCP waits
  for its acknowledgement; on failure an Authenticate-Nak goes out and the session stays as it
  was. Either reply has identifier 0 and is built with one store past the end of its packet.
\<close>

theorem pap_callback_answers:
  assumes "heap rt r = Some s" and "state (ipcp s) = Initial"
  shows "(\<exists>rt'. PAP_callback r sid '''' rt = Some ((LAYER_UP, ''''), rt') \<and>
      ppp_outcoming rt' = ppp_outcoming rt @
        [generate_header (encap s) (hwaddr rt) ETH_PPPOE_SESSION @ ppp_header PAP (session_id s) 2 0 0,
         generate_header (encap s) (hwaddr rt) ETH_PPPOE_SESSION @
           ppp_header IPCP (fsm_session_id (ipcp s)) 1 (pkt_id (ipcp s)) 6 @ [3, 6, 100, 64, 0, 1] @ replicate 14 0] \<and>
      heap rt' r = Some (s\<lparr>aaa_session_id := sid, auth := (auth s)\<lparr>auth_started := True\<rparr>,
        ipcp := (ipcp s)\<lparr>state := Req_Sent\<rparr>\<rparr>) \<and>
      stray_stores rt' = stray_stores rt + 1) \<and>
    (\<forall>err. err \<noteq> '''' \<longrightarrow> (\<exists>rt'. PAP_callback r sid err rt = Some ((ACT_NONE, ''''), rt') \<and>
      ppp_outcoming rt' = ppp_outcoming rt @
        [generate_header (encap s) (hwaddr rt) ETH_PPPOE_SESSION @ ppp_header PAP (session_id s) 3 0 0] \<and>
      heap rt' = heap rt \<and> stray_stores rt' = stray_stores rt + 1))"
  using assms
  by (simp add: PAP_callback_ok PAP_callback_refused pap_accepted_def pap_welcome_def send_session_pkt_def push_ppp_def)

theorem pap_callback_answers_witness:
  "\<exists>rt'. PAP_callback 0 0 '''' sample_rt = Some ((LAYER_UP, ''''), rt') \<and> length (ppp_outcoming rt') = 2"
  using pap_callback_answers [of sample_rt 0 sample_session 0]
  by (auto simp: PPP_FSM_ctor_def)

end
