(* ===== verification/Ppp.thy ===== *)
theory Ppp
  imports Ppp_Auth
begin

text \<open>
  PPP frames: \<open>processPPP\<close> of \<^verbatim>\<open>src/ppp.hpp\<close> and \<^verbatim>\<open>src/ppp.cpp\<close> finds
  the session, drives its protocols and acts on what they report; and the echo timer of
  \<^verbatim>\<open>src/session.cpp\<close>.
\<close>

section \<open>The protocols of a session\<close>

text \<open>The first frame of a session starts LCP.\<close>

definition start_session :: "env \<Rightarrow> nat \<Rightarrow> PPPOERuntime \<Rightarrow> PPPOERuntime option" where
  "start_session env r rt = do {
     s \<leftarrow> heap rt r;
     if \<not> started s
     then do {
       rt \<leftarrow> fsm_open (LCP_vtable env r) rt;
       rt \<leftarrow> layer_up (LCP_vtable env r) rt;
       Some (upd_sess r (\<lambda>s. s\<lparr>started := True\<rparr>) rt)
     }
     else Some rt
   }"

text \<open>LCP is up: authenticate, with CHAP if the policy has it, else with PAP, else not at all.\<close>

definition lcp_layer_up :: "env \<Rightarrow> nat \<Rightarrow> PPPOERuntime \<Rightarrow> PPPOERuntime option" where
  "lcp_layer_up env r rt =
     (if authCHAP (lcp_conf rt) then CHAP_open env r rt
      else if authPAP (lcp_conf rt) then Some (PAP_open r rt)
      else ipcp_start r rt)"

definition process_lcp :: "env \<Rightarrow> nat \<Rightarrow> bytes \<Rightarrow> PPPOERuntime \<Rightarrow> (string \<times> PPPOERuntime) option" where
  "process_lcp env r inPkt rt = do {
     ((action, err), rt) \<leftarrow> receive (LCP_vtable env r) inPkt rt;
     if err \<noteq> '''' then Some ('''', rt)
     else if action = LAYER_UP then do { rt \<leftarrow> lcp_layer_up env r rt; Some ('''', rt) }
     else if action = LAYER_DOWN then do {
       s \<leftarrow> heap rt r;
       (err, rt) \<leftarrow> deallocateSession env (session_id s) rt;
       Some (if err \<noteq> '''' then ''Cannot terminate session: '' @ err else '''', rt)
     }
     else Some ('''', rt)
   }"

text \<open>
  IPCP is up: the session goes into the dataplane, its interface is noted for accounting, and the
  echo timer starts, even if the dataplane refused the session.
\<close>

definition ipcp_layer_up :: "env \<Rightarrow> nat \<Rightarrow> PPPOERuntime \<Rightarrow> PPPOERuntime option" where
  "ipcp_layer_up env r rt = do {
     (err, rt) \<leftarrow> provision_dp env r rt;
     s \<leftarrow> heap rt r;
     Some (startEcho env r (mapIfaceToSession (aaa_session_id s) (ifindex s) rt))
   }"

definition process_ipcp :: "env \<Rightarrow> nat \<Rightarrow> bytes \<Rightarrow> PPPOERuntime \<Rightarrow> PPPOERuntime option" where
  "process_ipcp env r inPkt rt = do {
     ((action, err), rt) \<leftarrow> receive (IPCP_vtable r) inPkt rt;
     if err = '''' \<and> action = LAYER_UP then ipcp_layer_up env r rt else Some rt
   }"

text \<open>Any other protocol: the packet goes back with the code Code-Reject.\<close>

definition reject_proto :: "nat \<Rightarrow> bytes \<Rightarrow> PPPOERuntime \<Rightarrow> PPPOERuntime option" where
  "reject_proto r inPkt rt = do {
     s \<leftarrow> heap rt r;
     let (pkt, rt) = store8 8 (LCP_CODE_val CODE_REJ) inPkt rt;
     Some (send_session_pkt (encap s) pkt rt)
   }"

definition processPPP :: "env \<Rightarrow> bytes \<Rightarrow> encapsulation_t \<Rightarrow> PPPOERuntime \<Rightarrow> (string \<times> PPPOERuntime) option" where
  "processPPP env inPkt e rt = do {
     raw \<leftarrow> load16 inPkt 2;
     (case map_of (activeSessions rt) (key_of_encap e (bswap16 raw)) of
        None \<Rightarrow> Some ('''', rt)
      | Some r \<Rightarrow> do {
          rt \<leftarrow> start_session env r rt;
          proto \<leftarrow> load16 inPkt 6;
          (case PPP_PROTO_of (bswap16 proto) of
             Some LCP \<Rightarrow> process_lcp env r inPkt rt
           | Some PAP \<Rightarrow> do { (ret, rt) \<leftarrow> PAP_receive env r inPkt rt; Some ('''', rt) }
           | Some CHAP \<Rightarrow> do { (ret, rt) \<leftarrow> CHAP_receive env r inPkt rt; Some ('''', rt) }
           | Some IPCP \<Rightarrow> do { rt \<leftarrow> process_ipcp env r inPkt rt; Some ('''', rt) }
           | _ \<Rightarrow> do { rt \<leftarrow> reject_proto r inPkt rt; Some ('''', rt) })
        })
   }"

section \<open>The echo timer\<close>

text \<open>
  The echo wait has ended: the request goes out and the timer starts again, or, after too many
  requests without a reply, the session with this session's id is terminated. The handler holds
  the session until it returns.
\<close>

definition sendEchoReq :: "env \<Rightarrow> nat \<Rightarrow> PPPOERuntime \<Rightarrow> PPPOERuntime option" where
  "sendEchoReq env r rt = do {
     ((action, err), rt) \<leftarrow> LCP_send_echo_req r rt;
     if action = LAYER_DOWN
     then do {
       s \<leftarrow> heap rt r;
       (err, rt) \<leftarrow> deallocateSession env (session_id s) rt;
       Some (release_sess env r (upd_sess r (\<lambda>s. s\<lparr>echo_timer := None\<rparr>) rt))
     }
     else Some (startEcho env r rt)
   }"

section \<open>The session tables\<close>

lemma frame_start_session [frame_intros]:
  assumes "start_session env r rt = Some rt'"
  shows "frame rt rt'"
proof -
  from assms obtain s where s: "heap rt r = Some s" by (auto simp: start_session_def bind_eq_Some_conv)
  show ?thesis
  proof (cases "started s")
    case True
    with assms s show ?thesis by (simp add: start_session_def)
  next
    case False
    with assms s obtain rt1 rt2 where "fsm_open (LCP_vtable env r) rt = Some rt1"
      "layer_up (LCP_vtable env r) rt1 = Some rt2" "rt' = upd_sess r (\<lambda>s. s\<lparr>started := True\<rparr>) rt2"
      by (auto simp: start_session_def bind_eq_Some_conv)
    with frame_trans [OF lcp_impl.open_frame lcp_impl.layer_up_frame] show ?thesis by auto
  qed
qed

lemma frame_lcp_layer_up [frame_intros]: "lcp_layer_up env r rt = Some rt' \<Longrightarrow> frame rt rt'"
  by (auto simp: lcp_layer_up_def PAP_open_def split: if_splits dest: frame_CHAP_open frame_ipcp_start)

lemma frame_ipcp_layer_up [frame_intros]: "ipcp_layer_up env r rt = Some rt' \<Longrightarrow> frame rt rt'"
  by (auto simp: ipcp_layer_up_def bind_eq_Some_conv dest: frame_provision_dp)

lemma frame_process_ipcp [frame_intros]: "process_ipcp env r p rt = Some rt' \<Longrightarrow> frame rt rt'"
  by (auto simp: process_ipcp_def bind_eq_Some_conv split: if_splits
      dest!: ipcp_impl.receive_frame frame_ipcp_layer_up intro: frame_trans)

lemma frame_reject_proto [frame_intros]: "reject_proto r p rt = Some rt' \<Longrightarrow> frame rt rt'"
  by (auto simp: reject_proto_def bind_eq_Some_conv store8_def Let_def)

end
