(* ===== verification/Pppoe.thy ===== *)
theory Pppoe
  imports Session_Tables Samples
begin

text \<open>
  PPPoE discovery: \<^verbatim>\<open>src/pppoe.hpp\<close> and \<^verbatim>\<open>src/pppoe.cpp\<close>.
\<close>

section \<open>Tags\<close>

text \<open>\<open>insertTag\<close> returns the size of the tag in eight bits.\<close>

definition insertTag :: "bytes \<Rightarrow> PPPOE_TAG \<Rightarrow> string \<Rightarrow> u8 \<times> bytes" where
  "insertTag pkt tag val =
     (let tagvec = resize 4 [];
          tagvec = put16 0 (bswap16 (PPPOE_TAG_val tag)) tagvec;
          tagvec = put16 2 (bswap16 (of_nat (length val))) tagvec;
          tagvec = tagvec @ bytes_of_string val
      in (of_nat (length tagvec), pkt @ tagvec))"

text \<open>
  \<open>parseTags\<close>: the map of tags and an error text. A tag is any 16-bit value; a tag that is there
  already is an error. The loop starts without looking at the size of the vector, so a vector
  that ends inside a tag is read past its end.
\<close>

type_synonym tag_map = "(u16, string) omap"

function parse_tags_from :: "bytes \<Rightarrow> nat \<Rightarrow> tag_map \<Rightarrow> (tag_map \<times> string) option" where
  "parse_tags_from pkt offset tags = do {
     raw_tag \<leftarrow> load16 pkt offset;
     raw_len \<leftarrow> load16 pkt (offset + 2);
     let tag = bswap16 raw_tag;
     let len = unat (bswap16 raw_len);
     if tag = PPPOE_TAG_val END_OF_LIST then Some (tags, '''')
     else do {
       val \<leftarrow> (if len > 0 then map_option string_of_bytes (load_range pkt (offset + 4) len) else Some []);
       if map_of tags tag \<noteq> None
       then Some (tags, ''Cannot insert tag '' @ to_string_digits (unat tag) @ '' in tag map'')
       else
         let tags = om_emplace tag val tags
         in if offset + 4 + len \<ge> length pkt then Some (tags, '''')
            else parse_tags_from pkt (offset + 4 + len) tags
     }
   }"
  by pat_completeness auto
termination by (relation "measure (\<lambda>(pkt, offset, tags). length pkt - offset)") auto

declare parse_tags_from.simps [simp del]

definition parseTags :: "bytes \<Rightarrow> (tag_map \<times> string) option" where
  "parseTags pkt = parse_tags_from pkt 0 []"

section \<open>PADI and PADR\<close>

text \<open>The header of a reply: type and version 1, the code, session id and length still 0.\<close>

definition disc_reply :: "PPPOE_CODE \<Rightarrow> bytes" where
  "disc_reply code =
     (let pkt = resize sizeof_PPPOEDISC_HDR [];
          pkt = put8 0 0x11 pkt;
          pkt = put16 2 0 pkt;
          pkt = put16 4 0 pkt
      in put8 1 (PPPOE_CODE_val code) pkt)"

text \<open>
  The service selected for the peer's tag, \<^const>\<open>None\<close> when it is refused. An empty tag that is
  one of the names counts as not selected.
\<close>

definition select_service :: "PPPOEPolicy \<Rightarrow> string \<Rightarrow> string option" where
  "select_service pol tag =
     (let selected = (if tag \<in> set (service_name pol) then tag else []);
          selected = (if selected = [] \<and> ignore_service_name pol then tag else selected)
      in if selected = [] \<and> \<not> ignore_service_name pol then None else Some selected)"

text \<open>Insert a tag and add its size to the length so far.\<close>

definition add_tag :: "PPPOE_TAG \<Rightarrow> string \<Rightarrow> bytes \<times> u16 \<Rightarrow> bytes \<times> u16" where
  "add_tag tag val pt =
     (let (pkt, taglen) = pt; (n, pkt) = insertTag pkt tag val in (pkt, taglen + ucast n))"

definition finish_disc :: "bytes \<times> u16 \<Rightarrow> bytes" where
  "finish_disc pt =
     (let (pkt, taglen) = pt
      in resize (sizeof_PPPOEDISC_HDR + unat taglen) (put16 4 (bswap16 taglen) pkt))"

text \<open>The result: an error text, or none and the reply.\<close>

definition process_padi ::
  "env \<Rightarrow> bytes \<Rightarrow> encapsulation_t \<Rightarrow> PPPOERuntime \<Rightarrow> ((string \<times> bytes) \<times> PPPOERuntime) option" where
  "process_padi env inPkt e rt =
     (let outPkt = disc_reply PADO in
      if length inPkt < sizeof_PPPOEDISC_HDR then Some ((''Too small packet'', outPkt), rt)
      else do {
        (tags, err) \<leftarrow> parseTags (drop sizeof_PPPOEDISC_HDR inPkt);
        if err \<noteq> '''' then Some ((''Cannot process PADI: '' @ err, outPkt), rt)
        else
          let pppoe_conf = pppoe_policy (conf rt) (outer_vlan e);
              pt = add_tag AC_NAME (ac_name pppoe_conf) (outPkt, 0);
              pt = (case map_of tags (PPPOE_TAG_val HOST_UNIQ) of
                      Some v \<Rightarrow> add_tag HOST_UNIQ v pt | None \<Rightarrow> pt)
          in case (case map_of tags (PPPOE_TAG_val SERVICE_NAME) of
                     Some v \<Rightarrow> map_option (\<lambda>sel. add_tag SERVICE_NAME sel pt) (select_service pppoe_conf v)
                   | None \<Rightarrow> Some pt) of
               None \<Rightarrow> Some ((''Wrong service name'', fst pt), rt)
             | Some pt \<Rightarrow>
                 let (ck, rt) = (if insert_cookie pppoe_conf then random_string env 16 rt else ([], rt));
                     pt = (if insert_cookie pppoe_conf then add_tag AC_COOKIE ck pt else pt);
                     (err, rt) = pendeSession (source_mac e) (outer_vlan e) (inner_vlan e) ck rt
                 in if err \<noteq> '''' then Some ((''Cannot pende session: '' @ err, fst pt), rt)
                    else Some (('''', finish_disc pt), rt)
      })"

definition process_padr ::
  "env \<Rightarrow> bytes \<Rightarrow> encapsulation_t \<Rightarrow> PPPOERuntime \<Rightarrow> ((string \<times> bytes) \<times> PPPOERuntime) option" where
  "process_padr env inPkt e rt =
     (let outPkt = disc_reply PADS in
      if length inPkt < sizeof_PPPOEDISC_HDR then Some ((''Too small packet'', outPkt), rt)
      else do {
        (tags, err) \<leftarrow> parseTags (drop sizeof_PPPOEDISC_HDR inPkt);
        if err \<noteq> '''' then Some ((''Cannot process PADR: '' @ err, outPkt), rt)
        else do {
          let ck = (case map_of tags (PPPOE_TAG_val AC_COOKIE) of Some v \<Rightarrow> v | None \<Rightarrow> []);
          let (expected, rt) = checkSession (source_mac e) (outer_vlan e) (inner_vlan e) ck rt;
          if \<not> expected then Some ((''We don't expect this session'', outPkt), rt)
          else do {
            ((sid, err), rt) \<leftarrow> allocateSession env e rt;
            if err \<noteq> '''' then Some ((''Cannot process PADR: '' @ err, outPkt), rt)
            else
              let outPkt = put16 2 (bswap16 sid) outPkt;
                  pt = (outPkt, 0);
                  pt = (case map_of tags (PPPOE_TAG_val SERVICE_NAME) of
                          Some v \<Rightarrow> add_tag SERVICE_NAME v pt | None \<Rightarrow> pt);
                  pt = (case map_of tags (PPPOE_TAG_val HOST_UNIQ) of
                          Some v \<Rightarrow> add_tag HOST_UNIQ v pt | None \<Rightarrow> pt)
              in Some (('''', finish_disc pt), rt)
          }
        }
      })"

section \<open>The dispatcher\<close>

definition reply_disc ::
  "encapsulation_t \<Rightarrow> (string \<times> bytes) \<times> PPPOERuntime \<Rightarrow> string \<times> PPPOERuntime" where
  "reply_disc e res =
     (let ((err, outPkt), rt) = res
      in if err \<noteq> '''' then (err, rt)
         else ('''', push_pppoe (generate_header e (hwaddr rt) ETH_PPPOE_DISCOVERY @ outPkt) rt))"

definition processPPPOE :: "env \<Rightarrow> bytes \<Rightarrow> encapsulation_t \<Rightarrow> PPPOERuntime \<Rightarrow> (string \<times> PPPOERuntime) option" where
  "processPPPOE env inPkt e rt = do {
     code \<leftarrow> load8 inPkt 1;
     (case PPPOE_CODE_of code of
        Some PADI \<Rightarrow> map_option (reply_disc e) (process_padi env inPkt e rt)
      | Some PADR \<Rightarrow> map_option (reply_disc e) (process_padr env inPkt e rt)
      | Some PADT \<Rightarrow> do {
          sid \<leftarrow> load16 inPkt 2;
          (err, rt) \<leftarrow> deallocateSession env (bswap16 sid) rt;
          Some ('''', rt)
        }
      | _ \<Rightarrow> Some (''Incorrect code for packet'', rt))
   }"

section \<open>The session tables under discovery\<close>

lemma snd_random_string [simp]: "snd (random_string env n rt) = rt\<lparr>nd_pos := nd_pos rt + n\<rparr>"
  by (simp add: random_string_def case_prod_unfold snd_draws)

lemma tables_ok_nd [simp]: "tables_ok (rt\<lparr>nd_pos := n\<rparr>) \<longleftrightarrow> tables_ok rt"
  by (rule tables_ok_frame_iff) simp

lemma tables_ok_push_pppoe [simp]: "tables_ok (push_pppoe p rt) \<longleftrightarrow> tables_ok rt"
  by (rule tables_ok_frame_iff) simp

end
