(* ===== verification/Startup.thy ===== *)
theory Startup
  imports Session_Tables
begin

text \<open>
  Start-up: the constructor of \<open>PPPOERuntime\<close> in \<^verbatim>\<open>src/runtime.cpp\<close>, which brings the
  dataplane into the configured state, and what \<open>main\<close> of \<^verbatim>\<open>src/main.cpp\<close> adds to it.
\<close>

section \<open>A configuration as its members' initialisers leave it\<close>

text \<open>Only the log level has no initialiser; nothing of the model reads it.\<close>

definition PPPOEGlobalConf_default :: PPPOEGlobalConf where
  "PPPOEGlobalConf_default =
     \<lparr>tap_name = [], log_level = INFO, log_file = [], interfaces = [],
      default_pppoe_conf = PPPOEPolicy_default, pppoe_confs = [], pppoe_templates = [],
      aaa_conf = \<lparr>aaa_method = [], aaa_pools = [], local_template = [], dictionaries = [],
        auth_servers = [], acct_servers = []\<rparr>,
      conf_lcp = LCPPolicy_default, global_rib = [], conf_vrfs = []\<rparr>"

section \<open>Clearing the dataplane\<close>

definition delete_old_tap :: "env \<Rightarrow> u32 \<Rightarrow> PPPOERuntime \<Rightarrow> PPPOERuntime" where
  "delete_old_tap env tapid rt = snd (on_vpp (delete_tap (vapi env) tapid) rt)"

definition setup_tap :: "env \<Rightarrow> PPPOERuntime \<Rightarrow> PPPOERuntime" where
  "setup_tap env rt =
     (let ((ret, ifi), rt) = on_vpp (create_tap (vapi env) (tap_name (conf rt))) rt
      in if ret
         then
           let (_, rt) = on_vpp (set_state (vapi env) ifi True) rt;
               (_, rt) = on_vpp (add_pppoe_cp (vapi env) ifi False) rt
           in rt
         else rt)"

definition delete_old_vrf :: "env \<Rightarrow> VPPVRF \<Rightarrow> PPPOERuntime \<Rightarrow> PPPOERuntime" where
  "delete_old_vrf env v rt =
     (if v_table_id v = 0 then rt
      else snd (on_vpp (set_vrf (vapi env) (v_vrf_name v) (v_table_id v) False) rt))"

definition setup_vrf :: "env \<Rightarrow> VRFConf \<Rightarrow> PPPOERuntime \<Rightarrow> PPPOERuntime" where
  "setup_vrf env v rt =
     (let (ok, rt) = on_vpp (set_vrf (vapi env) (vrf_name v) (vrf_table_id v) True) rt
      in if \<not> ok then rt
         else fold (\<lambda>route rt. snd (on_vpp (add_route (vapi env) (destination route) (nexthop route)
                (vrf_table_id v)) rt)) (vrf_rib v) rt)"

text \<open>
  An interface found in the dataplane loses its addresses and unnumbered interfaces; a
  subinterface is deleted. The type of an interface of no known kind is uninitialised.
\<close>

definition clear_iface :: "env \<Rightarrow> VPPInterface \<Rightarrow> PPPOERuntime \<Rightarrow> PPPOERuntime" where
  "clear_iface env el rt =
     (let (addrs, rt) = on_vpp (dump_ip (vapi env) (v_sw_if_index el)) rt;
          rt = fold (\<lambda>a rt. snd (on_vpp (set_ip (vapi env) (ip_sw_if_index a) (ip_address a) False) rt)) addrs rt;
          (us, rt) = on_vpp (dump_unnumbered (vapi env) (v_sw_if_index el)) rt;
          rt = fold (clear_unnumbered env) us rt;
          (subif, rt) = (case v_type el of
              Some t \<Rightarrow> (t = SUBIF, rt)
            | None \<Rightarrow> (let (v, rt) = draw env rt in ((ucast v :: byte) = 3, rt)))
      in if subif then snd (on_vpp (del_subif (vapi env) (v_sw_if_index el)) rt) else rt)"

text \<open>A route of the global table; the index VPP gives it is kept in the configuration.\<close>

definition setup_route :: "env \<Rightarrow> StaticRIBEntry \<Rightarrow> PPPOERuntime \<Rightarrow> StaticRIBEntry \<times> PPPOERuntime" where
  "setup_route env e rt =
     (let ((success, rid), rt) = on_vpp (add_route (vapi env) (destination e) (nexthop e) 0) rt
      in (if success then e\<lparr>rid_in_vpp := rid\<rparr> else e, rt))"

fun setup_routes :: "env \<Rightarrow> StaticRIBEntry list \<Rightarrow> PPPOERuntime \<Rightarrow> StaticRIBEntry list \<times> PPPOERuntime" where
  "setup_routes env [] rt = ([], rt)"
| "setup_routes env (e # es) rt =
     (let (e, rt) = setup_route env e rt; (es, rt) = setup_routes env es rt in (e # es, rt))"

section \<open>The constructor\<close>

definition setup_dataplane :: "env \<Rightarrow> PPPOERuntime \<Rightarrow> PPPOERuntime" where
  "setup_dataplane env rt =
     (let (taps, rt) = on_vpp (get_tap_interfaces (vapi env)) rt;
          rt = fold (delete_old_tap env) taps rt;
          rt = setup_tap env rt;
          (vrfs, rt) = on_vpp (dump_vrfs (vapi env)) rt;
          rt = fold (delete_old_vrf env) vrfs rt;
          rt = fold (setup_vrf env) (conf_vrfs (conf rt)) rt;
          (ifs, rt) = on_vpp (get_ifaces (vapi env)) rt;
          rt = fold (clear_iface env) ifs rt;
          (_, rt) = on_vpp (setup_interfaces (vapi env) (interfaces (conf rt))) rt;
          (rib, rt) = setup_routes env (global_rib (conf rt)) rt
      in rt\<lparr>conf := (conf rt)\<lparr>global_rib := rib\<rparr>\<rparr>)"

definition PPPOERuntime_ctor ::
  "env \<Rightarrow> (string \<Rightarrow> string list) \<Rightarrow> PPPOEGlobalConf option \<Rightarrow> PPPOERuntime option" where
  "PPPOERuntime_ctor env files file = do {
     let rt = reloadConfig file (runtime_init PPPOEGlobalConf_default);
     rt \<leftarrow> AAA_ctor files rt;
     Some (setup_dataplane env rt)
   }"

text \<open>\<open>main\<close> copies the LCP options out of the configuration.\<close>

definition main_init ::
  "env \<Rightarrow> (string \<Rightarrow> string list) \<Rightarrow> PPPOEGlobalConf option \<Rightarrow> PPPOERuntime option" where
  "main_init env files file = do {
     rt \<leftarrow> PPPOERuntime_ctor env files file;
     Some (rt\<lparr>lcp_conf := conf_lcp (conf rt)\<rparr>)
   }"

section \<open>What start-up leaves alone\<close>

text \<open>
  Everything but the dataplane, the values drawn and the route indices. Only the operations on VRFs
  change the table of VRF names.
\<close>

definition dp_only :: "PPPOERuntime \<Rightarrow> PPPOERuntime \<Rightarrow> bool" where
  "dp_only rt rt' \<longleftrightarrow> rt' = rt\<lparr>vpp := vpp rt', nd_pos := nd_pos rt'\<rparr>"

definition same_vrfs :: "PPPOERuntime \<Rightarrow> PPPOERuntime \<Rightarrow> bool" where
  "same_vrfs rt rt' \<longleftrightarrow> dp_only rt rt' \<and> vpp_vrfs (vpp rt') = vpp_vrfs (vpp rt)"

definition keeps_vrfs :: "(vpp_state \<Rightarrow> 'a \<times> vpp_state) \<Rightarrow> bool" where
  "keeps_vrfs f \<longleftrightarrow> (\<forall>s. vpp_vrfs (snd (f s)) = vpp_vrfs s)"

lemma dp_only_refl [simp]: "dp_only rt rt"
  by (simp add: dp_only_def)

lemma dp_only_trans [trans]: "dp_only rt rt1 \<Longrightarrow> dp_only rt1 rt2 \<Longrightarrow> dp_only rt rt2"
proof -
  assume "dp_only rt rt1" "dp_only rt1 rt2"
  then have 1: "rt1 = rt\<lparr>vpp := vpp rt1, nd_pos := nd_pos rt1\<rparr>"
    and 2: "rt2 = rt1\<lparr>vpp := vpp rt2, nd_pos := nd_pos rt2\<rparr>" by (simp_all add: dp_only_def)
  have "rt1\<lparr>vpp := vpp rt2, nd_pos := nd_pos rt2\<rparr> = rt\<lparr>vpp := vpp rt2, nd_pos := nd_pos rt2\<rparr>"
    by (subst 1) simp
  with 2 show "dp_only rt rt2" by (simp add: dp_only_def)
qed

lemma snd_on_vpp: "snd (on_vpp f rt) = rt\<lparr>vpp := snd (f (vpp rt))\<rparr>"
  by (simp add: on_vpp_def case_prod_unfold Let_def)

lemma fst_on_vpp: "fst (on_vpp f rt) = fst (f (vpp rt))"
  by (simp add: on_vpp_def case_prod_unfold Let_def)

lemma dp_only_on_vpp [simp]: "dp_only rt (snd (on_vpp f rt))"
  by (simp add: dp_only_def snd_on_vpp)

lemma same_vrfs_refl [simp]: "same_vrfs rt rt"
  by (simp add: same_vrfs_def)

lemma same_vrfs_trans [trans]: "same_vrfs rt rt1 \<Longrightarrow> same_vrfs rt1 rt2 \<Longrightarrow> same_vrfs rt rt2"
  by (auto simp: same_vrfs_def intro: dp_only_trans)

lemma same_vrfs_on_vpp: "keeps_vrfs f \<Longrightarrow> same_vrfs rt (snd (on_vpp f rt))"
  by (simp add: same_vrfs_def keeps_vrfs_def snd_on_vpp dp_only_def)

lemma same_vrfs_draw: "same_vrfs rt (snd (draw env rt))"
  by (simp add: same_vrfs_def dp_only_def draw_def)

lemma same_vrfs_step: "keeps_vrfs f \<Longrightarrow> same_vrfs rt rt1 \<Longrightarrow> same_vrfs rt (snd (on_vpp f rt1))"
  using same_vrfs_trans same_vrfs_on_vpp by blast

lemma same_vrfs_fold:
  "(\<And>x rt. same_vrfs rt (f x rt)) \<Longrightarrow> same_vrfs rt rt1 \<Longrightarrow> same_vrfs rt (fold f xs rt1)"
proof (induction xs arbitrary: rt1)
  case (Cons x xs)
  from Cons.prems have "same_vrfs rt (f x rt1)" using same_vrfs_trans by blast
  with Cons show ?case by simp
qed simp

lemma dp_only_fold: "(\<And>x rt. dp_only rt (f x rt)) \<Longrightarrow> dp_only rt rt1 \<Longrightarrow> dp_only rt (fold f xs rt1)"
proof (induction xs arbitrary: rt1)
  case (Cons x xs)
  from Cons.prems have "dp_only rt (f x rt1)" using dp_only_trans by blast
  with Cons show ?case by simp
qed simp

lemma keeps_vrfs_ops [simp]:
  "keeps_vrfs (get_tap_interfaces v)" "keeps_vrfs (delete_tap v i)" "keeps_vrfs (create_tap v n)"
  "keeps_vrfs (set_state v i b)" "keeps_vrfs (set_mtu v i m)" "keeps_vrfs (add_pppoe_cp v i b)"
  "keeps_vrfs (dump_vrfs v)" "keeps_vrfs (add_route v p h t)" "keeps_vrfs (get_ifaces v)"
  "keeps_vrfs (dump_ip v i)" "keeps_vrfs (set_ip v i a b)" "keeps_vrfs (dump_unnumbered v i)"
  "keeps_vrfs (set_unnumbered v i j b)" "keeps_vrfs (del_subif v i)" "keeps_vrfs (add_subif v i u vo vi)"
  "keeps_vrfs (set_interface_table v i n)" "keeps_vrfs (get_iface_by_name v n)"
  by (simp_all add: keeps_vrfs_def get_tap_interfaces_def delete_tap_def create_tap_def set_state_def
      set_mtu_def add_pppoe_cp_def dump_vrfs_def add_route_def get_ifaces_def dump_ip_def set_ip_def
      dump_unnumbered_def set_unnumbered_def del_subif_def add_subif_def set_interface_table_def
      get_iface_by_name_def vapi_try_def vapi_execute_def Let_def split: option.split)

lemmas vrfs_ops [simp] = keeps_vrfs_ops [unfolded keeps_vrfs_def, rule_format]

lemma vrfs_setup_unit: "vpp_vrfs (setup_unit v p i u s) = vpp_vrfs s"
proof -
  obtain ret ifi s1 where 1: "add_subif v p i (u_vlan u) 0 s = ((ret, ifi), s1)" by (metis surj_pair)
  have s1: "vpp_vrfs s1 = vpp_vrfs s" using vrfs_ops(15) [of v p i "u_vlan u" 0 s] 1 by simp
  show ?thesis
  proof (cases ret)
    case False
    with 1 s1 show ?thesis by (simp add: setup_unit_def)
  next
    case True
    define s2 where "s2 = snd (set_state v ifi (u_admin_state u) s1)"
    define s3 where "s3 = (if u_vrf u \<noteq> [] then snd (set_interface_table v ifi (u_vrf u) s2) else s2)"
    define s4 where "s4 = (case u_address u of Some a \<Rightarrow> snd (set_ip v ifi a True s3) | None \<Rightarrow> s3)"
    obtain j ok s5 where 5: "get_iface_by_name v (u_unnumbered u) s4 = ((j, ok), s5)" by (metis surj_pair)
    have "vpp_vrfs s4 = vpp_vrfs s"
      by (simp add: s4_def s3_def s2_def s1 split: option.split)
    moreover have "setup_unit v p i u s =
        (if u_unnumbered u \<noteq> []
         then (case get_iface_by_name v (u_unnumbered u) s4 of
                 ((ip_iface, True), s) \<Rightarrow> snd (set_unnumbered v ifi ip_iface True s)
               | ((_, False), s) \<Rightarrow> s)
         else s4)"
      unfolding s4_def s3_def s2_def using 1 True by (simp add: setup_unit_def Let_def)
    moreover have "vpp_vrfs s5 = vpp_vrfs s4" using vrfs_ops(17) [of v "u_unnumbered u" s4] 5 by simp
    ultimately show ?thesis using 5 by (cases ok) simp_all
  qed
qed

lemma keeps_vrfs_setup_interfaces [simp]: "keeps_vrfs (setup_interfaces v ics)"
proof -
  have units: "vpp_vrfs (fold (\<lambda>(i, u). setup_unit v p i u) us s) = vpp_vrfs s" for p us s
    by (induction us arbitrary: s) (auto simp: vrfs_setup_unit)
  have iface: "vpp_vrfs (setup_interface v ifs ic s) = vpp_vrfs s" for ifs ic s
    by (simp add: setup_interface_def Let_def units split: option.split)
  have "vpp_vrfs (fold (setup_interface v ifs) ics s) = vpp_vrfs s" for ifs s
    by (induction ics arbitrary: s) (auto simp: iface)
  then show ?thesis
    by (simp add: keeps_vrfs_def setup_interfaces_def case_prod_unfold Let_def)
qed

lemma same_vrfs_parts:
  "same_vrfs rt (delete_old_tap env i rt)" "same_vrfs rt (setup_tap env rt)"
  "same_vrfs rt (clear_unnumbered env u rt)"
  by (auto simp: delete_old_tap_def setup_tap_def clear_unnumbered_def Let_def case_prod_unfold
      intro!: same_vrfs_step)

lemma same_vrfs_clear_iface: "same_vrfs rt (clear_iface env el rt)"
proof -
  define rt1 where "rt1 = snd (on_vpp (dump_ip (vapi env) (v_sw_if_index el)) rt)"
  define rt2 where "rt2 = fold (\<lambda>a rt. snd (on_vpp (set_ip (vapi env) (ip_sw_if_index a) (ip_address a) False) rt))
    (fst (on_vpp (dump_ip (vapi env) (v_sw_if_index el)) rt)) rt1"
  define rt3 where "rt3 = snd (on_vpp (dump_unnumbered (vapi env) (v_sw_if_index el)) rt2)"
  define rt4 where "rt4 = fold (clear_unnumbered env)
    (fst (on_vpp (dump_unnumbered (vapi env) (v_sw_if_index el)) rt2)) rt3"
  have "same_vrfs rt rt4"
    unfolding rt4_def rt3_def rt2_def rt1_def
    by (intro same_vrfs_fold same_vrfs_step same_vrfs_parts same_vrfs_on_vpp same_vrfs_refl) simp_all
  then show ?thesis
    using same_vrfs_trans [OF _ same_vrfs_draw, of rt rt4 env]
    by (auto simp: clear_iface_def Let_def case_prod_unfold rt1_def [symmetric] rt2_def [symmetric]
        rt3_def [symmetric] rt4_def [symmetric] split: option.split intro!: same_vrfs_step)
qed

lemma same_vrfs_setup_routes: "same_vrfs rt (snd (setup_routes env es rt))"
proof (induction es arbitrary: rt)
  case (Cons e es)
  have "same_vrfs rt (snd (setup_route env e rt))"
    by (simp add: setup_route_def Let_def case_prod_unfold same_vrfs_step)
  with Cons.IH show ?case by (auto simp: Let_def case_prod_unfold intro: same_vrfs_trans)
qed simp

section \<open>The state after start-up\<close>

lemma dp_only_vrf: "dp_only rt (delete_old_vrf env v rt)" "dp_only rt (setup_vrf env vc rt)"
proof -
  show "dp_only rt (delete_old_vrf env v rt)" by (simp add: delete_old_vrf_def)
  show "dp_only rt (setup_vrf env vc rt)"
    by (simp add: setup_vrf_def Let_def case_prod_unfold dp_only_fold)
qed

lemma dp_only_same: "same_vrfs rt rt' \<Longrightarrow> dp_only rt rt'"
  by (simp add: same_vrfs_def)

text \<open>The dataplane before the configured VRFs are set up, and after.\<close>

definition before_vrfs :: "env \<Rightarrow> PPPOERuntime \<Rightarrow> PPPOERuntime" where
  "before_vrfs env rt =
     (let (taps, rt) = on_vpp (get_tap_interfaces (vapi env)) rt;
          rt = fold (delete_old_tap env) taps rt;
          rt = setup_tap env rt;
          (vrfs, rt) = on_vpp (dump_vrfs (vapi env)) rt
      in fold (delete_old_vrf env) vrfs rt)"

definition after_vrfs :: "env \<Rightarrow> PPPOERuntime \<Rightarrow> PPPOERuntime" where
  "after_vrfs env rt =
     (let (ifs, rt) = on_vpp (get_ifaces (vapi env)) rt;
          rt = fold (clear_iface env) ifs rt
      in snd (on_vpp (setup_interfaces (vapi env) (interfaces (conf rt))) rt))"

lemma setup_dataplane_parts:
  "setup_dataplane env rt =
     (let rt1 = before_vrfs env rt;
          rt2 = after_vrfs env (fold (setup_vrf env) (conf_vrfs (conf rt1)) rt1);
          (rib, rt3) = setup_routes env (global_rib (conf rt2)) rt2
      in rt3\<lparr>conf := (conf rt3)\<lparr>global_rib := rib\<rparr>\<rparr>)"
  by (simp add: setup_dataplane_def before_vrfs_def after_vrfs_def Let_def case_prod_unfold)

lemma dp_only_before_vrfs: "dp_only rt (before_vrfs env rt)"
proof -
  have "dp_only rt (setup_tap env (fold (delete_old_tap env) taps (snd (on_vpp f rt))))" for taps f
    using dp_only_trans [OF dp_only_fold [OF dp_only_same [OF same_vrfs_parts(1)] dp_only_on_vpp]
        dp_only_same [OF same_vrfs_parts(2)]] .
  from dp_only_trans [OF this dp_only_on_vpp] show ?thesis
    by (simp only: before_vrfs_def Let_def case_prod_unfold) (intro dp_only_fold dp_only_vrf)
qed

lemma same_vrfs_after_vrfs: "same_vrfs rt (after_vrfs env rt)"
  by (simp add: after_vrfs_def Let_def case_prod_unfold same_vrfs_step same_vrfs_fold
      same_vrfs_clear_iface same_vrfs_on_vpp)

lemma dp_only_fields:
  assumes "dp_only rt rt'"
  shows "conf rt' = conf rt" "hwaddr rt' = hwaddr rt" "lcp_conf rt' = lcp_conf rt" "frame rt rt'"
    "aaa_sessions rt' = aaa_sessions rt" "auth_clients rt' = auth_clients rt"
    "acct_clients rt' = acct_clients rt" "aaa_dict rt' = aaa_dict rt"
    "pppoe_outcoming rt' = pppoe_outcoming rt" "ppp_outcoming rt' = ppp_outcoming rt"
    "pendingSession rt' = pendingSession rt" "heap rt' = heap rt" "activeSessions rt' = activeSessions rt"
proof -
  have eq: "rt' = rt\<lparr>vpp := vpp rt', nd_pos := nd_pos rt'\<rparr>" using assms by (simp add: dp_only_def)
  show "conf rt' = conf rt" "hwaddr rt' = hwaddr rt" "lcp_conf rt' = lcp_conf rt" "frame rt rt'"
    "aaa_sessions rt' = aaa_sessions rt" "auth_clients rt' = auth_clients rt"
    "acct_clients rt' = acct_clients rt" "aaa_dict rt' = aaa_dict rt"
    "pppoe_outcoming rt' = pppoe_outcoming rt" "ppp_outcoming rt' = ppp_outcoming rt"
    "pendingSession rt' = pendingSession rt" "heap rt' = heap rt" "activeSessions rt' = activeSessions rt"
    by (subst eq, simp)+
qed

lemma setup_dataplane_only:
  obtains rt' rib where "dp_only rt rt'" "setup_dataplane env rt = rt'\<lparr>conf := (conf rt')\<lparr>global_rib := rib\<rparr>\<rparr>"
    "vpp_vrfs (vpp rt') = vpp_vrfs (vpp (fold (setup_vrf env) (conf_vrfs (conf rt)) (before_vrfs env rt)))"
proof -
  define rt1 where "rt1 = before_vrfs env rt"
  define rt2 where "rt2 = fold (setup_vrf env) (conf_vrfs (conf rt)) rt1"
  define rt3 where "rt3 = after_vrfs env rt2"
  define rt4 where "rt4 = snd (setup_routes env (global_rib (conf rt3)) rt3)"
  have 1: "dp_only rt rt1" by (simp add: rt1_def dp_only_before_vrfs)
  then have c: "conf rt1 = conf rt" by (rule dp_only_fields)
  have 2: "dp_only rt1 rt2" unfolding rt2_def by (intro dp_only_fold dp_only_vrf dp_only_refl)
  have 4: "same_vrfs rt2 rt4"
    using same_vrfs_trans [OF same_vrfs_after_vrfs same_vrfs_setup_routes] by (simp add: rt3_def rt4_def)
  have "setup_dataplane env rt = rt4\<lparr>conf := (conf rt4)\<lparr>global_rib := fst (setup_routes env (global_rib (conf rt3)) rt3)\<rparr>\<rparr>"
    by (simp add: setup_dataplane_parts Let_def case_prod_unfold c rt1_def [symmetric] rt2_def [symmetric]
        rt3_def [symmetric] rt4_def [symmetric])
  moreover have "dp_only rt rt4" using dp_only_trans [OF 1 dp_only_trans [OF 2 dp_only_same [OF 4]]] .
  moreover have "vpp_vrfs (vpp rt4) = vpp_vrfs (vpp rt2)" using 4 by (simp add: same_vrfs_def)
  ultimately show ?thesis using that by (simp add: rt2_def rt1_def)
qed

lemma frame_AAA_ctor: "AAA_ctor files rt = Some rt' \<Longrightarrow> frame rt rt'"
  by (auto simp: AAA_ctor_def run_splits frame_def)

text \<open>What a runtime that has just been built holds besides its RADIUS clients and its dataplane.\<close>

lemma main_init_state:
  assumes "main_init env files file = Some rt"
  obtains rib where "conf rt = (case file of None \<Rightarrow> PPPOEGlobalConf_default | Some c \<Rightarrow> c)\<lparr>global_rib := rib\<rparr>"
    "lcp_conf rt = conf_lcp (case file of None \<Rightarrow> PPPOEGlobalConf_default | Some c \<Rightarrow> c)" "aheap rt = Map.empty" "aaa_sessions rt = []"
    "heap rt = Map.empty" "activeSessions rt = []" "sessionSet rt = {}" "next_session_id rt = 1" "pendingSession rt = {}"
    "hwaddr rt = zero_mac" "pppoe_outcoming rt = []" "ppp_outcoming rt = []"
proof -
  let ?rt0 = "reloadConfig file (runtime_init PPPOEGlobalConf_default)"
  let ?cfg = "case file of None \<Rightarrow> PPPOEGlobalConf_default | Some c \<Rightarrow> c"
  from assms obtain rt1 where 1: "AAA_ctor files ?rt0 = Some rt1"
    and rt: "rt = (setup_dataplane env rt1)\<lparr>lcp_conf := conf_lcp (conf (setup_dataplane env rt1))\<rparr>"
    by (auto simp: main_init_def PPPOERuntime_ctor_def bind_eq_Some_conv)
  obtain rt2 rib where 2: "dp_only rt1 rt2" "setup_dataplane env rt1 = rt2\<lparr>conf := (conf rt2)\<lparr>global_rib := rib\<rparr>\<rparr>"
    by (rule setup_dataplane_only [of rt1 env])
  have eq: "rt2 = rt1\<lparr>vpp := vpp rt2, nd_pos := nd_pos rt2\<rparr>" using 2(1) by (simp add: dp_only_def)
  have rt1: "conf rt1 = ?cfg" "aheap rt1 = Map.empty" "aaa_sessions rt1 = []" "sessionSet rt1 = {}" "next_session_id rt1 = 1"
    "pendingSession rt1 = {}" "heap rt1 = Map.empty" "activeSessions rt1 = []" "hwaddr rt1 = zero_mac"
    "pppoe_outcoming rt1 = []" "ppp_outcoming rt1 = []"
    using 1 by (auto simp: AAA_ctor_def run_splits reloadConfig_def runtime_init_def split: option.splits)
  have "conf rt2 = ?cfg" "aheap rt2 = Map.empty" "aaa_sessions rt2 = []" "sessionSet rt2 = {}" "next_session_id rt2 = 1"
    "pendingSession rt2 = {}" "heap rt2 = Map.empty" "activeSessions rt2 = []" "hwaddr rt2 = zero_mac"
    "pppoe_outcoming rt2 = []" "ppp_outcoming rt2 = []"
    by (subst eq, simp add: rt1)+
  then show thesis by (intro that [of rib]) (simp_all add: rt 2(2))
qed

lemma tables_ok_main_init:
  assumes "main_init env files file = Some rt"
  shows "tables_ok rt \<and> activeSessions rt = [] \<and> heap rt = Map.empty"
  by (rule main_init_state [OF assms]) (simp add: tables_ok_def om_ok_def)

section \<open>When the daemon starts\<close>

lemma AAA_ctor_iff:
  "(\<exists>rt'. AAA_ctor files rt = Some rt') \<longleftrightarrow> dictionaries (aaa_conf (conf rt)) \<noteq> [] \<and>
     (\<exists>d. RadiusDict_ctor (map files (dictionaries (aaa_conf (conf rt)))) empty_dict = Some d)"
proof -
  let ?c = "aaa_conf (conf rt)"
  have "clients_of (Some d) servers =
      Some (map (\<lambda>(k, v). (k, AuthClient_ctor (rad_address v) (rad_port v) (rad_secret v) d)) servers)" for d servers
    by (simp add: clients_of_def)
  then show ?thesis
    by (cases "RadiusDict_ctor (map files (dictionaries ?c)) empty_dict") (auto simp: AAA_ctor_def Let_def)
qed

lemma main_init_iff:
  "(\<exists>rt. main_init env files file = Some rt) \<longleftrightarrow>
   (\<exists>c d. file = Some c \<and> dictionaries (aaa_conf c) \<noteq> [] \<and>
      RadiusDict_ctor (map files (dictionaries (aaa_conf c))) empty_dict = Some d)"
proof -
  let ?rt = "reloadConfig file (runtime_init PPPOEGlobalConf_default)"
  have "conf ?rt = (case file of None \<Rightarrow> PPPOEGlobalConf_default | Some c \<Rightarrow> c)"
    by (simp add: reloadConfig_def runtime_init_def split: option.split)
  moreover have "(\<exists>rt. main_init env files file = Some rt) \<longleftrightarrow> (\<exists>rt. AAA_ctor files ?rt = Some rt)"
    by (auto simp: main_init_def PPPOERuntime_ctor_def bind_eq_Some_conv Let_def)
  ultimately show ?thesis
    by (auto simp: AAA_ctor_iff PPPOEGlobalConf_default_def split: option.splits)
qed


section \<open>VRFs\<close>

text \<open>The API's names of tables are fields of 64 characters, and VPP accepts the tables.\<close>

definition tables_accepted :: "vapi_service \<Rightarrow> bool" where
  "tables_accepted v \<longleftrightarrow>
     (\<forall>l. \<forall>(n, t) \<in> set (ans_tables (v l Ip_table_dump)). length n = 64) \<and>
     (\<forall>l i n. exec_ok (v l (Ip_table_add_del i (Some n) True)) \<and> 0 \<le> retval (v l (Ip_table_add_del i (Some n) True)))"

lemma vrfs_delete_old:
  "k \<notin> v_vrf_name ` set vs \<Longrightarrow>
   map_of (vpp_vrfs (vpp (fold (delete_old_vrf env) vs rt))) k = map_of (vpp_vrfs (vpp rt)) k"
proof (induction vs arbitrary: rt)
  case (Cons v vs)
  then have "map_of (vpp_vrfs (vpp (delete_old_vrf env v rt))) k = map_of (vpp_vrfs (vpp rt)) k"
    by (auto simp: delete_old_vrf_def snd_on_vpp set_vrf_def vapi_execute_def Let_def om_find_emplace)
  with Cons show ?case by simp
qed simp

lemma vrfs_add_routes:
  "vpp_vrfs (vpp (fold (\<lambda>route rt. rt\<lparr>vpp := snd (add_route v (destination route) (nexthop route) t (vpp rt))\<rparr>) es rt)) =
   vpp_vrfs (vpp rt)"
  by (induction es arbitrary: rt) simp_all

lemma vrfs_setup_vrf:
  assumes "tables_accepted (vapi env)"
  shows "vpp_vrfs (vpp (setup_vrf env v rt)) = om_emplace (vrf_name v) (vrf_table_id v) (vpp_vrfs (vpp rt))"
proof -
  let ?m = "Ip_table_add_del (vrf_table_id v) (Some (vrf_name v)) True"
  have "exec_ok (vapi env l ?m)" "\<not> retval (vapi env l ?m) < 0" for l
    using assms by (auto simp: tables_accepted_def not_less)
  then show ?thesis
    by (simp add: setup_vrf_def case_prod_unfold Let_def snd_on_vpp fst_on_vpp set_vrf_def vapi_execute_def
        vrfs_add_routes)
qed

lemma vrfs_setup_vrfs:
  assumes acc: "tables_accepted (vapi env)" and "distinct (map vrf_name vs)"
    and "\<forall>v \<in> set vs. map_of (vpp_vrfs (vpp rt)) (vrf_name v) = None"
  shows "v \<in> set vs \<Longrightarrow>
    map_of (vpp_vrfs (vpp (fold (setup_vrf env) vs rt))) (vrf_name v) = Some (vrf_table_id v)"
  using assms(2,3)
proof (induction vs arbitrary: rt v)
  case (Cons w vs)
  note 1 = vrfs_setup_vrf [OF acc, of w rt]
  have keep: "map_of (vpp_vrfs (vpp (fold (setup_vrf env) us r))) k = map_of (vpp_vrfs (vpp r)) k"
    if "k \<notin> vrf_name ` set us" for us r k
    using that by (induction us arbitrary: r) (auto simp: vrfs_setup_vrf [OF acc] om_find_emplace)
  show ?case
  proof (cases "v = w")
    case True
    with Cons.prems 1 keep [of "vrf_name w" vs] show ?thesis by (simp add: om_find_emplace)
  next
    case False
    with Cons.prems 1 have "v \<in> set vs"
      "\<forall>v \<in> set vs. map_of (vpp_vrfs (vpp (setup_vrf env w rt))) (vrf_name v) = None"
      by (auto simp: om_find_emplace image_iff)
    with Cons show ?thesis by simp
  qed
qed simp

text \<open>
  C29. After start-up every configured VRF is known under its own table id, so a session put into
  it goes to that table: provided that the names are different and shorter than 63 characters and
  VPP accepts the tables. The tables of an earlier run, which are deleted first but stay in the
  map of names, do not get in the way: their names fill all 63 characters.
\<close>

theorem configured_vrfs_known:
  assumes run: "main_init env files (Some c) = Some rt" and acc: "tables_accepted (vapi env)"
    and names: "distinct (map vrf_name (conf_vrfs c))" "\<forall>v \<in> set (conf_vrfs c). length (vrf_name v) < 63"
    and v: "v \<in> set (conf_vrfs c)" "vrf_name v \<noteq> []"
  shows "\<exists>res s'. add_pppoe_session (vapi env) ip sid mac (vrf_name v) True (vpp rt) = (res, s') \<and>
    vapi_log s' = vapi_log (vpp rt) @
      [Pppoe_add_del_session (ip4_bytes ip) (mac_bytes mac) (vrf_table_id v) sid True]"
proof -
  from run obtain rt1 where 1: "AAA_ctor files (reloadConfig (Some c) (runtime_init PPPOEGlobalConf_default)) = Some rt1"
    and rt: "rt = (setup_dataplane env rt1)\<lparr>lcp_conf := conf_lcp (conf (setup_dataplane env rt1))\<rparr>"
    by (auto simp: main_init_def PPPOERuntime_ctor_def bind_eq_Some_conv)
  have c: "conf rt1 = c" "vpp_vrfs (vpp rt1) = []"
    using 1 by (auto simp: AAA_ctor_def run_splits reloadConfig_def runtime_init_def vpp_init_def)
  define rt2 where "rt2 = before_vrfs env rt1"
  define rt0 where "rt0 = setup_tap env (fold (delete_old_tap env)
    (fst (on_vpp (get_tap_interfaces (vapi env)) rt1)) (snd (on_vpp (get_tap_interfaces (vapi env)) rt1)))"
  obtain rt3 rib where 3: "setup_dataplane env rt1 = rt3\<lparr>conf := (conf rt3)\<lparr>global_rib := rib\<rparr>\<rparr>"
    "vpp_vrfs (vpp rt3) = vpp_vrfs (vpp (fold (setup_vrf env) (conf_vrfs c) rt2))"
    using setup_dataplane_only [of rt1 env, unfolded c, folded rt2_def] by blast
  have "same_vrfs rt1 rt0"
    unfolding rt0_def
    by (intro same_vrfs_trans [OF same_vrfs_fold same_vrfs_parts(2)] same_vrfs_parts same_vrfs_on_vpp) simp
  then have vrfs0: "vpp_vrfs (vpp rt0) = []" by (simp add: same_vrfs_def c)
  have new: "map_of (vpp_vrfs (vpp rt2)) (vrf_name v) = None" if "v \<in> set (conf_vrfs c)" for v
  proof -
    let ?old = "fst (dump_vrfs (vapi env) (vpp rt0))"
    have "\<forall>w \<in> set ?old. length (v_vrf_name w) = 63"
    proof -
      have len: "length n = 64" if "(n, t) \<in> set (ans_tables (vapi env l Ip_table_dump))" for l n t
        using acc that by (auto simp: tables_accepted_def)
      show ?thesis by (auto simp: dump_vrfs_def vapi_execute_def dest!: len)
    qed
    with names(2) that have "vrf_name v \<notin> v_vrf_name ` set ?old" by auto
    then have "map_of (vpp_vrfs (vpp (fold (delete_old_vrf env) ?old (snd (on_vpp (dump_vrfs (vapi env)) rt0)))))
        (vrf_name v) = None"
      by (subst vrfs_delete_old) (simp_all add: snd_on_vpp vrfs0)
    then show ?thesis by (simp add: rt2_def before_vrfs_def rt0_def Let_def case_prod_unfold fst_on_vpp)
  qed
  have "map_of (vpp_vrfs (vpp rt)) (vrf_name v) = Some (vrf_table_id v)"
    using vrfs_setup_vrfs [OF acc names(1), of rt2 v] new v(1) by (simp add: rt 3)
  with v(2) show ?thesis by (simp add: add_pppoe_session_def vapi_execute_def)
qed

theorem configured_vrfs_known_witness:
  "\<exists>rt res s'. main_init sample_env (\<lambda>f. [])
       (Some (sample_conf\<lparr>conf_vrfs := [\<lparr>vrf_name = ''RED'', vrf_table_id = 10, vrf_rib = []\<rparr>]\<rparr>)) = Some rt \<and>
     add_pppoe_session (vapi sample_env) 5 1 zero_mac ''RED'' True (vpp rt) = (res, s') \<and>
     last (vapi_log s') = Pppoe_add_del_session [0, 0, 0, 5] [0, 0, 0, 0, 0, 0] 10 1 True"
proof -
  let ?v = "\<lparr>vrf_name = ''RED'', vrf_table_id = 10, vrf_rib = []\<rparr>"
  let ?c = "sample_conf\<lparr>conf_vrfs := [?v]\<rparr>"
  obtain rt where rt: "main_init sample_env (\<lambda>f. []) (Some ?c) = Some rt"
    using AAA_ctor_iff [of "\<lambda>f. []" "reloadConfig (Some ?c) (runtime_init PPPOEGlobalConf_default)"]
    by (auto simp: main_init_def PPPOERuntime_ctor_def reloadConfig_def sample_conf_def parseFreeradDict_def)
  have "tables_accepted (vapi sample_env)" by (simp add: tables_accepted_def ok_answer_def)
  from configured_vrfs_known [OF rt this, of ?v 5 1 zero_mac] rt show ?thesis
    by (fastforce simp: ip4_bytes_def)
qed

lemma main_init_sample:
  "\<exists>rt. main_init sample_env (\<lambda>f. []) (Some sample_conf) = Some rt \<and> activeSessions rt = []"
proof -
  obtain rt where "main_init sample_env (\<lambda>f. []) (Some sample_conf) = Some rt"
    using AAA_ctor_iff [of "\<lambda>f. []" "reloadConfig (Some sample_conf) (runtime_init PPPOEGlobalConf_default)"]
    by (auto simp: main_init_def PPPOERuntime_ctor_def reloadConfig_def sample_conf_def parseFreeradDict_def)
  with tables_ok_main_init [OF this] show ?thesis by simp
qed

end
