(* ===== verification/Evloop.thy ===== *)
theory Evloop
  imports Ppp Pppoe Startup
begin

text \<open>
  The event loop of \<^verbatim>\<open>src/evloop.hpp\<close> and \<^verbatim>\<open>src/evloop.cpp\<close>, and the daemon as a
  transition system: the frames, datagrams, timers and signals it reacts to, each handler run to
  its end before the next. A handler that returns \<^const>\<open>None\<close> has read past a buffer,
  dereferenced a dead object, thrown, or does not return.
\<close>

section \<open>Stored handlers\<close>

fun respond :: "env \<Rightarrow> ResponseHandler \<Rightarrow> byte \<Rightarrow> bytes \<Rightarrow> PPPOERuntime \<Rightarrow> PPPOERuntime option" where
  "respond env (ProcessRadiusAnswer cb u) code v rt = processRadiusAnswer env run_callback cb u code v rt"
| "respond env (On_started r) code v rt = on_started env r v rt"
| "respond env (On_interim_answer r) code v rt = on_interim_answer env r v rt"
| "respond env (On_stopped r) code v rt = on_stopped env r v rt"

fun fail :: "ErrorHandler \<Rightarrow> string \<Rightarrow> PPPOERuntime \<Rightarrow> PPPOERuntime option" where
  "fail (ProcessRadiusError cb) err rt = processRadiusError run_callback cb err rt"
| "fail (On_failed r) err rt = on_failed r err rt"

text \<open>
  The timer of a request ends, cancelled by its answer or not; its handlers go, and with them
  their hold on an AAA session.
\<close>

definition request_timer :: "client_ref \<Rightarrow> u8 \<Rightarrow> PPPOERuntime \<Rightarrow> PPPOERuntime option" where
  "request_timer cl i rt = do {
     c \<leftarrow> get_client cl rt;
     (case map_of (callbacks c) i of
        None \<Rightarrow> Some rt
      | Some it \<Rightarrow> do {
          rt \<leftarrow> expire_check fail cl (timer_cancelled it) i rt;
          Some (case handler_aref (response it) of None \<Rightarrow> rt | Some r \<Rightarrow> release_aaa r rt)
        })
   }"

section \<open>The loop\<close>

text \<open>\<open>wire\<close> is what was sent on the raw socket.\<close>

record EVLoop =
  runtime :: PPPOERuntime
  interrupted :: bool
  wire :: "bytes list"

text \<open>
  \<open>generic_receive\<close>, with the VLAN the kernel reports. A frame too short for an Ethernet header
  leaves the encapsulation's type uninitialised, and the switch reads it.
\<close>

definition generic_receive :: "env \<Rightarrow> bytes \<Rightarrow> u16 \<Rightarrow> PPPOERuntime \<Rightarrow> PPPOERuntime option" where
  "generic_receive env frm vlan rt = do {
     (e, pkt) \<leftarrow> encapsulation_ctor frm vlan 0;
     let (t, rt) = (case encap_type e of
         Some t \<Rightarrow> (t, rt)
       | None \<Rightarrow> (let (v, rt) = draw env rt in (ucast v, rt)));
     if t = ETH_PPPOE_DISCOVERY then map_option snd (processPPPOE env pkt e rt)
     else if t = ETH_PPPOE_SESSION then map_option snd (processPPP env pkt e rt)
     else Some rt
   }"

text \<open>\<open>PPPOEQ\<close> is a queue; \<open>periodic\<close> empties both queues, discovery first.\<close>

fun send_all :: "bytes list \<Rightarrow> bytes list \<Rightarrow> bytes list" where
  "send_all [] sock = sock"
| "send_all (reply # queue) sock = send_all queue (sock @ [reply])"

definition periodic :: "EVLoop \<Rightarrow> EVLoop" where
  "periodic l =
     (let rt = runtime l;
          sock = send_all (pppoe_outcoming rt) (wire l);
          rt = rt\<lparr>pppoe_outcoming := []\<rparr>;
          sock = send_all (ppp_outcoming rt) sock;
          rt = rt\<lparr>ppp_outcoming := []\<rparr>
      in l\<lparr>runtime := rt, wire := sock\<rparr>)"

datatype signal = SIGTERM | SIGINT | SIGHUP "PPPOEGlobalConf option"

text \<open>SIGHUP carries what the configuration file holds when it is read.\<close>

fun on_signal :: "signal \<Rightarrow> EVLoop \<Rightarrow> EVLoop" where
  "on_signal SIGTERM l = l\<lparr>interrupted := True\<rparr>"
| "on_signal SIGINT l = l\<lparr>interrupted := True\<rparr>"
| "on_signal (SIGHUP file) l = l\<lparr>runtime := reloadConfig file (runtime l)\<rparr>"

section \<open>Events\<close>

datatype event =
    Frame bytes u16
  | Datagram client_ref "u32 \<times> u16" bytes
  | Request_timer client_ref u8
  | Pending_timer pppoe_conn_t
  | Echo_timer nat
  | Interim_timer nat
  | Periodic_timer
  | Vpp_timer "stat_entry list"
  | Signal signal

definition on_runtime :: "(PPPOERuntime \<Rightarrow> PPPOERuntime option) \<Rightarrow> EVLoop \<Rightarrow> EVLoop option" where
  "on_runtime f l = map_option (\<lambda>rt. l\<lparr>runtime := rt\<rparr>) (f (runtime l))"

fun handle :: "env \<Rightarrow> event \<Rightarrow> EVLoop \<Rightarrow> EVLoop option" where
  "handle env (Frame frm vlan) l = on_runtime (generic_receive env frm vlan) l"
| "handle env (Datagram cl sender data) l = on_runtime (receive_datagram env (respond env) cl sender data) l"
| "handle env (Request_timer cl i) l = on_runtime (request_timer cl i) l"
| "handle env (Pending_timer key) l =
     on_runtime (\<lambda>rt. Some (clearPendingSession key (rt\<lparr>pending_timers := remove1 key (pending_timers rt)\<rparr>))) l"
| "handle env (Echo_timer r) l = on_runtime (sendEchoReq env r) l"
| "handle env (Interim_timer r) l = on_runtime (on_interim env r) l"
| "handle env Periodic_timer l = Some (periodic l)"
| "handle env (Vpp_timer segment) l =
     on_runtime (\<lambda>rt. Some (rt\<lparr>vpp := process_msgs (vapi env) segment (vpp rt)\<rparr>)) l"
| "handle env (Signal s) l = Some (on_signal s l)"

text \<open>A timer only ends if it runs.\<close>

fun enabled :: "event \<Rightarrow> EVLoop \<Rightarrow> bool" where
  "enabled (Pending_timer key) l \<longleftrightarrow> key \<in> set (pending_timers (runtime l))"
| "enabled (Echo_timer r) l \<longleftrightarrow>
     (case heap (runtime l) r of Some s \<Rightarrow> echo_timer s \<noteq> None | None \<Rightarrow> False)"
| "enabled (Interim_timer r) l \<longleftrightarrow>
     (case aheap (runtime l) r of Some a \<Rightarrow> a_timer a | None \<Rightarrow> False)"
| "enabled _ l \<longleftrightarrow> True"

definition EVLoop_init :: "PPPOERuntime \<Rightarrow> EVLoop" where
  "EVLoop_init rt = \<lparr>runtime = rt, interrupted = False, wire = []\<rparr>"

text \<open>
  \<open>files\<close> gives the lines of the dictionary files, \<open>cfg\<close> what the configuration file holds when the
  daemon starts. The loop ends once it is interrupted; then \<open>main\<close> cleans up.
\<close>

inductive reachable ::
  "env \<Rightarrow> (string \<Rightarrow> string list) \<Rightarrow> PPPOEGlobalConf option \<Rightarrow> EVLoop \<Rightarrow> bool" for env files cfg where
  start: "main_init env files cfg = Some rt \<Longrightarrow> reachable env files cfg (EVLoop_init rt)"
| step: "reachable env files cfg l \<Longrightarrow> \<not> interrupted l \<Longrightarrow> enabled ev l \<Longrightarrow> handle env ev l = Some l' \<Longrightarrow>
    reachable env files cfg l'"

definition main_end :: "env \<Rightarrow> EVLoop \<Rightarrow> PPPOERuntime option" where
  "main_end env l = (if interrupted l then cleanup env (runtime l) else None)"

end
