(* ===== verification/Daemon_Inv.thy ===== *)
theory Daemon_Inv
  imports Evloop
begin

text \<open>
  What an invariant of the daemon owes: locales whose laws are those of the single operations, and
  whose lemmas carry them through the composed handlers, first for all events but frames, then for
  every event of the loop. The
  interpretation here is on the session tables; the others are in \<^theory_text>\<open>Aaa_Invariant\<close> and
  \<^theory_text>\<open>Conformance\<close>.
\<close>

section \<open>The length of a reply\<close>

lemma length_finish_disc [simp]: "length (finish_disc pt) = 6 + unat (snd pt)"
  by (simp add: finish_disc_def case_prod_unfold sizeof_defs)

lemma disc_reply_length:
  "process_padi env p e rt = Some (('''', out), rt') \<Longrightarrow> 6 \<le> length out"
  "process_padr env p e rt = Some (('''', out), rt') \<Longrightarrow> 6 \<le> length out"
  by (auto simp: process_padi_def process_padr_def Let_def bind_eq_Some_conv case_prod_unfold
      split: if_splits option.split_asm)

section \<open>The answer of a RADIUS server, step by step\<close>

text \<open>Whatever the code, a session is built, entered and started, unless there is no room for it.\<close>

lemma processRadiusAnswer_steps:
  assumes "processRadiusAnswer env call cb u code v rt = Some rt'"
  obtains (full) rt1 where
    "rt1 = rt\<lparr>nd_pos := nd_pos rt + length v\<rparr> \<or> call cb 0 ''RADIUS answered with no accept'' (rt\<lparr>nd_pos := nd_pos rt + length v\<rparr>) = Some rt1"
    "call cb 0 ''No space for new sessions'' rt1 = Some rt'"
  | (built) rt1 i res acct s rt2 r rt3 where
    "rt1 = rt\<lparr>nd_pos := nd_pos rt + length v\<rparr> \<or> call cb 0 ''RADIUS answered with no accept'' (rt\<lparr>nd_pos := nd_pos rt + length v\<rparr>) = Some rt1"
    "AAA_Session_radius_ctor env i u (local_template (aaa_conf (conf rt1))) res acct rt1 = Some (s, rt2)"
    "new_aaa s rt2 = (r, rt3)"
    "call cb SESSION_ERROR ''Failed to emplace user'' (release_aaa r rt3) = Some rt' \<or>
     (\<exists>rt4. aaa_start env r (rt3\<lparr>aaa_sessions := om_emplace i r (aaa_sessions rt3)\<rparr>) = Some rt4 \<and>
       call cb i '''' rt4 = Some rt')"
proof -
  from assms obtain dict res rt1 i where
    1: "(if code \<noteq> RADIUS_CODE_val ACCESS_ACCEPT
         then call cb 0 ''RADIUS answered with no accept'' (rt\<lparr>nd_pos := nd_pos rt + length v\<rparr>)
         else Some (rt\<lparr>nd_pos := nd_pos rt + length v\<rparr>)) = Some rt1"
    and 2: "(if i = - 1 then call cb 0 ''No space for new sessions'' rt1
         else do {
           acct \<leftarrow> (case acct_clients rt1 of [] \<Rightarrow> None | (n, _) # _ \<Rightarrow> Some n);
           (s, rt) \<leftarrow> AAA_Session_radius_ctor env i u (local_template (aaa_conf (conf rt1))) res acct rt1;
           let (r, rt) = new_aaa s rt;
           if map_of (aaa_sessions rt) i \<noteq> None
           then call cb SESSION_ERROR ''Failed to emplace user'' (release_aaa r rt)
           else do {
             rt \<leftarrow> aaa_start env r (rt\<lparr>aaa_sessions := om_emplace i r (aaa_sessions rt)\<rparr>);
             call cb i '''' rt
           }
         }) = Some rt'"
    unfolding processRadiusAnswer_def Let_def by (auto simp only: bind_eq_Some_conv)
  have 3: "rt1 = rt\<lparr>nd_pos := nd_pos rt + length v\<rparr> \<or>
      call cb 0 ''RADIUS answered with no accept'' (rt\<lparr>nd_pos := nd_pos rt + length v\<rparr>) = Some rt1"
    using 1 by (auto split: if_splits)
  show thesis
  proof (cases "i = - 1")
    case True
    with 2 3 full show thesis by simp
  next
    case False
    with 2 obtain acct s rt2 where
      ctor: "AAA_Session_radius_ctor env i u (local_template (aaa_conf (conf rt1))) res acct rt1 = Some (s, rt2)"
      and 4: "(let (r, rt) = new_aaa s rt2 in
           if map_of (aaa_sessions rt) i \<noteq> None
           then call cb SESSION_ERROR ''Failed to emplace user'' (release_aaa r rt)
           else do {
             rt \<leftarrow> aaa_start env r (rt\<lparr>aaa_sessions := om_emplace i r (aaa_sessions rt)\<rparr>);
             call cb i '''' rt
           }) = Some rt'"
      by (auto simp only: bind_eq_Some_conv if_False split_paired_Ex prod.case)
    obtain r rt3 where new: "new_aaa s rt2 = (r, rt3)" by (cases "new_aaa s rt2")
    from 4 new show thesis
      by (intro built [OF 3 ctor new]) (auto simp: bind_eq_Some_conv simp del: not_None_eq split: if_splits)
  qed
qed

section \<open>The answers of RADIUS servers\<close>

locale radius_inv =
  fixes P :: "PPPOERuntime \<Rightarrow> bool"
  assumes client: "P (put_client cl c rt) \<longleftrightarrow> P rt"
    and called: "run_callback cb sid err rt = Some rt' \<Longrightarrow> P rt \<Longrightarrow> P rt'"
    and answered: "processRadiusAnswer env run_callback cb u code a rt = Some rt' \<Longrightarrow> P rt \<Longrightarrow> P rt'"
    and accounted: "on_started env q a rt = Some rt' \<Longrightarrow> P rt \<Longrightarrow> P rt'"
      "on_interim_answer env q a rt = Some rt' \<Longrightarrow> P rt \<Longrightarrow> P rt'"
      "on_stopped env q a rt = Some rt' \<Longrightarrow> P rt \<Longrightarrow> P rt'"
    and interim: "on_interim env q rt = Some rt' \<Longrightarrow> P rt \<Longrightarrow> P rt'"
    and released: "P rt \<Longrightarrow> P (release_aaa q rt)"
begin

lemma respond_inv: "respond env h code a rt = Some rt' \<Longrightarrow> P rt \<Longrightarrow> P rt'"
  by (cases h) (auto dest: answered accounted)

lemma fail_inv: "fail h err rt = Some rt' \<Longrightarrow> P rt \<Longrightarrow> P rt'"
  by (cases h) (auto simp: processRadiusError_def on_failed_def dest: called)

lemma on_rcv_inv: "on_rcv env (respond env) cl ec rt = Some rt' \<Longrightarrow> P rt \<Longrightarrow> P rt'"
  by (auto simp: on_rcv_def Let_def bind_eq_Some_conv client split: if_splits option.split_asm)
    (use respond_inv in blast)

lemma receive_datagram_inv: "receive_datagram env (respond env) cl sender a rt = Some rt' \<Longrightarrow> P rt \<Longrightarrow> P rt'"
  by (auto simp: receive_datagram_def Let_def bind_eq_Some_conv client split: if_splits dest!: on_rcv_inv)

lemma expire_check_inv: "expire_check fail cl ec i rt = Some rt' \<Longrightarrow> P rt \<Longrightarrow> P rt'"
  by (auto simp: expire_check_def Let_def bind_eq_Some_conv client split: if_splits option.split_asm
      dest: fail_inv)

lemma request_timer_inv:
  assumes run: "request_timer cl i rt = Some rt'" and "P rt"
  shows "P rt'"
proof -
  from run obtain c where c: "get_client cl rt = Some c" by (auto simp: request_timer_def bind_eq_Some_conv)
  show ?thesis
  proof (cases "map_of (callbacks c) i")
    case None
    with run c \<open>P rt\<close> show ?thesis by (simp add: request_timer_def)
  next
    case (Some it)
    with run c obtain q where "expire_check fail cl (timer_cancelled it) i rt = Some q"
      and rt': "rt' = (case handler_aref (response it) of None \<Rightarrow> q | Some r \<Rightarrow> release_aaa r q)"
      by (auto simp: request_timer_def bind_eq_Some_conv)
    then have "P q" using \<open>P rt\<close> expire_check_inv by blast
    then show ?thesis by (auto simp: rt' released split: option.split)
  qed
qed

end

section \<open>Everything but frames\<close>

text \<open>Neither timers nor signals open sessions or read frames.\<close>

locale answer_inv = radius_inv P for P +
  assumes draw: "P (rt\<lparr>nd_pos := n\<rparr>) \<longleftrightarrow> P rt"
    and pending: "P (rt\<lparr>pendingSession := ps\<rparr>) \<longleftrightarrow> P rt"
    and timers: "P (rt\<lparr>pending_timers := ts\<rparr>) \<longleftrightarrow> P rt"
    and dataplane: "P (rt\<lparr>vpp := v\<rparr>) \<longleftrightarrow> P rt"
    and waiting: "P (upd_sess r (\<lambda>s. s\<lparr>echo_timer := t\<rparr>) rt) \<longleftrightarrow> P rt"
    and flushed: "P rt \<Longrightarrow> P (rt\<lparr>pppoe_outcoming := [], ppp_outcoming := []\<rparr>)"
    and freed: "P rt \<Longrightarrow> P (release_sess env r rt)"
    and echoed: "LCP_send_echo_req r rt = Some (ret, rt') \<Longrightarrow> P rt \<Longrightarrow> P rt'"
    and deallocated: "deallocateSession env si rt = Some (err, rt') \<Longrightarrow> P rt \<Longrightarrow> P rt'"
begin

lemmas updates = draw client pending timers dataplane waiting

lemma sendEchoReq_inv:
  assumes run: "sendEchoReq env r rt = Some rt'" and "P rt"
  shows "P rt'"
proof -
  from run obtain act err rt1 where 1: "LCP_send_echo_req r rt = Some ((act, err), rt1)"
    by (auto simp: sendEchoReq_def bind_eq_Some_conv)
  have 2: "P rt1" using echoed [OF 1 \<open>P rt\<close>] .
  have "P (startEcho env r rt1)" using 2 by (simp add: startEcho_def draw_def Let_def updates)
  with run 1 2 show ?thesis
    by (auto simp: sendEchoReq_def bind_eq_Some_conv split: if_splits intro!: freed simp: updates dest: deallocated)
qed

text \<open>Every event but a frame and a new configuration.\<close>

lemma handle_quiet:
  assumes run: "handle env ev l = Some l'" and "P (runtime l)" and "\<And>f v. ev \<noteq> Frame f v"
    and keep: "\<And>c. ev \<noteq> Signal (SIGHUP (Some c))"
  shows "P (runtime l')"
proof (cases ev)
  case (Signal s)
  with run \<open>P (runtime l)\<close> keep show ?thesis by (cases s) (auto simp: reloadConfig_def split: option.split_asm)
next
  case Periodic_timer
  with run flushed [OF \<open>P (runtime l)\<close>] show ?thesis by (auto simp: periodic_def Let_def)
qed (use assms in \<open>auto simp: on_runtime_def clearPendingSession_def updates
    dest: receive_datagram_inv request_timer_inv sendEchoReq_inv interim\<close>)

end

section \<open>Every event\<close>

locale daemon_inv = answer_inv P for P +
  assumes named: "P (upd_sess r (\<lambda>s. s\<lparr>username := u\<rparr>) rt) \<longleftrightarrow> P rt"
    and replied: "6 \<le> length pkt \<Longrightarrow> P rt \<Longrightarrow>
      P (push_pppoe (generate_header e (hwaddr rt) ETH_PPPOE_DISCOVERY @ pkt) rt)"
    and acked: "PAP_send_auth_ack r rt = Some (ret, rt') \<Longrightarrow> P rt \<Longrightarrow> P rt'"
      "CHAP_send_auth_ack r rt = Some (ret, rt') \<Longrightarrow> P rt \<Longrightarrow> P rt'"
    and admitted: "startSessionNone env u p rt = Some (res, rt') \<Longrightarrow> P rt \<Longrightarrow> P rt'"
    and requested: "request env cl ser h eh rt = Some rt' \<Longrightarrow> P rt \<Longrightarrow> P rt'"
    and started: "start_session env r rt = Some rt' \<Longrightarrow> P rt \<Longrightarrow> P rt'"
    and negotiated: "receive (LCP_vtable env r) pkt rt = Some (ret, rt') \<Longrightarrow> P rt \<Longrightarrow> P rt'"
      "receive (IPCP_vtable r) pkt rt = Some (ret, rt') \<Longrightarrow> P rt \<Longrightarrow> P rt'"
    and raised: "lcp_layer_up env r rt = Some rt' \<Longrightarrow> P rt \<Longrightarrow> P rt'"
      "ipcp_layer_up env r rt = Some rt' \<Longrightarrow> P rt \<Longrightarrow> P rt'"
    and rejected: "8 \<le> length pkt \<Longrightarrow> reject_proto r pkt rt = Some rt' \<Longrightarrow> P rt \<Longrightarrow> P rt'"
    and allocated: "allocateSession env e rt = Some (found, rt') \<Longrightarrow> P rt \<Longrightarrow> P rt'"
begin

subsection \<open>Authentication\<close>

lemma method_loop_inv:
  assumes "\<And>rt rt'. radius rt = Some rt' \<Longrightarrow> P rt \<Longrightarrow> P rt'"
  shows "method_loop env run_callback radius u p cb ms rt = Some rt' \<Longrightarrow> P rt \<Longrightarrow> P rt'"
proof (induction ms arbitrary: rt)
  case (Cons m ms)
  show ?case
  proof (cases m)
    case NONE
    with Cons.prems obtain sid err rt1 rt2 where 1: "startSessionNone env u p rt = Some ((sid, err), rt1)"
      and 2: "(if err \<noteq> [] then Some rt1 else run_callback cb sid err rt1) = Some rt2"
      and 3: "method_loop env run_callback radius u p cb ms rt2 = Some rt'"
      by (auto simp: bind_eq_Some_conv)
    have "P rt2" using admitted [OF 1 Cons.prems(2)] 2 by (auto split: if_splits intro: called)
    with Cons.IH [OF 3] show ?thesis by simp
  qed (use Cons assms in auto)
qed simp

lemma startSession_inv:
  "startSession env run_callback u p e cb rt = Some rt' \<Longrightarrow> P rt \<Longrightarrow> P rt'"
  "startSessionCHAP env run_callback u c d e cb rt = Some rt' \<Longrightarrow> P rt \<Longrightarrow> P rt'"
proof -
  have "startSessionRadius env u p e cb rt = Some rt' \<Longrightarrow> P rt \<Longrightarrow> P rt'"
    "startSessionRadiusChap env u c d e cb rt = Some rt' \<Longrightarrow> P rt \<Longrightarrow> P rt'" for rt rt'
    by (auto simp: startSessionRadius_def startSessionRadiusChap_def Let_def split: list.splits intro: requested)
  then show "startSession env run_callback u p e cb rt = Some rt' \<Longrightarrow> P rt \<Longrightarrow> P rt'"
    "startSessionCHAP env run_callback u c d e cb rt = Some rt' \<Longrightarrow> P rt \<Longrightarrow> P rt'"
    unfolding startSession_def startSessionCHAP_def by (blast intro: method_loop_inv)+
qed

lemma recv_auth_inv:
  "PAP_recv_auth_req env r p rt = Some rt' \<Longrightarrow> P rt \<Longrightarrow> P rt'"
  "CHAP_recv_auth_req env r p rt = Some rt' \<Longrightarrow> P rt \<Longrightarrow> P rt'"
  by (auto simp: PAP_recv_auth_req_def CHAP_recv_auth_req_def run_splits updates named split: if_splits
      dest: startSession_inv acked)

lemma auth_receive_inv:
  assumes "P rt"
  shows "PAP_receive env r p rt = Some (ret, rt') \<Longrightarrow> P rt'" and "CHAP_receive env r p rt = Some (ret, rt') \<Longrightarrow> P rt'"
proof -
  assume "PAP_receive env r p rt = Some (ret, rt')"
  then obtain code where "(case PAP_CODE_of code of
      Some AUTHENTICATE_REQ \<Rightarrow> PAP_recv_auth_req env r p rt | _ \<Rightarrow> Some rt) = Some rt'"
    by (auto simp: PAP_receive_def bind_eq_Some_conv)
  then have "PAP_recv_auth_req env r p rt = Some rt' \<or> rt' = rt"
    by (simp split: option.split_asm PAP_CODE.split_asm)
  then show "P rt'" using assms recv_auth_inv(1) by blast
next
  assume "CHAP_receive env r p rt = Some (ret, rt')"
  then obtain code where "(case CHAP_CODE_of code of
      Some RESPONSE \<Rightarrow> CHAP_recv_auth_req env r p rt | _ \<Rightarrow> Some rt) = Some rt'"
    by (auto simp: CHAP_receive_def bind_eq_Some_conv)
  then have "CHAP_recv_auth_req env r p rt = Some rt' \<or> rt' = rt"
    by (simp split: option.split_asm CHAP_CODE.split_asm)
  then show "P rt'" using assms recv_auth_inv(2) by blast
qed

subsection \<open>PPP\<close>

lemma process_lcp_inv:
  assumes run: "process_lcp env r p rt = Some (res, rt')" and "P rt"
  shows "P rt'"
proof -
  from run obtain act err rt1 where 1: "receive (LCP_vtable env r) p rt = Some ((act, err), rt1)"
    by (auto simp: process_lcp_def bind_eq_Some_conv)
  with run have "rt' = rt1 \<or> lcp_layer_up env r rt1 = Some rt' \<or> (\<exists>sid e. deallocateSession env sid rt1 = Some (e, rt'))"
    by (cases act) (auto simp: process_lcp_def bind_eq_Some_conv split: if_splits)
  with negotiated(1) [OF 1 \<open>P rt\<close>] show ?thesis using raised(1) deallocated by blast
qed

lemma process_ipcp_inv:
  assumes "process_ipcp env r p rt = Some rt'" and "P rt"
  shows "P rt'"
  using assms by (auto simp: process_ipcp_def bind_eq_Some_conv split: if_splits dest: negotiated(2) raised(2))

lemma processPPP_inv:
  assumes run: "processPPP env p e rt = Some (err, rt')" and "P rt"
  shows "P rt'"
proof -
  from run obtain raw where raw: "load16 p 2 = Some raw" by (auto simp: processPPP_def bind_eq_Some_conv)
  show ?thesis
  proof (cases "map_of (activeSessions rt) (key_of_encap e (bswap16 raw))")
    case None
    with run raw \<open>P rt\<close> show ?thesis by (simp add: processPPP_def)
  next
    case (Some r)
    with run raw obtain rt1 proto where 1: "start_session env r rt = Some rt1" and proto: "load16 p 6 = Some proto"
      and 2: "(case PPP_PROTO_of (bswap16 proto) of
             Some LCP \<Rightarrow> process_lcp env r p rt1
           | Some PAP \<Rightarrow> do { (ret, rt) \<leftarrow> PAP_receive env r p rt1; Some ('''', rt) }
           | Some CHAP \<Rightarrow> do { (ret, rt) \<leftarrow> CHAP_receive env r p rt1; Some ('''', rt) }
           | Some IPCP \<Rightarrow> do { rt \<leftarrow> process_ipcp env r p rt1; Some ('''', rt) }
           | _ \<Rightarrow> do { rt \<leftarrow> reject_proto r p rt1; Some ('''', rt) }) = Some (err, rt')"
      unfolding processPPP_def by (simp only: option.case bind_eq_Some_conv Option.bind.simps) blast
    have "P rt1" using started [OF 1 \<open>P rt\<close>] .
    moreover have "8 \<le> length p" using proto by (auto simp: load16_def split: if_splits)
    ultimately show ?thesis
      using 2 by (auto simp: bind_eq_Some_conv split: option.split_asm PPP_PROTO.split_asm
          dest: rejected auth_receive_inv process_ipcp_inv process_lcp_inv)
  qed
qed

subsection \<open>Discovery\<close>

lemma process_disc_inv:
  "process_padi env p e rt = Some (res, rt') \<Longrightarrow> P rt \<Longrightarrow> P rt'"
  "process_padr env p e rt = Some (res, rt') \<Longrightarrow> P rt \<Longrightarrow> P rt'"
  by (auto simp: process_padi_def process_padr_def pendeSession_def checkSession_def Let_def bind_eq_Some_conv
      case_prod_unfold updates split: if_splits option.splits dest!: allocated)

lemma processPPPOE_inv:
  assumes run: "processPPPOE env p e rt = Some (err, rt')" and "P rt"
  shows "P rt'"
proof -
  have reply: "P rt'" if "reply_disc e ((er, out), rt1) = (err, rt')" "P rt1" "er = '''' \<Longrightarrow> 6 \<le> length out" for er out rt1
    using that by (auto simp: reply_disc_def Let_def split: if_splits intro: replied)
  from run obtain code where c: "load8 p 1 = Some code" by (auto simp: processPPPOE_def bind_eq_Some_conv)
  consider "PPPOE_CODE_of code = Some PADI" | "PPPOE_CODE_of code = Some PADR"
    | "PPPOE_CODE_of code = Some PADT" | "PPPOE_CODE_of code \<notin> {Some PADI, Some PADR, Some PADT}" by blast
  then show ?thesis
  proof cases
    case 1
    with run c obtain er out rt1 where "process_padi env p e rt = Some ((er, out), rt1)" "reply_disc e ((er, out), rt1) = (err, rt')"
      by (auto simp: processPPPOE_def)
    with \<open>P rt\<close> show ?thesis using reply process_disc_inv(1) disc_reply_length(1) by blast
  next
    case 2
    with run c obtain er out rt1 where "process_padr env p e rt = Some ((er, out), rt1)" "reply_disc e ((er, out), rt1) = (err, rt')"
      by (auto simp: processPPPOE_def)
    with \<open>P rt\<close> show ?thesis using reply process_disc_inv(2) disc_reply_length(2) by blast
  next
    case 3
    with run c \<open>P rt\<close> show ?thesis by (auto simp: processPPPOE_def bind_eq_Some_conv dest: deallocated)
  next
    case 4
    with run c have "rt' = rt" by (simp add: processPPPOE_def split: option.split_asm PPPOE_CODE.split_asm)
    with \<open>P rt\<close> show ?thesis by simp
  qed
qed

subsection \<open>Events\<close>

lemma generic_receive_inv:
  assumes run: "generic_receive env frm vlan rt = Some rt'" and "P rt"
  shows "P rt'"
proof -
  from run obtain e pkt where e: "encapsulation_ctor frm vlan 0 = Some (e, pkt)"
    by (auto simp: generic_receive_def bind_eq_Some_conv)
  obtain t rt1 where t: "(case encap_type e of Some t \<Rightarrow> (t, rt)
      | None \<Rightarrow> (let (v, rt) = draw env rt in (ucast v, rt))) = (t, rt1)" by fastforce
  then have "P rt1" using \<open>P rt\<close> by (auto simp: draw_def updates split: option.splits)
  moreover from run e t have "(if t = ETH_PPPOE_DISCOVERY then map_option snd (processPPPOE env pkt e rt1)
     else if t = ETH_PPPOE_SESSION then map_option snd (processPPP env pkt e rt1) else Some rt1) = Some rt'"
    by (simp add: generic_receive_def)
  ultimately show ?thesis by (auto split: if_splits dest: processPPPOE_inv processPPP_inv)
qed

lemma handle_inv:
  assumes run: "handle env ev l = Some l'" and "P (runtime l)" and keep: "\<And>c. ev \<noteq> Signal (SIGHUP (Some c))"
  shows "P (runtime l')"
proof (cases "\<exists>f v. ev = Frame f v")
  case True
  with run obtain f v where "generic_receive env f v (runtime l) = Some (runtime l')" by (auto simp: on_runtime_def)
  then show ?thesis using \<open>P (runtime l)\<close> by (rule generic_receive_inv)
qed (use assms handle_quiet in blast)

end

text \<open>An invariant that does not depend on the configuration holds in every reachable state, if it holds at the start.\<close>

locale reload_inv = daemon_inv P for P +
  assumes reloaded: "P (rt\<lparr>conf := c\<rparr>) \<longleftrightarrow> P rt"
begin

lemma handle_reload:
  assumes "handle env ev l = Some l'" and "P (runtime l)"
  shows "P (runtime l')"
proof (cases "\<exists>c. ev = Signal (SIGHUP (Some c))")
  case True
  with assms show ?thesis by (auto simp: reloadConfig_def reloaded)
qed (use assms handle_inv in blast)

lemma reachable_inv:
  assumes "reachable env files cfg l" and "\<And>rt. main_init env files cfg = Some rt \<Longrightarrow> P rt"
  shows "P (runtime l)"
  using assms
proof (induction rule: reachable.induct)
  case (start rt)
  then show ?case by (simp add: EVLoop_init_def)
next
  case (step l ev l')
  then show ?case using handle_reload by blast
qed

end

section \<open>The session tables\<close>

lemma tables_ok_small [simp]:
  "tables_ok (put_client cl c rt) \<longleftrightarrow> tables_ok rt" "tables_ok (rt\<lparr>vpp := v\<rparr>) \<longleftrightarrow> tables_ok rt"
  "tables_ok (upd_sess r (\<lambda>s. s\<lparr>username := u\<rparr>) rt) \<longleftrightarrow> tables_ok rt"
  "tables_ok (upd_sess r (\<lambda>s. s\<lparr>echo_timer := t\<rparr>) rt) \<longleftrightarrow> tables_ok rt"
  "tables_ok (rt\<lparr>conf := c'\<rparr>) \<longleftrightarrow> tables_ok rt" "tables_ok (release_aaa q rt) \<longleftrightarrow> tables_ok rt"
  "tables_ok (rt\<lparr>pppoe_outcoming := a, ppp_outcoming := b\<rparr>) \<longleftrightarrow> tables_ok rt"
  by (rule tables_ok_frame_iff; simp)+

interpretation tables: reload_inv tables_ok
proof unfold_locales
  show "tables_ok rt'" if "deallocateSession env sid rt = Some (err, rt')" "tables_ok rt" for env sid rt err rt'
    using that(2,1) by (rule tables_ok_deallocateSession)
qed (auto intro: tables_ok_release tables_ok_allocateSession
    dest!: frame_send_auth call_framesD [OF call_frames_run_callback] frame_startSessionNone frame_request
      frame_processRadiusAnswer [OF call_frames_run_callback] frame_on_answers frame_on_interim frame_start_session
      lcp_impl.receive_frame ipcp_impl.receive_frame frame_lcp_layer_up frame_ipcp_layer_up frame_reject_proto
      LCP_echo_frames(4) intro: tables_ok_frame)

lemmas tables_ok_processPPP = tables.processPPP_inv
lemmas tables_ok_processPPPOE = tables.processPPPOE_inv

lemma reachable_tables_ok: "reachable env files cfg l \<Longrightarrow> tables_ok (runtime l)"
  using tables.reachable_inv tables_ok_main_init by blast

text \<open>What the invariant says of the tables.\<close>

lemma tables_ok_consistent:
  assumes ok: "tables_ok rt"
  shows "0 \<notin> sessionSet rt" "sessionSet rt = key_session_id ` fst ` set (activeSessions rt)"
    "\<forall>(k, r) \<in> set (activeSessions rt). \<exists>s. heap rt r = Some s \<and> k = key_of_encap (encap s) (session_id s)"
    "distinct (map (\<lambda>(k, r). key_session_id k) (activeSessions rt))"
proof -
  have entry: "\<exists>s. heap rt r = Some s \<and> k = key_of_encap (encap s) (session_id s) \<and> session_id s \<in> sessionSet rt"
    if "(k, r) \<in> set (activeSessions rt)" for k r
    using tables_ok_entry [OF ok that] by (force simp: ident_at_def sess_ident_def)
  then show "\<forall>(k, r) \<in> set (activeSessions rt). \<exists>s. heap rt r = Some s \<and> k = key_of_encap (encap s) (session_id s)" by blast
  have "key_session_id ` fst ` set (activeSessions rt) \<subseteq> sessionSet rt" using entry by fastforce
  moreover have "sessionSet rt \<subseteq> key_session_id ` fst ` set (activeSessions rt)"
    using ok by (force simp: tables_ok_def)
  ultimately show "sessionSet rt = key_session_id ` fst ` set (activeSessions rt)" by blast
  have "distinct (map key_session_id (map fst (activeSessions rt)))"
    using ok by (subst distinct_map) (simp add: tables_ok_def om_ok_def strict_sorted_iff distinct_map)
  then show "distinct (map (\<lambda>(k, r). key_session_id k) (activeSessions rt))" by (simp add: comp_def case_prod_unfold)
  show "0 \<notin> sessionSet rt" using ok by (simp add: tables_ok_def)
qed

end
