(* ===== verification/Aaa_Spec.thy ===== *)
theory Aaa_Spec
  imports Ppp_Auth
begin

text \<open>
  What authentication does from end to end: the session ids of the AAA, a subscriber admitted
  without RADIUS from its PAP request to the address it is given, the return of that address, and
  what becomes of a RADIUS answer.
\<close>

section \<open>AAA session ids\<close>

lemma next_u32: "(i :: u32) < - 1 \<Longrightarrow> unat (i + 1) = unat i + 1"
proof -
  assume "i < - 1"
  then have "1 + i \<noteq> 0" by (metis add.commute add_eq_0_iff less_irrefl)
  from unatSuc [OF this] show ?thesis by (simp add: add.commute)
qed

text \<open>The search returns; what it returns is the lowest free id, or the last value when all are taken.\<close>

lemma find_free_sid_returns:
  "\<exists>i. find_free_sid m k = Some i \<and> k \<le> i \<and> (i \<noteq> - 1 \<longrightarrow> map_of m i = None) \<and>
     (\<forall>j. k \<le> j \<and> j < i \<longrightarrow> map_of m j \<noteq> None)"
proof (induction "unat (- 1 :: u32) - unat k" arbitrary: k rule: less_induct)
  case less
  show ?case
  proof (cases "k < - 1 \<and> map_of m k \<noteq> None")
    case True
    with next_u32 have n: "unat (k + 1) = unat k + 1" by blast
    have lt: "unat k < unat (- 1 :: u32)" using True by (simp add: word_less_nat_alt)
    then have "unat (- 1 :: u32) - unat (k + 1) < unat (- 1 :: u32) - unat k" using n by simp
    from less [OF this] obtain i where i: "find_free_sid m (k + 1) = Some i" "k + 1 \<le> i"
      "i \<noteq> - 1 \<longrightarrow> map_of m i = None" "\<forall>j. k + 1 \<le> j \<and> j < i \<longrightarrow> map_of m j \<noteq> None" by blast
    have le: "k \<le> j \<longleftrightarrow> j = k \<or> k + 1 \<le> j" for j
      using n by (auto simp: word_le_nat_alt word_unat_eq_iff)
    have "find_free_sid m k = Some i" using True i(1) by (subst find_free_sid.simps) auto
    with i le True show ?thesis by auto
  next
    case False
    then have "find_free_sid m k = Some k" by (subst find_free_sid.simps) auto
    moreover have "k \<noteq> - 1 \<longrightarrow> map_of m k = None" using False by (auto simp: word_order.not_eq_extremum)
    ultimately show ?thesis by auto
  qed
qed

lemma find_free_sid_least:
  assumes "map_of m i = None" and "i \<noteq> - 1" and "\<And>j. j < i \<Longrightarrow> map_of m j \<noteq> None"
  shows "find_free_sid m 0 = Some i"
proof -
  obtain k where k: "find_free_sid m 0 = Some k" "k \<noteq> - 1 \<longrightarrow> map_of m k = None"
    "\<forall>j. 0 \<le> j \<and> j < k \<longrightarrow> map_of m j \<noteq> None"
    using find_free_sid_returns [of m 0] by blast
  have "\<not> i < k" using k(3) assms(1) by (auto simp: word_zero_le)
  moreover have "\<not> k < i"
  proof
    assume "k < i"
    then have "k \<noteq> - 1" by auto
    with k(2) assms(3) [OF \<open>k < i\<close>] show False by simp
  qed
  ultimately show ?thesis using k(1) by (metis linorder_neqE)
qed

section \<open>Admission without RADIUS\<close>

definition none_session :: "u32 \<Rightarrow> string \<Rightarrow> PPPOELocalTemplate \<Rightarrow> u32 \<Rightarrow> u32 \<Rightarrow> AAA_Session" where
  "none_session i u t ip junk =
     \<lparr>a_session_id = i, a_username = u, a_address = ip, a_dns1 = t_dns1 t, a_dns2 = t_dns2 t,
      a_framed_pool = t_framed_pool t, a_vrf = t_vrf t, a_unnumbered = [], a_acct = None, free_ip = True,
      to_stop_acct = False, a_ifindex = junk, a_timer = False\<rparr>"

lemma startSessionNone_ok:
  assumes tn: "local_template (aaa_conf (conf rt)) \<noteq> []"
    and t: "map_of (pppoe_templates (conf rt)) (local_template (aaa_conf (conf rt))) = Some t"
    and p: "find_pool (t_framed_pool t) rt = Some p" and ip: "allocate_ip p = Some (ip, p')"
    and i: "find_free_sid (aaa_sessions rt) 0 = Some i" "i \<noteq> - 1"
  shows "startSessionNone env u pw rt = Some ((i, ''''),
    (put_pool (t_framed_pool t) p' (rt\<lparr>nd_pos := nd_pos rt + 1\<rparr>))
      \<lparr>aheap := (aheap rt)(next_aref rt \<mapsto> none_session i u t ip (nondet env (nd_pos rt))),
       next_aref := next_aref rt + 1, aaa_sessions := om_emplace i (next_aref rt) (aaa_sessions rt)\<rparr>)"
proof -
  have "map_of (aaa_sessions rt) i = None"
    using find_free_sid_returns [of "aaa_sessions rt" 0] i by auto
  with assms show ?thesis
    by (simp add: startSessionNone_def AAA_Session_ctor_def draw_def fresh_aaa_def find_pool_def
        new_aaa_def put_pool_def none_session_def)
qed

text \<open>The peer's Authenticate-Request.\<close>

definition pap_request :: "bytes \<Rightarrow> string \<Rightarrow> string \<Rightarrow> bytes \<Rightarrow> bytes" where
  "pap_request hdr u pw pad =
     hdr @ of_nat (length u) # bytes_of_string u @ of_nat (length pw) # bytes_of_string pw @ pad"

definition pap_request_ok :: "bytes \<Rightarrow> string \<Rightarrow> string \<Rightarrow> bool" where
  "pap_request_ok hdr u pw \<longleftrightarrow> length hdr = 12 \<and> hdr ! 8 = PAP_CODE_val AUTHENTICATE_REQ \<and>
     length u < 256 \<and> length pw < 256"

lemma unat_of_nat_byte: "n < 256 \<Longrightarrow> unat (of_nat n :: byte) = n"
  by (simp add: unat_of_nat)

lemma pap_request_parsed:
  assumes ok: "pap_request_ok hdr u pw" and s: "heap rt r = Some s" "\<not> auth_started (auth s)"
  shows "PAP_receive env r (pap_request hdr u pw pad) rt =
    map_option (Pair (ACT_NONE, '''')) (startSession env run_callback u pw (encap s) (PAP_auth_callback r)
      (upd_sess r (\<lambda>s. s\<lparr>username := u\<rparr>) rt))"
proof -
  let ?p = "pap_request hdr u pw pad"
  have h: "length hdr = 12" and u: "length u < 256" and w: "length pw < 256"
    using ok by (simp_all add: pap_request_ok_def)
  have p: "?p = (hdr @ [of_nat (length u)] @ bytes_of_string u) @ of_nat (length pw) # bytes_of_string pw @ pad"
    by (simp add: pap_request_def)
  have 1: "load8 ?p 8 = Some (PAP_CODE_val AUTHENTICATE_REQ)"
    using ok h by (simp add: load8_def pap_request_def nth_append pap_request_ok_def)
  have 2: "load8 ?p 12 = Some (of_nat (length u))" using h by (simp add: load8_def pap_request_def nth_append)
  have 3: "load_range ?p 13 (length u) = Some (bytes_of_string u)"
    using h by (simp add: load_range_def pap_request_def)
  have 4: "load8 ?p (12 + length u + 1) = Some (of_nat (length pw))"
    using h by (simp add: p load8_def nth_append)
  have 5: "load_range ?p (12 + 1 + length u + 1) (length pw) = Some (bytes_of_string pw)"
    using h by (simp add: p load_range_def)
  have "PAP_CODE_of (PAP_CODE_val AUTHENTICATE_REQ) = Some AUTHENTICATE_REQ" by (simp add: enum_of_defs)
  then show ?thesis
    using 1 2 3 4 5 s unat_of_nat_byte [OF u] unat_of_nat_byte [OF w]
    by (simp add: PAP_receive_def PAP_recv_auth_req_def map_conv_bind_option comp_def)
qed

text \<open>
  The first method is NONE: the peer is admitted in the state \<open>rt2\<close>, and the methods that remain
  run on it.
\<close>

lemma pap_none_step:
  assumes s: "heap rt r = Some s" "\<not> auth_started (auth s)" "state (ipcp s) = Initial"
    and ok: "pap_request_ok hdr u pw" and m: "aaa_method (aaa_conf (conf rt)) = NONE # ms"
    and tn: "local_template (aaa_conf (conf rt)) \<noteq> []"
    and t: "map_of (pppoe_templates (conf rt)) (local_template (aaa_conf (conf rt))) = Some t"
    and p: "find_pool (t_framed_pool t) rt = Some p" "stop_ip p \<noteq> - 1"
    and free: "start_ip p \<le> k" "k \<le> stop_ip p" "k \<notin> ips p"
    and i: "map_of (aaa_sessions rt) i = None" "i \<noteq> - 1" "\<And>j. j < i \<Longrightarrow> map_of (aaa_sessions rt) j \<noteq> None"
  obtains rt2 ar a ip where
    "PAP_receive env r (pap_request hdr u pw pad) rt = map_option (Pair (ACT_NONE, ''''))
       (method_loop env run_callback (startSessionRadius env u pw (encap s) (PAP_auth_callback r)) u pw
          (PAP_auth_callback r) ms rt2)"
    "heap rt2 r = Some (pap_accepted i (s\<lparr>username := u\<rparr>))"
    "getSession i rt2 = (Some ar, '''')" "aheap rt2 ar = Some a" "a_username a = u" "a_address a = ip"
    "a_dns1 a = t_dns1 t" "a_dns2 a = t_dns2 t"
    "start_ip p \<le> ip" "ip \<le> stop_ip p" "ip \<notin> ips p" "\<And>j. start_ip p \<le> j \<Longrightarrow> j < ip \<Longrightarrow> j \<in> ips p"
    "find_pool (t_framed_pool t) rt2 = Some (p\<lparr>ips := insert ip (ips p)\<rparr>)"
    "ppp_outcoming rt2 = ppp_outcoming rt @ pap_welcome s (hwaddr rt)" "auth_clients rt2 = auth_clients rt"
    "vpp rt2 = vpp rt" "pppoe_outcoming rt2 = pppoe_outcoming rt" "a_vrf a = t_vrf t" "a_unnumbered a = []"
proof -
  define rt0 where "rt0 = upd_sess r (\<lambda>s. s\<lparr>username := u\<rparr>) rt"
  have same: "conf rt0 = conf rt" "aaa_sessions rt0 = aaa_sessions rt" "find_pool n rt0 = find_pool n rt" for n
    by (simp_all add: rt0_def upd_sess_def find_pool_def)
  obtain ip where ip: "allocate_ip p = Some (ip, p\<lparr>ips := insert ip (ips p)\<rparr>)" "start_ip p \<le> ip"
    "ip \<le> stop_ip p" "ip \<notin> ips p" "\<And>j. start_ip p \<le> j \<Longrightarrow> j < ip \<Longrightarrow> j \<in> ips p"
    using free by (cases rule: allocate_ip_cases [OF p(2)]) auto
  note none = startSessionNone_ok [of rt0, unfolded same, OF tn t p(1) ip(1) find_free_sid_least [OF i] i(2),
      of env u pw]
  define rt1 where "rt1 = snd (the (startSessionNone env u pw rt0))"
  have rt1: "startSessionNone env u pw rt0 = Some ((i, ''''), rt1)" using none by (simp add: rt1_def)
  have h1: "heap rt1 r = Some (s\<lparr>username := u\<rparr>)" "ppp_outcoming rt1 = ppp_outcoming rt" "hwaddr rt1 = hwaddr rt"
      "auth_clients rt1 = auth_clients rt" "vpp rt1 = vpp rt"
      "pppoe_outcoming rt1 = pppoe_outcoming rt"
    using s(1) none by (simp_all add: rt1_def put_pool_def rt0_def upd_sess_def)
  define rt2 where "rt2 = rt1\<lparr>heap := (heap rt1)(r \<mapsto> pap_accepted i (s\<lparr>username := u\<rparr>)),
    ppp_outcoming := ppp_outcoming rt1 @ pap_welcome (s\<lparr>username := u\<rparr>) (hwaddr rt1),
    stray_stores := stray_stores rt1 + 1\<rparr>"
  have "PAP_callback r i '''' rt1 = Some ((LAYER_UP, ''''), rt2)"
    using PAP_callback_ok [OF h1(1), of i] s(3) by (simp add: rt2_def)
  then have "PAP_receive env r (pap_request hdr u pw pad) rt = map_option (Pair (ACT_NONE, ''''))
       (method_loop env run_callback (startSessionRadius env u pw (encap s) (PAP_auth_callback r)) u pw
          (PAP_auth_callback r) ms rt2)"
    using pap_request_parsed [OF ok s(1,2), of env pad] rt1 m same
    by (simp add: rt0_def [symmetric] startSession_def)
  moreover have "getSession i rt2 = (Some (next_aref rt0), '''')"
    "aheap rt2 (next_aref rt0) = Some (none_session i u t ip (nondet env (nd_pos rt0)))"
    "find_pool (t_framed_pool t) rt2 = Some (p\<lparr>ips := insert ip (ips p)\<rparr>)"
    using none i(1) by (simp_all add: rt1_def rt2_def getSession_def om_find_emplace find_pool_def put_pool_def om_find_set)
  ultimately show ?thesis
    using that ip(2-) h1 by (simp add: none_session_def pap_welcome_def rt2_def)
qed

text \<open>
  C11. Admission without RADIUS, from end to end: a PAP request with any name and password, when
  the only method is NONE, gives the session the lowest free AAA id; that AAA session has the DNS
  servers of the local template and the lowest free address of its pool, which is marked taken;
  the Authenticate-Ack and IPCP's Configure-Request are queued, in this order.
\<close>

theorem pap_none_admits:
  assumes s: "heap rt r = Some s" "\<not> auth_started (auth s)" "state (ipcp s) = Initial"
    and ok: "pap_request_ok hdr u pw" and m: "aaa_method (aaa_conf (conf rt)) = [NONE]"
    and tn: "local_template (aaa_conf (conf rt)) \<noteq> []"
    and t: "map_of (pppoe_templates (conf rt)) (local_template (aaa_conf (conf rt))) = Some t"
    and p: "find_pool (t_framed_pool t) rt = Some p" "stop_ip p \<noteq> - 1"
    and free: "start_ip p \<le> k" "k \<le> stop_ip p" "k \<notin> ips p"
    and i: "map_of (aaa_sessions rt) i = None" "i \<noteq> - 1" "\<And>j. j < i \<Longrightarrow> map_of (aaa_sessions rt) j \<noteq> None"
  shows "\<exists>rt' ar a ip. PAP_receive env r (pap_request hdr u pw pad) rt = Some ((ACT_NONE, ''''), rt') \<and>
    heap rt' r = Some (pap_accepted i (s\<lparr>username := u\<rparr>)) \<and>
    getSession i rt' = (Some ar, '''') \<and> aheap rt' ar = Some a \<and> a_username a = u \<and> a_address a = ip \<and>
    a_dns1 a = t_dns1 t \<and> a_dns2 a = t_dns2 t \<and>
    start_ip p \<le> ip \<and> ip \<le> stop_ip p \<and> ip \<notin> ips p \<and> (\<forall>j. start_ip p \<le> j \<and> j < ip \<longrightarrow> j \<in> ips p) \<and>
    find_pool (t_framed_pool t) rt' = Some (p\<lparr>ips := insert ip (ips p)\<rparr>) \<and>
    ppp_outcoming rt' = ppp_outcoming rt @ pap_welcome s (hwaddr rt)"
proof -
  obtain rt2 ar a ip where "PAP_receive env r (pap_request hdr u pw pad) rt = Some ((ACT_NONE, ''''), rt2)"
    "heap rt2 r = Some (pap_accepted i (s\<lparr>username := u\<rparr>))"
    "getSession i rt2 = (Some ar, '''')" "aheap rt2 ar = Some a" "a_username a = u" "a_address a = ip"
    "a_dns1 a = t_dns1 t" "a_dns2 a = t_dns2 t"
    "start_ip p \<le> ip" "ip \<le> stop_ip p" "ip \<notin> ips p" "\<And>j. start_ip p \<le> j \<Longrightarrow> j < ip \<Longrightarrow> j \<in> ips p"
    "find_pool (t_framed_pool t) rt2 = Some (p\<lparr>ips := insert ip (ips p)\<rparr>)"
    "ppp_outcoming rt2 = ppp_outcoming rt @ pap_welcome s (hwaddr rt)"
    by (rule pap_none_step [OF s ok m tn t p free i, of env pad]) simp_all
  then show ?thesis by blast
qed

theorem pap_none_admits_witness:
  "\<exists>rt'. PAP_receive sample_env 0 (pap_request [0x11, 0, 0, 1, 0, 10, 0xc0, 0x23, 1, 5, 0, 8] ''u'' ''p'' []) sample_rt =
      Some ((ACT_NONE, ''''), rt') \<and>
    heap rt' 0 = Some (pap_accepted 1 (sample_session\<lparr>username := ''u''\<rparr>)) \<and>
    (\<exists>ar. getSession 1 rt' = (Some ar, ''''))"
proof -
  let ?t = "\<lparr>t_framed_pool = ''p1'', t_dns1 = 0x08080808, t_dns2 = 0x01010101, t_vrf = [], t_unnumbered = []\<rparr>"
  let ?p = "\<lparr>start_ip = 0x64400002, stop_ip = 0x644000FF, ips = {}\<rparr>"
  have 0: "j < 1 \<Longrightarrow> map_of [(0 :: u32, 0 :: nat)] j \<noteq> None" for j by (simp add: word_less_1)
  have "pap_request_ok [0x11, 0, 0, 1, 0, 10, 0xc0, 0x23, 1, 5, 0, 8] ''u'' ''p''" by (simp add: pap_request_ok_def)
  from pap_none_admits [of sample_rt 0 sample_session, where k = "0x64400002" and i = 1 and env = sample_env and pad = "[]",
      OF _ _ _ this, of ?t ?p]
  show ?thesis using 0 by (auto simp: PPP_FSM_ctor_def sample_conf_def find_pool_def)
qed

section \<open>What becomes of a RADIUS answer\<close>

definition pools_ok :: "PPPOERuntime \<Rightarrow> bool" where
  "pools_ok rt \<longleftrightarrow> (\<forall>n p. find_pool n rt = Some p \<longrightarrow> pool_ok p)"

lemma radius_ctor_returns:
  assumes "pools_ok rt"
  shows "\<exists>a c n. AAA_Session_radius_ctor env i u t res acct rt =
      Some (a, rt\<lparr>nd_pos := n, conf := c\<rparr>) \<and> a_acct a = Some acct"
proof -
  have alloc: "\<exists>ip p'. allocate_ip p = Some (ip, p')" if "find_pool m rt = Some p" for m p
  proof -
    have "stop_ip p \<noteq> - 1" using assms that by (simp add: pools_ok_def pool_ok_def)
    then show ?thesis by (cases rule: allocate_ip_cases) auto
  qed
  have pool: "find_pool m (rt\<lparr>nd_pos := n\<rparr>) = find_pool m rt" for m n by (simp add: find_pool_def)
  let ?rt = "rt\<lparr>nd_pos := nd_pos rt + 1\<rparr>"
  have "\<exists>s :: AAA_Session. AAA_Session_radius_ctor env i u t res acct rt =
      (if a_address s = 0 \<and> a_framed_pool s \<noteq> []
       then (case find_pool (a_framed_pool s) ?rt of
               None \<Rightarrow> Some (s, ?rt)
             | Some fr_pool \<Rightarrow> do {
                 (ip, fr_pool') \<leftarrow> allocate_ip fr_pool;
                 Some (s\<lparr>a_address := ip, free_ip := True\<rparr>, put_pool (a_framed_pool s) fr_pool' ?rt)
               })
       else Some (s, ?rt)) \<and> a_acct s = Some acct"
    unfolding AAA_Session_radius_ctor_def draw_def Let_def prod.case
    by (rule exI, rule conjI, rule refl) (simp add: fresh_aaa_def split: option.split)
  then obtain s :: AAA_Session where s: "a_acct s = Some acct" and run: "AAA_Session_radius_ctor env i u t res acct rt =
      (if a_address s = 0 \<and> a_framed_pool s \<noteq> []
       then (case find_pool (a_framed_pool s) ?rt of
               None \<Rightarrow> Some (s, ?rt)
             | Some fr_pool \<Rightarrow> do {
                 (ip, fr_pool') \<leftarrow> allocate_ip fr_pool;
                 Some (s\<lparr>a_address := ip, free_ip := True\<rparr>, put_pool (a_framed_pool s) fr_pool' ?rt)
               })
       else Some (s, ?rt))" by blast
  have same: "rt\<lparr>nd_pos := n\<rparr> = rt\<lparr>nd_pos := n, conf := conf rt\<rparr>" for n by simp
  show ?thesis
  proof (cases "a_address s = 0 \<and> a_framed_pool s \<noteq> [] \<and> find_pool (a_framed_pool s) rt \<noteq> None")
    case True
    then obtain p where p: "find_pool (a_framed_pool s) rt = Some p" by blast
    from alloc [OF p] obtain ip p' where "allocate_ip p = Some (ip, p')" by blast
    with True run p s show ?thesis
      by (intro exI [of _ "s\<lparr>a_address := ip, free_ip := True\<rparr>"]) (auto simp: pool put_pool_def)
  next
    case False
    with run s pool have "AAA_Session_radius_ctor env i u t res acct rt = Some (s, ?rt)" by auto
    with s same show ?thesis by metis
  qed
qed

lemma aaa_start_sends:
  assumes "aheap rt r = Some a" and "a_acct a = Some n" and "map_of (acct_clients rt) n = Some c"
  shows "\<exists>cl. aaa_start env r rt = Some (rt\<lparr>acct_clients := cl\<rparr>)"
  using assms
  by (auto simp: aaa_start_def send_acct_def acct_request_def Let_def)

text \<open>
  C12. An answer of the RADIUS server is taken for an admission whatever its code: after an
  Access-Reject the peer is sent an Authenticate-Nak, and then the AAA session is created all the
  same, the PPPoE session is marked authenticated, and the Authenticate-Ack and IPCP's
  Configure-Request follow.
\<close>

theorem radius_reject_admits:
  assumes s: "heap rt r = Some s" "state (ipcp s) = Initial"
    and d: "aaa_dict rt = Some d" "deserialize_RadiusResponse d (junk_from env rt) v = Some res"
    and acct: "acct_clients rt = (n, c) # cs" and pools: "pools_ok rt"
    and i: "map_of (aaa_sessions rt) i = None" "i \<noteq> - 1" "\<And>j. j < i \<Longrightarrow> map_of (aaa_sessions rt) j \<noteq> None"
    and code: "code \<noteq> RADIUS_CODE_val ACCESS_ACCEPT"
  shows "\<exists>rt'. processRadiusAnswer env run_callback (PAP_auth_callback r) u code v rt = Some rt' \<and>
    heap rt' r = Some (pap_accepted i s) \<and> map_of (aaa_sessions rt') i \<noteq> None \<and>
    ppp_outcoming rt' = ppp_outcoming rt @
      [generate_header (encap s) (hwaddr rt) ETH_PPPOE_SESSION @ ppp_header PAP (session_id s) 3 0 0] @
      pap_welcome s (hwaddr rt)"
proof -
  define rt1 where "rt1 = send_session_pkt (encap s) (ppp_header PAP (session_id s) 3 0 0)
      (rt\<lparr>nd_pos := nd_pos rt + length v, stray_stores := stray_stores rt + 1\<rparr>)"
  have refused: "run_callback (PAP_auth_callback r) 0 ''RADIUS answered with no accept''
      (rt\<lparr>nd_pos := nd_pos rt + length v\<rparr>) = Some rt1"
    using s(1) by (simp add: PAP_callback_refused rt1_def)
  have same: "aaa_sessions rt1 = aaa_sessions rt" "acct_clients rt1 = acct_clients rt" "heap rt1 = heap rt"
    "conf rt1 = conf rt" "hwaddr rt1 = hwaddr rt" "aheap rt1 = aheap rt" "next_aref rt1 = next_aref rt"
    by (simp_all add: rt1_def send_session_pkt_def push_ppp_def)
  have "pools_ok rt1" using pools by (simp add: pools_ok_def find_pool_def same)
  from radius_ctor_returns [OF this] obtain a cf np where
    a: "AAA_Session_radius_ctor env i u (local_template (aaa_conf (conf rt1))) res n rt1 =
      Some (a, rt1\<lparr>nd_pos := np, conf := cf\<rparr>)" "a_acct a = Some n" by metis
  let ?ar = "next_aref rt"
  define rt2 where "rt2 = rt1\<lparr>nd_pos := np, conf := cf, aheap := (aheap rt)(?ar \<mapsto> a), next_aref := ?ar + 1,
      aaa_sessions := om_emplace i ?ar (aaa_sessions rt)\<rparr>"
  obtain cl where st: "aaa_start env ?ar rt2 = Some (rt2\<lparr>acct_clients := cl\<rparr>)"
    using aaa_start_sends [of rt2 ?ar a n c env] a(2) acct same by (auto simp: rt2_def)
  let ?rt3 = "rt2\<lparr>acct_clients := cl\<rparr>"
  have h3: "heap ?rt3 r = Some s" using s(1) same by (simp add: rt2_def)
  have "processRadiusAnswer env run_callback (PAP_auth_callback r) u code v rt =
      map_option snd (PAP_callback r i '''' ?rt3)"
    using d refused code find_free_sid_least [OF i] i(1,2) acct a st same
    by (simp add: processRadiusAnswer_def new_aaa_def rt2_def del: run_callback.simps)
      (simp add: rt2_def)
  then show ?thesis
    using PAP_callback_ok [OF h3 s(2), of i] same i(1)
    by (simp add: rt2_def om_find_emplace) (simp add: rt1_def send_session_pkt_def push_ppp_def)
qed

theorem radius_reject_admits_witness:
  "\<exists>rt' s'. processRadiusAnswer sample_env run_callback (PAP_auth_callback 0) ''u'' 3 []
      (sample_rt\<lparr>aaa_dict := Some empty_dict, acct_clients := [(''a1'', AuthClient_ctor 0 1813 ''x'' empty_dict)]\<rparr>) = Some rt' \<and>
    heap rt' 0 = Some s' \<and> auth_started (auth s')"
proof -
  let ?rt = "sample_rt\<lparr>aaa_dict := Some empty_dict, acct_clients := [(''a1'', AuthClient_ctor 0 1813 ''x'' empty_dict)]\<rparr>"
  have d: "deserialize_RadiusResponse empty_dict (junk_from sample_env ?rt) [] = Some empty_response"
    by (simp add: deserialize_RadiusResponse_def parseAVP_def parse_avps.simps)
  have "pools_ok ?rt" by (simp add: pools_ok_def find_pool_def sample_conf_def pool_ok_def)
  moreover have 0: "j < 1 \<Longrightarrow> map_of [(0 :: u32, 0 :: nat)] j \<noteq> None" for j by (simp add: word_less_1)
  ultimately show ?thesis
    using radius_reject_admits [of ?rt 0 sample_session empty_dict sample_env "[]", OF _ _ _ d,
        where i = 1 and code = 3 and u = "''u''"]
    by (auto simp: PPP_FSM_ctor_def pap_accepted_def)
qed

section \<open>The end of a session\<close>

text \<open>
  Stopping an AAA session without accounting that nothing else holds ends it: its id is free
  again, the object is gone, its address is back in the pool it came from, and no other pool has
  changed.
\<close>

theorem stop_frees_address:
  assumes "map_of (aaa_sessions rt) sid = Some ar" and "aheap rt ar = Some a" and "a_acct a = None"
    and "free_ip a" and "find_pool (a_framed_pool a) rt = Some p"
    and "\<And>k. (k, ar) \<in> set (aaa_sessions rt) \<Longrightarrow> k = sid"
    and "\<And>n c i h. (n, c) \<in> set (acct_clients rt) \<Longrightarrow> (i, h) \<in> set (callbacks c) \<Longrightarrow> handler_aref (response h) \<noteq> Some ar"
  shows "\<exists>rt'. stopSession env sid rt = Some rt' \<and> aheap rt' = (aheap rt)(ar := None) \<and>
    map_of (aaa_sessions rt') = (map_of (aaa_sessions rt))(sid := None) \<and>
    (\<forall>n. find_pool n rt' = (if n = a_framed_pool a then Some (deallocate_ip (a_address a) p) else find_pool n rt)) \<and>
    heap rt' = heap rt"
proof -
  define rt1 where "rt1 = (upd_aaa ar (\<lambda>a. a\<lparr>a_timer := False\<rparr>) rt)\<lparr>aaa_sessions := om_erase sid (aaa_sessions rt)\<rparr>"
  have stop: "stopSession env sid rt = Some (release_aaa ar rt1)"
    using assms(1-3) by (simp add: stopSession_def aaa_stop_def rt1_def upd_aaa_def)
  have h: "aheap rt1 ar = Some (a\<lparr>a_timer := False\<rparr>)" using assms(2) by (simp add: rt1_def upd_aaa_def)
  have pool: "find_pool n rt1 = find_pool n rt" for n by (simp add: rt1_def upd_aaa_def find_pool_def)
  have "ar \<notin> snd ` set (aaa_sessions rt1)"
    using assms(6) by (auto simp: rt1_def set_om_erase)
  moreover have "\<not> (\<exists>(n, c) \<in> set (acct_clients rt1). \<exists>(i, h) \<in> set (callbacks c). handler_aref (response h) = Some ar)"
    using assms(7) by (fastforce simp: rt1_def upd_aaa_def)
  ultimately have "\<not> aaa_held ar rt1" using h by (simp add: aaa_held_def)
  then have "release_aaa ar rt1 = (put_pool (a_framed_pool a) (deallocate_ip (a_address a) p) rt1)\<lparr>aheap := (aheap rt1)(ar := None)\<rparr>"
    using h assms(4,5) pool by (simp add: release_aaa_def AAA_Session_dtor_def)
  then show ?thesis
    using stop pool assms(2)
    by (simp add: rt1_def upd_aaa_def put_pool_def find_pool_def om_find_set om_find_erase fun_eq_iff)
qed

theorem stop_frees_address_witness:
  "\<exists>rt'. stopSession sample_env 0 sample_rt = Some rt' \<and> aheap rt' 0 = None \<and>
     find_pool ''p1'' rt' = Some \<lparr>start_ip = 0x64400002, stop_ip = 0x644000FF, ips = {}\<rparr>"
  using stop_frees_address [of sample_rt 0 0 sample_aaa "\<lparr>start_ip = 0x64400002, stop_ip = 0x644000FF, ips = {}\<rparr>" sample_env]
  by (auto simp: sample_aaa_def find_pool_def sample_conf_def deallocate_ip_def sample_rt_def runtime_init_def)

end
