(* ===== verification/Pppoe_Spec.thy ===== *)
theory Pppoe_Spec
  imports Pppoe
begin

text \<open>
  Discovery measured against tag lists (RFC 2516): what a PADI is offered, that a PADR is good
  for one session, and what a PADT does.
\<close>

section \<open>Tags on the wire\<close>

type_synonym pppoe_tag = "PPPOE_TAG \<times> string"

definition be16_bytes :: "u16 \<Rightarrow> bytes" where
  "be16_bytes x = [byte_at 1 x, byte_at 0 x]"

definition enc_tag :: "pppoe_tag \<Rightarrow> bytes" where
  "enc_tag tv = be16_bytes (PPPOE_TAG_val (fst tv)) @ be16_bytes (of_nat (length (snd tv))) @ bytes_of_string (snd tv)"

definition enc_tags :: "pppoe_tag list \<Rightarrow> bytes" where
  "enc_tags ts = concat (map enc_tag ts)"

lemma enc_tags_simps [simp]: "enc_tags [] = []" "enc_tags (t # ts) = enc_tag t @ enc_tags ts"
  "enc_tags (ts @ ts') = enc_tags ts @ enc_tags ts'"
  by (simp_all add: enc_tags_def)

lemma length_enc_tag [simp]: "length (enc_tag tv) = 4 + length (snd tv)"
  by (simp add: enc_tag_def be16_bytes_def)

lemma insertTag_enc: "insertTag pkt t v = (of_nat (4 + length v), pkt @ enc_tag (t, v))"
  by (simp add: insertTag_def resize_def replicate_numeral put16_def enc_tag_def be16_bytes_def bswap16_def)

lemma PPPOE_TAG_val_inject [simp]: "PPPOE_TAG_val a = PPPOE_TAG_val b \<longleftrightarrow> a = b"
  by (cases a; cases b) simp_all

lemma load16_be16: "length pre = n \<Longrightarrow> load16 (pre @ be16_bytes x @ rest) n = Some (bswap16 x)"
  by (simp add: load16_def be16_bytes_def nth_append bswap16_def)

definition tags_ok :: "pppoe_tag list \<Rightarrow> bool" where
  "tags_ok ts \<longleftrightarrow> distinct (map fst ts) \<and> END_OF_LIST \<notin> fst ` set ts \<and> (\<forall>tv \<in> set ts. length (snd tv) < 65536)"

lemma parse_tags_from_enc:
  "length pre = offset \<Longrightarrow> ts \<noteq> [] \<Longrightarrow> tags_ok ts \<Longrightarrow>
   \<forall>tv \<in> set ts. map_of m (PPPOE_TAG_val (fst tv)) = None \<Longrightarrow>
   \<exists>m'. parse_tags_from (pre @ enc_tags ts) offset m = Some (m', '''') \<and>
     (\<forall>t. map_of m' (PPPOE_TAG_val t) =
       (case map_of ts t of Some v \<Rightarrow> Some v | None \<Rightarrow> map_of m (PPPOE_TAG_val t)))"
proof (induction ts arbitrary: pre offset m)
  case (Cons tv ts)
  obtain t v where tv: "tv = (t, v)" by (cases tv)
  let ?p = "pre @ enc_tags (tv # ts)"
  have v: "length v < 65536" and t: "t \<noteq> END_OF_LIST" and fresh: "map_of m (PPPOE_TAG_val t) = None"
    using Cons.prems(3,4) by (auto simp: tv tags_ok_def)
  have len: "unat (of_nat (length v) :: u16) = length v" using v by (simp only: unat_of_nat) simp
  have 1: "load16 ?p offset = Some (bswap16 (PPPOE_TAG_val t))"
    using load16_be16 [OF Cons.prems(1)] by (simp add: tv enc_tag_def)
  have 2: "load16 ?p (offset + 2) = Some (bswap16 (of_nat (length v)))"
    using load16_be16 [of "pre @ be16_bytes (PPPOE_TAG_val t)" "offset + 2"] Cons.prems(1)
    by (simp add: tv enc_tag_def be16_bytes_def)
  have 3: "load_range ?p (offset + 4) (length v) = Some (bytes_of_string v)"
    using Cons.prems(1) by (simp add: load_range_def tv enc_tag_def be16_bytes_def)
  have val: "(if length v > 0 then map_option string_of_bytes (load_range ?p (offset + 4) (length v)) else Some []) = Some v"
    using 3 by simp
  let ?m = "om_emplace (PPPOE_TAG_val t) v m"
  have step: "parse_tags_from ?p offset m =
      (if offset + 4 + length v \<ge> length ?p then Some (?m, '''') else parse_tags_from ?p (offset + 4 + length v) ?m)"
    using 1 2 val fresh t len PPPOE_TAG_val_inject [of t END_OF_LIST]
    by (subst parse_tags_from.simps) (simp del: PPPOE_TAG_val_inject)
  have new: "map_of ?m (PPPOE_TAG_val u) = (if u = t then Some v else map_of m (PPPOE_TAG_val u))" for u
    using fresh by (simp add: om_find_emplace)
  show ?case
  proof (cases "ts = []")
    case True
    with step Cons.prems(1) new show ?thesis by (simp add: tv)
  next
    case False
    have "map_of ?m (PPPOE_TAG_val (fst tv')) = None" if "tv' \<in> set ts" for tv'
      using that Cons.prems(3,4) by (auto simp: new tv tags_ok_def image_iff)
    moreover have "tags_ok ts" using Cons.prems(3) by (simp add: tags_ok_def)
    moreover have "length (pre @ enc_tag tv) = offset + 4 + length v" using Cons.prems(1) by (simp add: tv)
    ultimately obtain m' where m': "parse_tags_from ((pre @ enc_tag tv) @ enc_tags ts) (offset + 4 + length v) ?m = Some (m', '''')"
      "\<forall>u. map_of m' (PPPOE_TAG_val u) = (case map_of ts u of Some v \<Rightarrow> Some v | None \<Rightarrow> map_of ?m (PPPOE_TAG_val u))"
      using Cons.IH [OF _ False] by blast
    have "enc_tags ts \<noteq> []" using False by (cases ts) (auto simp: enc_tag_def be16_bytes_def)
    then have "\<not> offset + 4 + length v \<ge> length ?p" using Cons.prems(1) by (simp add: tv)
    moreover have "map_of ts t = None" using Cons.prems(3) by (simp add: tv tags_ok_def map_of_eq_None_iff)
    ultimately show ?thesis using step m' by (auto simp: tv new split: option.split)
  qed
qed simp

lemma parseTags_enc:
  assumes "ts \<noteq> []" and "tags_ok ts"
  shows "\<exists>m. parseTags (enc_tags ts) = Some (m, '''') \<and> (\<forall>t. map_of m (PPPOE_TAG_val t) = map_of ts t)"
proof -
  have "(case map_of ts t of Some v \<Rightarrow> Some v | None \<Rightarrow> map_of [] (PPPOE_TAG_val t)) = map_of ts t" for t
    by (cases "map_of ts t") simp_all
  moreover have "\<exists>m'. parse_tags_from ([] @ enc_tags ts) 0 [] = Some (m', '''') \<and> (\<forall>t. map_of m' (PPPOE_TAG_val t) =
      (case map_of ts t of Some v \<Rightarrow> Some v | None \<Rightarrow> map_of [] (PPPOE_TAG_val t)))"
    by (rule parse_tags_from_enc) (simp_all add: assms)
  ultimately show ?thesis by (simp only: parseTags_def append_Nil)
qed

text \<open>
  C31. Tags written with \<open>insertTag\<close> are read back by \<open>parseTags\<close>: for any non-empty list of
  different tags (none of them the end marker) the parser returns exactly their values, and no
  error.
\<close>

theorem tags_roundtrip:
  assumes "ts \<noteq> []" and "tags_ok ts"
  shows "\<exists>m. parseTags (fold (\<lambda>(t, v) pkt. snd (insertTag pkt t v)) ts []) = Some (m, '''') \<and>
    (\<forall>t. map_of m (PPPOE_TAG_val t) = map_of ts t)"
proof -
  have "fold (\<lambda>(t, v) pkt. snd (insertTag pkt t v)) ts pkt = pkt @ enc_tags ts" for pkt
    by (induction ts arbitrary: pkt) (auto simp: insertTag_enc)
  then show ?thesis using parseTags_enc [OF assms] by simp
qed

theorem tags_roundtrip_witness:
  "\<exists>m. parseTags (fold (\<lambda>(t, v) pkt. snd (insertTag pkt t v)) [(HOST_UNIQ, ''ab''), (SERVICE_NAME, [])] []) = Some (m, '''') \<and>
    map_of m (PPPOE_TAG_val HOST_UNIQ) = Some ''ab''"
proof -
  have "tags_ok [(HOST_UNIQ, ''ab''), (SERVICE_NAME, [])]" by (simp add: tags_ok_def)
  from tags_roundtrip [OF _ this] obtain m where
    m: "parseTags (fold (\<lambda>(t, v) pkt. snd (insertTag pkt t v)) [(HOST_UNIQ, ''ab''), (SERVICE_NAME, [])] []) = Some (m, '''')"
      "\<And>t. map_of m (PPPOE_TAG_val t) = map_of [(HOST_UNIQ, ''ab''), (SERVICE_NAME, [])] t" by blast
  from m(2) [of HOST_UNIQ] have "map_of m (PPPOE_TAG_val HOST_UNIQ) = Some ''ab''" by simp
  with m(1) show ?thesis by blast
qed

section \<open>The offer\<close>

definition disc_pkt :: "PPPOE_CODE \<Rightarrow> u16 \<Rightarrow> pppoe_tag list \<Rightarrow> bytes" where
  "disc_pkt code sid ts =
     [0x11, PPPOE_CODE_val code] @ be16_bytes sid @ be16_bytes (of_nat (length (enc_tags ts))) @ enc_tags ts"

definition short_tags :: "pppoe_tag list \<Rightarrow> bool" where
  "short_tags ts \<longleftrightarrow> (\<forall>tv \<in> set ts. length (snd tv) \<le> 251)"

lemma fold_add_tag:
  "short_tags ts \<Longrightarrow> fold (\<lambda>(t, v). add_tag t v) ts (pkt, n) = (pkt @ enc_tags ts, n + of_nat (length (enc_tags ts)))"
proof (induction ts arbitrary: pkt n)
  case (Cons tv ts)
  obtain t v where tv: "tv = (t, v)" by (cases tv)
  have "length v \<le> 251" using Cons.prems by (simp add: short_tags_def tv)
  then have "unat (of_nat (4 + length v) :: byte) = 4 + length v" by (simp only: unat_of_nat) simp
  then have "(ucast (of_nat (4 + length v) :: byte) :: u16) = of_nat (4 + length v)"
    using \<open>length v \<le> 251\<close>
    by (simp only: word_unat_eq_iff unsigned_ucast_eq unat_of_nat) (simp add: take_bit_nat_eq_self)
  then have "add_tag t v (pkt, n) = (pkt @ enc_tag (t, v), n + of_nat (4 + length v))"
    by (simp only: add_tag_def insertTag_enc Let_def prod.case)
  with Cons.IH [of "pkt @ enc_tag (t, v)" "n + of_nat (4 + length v)"] Cons.prems show ?case
    by (simp add: tv short_tags_def add.assoc)
qed simp

lemma finish_disc_enc:
  assumes "length (enc_tags ts) < 65536"
  shows "finish_disc (put16 2 (bswap16 sid) (disc_reply code) @ enc_tags ts, of_nat (length (enc_tags ts))) = disc_pkt code sid ts"
proof -
  have "unat (of_nat (length (enc_tags ts)) :: u16) = length (enc_tags ts)"
    using assms by (simp only: unat_of_nat) simp
  then show ?thesis
    by (simp add: finish_disc_def disc_reply_def resize_def put8_def put16_def replicate_numeral sizeof_defs
        disc_pkt_def be16_bytes_def bswap16_def)
qed

lemma disc_reply_sid0: "put16 2 (bswap16 0) (disc_reply code) = disc_reply code"
  by (simp add: disc_reply_def resize_def put8_def put16_def replicate_numeral sizeof_defs bswap16_def)

definition present :: "PPPOE_TAG \<Rightarrow> pppoe_tag list \<Rightarrow> pppoe_tag list" where
  "present t ts = (case map_of ts t of Some v \<Rightarrow> [(t, v)] | None \<Rightarrow> [])"

lemma fold_present: "fold (\<lambda>(t, v). add_tag t v) (present t ts) pt =
    (case map_of ts t of Some v \<Rightarrow> add_tag t v pt | None \<Rightarrow> pt)"
  by (simp add: present_def split: option.split)

lemma short_present: "short_tags ts \<Longrightarrow> short_tags (present t ts)"
  by (cases "map_of ts t") (auto simp: short_tags_def present_def dest!: map_of_SomeD)

definition pado_tags :: "PPPOEPolicy \<Rightarrow> pppoe_tag list \<Rightarrow> string \<Rightarrow> pppoe_tag list" where
  "pado_tags pol ts ck = [(AC_NAME, ac_name pol)] @ present HOST_UNIQ ts @ present SERVICE_NAME ts @
     (if insert_cookie pol then [(AC_COOKIE, ck)] else [])"

definition service_accepted :: "PPPOEPolicy \<Rightarrow> pppoe_tag list \<Rightarrow> bool" where
  "service_accepted pol ts \<longleftrightarrow> (case map_of ts SERVICE_NAME of None \<Rightarrow> True
     | Some v \<Rightarrow> ignore_service_name pol \<or> (v \<noteq> [] \<and> v \<in> set (service_name pol)))"

lemma select_service_iff:
  "select_service pol v = (if ignore_service_name pol \<or> (v \<noteq> [] \<and> v \<in> set (service_name pol)) then Some v else None)"
  by (auto simp: select_service_def Let_def)

lemma length_enc_tags: "length (enc_tags ts) = (\<Sum>tv \<leftarrow> ts. 4 + length (snd tv))"
  by (induction ts) simp_all

lemma short_sum: "short_tags ts \<Longrightarrow> length (enc_tags ts) \<le> 255 * length ts"
  by (induction ts) (auto simp: short_tags_def)

definition padi_cookie :: "env \<Rightarrow> PPPOEPolicy \<Rightarrow> PPPOERuntime \<Rightarrow> string" where
  "padi_cookie env pol rt = (if insert_cookie pol then fst (random_string env 16 rt) else [])"

lemma pado_tags_short:
  assumes "short_tags ts" and "length (ac_name pol) \<le> 251"
  shows "short_tags (pado_tags pol ts (padi_cookie env pol rt))"
    and "length (enc_tags (pado_tags pol ts (padi_cookie env pol rt))) < 65536"
proof -
  let ?all = "pado_tags pol ts (padi_cookie env pol rt)"
  have "short_tags [(AC_COOKIE, padi_cookie env pol rt)]"
    by (simp add: short_tags_def padi_cookie_def random_string_def case_prod_unfold Let_def length_draws)
  then show short: "short_tags ?all"
    using assms(2) short_present [OF assms(1)] by (auto simp: pado_tags_def short_tags_def)
  have "length ?all \<le> 4" by (auto simp: pado_tags_def present_def split: option.split)
  then show "length (enc_tags ?all) < 65536" using short_sum [OF short] by linarith
qed

lemma process_padi_enc:
  assumes hdr: "length hdr = 6" and ts: "ts \<noteq> []" "tags_ok ts" "short_tags ts"
    and pol: "pol = pppoe_policy (conf rt) (outer_vlan e)" "length (ac_name pol) \<le> 251"
    and conn: "conn = Pppoe_conn (source_mac e) (outer_vlan e) (inner_vlan e) (padi_cookie env pol rt)"
      "conn \<notin> pendingSession rt"
  shows "\<exists>pkt. process_padi env (hdr @ enc_tags ts) e rt =
    Some (if service_accepted pol ts
      then (('''', disc_pkt PADO 0 (pado_tags pol ts (padi_cookie env pol rt))),
        rt\<lparr>nd_pos := nd_pos rt + (if insert_cookie pol then 16 else 0),
           pendingSession := insert conn (pendingSession rt), pending_timers := conn # pending_timers rt\<rparr>)
      else ((''Wrong service name'', pkt), rt))"
proof -
  obtain m where m: "parseTags (enc_tags ts) = Some (m, '''')" "\<And>t. map_of m (PPPOE_TAG_val t) = map_of ts t"
    using parseTags_enc [OF ts(1,2)] by blast
  let ?p0 = "case map_of ts HOST_UNIQ of
      Some v \<Rightarrow> add_tag HOST_UNIQ v (add_tag AC_NAME (ac_name pol) (disc_reply PADO, 0))
    | None \<Rightarrow> add_tag AC_NAME (ac_name pol) (disc_reply PADO, 0)"
  have run: "process_padi env (hdr @ enc_tags ts) e rt =
      (case (case map_of ts SERVICE_NAME of
               Some v \<Rightarrow> map_option (\<lambda>sel. add_tag SERVICE_NAME sel ?p0) (select_service pol v)
             | None \<Rightarrow> Some ?p0) of
         None \<Rightarrow> Some ((''Wrong service name'', fst ?p0), rt)
       | Some pt \<Rightarrow>
           let (ck, rt) = (if insert_cookie pol then random_string env 16 rt else ([], rt));
               pt = (if insert_cookie pol then add_tag AC_COOKIE ck pt else pt);
               (err, rt) = pendeSession (source_mac e) (outer_vlan e) (inner_vlan e) ck rt
           in if err \<noteq> '''' then Some ((''Cannot pende session: '' @ err, fst pt), rt)
              else Some (('''', finish_disc pt), rt))"
    unfolding process_padi_def pol(1) using hdr(1)
    by (simp add: sizeof_defs m Let_def [of "disc_reply PADO"] Let_def [of "pppoe_policy _ _"]
        Let_def [of "add_tag _ _ _"] Let_def [of "case_option _ _ _"]
        del: PPPOE_TAG_val.simps)
  show ?thesis
  proof (cases "service_accepted pol ts")
    case False
    with run show ?thesis by (auto simp: service_accepted_def select_service_iff split: option.splits)
  next
    case True
    let ?ck = "padi_cookie env pol rt"
    let ?all = "pado_tags pol ts ?ck"
    have short: "short_tags ?all" and small: "length (enc_tags ?all) < 65536"
      using pado_tags_short [OF ts(3) pol(2)] by blast+
    obtain rt1 where ck: "(if insert_cookie pol then random_string env 16 rt else ([], rt)) = (?ck, rt1)"
      and rt1: "rt1 = rt\<lparr>nd_pos := nd_pos rt + (if insert_cookie pol then 16 else 0)\<rparr>"
      by (cases "insert_cookie pol") (auto simp: padi_cookie_def random_string_def case_prod_unfold snd_draws)
    let ?add = "\<lambda>(t, v). add_tag t v"
    let ?p1 = "fold ?add (present SERVICE_NAME ts) ?p0"
    have sel: "(case map_of ts SERVICE_NAME of
        Some v \<Rightarrow> map_option (\<lambda>sel. add_tag SERVICE_NAME sel ?p0) (select_service pol v) | None \<Rightarrow> Some ?p0) = Some ?p1"
      using True
      by (cases "map_of ts SERVICE_NAME") (simp_all add: service_accepted_def select_service_iff present_def)
    have all: "(if insert_cookie pol then add_tag AC_COOKIE ?ck ?p1 else ?p1) = fold ?add ?all (disc_reply PADO, 0)"
      by (simp add: pado_tags_def fold_present)
    also have "\<dots> = (put16 2 (bswap16 0) (disc_reply PADO) @ enc_tags ?all, of_nat (length (enc_tags ?all)))"
      using fold_add_tag [OF short] by (simp add: disc_reply_sid0)
    finally have fin: "finish_disc (if insert_cookie pol then add_tag AC_COOKIE ?ck ?p1 else ?p1) = disc_pkt PADO 0 ?all"
      using finish_disc_enc [OF small] by simp
    have pend: "pendeSession (source_mac e) (outer_vlan e) (inner_vlan e) ?ck rt1 =
        ('''', rt1\<lparr>pendingSession := insert conn (pendingSession rt1), pending_timers := conn # pending_timers rt1\<rparr>)"
      using conn by (simp add: pendeSession_def rt1 Let_def)
    show ?thesis
      unfolding run sel option.case ck Let_def prod.case pend fin using True by (simp add: rt1)
  qed
qed

text \<open>
  A PADI with well-formed tags whose service the policy of its VLAN accepts is answered by one
  PADO: session id 0, the AC's name, the peer's Host-Uniq and Service-Name as they came, and the
  cookie if the policy wants one, in this order, the length in the header right; and exactly this
  subscriber, with this cookie, becomes a pending session. A PADI whose service is not accepted is
  refused and changes nothing.
\<close>

theorem padi_offered:
  assumes hdr: "length hdr = 6" "hdr ! 1 = PPPOE_CODE_val PADI" and ts: "ts \<noteq> []" "tags_ok ts" "short_tags ts"
    and pol: "pol = pppoe_policy (conf rt) (outer_vlan e)" "length (ac_name pol) \<le> 251"
    and conn: "conn = Pppoe_conn (source_mac e) (outer_vlan e) (inner_vlan e) (padi_cookie env pol rt)"
      "conn \<notin> pendingSession rt"
  shows "\<exists>rt'. processPPPOE env (hdr @ enc_tags ts) e rt =
      Some (if service_accepted pol ts then '''' else ''Wrong service name'', rt') \<and>
    (if service_accepted pol ts
     then pppoe_outcoming rt' = pppoe_outcoming rt @
         [generate_header e (hwaddr rt) ETH_PPPOE_DISCOVERY @ disc_pkt PADO 0 (pado_tags pol ts (padi_cookie env pol rt))] \<and>
       pendingSession rt' = insert conn (pendingSession rt) \<and> sessionSet rt' = sessionSet rt
     else rt' = rt)"
proof -
  have code: "load8 (hdr @ enc_tags ts) 1 = Some (PPPOE_CODE_val PADI)" "PPPOE_CODE_of (PPPOE_CODE_val PADI) = Some PADI"
    using hdr by (simp_all add: load8_def nth_append enum_of_defs)
  obtain pkt where "process_padi env (hdr @ enc_tags ts) e rt =
      Some (if service_accepted pol ts
        then (('''', disc_pkt PADO 0 (pado_tags pol ts (padi_cookie env pol rt))),
          rt\<lparr>nd_pos := nd_pos rt + (if insert_cookie pol then 16 else 0),
             pendingSession := insert conn (pendingSession rt), pending_timers := conn # pending_timers rt\<rparr>)
        else ((''Wrong service name'', pkt), rt))"
    using process_padi_enc [OF hdr(1) ts pol conn] by blast
  with code show ?thesis by (simp add: processPPPOE_def reply_disc_def push_pppoe_def)
qed

theorem padi_offered_witness:
  "\<exists>rt'. processPPPOE sample_env ([0x11, 9, 0, 0, 0, 10] @ enc_tags [(SERVICE_NAME, []), (HOST_UNIQ, ''ab'')]) sample_encap
      (sample_rt\<lparr>conf := sample_conf\<lparr>default_pppoe_conf := PPPOEPolicy_default\<lparr>ignore_service_name := True\<rparr>\<rparr>\<rparr>) = Some ('''', rt') \<and>
    pppoe_outcoming rt' = [generate_header sample_encap zero_mac ETH_PPPOE_DISCOVERY @
      disc_pkt PADO 0 [(AC_NAME, ''pppoecpd''), (HOST_UNIQ, ''ab''), (SERVICE_NAME, [])]]"
proof -
  let ?rt = "sample_rt\<lparr>conf := sample_conf\<lparr>default_pppoe_conf := PPPOEPolicy_default\<lparr>ignore_service_name := True\<rparr>\<rparr>\<rparr>"
  have pol: "PPPOEPolicy_default\<lparr>ignore_service_name := True\<rparr> = pppoe_policy (conf ?rt) (outer_vlan sample_encap)"
    by (simp add: pppoe_policy_def sample_conf_def)
  have "tags_ok [(SERVICE_NAME, []), (HOST_UNIQ, ''ab'')]" "short_tags [(SERVICE_NAME, []), (HOST_UNIQ, ''ab'')]"
    by (simp_all add: tags_ok_def short_tags_def)
  from padi_offered [OF _ _ _ this pol _ refl, of "[0x11, 9, 0, 0, 0, 10]" sample_env]
  show ?thesis
    by (auto simp: service_accepted_def pado_tags_def present_def padi_cookie_def PPPOEPolicy_default_def)
qed

section \<open>The session\<close>

lemma tables_ok_sample_rt: "tables_ok sample_rt"
  by (auto simp: tables_ok_def om_ok_def ident_at_def sess_ident_def)

definition padr_conn :: "encapsulation_t \<Rightarrow> pppoe_tag list \<Rightarrow> pppoe_conn_t" where
  "padr_conn e ts = Pppoe_conn (source_mac e) (outer_vlan e) (inner_vlan e)
     (case map_of ts AC_COOKIE of Some v \<Rightarrow> v | None \<Rightarrow> [])"

lemma process_padr_enc:
  assumes hdr: "length hdr = 6" and ts: "ts \<noteq> []" "tags_ok ts" "short_tags ts"
  shows "process_padr env (hdr @ enc_tags ts) e rt =
    (if padr_conn e ts \<notin> pendingSession rt then Some ((''We don't expect this session'', disc_reply PADS), rt)
     else do {
       ((sid, err), rt) \<leftarrow> allocateSession env e (rt\<lparr>pendingSession := pendingSession rt - {padr_conn e ts}\<rparr>);
       Some (if err \<noteq> '''' then (''Cannot process PADR: '' @ err, disc_reply PADS)
             else ('''', disc_pkt PADS sid (present SERVICE_NAME ts @ present HOST_UNIQ ts)), rt)
     })"
proof -
  obtain m where m: "parseTags (enc_tags ts) = Some (m, '''')" "\<And>t. map_of m (PPPOE_TAG_val t) = map_of ts t"
    using parseTags_enc [OF ts(1,2)] by blast
  let ?all = "present SERVICE_NAME ts @ present HOST_UNIQ ts"
  have short: "short_tags ?all" using short_present [OF ts(3)] by (auto simp: short_tags_def)
  have "length ?all \<le> 2" by (auto simp: present_def split: option.split)
  then have small: "length (enc_tags ?all) < 65536" using short_sum [OF short] by linarith
  have fin: "finish_disc (case map_of ts HOST_UNIQ of
        Some v \<Rightarrow> add_tag HOST_UNIQ v (case map_of ts SERVICE_NAME of
            Some v \<Rightarrow> add_tag SERVICE_NAME v (put16 2 (bswap16 sid) (disc_reply PADS), 0)
          | None \<Rightarrow> (put16 2 (bswap16 sid) (disc_reply PADS), 0))
      | None \<Rightarrow> (case map_of ts SERVICE_NAME of
            Some v \<Rightarrow> add_tag SERVICE_NAME v (put16 2 (bswap16 sid) (disc_reply PADS), 0)
          | None \<Rightarrow> (put16 2 (bswap16 sid) (disc_reply PADS), 0))) = disc_pkt PADS sid ?all" for sid
    using finish_disc_enc [OF small, of sid PADS] fold_add_tag [OF short, of "put16 2 (bswap16 sid) (disc_reply PADS)" 0]
    by (simp add: fold_present)
  show ?thesis
    using hdr
    by (auto simp: process_padr_def sizeof_defs m padr_conn_def checkSession_def Let_def fin
        case_prod_unfold simp del: PPPOE_TAG_val.simps intro!: arg_cong [of _ _ "\<lambda>f. Option.bind _ f"])
qed

text \<open>
  C10. A PADR is good for one session: when its subscriber and cookie are pending and an id is
  free, it gets a PADS with a new non-zero id, its Service-Name and Host-Uniq, and a session is
  active under the subscriber's key with that id; the same PADR again is refused and changes
  nothing.
\<close>

theorem padr_one_session:
  assumes hdr: "length hdr = 6" "hdr ! 1 = PPPOE_CODE_val PADR" and ts: "ts \<noteq> []" "tags_ok ts" "short_tags ts"
    and ok: "tables_ok rt" and pending: "padr_conn e ts \<in> pendingSession rt"
    and free: "j \<noteq> 0" "j \<notin> sessionSet rt"
  shows "\<exists>sid r rt1. processPPPOE env (hdr @ enc_tags ts) e rt = Some ('''', rt1) \<and>
    sid \<noteq> 0 \<and> sid \<notin> sessionSet rt \<and> sessionSet rt1 = insert sid (sessionSet rt) \<and>
    map_of (activeSessions rt1) (key_of_encap e sid) = Some r \<and> map_option sess_ident (heap rt1 r) = Some (sid, e) \<and>
    pppoe_outcoming rt1 = pppoe_outcoming rt @ [generate_header e (hwaddr rt) ETH_PPPOE_DISCOVERY @
      disc_pkt PADS sid (present SERVICE_NAME ts @ present HOST_UNIQ ts)] \<and>
    processPPPOE env (hdr @ enc_tags ts) e rt1 = Some (''We don't expect this session'', rt1)"
proof -
  let ?p = "hdr @ enc_tags ts" and ?rt = "rt\<lparr>pendingSession := pendingSession rt - {padr_conn e ts}\<rparr>"
  have code: "load8 ?p 1 = Some (PPPOE_CODE_val PADR)" "PPPOE_CODE_of (PPPOE_CODE_val PADR) = Some PADR"
    using hdr by (simp_all add: load8_def nth_append enum_of_defs)
  note padr = process_padr_enc [OF hdr(1) ts, of env e]
  have refused: "processPPPOE env ?p e q = Some (''We don't expect this session'', q)"
    if "padr_conn e ts \<notin> pendingSession q" for q
    using that padr [of q] code by (simp add: processPPPOE_def reply_disc_def)
  have ok': "tables_ok ?rt" using ok by simp
  show ?thesis
  proof (cases rule: allocateSession_cases [OF ok', of e env, case_names found full])
    case full
    with free show ?thesis by simp
  next
    case (found i s q)
    let ?rt1 = "q\<lparr>sessionSet := insert i (sessionSet ?rt), heap := (heap ?rt)(next_ref ?rt \<mapsto> s),
            next_ref := next_ref ?rt + 1, next_session_id := next_sid i,
            activeSessions := om_emplace (key_of_encap e i) (next_ref ?rt) (activeSessions ?rt)\<rparr>"
    have q: "hwaddr q = hwaddr rt" "pppoe_outcoming q = pppoe_outcoming rt" "pendingSession q = pendingSession ?rt"
      by (subst found(7), simp)+
    have free_key: "map_of (activeSessions rt) (key_of_encap e i) = None"
      using tables_ok_insert(1) [OF ok', of i i s e] found(1-3) by simp
    have padr': "process_padr env ?p e rt = Some (('''', disc_pkt PADS i (present SERVICE_NAME ts @ present HOST_UNIQ ts)), ?rt1)"
      using padr [of rt] pending found(6) by simp
    define rt2 where "rt2 = push_pppoe (generate_header e (hwaddr rt) ETH_PPPOE_DISCOVERY @
        disc_pkt PADS i (present SERVICE_NAME ts @ present HOST_UNIQ ts)) ?rt1"
    from padr' have "processPPPOE env ?p e rt = Some ('''', rt2)"
      using code q(1) by (simp add: processPPPOE_def reply_disc_def rt2_def)
    moreover have "padr_conn e ts \<notin> pendingSession rt2" using q(3) by (simp add: rt2_def push_pppoe_def)
    moreover have "sessionSet rt2 = insert i (sessionSet rt)"
      "map_of (activeSessions rt2) (key_of_encap e i) = Some (next_ref rt)" "heap rt2 (next_ref rt) = Some s"
      "pppoe_outcoming rt2 = pppoe_outcoming rt @ [generate_header e (hwaddr rt) ETH_PPPOE_DISCOVERY @
         disc_pkt PADS i (present SERVICE_NAME ts @ present HOST_UNIQ ts)]"
      using q(2) free_key by (simp_all add: rt2_def push_pppoe_def om_find_emplace)
    ultimately show ?thesis using found(1-3) refused by auto
  qed
qed

theorem padr_one_session_witness:
  "\<exists>sid rt1. processPPPOE sample_env ([0x11, 0x19, 0, 0, 0, 4] @ enc_tags [(SERVICE_NAME, [])]) sample_encap
      (sample_rt\<lparr>pendingSession := {Pppoe_conn (MAC 2 0 0 0 0 1) 0 0 []}\<rparr>) = Some ('''', rt1) \<and>
    sid \<noteq> 0 \<and> sid \<noteq> 1 \<and> sessionSet rt1 = {sid, 1}"
proof -
  let ?rt = "sample_rt\<lparr>pendingSession := {Pppoe_conn (MAC 2 0 0 0 0 1) 0 0 []}\<rparr>"
  have "tags_ok [(SERVICE_NAME, [])]" "short_tags [(SERVICE_NAME, [])]" by (simp_all add: tags_ok_def short_tags_def)
  moreover have "tables_ok ?rt" by (simp add: tables_ok_sample_rt)
  moreover have "padr_conn sample_encap [(SERVICE_NAME, [])] \<in> pendingSession ?rt"
    by (simp add: padr_conn_def sample_encap_def)
  ultimately show ?thesis
    using padr_one_session [of "[0x11, 0x19, 0, 0, 0, 4]" "[(SERVICE_NAME, [])]" ?rt sample_encap 2 sample_env]
    by auto
qed

text \<open>
  C22. A PADT ends the session whose id it carries, and gives its id back, whoever sends it: neither
  the sender's address nor its VLANs are compared with the session's.
\<close>

theorem padt_ends_session:
  assumes hdr: "length hdr = 6" "hdr ! 1 = PPPOE_CODE_val PADT" "mk16 (hdr ! 2) (hdr ! 3) = bswap16 sid"
    and ok: "tables_ok rt" and run: "processPPPOE env (hdr @ pad) e rt = Some (err, rt')"
  shows "err = '''' \<and> tables_ok rt' \<and> sessionSet rt' = sessionSet rt - {sid} \<and>
    (\<forall>k. key_session_id k = sid \<longrightarrow> map_of (activeSessions rt') k = None)"
proof -
  have "load8 (hdr @ pad) 1 = Some (PPPOE_CODE_val PADT)" "PPPOE_CODE_of (PPPOE_CODE_val PADT) = Some PADT"
    "load16 (hdr @ pad) 2 = Some (bswap16 sid)"
    using hdr by (simp_all add: load8_def load16_def nth_append enum_of_defs)
  with run obtain e' where "deallocateSession env sid rt = Some (e', rt')" "err = ''''"
    by (auto simp: processPPPOE_def bind_eq_Some_conv)
  with tables_ok_deallocateSession [OF ok this(1)] sessionSet_deallocateSession [OF ok this(1)]
  show ?thesis by (force simp: tables_ok_def map_of_eq_None_iff)
qed

theorem padt_ends_session_witness:
  "\<exists>rt'. processPPPOE sample_env [0x11, 0xa7, 0, 1, 0, 0] (sample_encap\<lparr>source_mac := MAC 6 6 6 6 6 6\<rparr>) sample_rt = Some ('''', rt') \<and>
    sessionSet rt' = {}"
proof -
  have "PPPOE_CODE_of 0xa7 = Some PADT" by (simp add: enum_of_defs)
  moreover have "mk16 1 0 = 1" by (simp add: word_unat_eq_iff unat_mk16)
  then have "bswap16 (mk16 0 1) = 1" by (simp add: bswap16_mk16)
  moreover have "find_by_sid 1 sample_rt = Some (key_of_encap sample_encap 1, 0)" by (simp add: find_by_sid_def)
  moreover have "\<exists>rt1. stopSession sample_env 0 sample_rt = Some rt1"
    by (simp add: stopSession_def aaa_stop_def upd_aaa_def sample_aaa_def)
  ultimately obtain err rt' where run: "processPPPOE sample_env ([0x11, 0xa7, 0, 1, 0, 0] @ []) (sample_encap\<lparr>source_mac := MAC 6 6 6 6 6 6\<rparr>) sample_rt = Some (err, rt')"
    by (auto simp: processPPPOE_def load8_def load16_def deallocateSession_def)
  have "mk16 0 1 = bswap16 1" by (simp add: bswap16_def)
  with padt_ends_session [OF _ _ _ tables_ok_sample_rt run, of 1] run show ?thesis by auto
qed

end
