(* ===== verification/Handshake.thy ===== *)
theory Handshake
  imports Daemon_Inv Aaa_Spec Pppoe_Spec
begin

text \<open>
  A subscriber from its first frame to its entry in the dataplane: discovery, PAP, IPCP. The
  subscriber's packets are built with the same functions the daemon's are measured against.
\<close>

section \<open>Frames and runs\<close>

text \<open>\<open>f\<close>, received with the VLAN \<open>v\<close> the kernel reports, carries \<open>pkt\<close> from the subscriber behind \<open>e\<close>.\<close>

definition carries :: "bytes \<Rightarrow> u16 \<Rightarrow> encapsulation_t \<Rightarrow> u16 \<Rightarrow> bytes \<Rightarrow> bool" where
  "carries f v e t pkt \<longleftrightarrow> encapsulation_ctor f v 0 = Some (e\<lparr>encap_type := Some t\<rparr>, pkt)"

lemma generate_header_type [simp]: "generate_header (e\<lparr>encap_type := t\<rparr>) = generate_header e"
  by (simp add: generate_header_def fun_eq_iff)

lemma key_of_encap_type [simp]: "key_of_encap (e\<lparr>encap_type := t\<rparr>) = key_of_encap e"
  by (simp add: key_of_encap_def fun_eq_iff)

lemma handle_frame:
  "carries f v e ETH_PPPOE_DISCOVERY pkt \<Longrightarrow> handle env (Frame f v) l =
     map_option (\<lambda>(_, rt). l\<lparr>runtime := rt\<rparr>) (processPPPOE env pkt (e\<lparr>encap_type := Some ETH_PPPOE_DISCOVERY\<rparr>) (runtime l))"
  "carries f v e ETH_PPPOE_SESSION pkt \<Longrightarrow> handle env (Frame f v) l =
     map_option (\<lambda>(_, rt). l\<lparr>runtime := rt\<rparr>) (processPPP env pkt (e\<lparr>encap_type := Some ETH_PPPOE_SESSION\<rparr>) (runtime l))"
  by (simp_all add: carries_def on_runtime_def generic_receive_def option.map_comp comp_def case_prod_unfold)

fun run_events :: "env \<Rightarrow> event list \<Rightarrow> EVLoop \<Rightarrow> EVLoop option" where
  "run_events env [] l = Some l"
| "run_events env (ev # evs) l = do { l \<leftarrow> handle env ev l; run_events env evs l }"

section \<open>Discovery\<close>

definition disc_hdr :: "PPPOE_CODE \<Rightarrow> u16 \<Rightarrow> pppoe_tag list \<Rightarrow> bytes" where
  "disc_hdr code sid ts = [0x11, PPPOE_CODE_val code] @ be16_bytes sid @ be16_bytes (of_nat (length (enc_tags ts)))"

lemma disc_pkt_hdr: "disc_pkt code sid ts = disc_hdr code sid ts @ enc_tags ts"
  by (simp add: disc_pkt_def disc_hdr_def)

lemma disc_hdr_simps: "length (disc_hdr code sid ts) = 6" "disc_hdr code sid ts ! 1 = PPPOE_CODE_val code"
  by (simp_all add: disc_hdr_def be16_bytes_def)

lemma process_disc:
  "processPPPOE env (disc_pkt PADI 0 ts) e rt = map_option (reply_disc e) (process_padi env (disc_hdr PADI 0 ts @ enc_tags ts) e rt)"
  "processPPPOE env (disc_pkt PADR 0 ts) e rt = map_option (reply_disc e) (process_padr env (disc_hdr PADR 0 ts @ enc_tags ts) e rt)"
proof -
  have "load8 (disc_hdr code 0 ts @ enc_tags ts) 1 = Some (PPPOE_CODE_val code)" for code
    by (simp add: load8_def disc_hdr_def be16_bytes_def)
  moreover have "PPPOE_CODE_of (PPPOE_CODE_val PADI) = Some PADI" "PPPOE_CODE_of (PPPOE_CODE_val PADR) = Some PADR"
    by (simp_all add: enum_of_defs)
  ultimately show "processPPPOE env (disc_pkt PADI 0 ts) e rt =
      map_option (reply_disc e) (process_padi env (disc_hdr PADI 0 ts @ enc_tags ts) e rt)"
    "processPPPOE env (disc_pkt PADR 0 ts) e rt =
      map_option (reply_disc e) (process_padr env (disc_hdr PADR 0 ts @ enc_tags ts) e rt)"
    by (simp_all add: processPPPOE_def disc_pkt_hdr del: PPPOE_CODE_val.simps One_nat_def)
qed

lemma padi_step:
  assumes ts: "ts \<noteq> []" "tags_ok ts" "short_tags ts"
    and pol: "pol = pppoe_policy (conf rt) (outer_vlan e)" "length (ac_name pol) \<le> 251" "service_accepted pol ts"
    and conn: "conn = Pppoe_conn (source_mac e) (outer_vlan e) (inner_vlan e) (padi_cookie env pol rt)"
      "conn \<notin> pendingSession rt"
  shows "processPPPOE env (disc_pkt PADI 0 ts) e rt = Some ('''',
    rt\<lparr>nd_pos := nd_pos rt + (if insert_cookie pol then 16 else 0),
       pendingSession := insert conn (pendingSession rt), pending_timers := conn # pending_timers rt,
       pppoe_outcoming := pppoe_outcoming rt @ [generate_header e (hwaddr rt) ETH_PPPOE_DISCOVERY @
         disc_pkt PADO 0 (pado_tags pol ts (padi_cookie env pol rt))]\<rparr>)"
  using process_padi_enc [OF disc_hdr_simps(1) [of PADI 0 ts] ts pol(1,2) conn] pol(3)
  by (auto simp: process_disc reply_disc_def push_pppoe_def)

definition fresh_session :: "encapsulation_t \<Rightarrow> u16 \<Rightarrow> PPPOESession \<Rightarrow> bool" where
  "fresh_session e i s \<longleftrightarrow> encap s = e \<and> session_id s = i \<and> \<not> started s \<and>
     lcp s = \<lparr>lcp_fsm = PPP_FSM_ctor i, echo_counter = 0\<rparr> \<and> ipcp s = PPP_FSM_ctor i \<and>
     \<not> auth_started (auth s)"

lemma padr_step:
  assumes ts: "ts \<noteq> []" "tags_ok ts" "short_tags ts" and ok: "tables_ok rt"
    and pending: "padr_conn e ts \<in> pendingSession rt"
    and sid: "sid_search (sessionSet rt) (next_session_id rt) (next_session_id rt) = Some (Some sid)"
  obtains s n where "fresh_session e sid s"
    "processPPPOE env (disc_pkt PADR 0 ts) e rt = Some ('''',
      rt\<lparr>nd_pos := n, pendingSession := pendingSession rt - {padr_conn e ts},
         sessionSet := insert sid (sessionSet rt), heap := (heap rt)(next_ref rt \<mapsto> s), next_ref := next_ref rt + 1,
         next_session_id := next_sid sid,
         activeSessions := om_emplace (key_of_encap e sid) (next_ref rt) (activeSessions rt),
         pppoe_outcoming := pppoe_outcoming rt @ [generate_header e (hwaddr rt) ETH_PPPOE_DISCOVERY @
           disc_pkt PADS sid (present SERVICE_NAME ts @ present HOST_UNIQ ts)]\<rparr>)"
proof -
  let ?rt = "rt\<lparr>pendingSession := pendingSession rt - {padr_conn e ts}\<rparr>"
  have "tables_ok ?rt" using ok by simp
  from allocateSession_found(3) [OF this, of sid env e] sid
  have alloc: "allocateSession env e ?rt = Some ((sid, ''''), (?rt\<lparr>nd_pos := nd_pos rt + 5\<rparr>)
      \<lparr>sessionSet := insert sid (sessionSet rt), heap := (heap rt)(next_ref rt \<mapsto> fst (PPPOESession_ctor env e sid ?rt)),
       next_ref := next_ref rt + 1, next_session_id := next_sid sid,
       activeSessions := om_emplace (key_of_encap e sid) (next_ref rt) (activeSessions rt)\<rparr>)" by simp
  show thesis
    by (rule that [of "fst (PPPOESession_ctor env e sid ?rt)" "nd_pos rt + 5"])
      (use process_padr_enc [OF disc_hdr_simps(1) [of PADR 0 ts] ts, of env e rt] pending alloc in
        \<open>simp_all add: process_disc fresh_session_def PPPOESession_ctor_def case_prod_unfold Let_def
          reply_disc_def push_pppoe_def\<close>)
qed

section \<open>PPP\<close>

text \<open>What of the session's frame the dispatcher reads.\<close>

lemma ppp_dispatch:
  assumes "map_of (activeSessions rt) (key_of_encap e sid) = Some r" and "start_session env r rt = Some rt1"
  shows "processPPP env (ppp_header proto sid code i n @ rest) e rt =
    (case proto of
       LCP \<Rightarrow> process_lcp env r (ppp_header proto sid code i n @ rest) rt1
     | PAP \<Rightarrow> do { (ret, rt) \<leftarrow> PAP_receive env r (ppp_header proto sid code i n @ rest) rt1; Some ('''', rt) }
     | CHAP \<Rightarrow> do { (ret, rt) \<leftarrow> CHAP_receive env r (ppp_header proto sid code i n @ rest) rt1; Some ('''', rt) }
     | IPCP \<Rightarrow> do { rt \<leftarrow> process_ipcp env r (ppp_header proto sid code i n @ rest) rt1; Some ('''', rt) }
     | _ \<Rightarrow> do { rt \<leftarrow> reject_proto r (ppp_header proto sid code i n @ rest) rt1; Some ('''', rt) })"
proof -
  let ?p = "ppp_header proto sid code i n @ rest"
  have "load16 ?p 2 = Some (bswap16 sid)" "load16 ?p 6 = Some (bswap16 (PPP_PROTO_val proto))"
    by (simp_all add: load16_def ppp_header_def bswap16_def)
  moreover have "PPP_PROTO_of (PPP_PROTO_val proto) = Some proto" by (cases proto) (simp_all add: enum_of_defs)
  ultimately show ?thesis using assms by (cases proto) (simp_all add: processPPP_def)
qed

lemma start_session_again: "heap rt r = Some s \<Longrightarrow> started s \<Longrightarrow> start_session env r rt = Some rt"
  by (simp add: start_session_def)

text \<open>The first frame, whatever it is, makes LCP send its request.\<close>

lemma start_session_fresh:
  assumes s: "heap rt r = Some s" "fresh_session e sid s" and auth: "authCHAP (lcp_conf rt) \<or> authPAP (lcp_conf rt)"
  obtains s' n req where "start_session env r rt = Some (rt\<lparr>heap := (heap rt)(r \<mapsto> s'), nd_pos := n,
      ppp_outcoming := ppp_outcoming rt @ [generate_header e (hwaddr rt) ETH_PPPOE_SESSION @ req]\<rparr>)"
    "lcp_conf_req_pkt (lcp_conf rt) sid 1 (our_magic_number s') = Some req"
    "started s'" "state (lcp_fsm (lcp s')) = Req_Sent" "encap s' = e" "session_id s' = sid" "auth s' = auth s"
    "ipcp s' = ipcp s"
proof -
  let ?magic = "if our_magic_number s = 0 then nondet env (nd_pos rt) else our_magic_number s"
  let ?n = "if our_magic_number s = 0 then nd_pos rt + 1 else nd_pos rt"
  let ?s' = "s\<lparr>our_magic_number := ?magic,
    lcp := \<lparr>lcp_fsm = (PPP_FSM_ctor sid)\<lparr>state := Req_Sent\<rparr>, echo_counter = 0\<rparr>, started := True\<rparr>"
  obtain req where req: "lcp_conf_req_pkt (lcp_conf rt) sid 1 ?magic = Some req"
    using auth by (simp add: lcp_conf_req_pkt_def Let_def case_prod_unfold)
  show thesis
    by (rule that [of req ?n ?s'])
      (use s auth req in \<open>auto simp: fresh_session_def start_session_def fsm_open_def layer_up_def LCP_vtable_def
        lcp_this_def upd_lcp_def upd_sess_def to_state_def PPP_FSM_ctor_def LCP_send_conf_req_def
        random_uin32_t_def draw_def send_session_pkt_def push_ppp_def Let_def\<close>)
qed

text \<open>
  The subscriber's credentials, although LCP has not been negotiated: the session is admitted, with
  the lowest free address.
\<close>

lemma pap_step:
  assumes active: "map_of (activeSessions rt) (key_of_encap e sid) = Some r"
    and s: "heap rt r = Some s" "fresh_session e0 sid s"
    and auth: "authCHAP (lcp_conf rt) \<or> authPAP (lcp_conf rt)" and cred: "length u < 256" "length pw < 256"
    and m: "aaa_method (aaa_conf (conf rt)) = [NONE]" and tn: "local_template (aaa_conf (conf rt)) \<noteq> []"
    and t: "map_of (pppoe_templates (conf rt)) (local_template (aaa_conf (conf rt))) = Some t"
    and p: "find_pool (t_framed_pool t) rt = Some p" "stop_ip p \<noteq> - 1"
    and ip: "start_ip p \<le> ip" "ip \<le> stop_ip p" "ip \<notin> ips p" "\<forall>j. start_ip p \<le> j \<and> j < ip \<longrightarrow> j \<in> ips p"
    and i: "map_of (aaa_sessions rt) i = None" "i \<noteq> - 1" "\<And>j. j < i \<Longrightarrow> map_of (aaa_sessions rt) j \<noteq> None"
  obtains rt' s' ar a req where
    "processPPP env (pap_request (ppp_header PAP sid 1 j n) u pw pad) e rt = Some ('''', rt')"
    "heap rt' r = Some s'" "started s'" "encap s' = e0" "session_id s' = sid" "aaa_session_id s' = i"
    "state (lcp_fsm (lcp s')) = Req_Sent" "ipcp s' = (PPP_FSM_ctor sid)\<lparr>state := Req_Sent\<rparr>"
    "getSession i rt' = (Some ar, '''')" "aheap rt' ar = Some a" "a_username a = u" "a_address a = ip"
    "a_dns1 a = t_dns1 t" "a_dns2 a = t_dns2 t" "a_vrf a = t_vrf t" "a_unnumbered a = []"
    "frame rt rt'" "vpp rt' = vpp rt" "pppoe_outcoming rt' = pppoe_outcoming rt"
    "find_pool (t_framed_pool t) rt' = Some (p\<lparr>ips := insert ip (ips p)\<rparr>)"
    "ppp_outcoming rt' = ppp_outcoming rt @ map (\<lambda>q. generate_header e0 (hwaddr rt) ETH_PPPOE_SESSION @ q)
       [req, ppp_header PAP sid 2 0 0, ppp_header IPCP sid 1 1 6 @ [3, 6, 100, 64, 0, 1] @ replicate 14 0]"
proof -
  obtain s1 n1 req where 1: "start_session env r rt = Some (rt\<lparr>heap := (heap rt)(r \<mapsto> s1), nd_pos := n1,
      ppp_outcoming := ppp_outcoming rt @ [generate_header e0 (hwaddr rt) ETH_PPPOE_SESSION @ req]\<rparr>)"
    and s1: "started s1" "state (lcp_fsm (lcp s1)) = Req_Sent" "encap s1 = e0" "session_id s1 = sid" "auth s1 = auth s"
      "ipcp s1 = ipcp s"
    by (rule start_session_fresh [OF s auth])
  define rt1 where "rt1 = rt\<lparr>heap := (heap rt)(r \<mapsto> s1), nd_pos := n1,
      ppp_outcoming := ppp_outcoming rt @ [generate_header e0 (hwaddr rt) ETH_PPPOE_SESSION @ req]\<rparr>"
  have rt1: "heap rt1 r = Some s1" "conf rt1 = conf rt" "aaa_sessions rt1 = aaa_sessions rt"
    "find_pool nm rt1 = find_pool nm rt" "vpp rt1 = vpp rt" "pppoe_outcoming rt1 = pppoe_outcoming rt"
    "ppp_outcoming rt1 = ppp_outcoming rt @ [generate_header e0 (hwaddr rt) ETH_PPPOE_SESSION @ req]"
    "hwaddr rt1 = hwaddr rt" for nm
    by (simp_all add: rt1_def find_pool_def)
  have f1: "frame rt rt1" using frame_start_session [OF 1] by (simp add: rt1_def)
  let ?hdr = "ppp_header PAP sid 1 j n"
  have ok: "pap_request_ok ?hdr u pw" using cred by (simp add: pap_request_ok_def ppp_header_def)
  have init: "\<not> auth_started (auth s1)" "state (ipcp s1) = Initial"
    using s(2) s1 by (simp_all add: fresh_session_def PPP_FSM_ctor_def)
  obtain rt2 ar a ip' where 2: "PAP_receive env r (pap_request ?hdr u pw pad) rt1 = Some ((ACT_NONE, ''''), rt2)"
    and h2: "heap rt2 r = Some (pap_accepted i (s1\<lparr>username := u\<rparr>))"
    and a: "getSession i rt2 = (Some ar, '''')" "aheap rt2 ar = Some a" "a_username a = u" "a_address a = ip'"
      "a_dns1 a = t_dns1 t" "a_dns2 a = t_dns2 t" "a_vrf a = t_vrf t" "a_unnumbered a = []"
    and ip': "start_ip p \<le> ip'" "ip' \<le> stop_ip p" "ip' \<notin> ips p" "\<And>j. start_ip p \<le> j \<Longrightarrow> j < ip' \<Longrightarrow> j \<in> ips p"
    and pool: "find_pool (t_framed_pool t) rt2 = Some (p\<lparr>ips := insert ip' (ips p)\<rparr>)"
    and out: "ppp_outcoming rt2 = ppp_outcoming rt1 @ pap_welcome s1 (hwaddr rt1)"
      "vpp rt2 = vpp rt1" "pppoe_outcoming rt2 = pppoe_outcoming rt1"
    by (rule pap_none_step [of rt1 r s1, unfolded rt1, OF _ init ok m tn t p ip(1-3) i, of env pad])
      (simp_all add: rt1)
  have "ip' = ip" using ip ip' by (metis linorder_less_linear)
  have run: "processPPP env (pap_request ?hdr u pw pad) e rt = Some ('''', rt2)"
    using ppp_dispatch [OF active 1, of PAP] 2 by (simp add: pap_request_def rt1_def)
  have f2: "frame rt rt2" using frame_trans [OF f1 frame_PAP_receive [OF 2]] .
  show thesis
  proof (rule that [OF run h2])
    show "ipcp (pap_accepted i (s1\<lparr>username := u\<rparr>)) = (PPP_FSM_ctor sid)\<lparr>state := Req_Sent\<rparr>"
      using s(2) s1 by (simp add: fresh_session_def pap_accepted_def)
    show "ppp_outcoming rt2 = ppp_outcoming rt @ map (\<lambda>q. generate_header e0 (hwaddr rt) ETH_PPPOE_SESSION @ q)
       [req, ppp_header PAP sid 2 0 0, ppp_header IPCP sid 1 1 6 @ [3, 6, 100, 64, 0, 1] @ replicate 14 0]"
      using s(2) s1 by (simp add: out rt1 pap_welcome_def fresh_session_def PPP_FSM_ctor_def)
  qed (use a pool \<open>ip' = ip\<close> f2 out s1 rt1 in \<open>simp_all add: pap_accepted_def\<close>)
qed

text \<open>The subscriber acknowledges IPCP's request.\<close>

definition ipcp_acked :: "PPPOESession \<Rightarrow> PPPOESession" where
  "ipcp_acked s = s\<lparr>ipcp := (ipcp s)\<lparr>seen_ack := True, state := Ack_Rcvd\<rparr>\<rparr>"

lemma ipcp_ack_step:
  assumes active: "map_of (activeSessions rt) (key_of_encap e sid) = Some r"
    and s: "heap rt r = Some s" "started s" "state (ipcp s) = Req_Sent" "pkt_id (ipcp s) = j"
  shows "processPPP env (ppp_header IPCP sid 2 j n @ rest) e rt = Some ('''', upd_sess r ipcp_acked rt)"
proof -
  let ?p = "ppp_header IPCP sid 2 j n @ rest"
  have "load8 ?p 8 = Some 2" "load8 ?p 9 = Some j" by (simp_all add: load8_def ppp_header_def)
  moreover have "LCP_CODE_of 2 = Some CONF_ACK" by (simp add: enum_of_defs)
  ultimately have "receive (IPCP_vtable r) ?p rt = Some ((ACT_NONE, ''''), upd_sess r ipcp_acked rt)"
    using s by (simp add: receive_def recv_conf_ack_def IPCP_vtable_def ipcp_this_def upd_ipcp_def
        upd_sess_upd_sess to_state_def ipcp_acked_def [abs_def])
  then show ?thesis
    using ppp_dispatch [OF active start_session_again [OF s(1,2)], where proto = IPCP] by (simp add: process_ipcp_def)
qed

text \<open>The session goes into the dataplane: the first request VPP gets is the new session.\<close>

lemma provision_dp_asks:
  assumes s: "heap rt r = Some s" "s_unnumbered s = []"
    and vid: "(if s_vrf s = [] then Some 0 else map_of (vpp_vrfs (vpp rt)) (s_vrf s)) = Some vid"
  obtains err v i rest where
    "provision_dp env r rt = Some (err, (upd_sess r (\<lambda>s. s\<lparr>ifindex := i\<rparr>) rt)\<lparr>vpp := v\<rparr>)"
    "vapi_log v = vapi_log (vpp rt) @
       Pppoe_add_del_session (ip4_bytes (s_address s)) (mac_bytes (source_mac (encap s))) vid (session_id s) True # rest"
proof -
  let ?msg = "Pppoe_add_del_session (ip4_bytes (s_address s)) (mac_bytes (source_mac (encap s))) vid (session_id s) True"
  let ?ans = "vapi env (vapi_log (vpp rt)) ?msg" and ?v = "(vpp rt)\<lparr>vapi_log := vapi_log (vpp rt) @ [?msg]\<rparr>"
  have add: "add_pppoe_session (vapi env) (s_address s) (session_id s) (source_mac (encap s)) (s_vrf s) True (vpp rt) =
      (if sw_if_index ?ans = - 1 then (False, 0) else (True, sw_if_index ?ans), ?v)"
    unfolding add_pppoe_session_def vid option.case by (simp add: vapi_execute_def)
  show thesis
  proof (cases "sw_if_index ?ans = - 1")
    case True
    show thesis
      by (rule that [of "''Cannot add new session to vpp ''" ?v "ifindex s" "[]"])
        (use s True in \<open>simp_all add: provision_dp_def on_vpp_def add upd_sess_def fun_upd_idem\<close>)
  next
    case False
    let ?set = "set_interface_table (vapi env) (sw_if_index ?ans) (s_vrf s) ?v"
    have "vapi_log (snd ?set) = vapi_log ?v @ [Sw_interface_set_table (sw_if_index ?ans) False
        (case map_of (vpp_vrfs (vpp rt)) (s_vrf s) of Some i \<Rightarrow> i | None \<Rightarrow> 0)]"
      by (simp add: set_interface_table_def vapi_execute_def Let_def)
    then obtain m where m: "vapi_log (snd ?set) = vapi_log (vpp rt) @ ?msg # [m]" by simp
    show thesis
      by (rule that [of "if s_vrf s \<noteq> [] \<and> \<not> fst ?set then ''Cannot move new session to vrf'' else ''''"
            "if s_vrf s = [] then ?v else snd ?set" "sw_if_index ?ans" "if s_vrf s = [] then [] else [m]"])
        (use s False m in \<open>auto simp: provision_dp_def on_vpp_def add upd_sess_def case_prod_unfold Let_def\<close>)
  qed
qed

text \<open>The subscriber asks for the values it was given: IPCP opens.\<close>

lemma ipcp_req_step:
  assumes active: "map_of (activeSessions rt) (key_of_encap e sid) = Some r"
    and s: "heap rt r = Some s" "started s" "state (ipcp s) = Ack_Rcvd" "session_id s = sid"
    and aaa: "getSession (aaa_session_id s) rt = (Some ar, '''')" "aheap rt ar = Some a" "a_unnumbered a = []"
    and os: "os \<noteq> []" "length (enc_opts os) < 65532" "\<forall>o' \<in> set os. ipcp_valid o' \<and> ipcp_known o'" "ipcp_agrees a os"
    and vid: "(if a_vrf a = [] then Some 0 else map_of (vpp_vrfs (vpp rt)) (a_vrf a)) = Some vid"
  obtains rt' s' i rest where
    "processPPP env (conf_req_pkt (ppp_header IPCP sid 1 j (length (enc_opts os))) os pad) e rt = Some ('''', rt')"
    "heap rt' r = Some s'" "s_address s' = a_address a" "state (ipcp s') = Opened" "echo_timer s' \<noteq> None"
    "lcp s' = lcp s" "aaa_session_id s' = aaa_session_id s" "frame rt rt'" "pppoe_outcoming rt' = pppoe_outcoming rt"
    "aaa_sessions rt' = aaa_sessions rt" "aheap rt' ar = Some (a\<lparr>a_ifindex := i\<rparr>)"
    "conf rt' = conf rt"
    "ppp_outcoming rt' = ppp_outcoming rt @ [generate_header (encap s) (hwaddr rt) ETH_PPPOE_SESSION @
       conf_req_pkt (ppp_header IPCP sid 2 j (length (enc_opts os))) os pad]"
    "vapi_log (vpp rt') = vapi_log (vpp rt) @
       Pppoe_add_del_session (ip4_bytes (a_address a)) (mac_bytes (source_mac (encap s))) vid sid True # rest"
proof -
  let ?hdr = "ppp_header IPCP sid 1 j (length (enc_opts os))"
  let ?p = "conf_req_pkt ?hdr os pad"
  have ok: "conf_req_ok ?hdr os" using os(2) by (simp add: conf_req_ok_def ppp_header_def bswap16_def add.commute)
  have verdict: "ipcp_verdict a os = CONF_ACK" using os(3,4) by (simp add: ipcp_verdict_def)
  have sess: "map_of (aaa_sessions rt) (aaa_session_id s) = Some ar"
    using aaa(1) by (simp add: getSession_def split: option.splits)
  define s1 where "s1 = (ipcp_noted a s)\<lparr>ipcp := ipcp_next CONF_ACK (ipcp s)\<rparr>"
  define rt1 where "rt1 = send_session_pkt (encap s) (conf_req_pkt (?hdr[8 := 2]) os pad) (rt\<lparr>heap := (heap rt)(r \<mapsto> s1)\<rparr>)"
  have valid: "\<forall>o' \<in> set os. ipcp_valid o'" using os(3) by blast
  have check: "IPCP_check_conf r ?p rt = Some ((LAYER_UP, ''''), rt1)"
    using IPCP_check_conf_enc [OF s(1) sess aaa(2) ok os(1) valid, of pad] s(1,3)
    by (simp add: verdict rt1_def s1_def ipcp_reply_def upd_sess_def)
  have "load8 ?p 8 = Some 1" by (simp add: load8_def conf_req_pkt_def ppp_header_def)
  moreover have "LCP_CODE_of 1 = Some CONF_REQ" by (simp add: enum_of_defs)
  ultimately have recv: "receive (IPCP_vtable r) ?p rt = Some ((LAYER_UP, ''''), rt1)"
    using s check by (simp add: receive_def recv_conf_req_def IPCP_vtable_def ipcp_this_def)
  have s1: "heap rt1 r = Some s1" "s_unnumbered s1 = []" "s_vrf s1 = a_vrf a" "s_address s1 = a_address a"
      "encap s1 = encap s" "session_id s1 = sid" "aaa_session_id s1 = aaa_session_id s" "state (ipcp s1) = Opened" "lcp s1 = lcp s"
    and rt1: "vpp rt1 = vpp rt" "aaa_sessions rt1 = aaa_sessions rt" "aheap rt1 = aheap rt" "conf rt1 = conf rt"
      "pppoe_outcoming rt1 = pppoe_outcoming rt" "ppp_outcoming rt1 = ppp_outcoming rt @
        [generate_header (encap s) (hwaddr rt) ETH_PPPOE_SESSION @ conf_req_pkt (?hdr[8 := 2]) os pad]"
    using s aaa(3) by (simp_all add: rt1_def s1_def ipcp_noted_def ipcp_next_def send_session_pkt_def push_ppp_def)
  obtain err v i rest where 2: "provision_dp env r rt1 = Some (err, (upd_sess r (\<lambda>s. s\<lparr>ifindex := i\<rparr>) rt1)\<lparr>vpp := v\<rparr>)"
    and log: "vapi_log v = vapi_log (vpp rt1) @
       Pppoe_add_del_session (ip4_bytes (s_address s1)) (mac_bytes (source_mac (encap s1))) vid (session_id s1) True # rest"
    using provision_dp_asks [of rt1 r s1 vid env] s1 vid rt1(1) by metis
  define rt2 where "rt2 = startEcho env r (mapIfaceToSession (aaa_session_id s) i
      ((upd_sess r (\<lambda>s. s\<lparr>ifindex := i\<rparr>) rt1)\<lparr>vpp := v\<rparr>))"
  have "ipcp_layer_up env r rt1 = Some rt2"
    using 2 s1 by (simp add: ipcp_layer_up_def rt2_def upd_sess_def)
  with recv have "process_ipcp env r ?p rt = Some rt2" by (simp add: process_ipcp_def)
  then have run: "processPPP env ?p e rt = Some ('''', rt2)"
    using ppp_dispatch [OF active start_session_again [OF s(1,2)], where proto = IPCP] by (simp add: conf_req_pkt_def)
  have hdr: "?hdr[8 := 2] = ppp_header IPCP sid 2 j (length (enc_opts os))" by (simp add: ppp_header_def)
  have fr: "frame rt rt2" using frame_process_ipcp [OF \<open>process_ipcp env r ?p rt = Some rt2\<close>] .
  have h2: "heap rt2 r = Some (s1\<lparr>ifindex := i, echo_timer := Some (20 + unat (nondet env (nd_pos rt1)) mod 11)\<rparr>)"
    using s1(1) sess rt1(2) by (simp add: rt2_def startEcho_def draw_def upd_sess_def mapIfaceToSession_def
        map_iface_def upd_aaa_def)
  show thesis
    by (rule that [OF run h2 _ _ _ _ _ fr, of i rest])
      (use s1 rt1 log hdr sess aaa(2) in \<open>simp_all add: rt2_def startEcho_def draw_def upd_sess_def mapIfaceToSession_def
        map_iface_def upd_aaa_def\<close>)
qed

section \<open>From the PADI to the dataplane\<close>

text \<open>
  A daemon that can take one more subscriber: its AAA admits without RADIUS from a template and a
  pool, and \<open>sid\<close>, \<open>ip\<close> and \<open>i\<close> are the next session id, the lowest free address and the lowest
  free AAA id; \<open>vid\<close> is the table of the template's VRF.
\<close>

definition ready :: "PPPOERuntime \<Rightarrow> PPPOELocalTemplate \<Rightarrow> FRAMED_POOL \<Rightarrow> u16 \<Rightarrow> u32 \<Rightarrow> u32 \<Rightarrow> u32 \<Rightarrow> bool" where
  "ready rt t p sid ip i vid \<longleftrightarrow>
     tables_ok rt \<and> sid_search (sessionSet rt) (next_session_id rt) (next_session_id rt) = Some (Some sid) \<and>
     (authCHAP (lcp_conf rt) \<or> authPAP (lcp_conf rt)) \<and>
     aaa_method (aaa_conf (conf rt)) = [NONE] \<and> local_template (aaa_conf (conf rt)) \<noteq> [] \<and>
     map_of (pppoe_templates (conf rt)) (local_template (aaa_conf (conf rt))) = Some t \<and>
     find_pool (t_framed_pool t) rt = Some p \<and> stop_ip p \<noteq> - 1 \<and>
     start_ip p \<le> ip \<and> ip \<le> stop_ip p \<and> ip \<notin> ips p \<and> (\<forall>j. start_ip p \<le> j \<and> j < ip \<longrightarrow> j \<in> ips p) \<and>
     map_of (aaa_sessions rt) i = None \<and> i \<noteq> - 1 \<and> (\<forall>j < i. map_of (aaa_sessions rt) j \<noteq> None) \<and>
     (if t_vrf t = [] then Some 0 else map_of (vpp_vrfs (vpp rt)) (t_vrf t)) = Some vid"

lemma readyD:
  assumes "ready rt t p sid ip i vid"
  shows "tables_ok rt" "sid_search (sessionSet rt) (next_session_id rt) (next_session_id rt) = Some (Some sid)"
    "authCHAP (lcp_conf rt) \<or> authPAP (lcp_conf rt)"
    "aaa_method (aaa_conf (conf rt)) = [NONE]" "local_template (aaa_conf (conf rt)) \<noteq> []"
    "map_of (pppoe_templates (conf rt)) (local_template (aaa_conf (conf rt))) = Some t"
    "find_pool (t_framed_pool t) rt = Some p" "stop_ip p \<noteq> - 1"
    "start_ip p \<le> ip" "ip \<le> stop_ip p" "ip \<notin> ips p" "\<forall>j. start_ip p \<le> j \<and> j < ip \<longrightarrow> j \<in> ips p"
    "map_of (aaa_sessions rt) i = None" "i \<noteq> - 1" "\<And>j. j < i \<Longrightarrow> map_of (aaa_sessions rt) j \<noteq> None"
    "(if t_vrf t = [] then Some 0 else map_of (vpp_vrfs (vpp rt)) (t_vrf t)) = Some vid"
  using assms unfolding ready_def by blast+

text \<open>The options that ask for exactly what the subscriber is to get.\<close>

definition asks_for :: "u32 \<Rightarrow> PPPOELocalTemplate \<Rightarrow> ppp_option list \<Rightarrow> bool" where
  "asks_for ip t os \<longleftrightarrow> os \<noteq> [] \<and> length (enc_opts os) < 65532 \<and>
     set os \<subseteq> {(3, be32_bytes ip), (129, be32_bytes (t_dns1 t)), (131, be32_bytes (t_dns2 t))}"

lemma asks_for_agrees:
  assumes "asks_for ip t os" and "a_address a = ip" "a_dns1 a = t_dns1 t" "a_dns2 a = t_dns2 t"
  shows "\<forall>o' \<in> set os. ipcp_valid o' \<and> ipcp_known o'" "ipcp_agrees a os"
proof -
  have "IPCP_OPTIONS_of 3 = Some IP_ADDRESS" "IPCP_OPTIONS_of 129 = Some PRIMARY_DNS" "IPCP_OPTIONS_of 131 = Some SECONDARY_DNS"
    by (simp_all add: enum_of_defs)
  with assms show "\<forall>o' \<in> set os. ipcp_valid o' \<and> ipcp_known o'" "ipcp_agrees a os"
    by (auto simp: asks_for_def ipcp_valid_def ipcp_known_def opt_ok_def be32_bytes_def ipcp_agrees_def ipcp_assigned_def)
qed

text \<open>Discovery, as the daemon's state after it.\<close>

lemma discovery_run:
  assumes rdy: "ready rt t p sid ip i vid"
    and pol: "pol = pppoe_policy (conf rt) (outer_vlan e)" "length (ac_name pol) \<le> 251" "ck = padi_cookie env pol rt"
    and ts: "ts \<noteq> []" "tags_ok ts" "short_tags ts" "service_accepted pol ts"
    and new: "Pppoe_conn (source_mac e) (outer_vlan e) (inner_vlan e) ck \<notin> pendingSession rt"
    and ts': "ts' \<noteq> []" "tags_ok ts'" "short_tags ts'" "map_of ts' AC_COOKIE = (if insert_cookie pol then Some ck else None)"
  obtains rt1 rt2 s where "processPPPOE env (disc_pkt PADI 0 ts) e rt = Some ('''', rt1)"
    "processPPPOE env (disc_pkt PADR 0 ts') e rt1 = Some ('''', rt2)"
    "map_of (activeSessions rt2) (key_of_encap e sid) = Some (next_ref rt)" "heap rt2 (next_ref rt) = Some s"
    "fresh_session e sid s" "conf rt2 = conf rt" "lcp_conf rt2 = lcp_conf rt" "hwaddr rt2 = hwaddr rt" "vpp rt2 = vpp rt"
    "aaa_sessions rt2 = aaa_sessions rt" "ppp_outcoming rt2 = ppp_outcoming rt"
    "pppoe_outcoming rt2 = pppoe_outcoming rt @ map (\<lambda>q. generate_header e (hwaddr rt) ETH_PPPOE_DISCOVERY @ q)
       [disc_pkt PADO 0 (pado_tags pol ts ck), disc_pkt PADS sid (present SERVICE_NAME ts' @ present HOST_UNIQ ts')]"
proof -
  let ?conn = "Pppoe_conn (source_mac e) (outer_vlan e) (inner_vlan e) (padi_cookie env pol rt)"
  note r = readyD [OF rdy]
  have new': "?conn \<notin> pendingSession rt" using new pol(3) by simp
  note 1 = padi_step [OF ts(1-3) pol(1,2) ts(4) refl new']
  define rt1 where "rt1 = snd (the (processPPPOE env (disc_pkt PADI 0 ts) e rt))"
  have run1: "processPPPOE env (disc_pkt PADI 0 ts) e rt = Some ('''', rt1)" using 1 by (simp add: rt1_def)
  have ok1: "tables_ok rt1" using tables_ok_processPPPOE [OF run1 r(1)] .
  have same: "sessionSet rt1 = sessionSet rt" "next_session_id rt1 = next_session_id rt" "conf rt1 = conf rt"
    "lcp_conf rt1 = lcp_conf rt" "hwaddr rt1 = hwaddr rt" "vpp rt1 = vpp rt" "aaa_sessions rt1 = aaa_sessions rt"
    "ppp_outcoming rt1 = ppp_outcoming rt" "next_ref rt1 = next_ref rt" "activeSessions rt1 = activeSessions rt"
    "heap rt1 = heap rt" "pendingSession rt1 = insert ?conn (pendingSession rt)"
    "pppoe_outcoming rt1 = pppoe_outcoming rt @ [generate_header e (hwaddr rt) ETH_PPPOE_DISCOVERY @
       disc_pkt PADO 0 (pado_tags pol ts ck)]"
    using 1 by (simp_all add: rt1_def pol(3))
  have "padr_conn e ts' = ?conn"
    using ts'(4) by (cases "insert_cookie pol") (simp_all add: padr_conn_def padi_cookie_def pol(3))
  then have "padr_conn e ts' \<in> pendingSession rt1" by (simp add: same)
  moreover have "sid_search (sessionSet rt1) (next_session_id rt1) (next_session_id rt1) = Some (Some sid)"
    using r(2) by (simp add: same)
  ultimately obtain s n where s: "fresh_session e sid s" and 2: "processPPPOE env (disc_pkt PADR 0 ts') e rt1 = Some ('''',
      rt1\<lparr>nd_pos := n, pendingSession := pendingSession rt1 - {padr_conn e ts'},
         sessionSet := insert sid (sessionSet rt1), heap := (heap rt1)(next_ref rt1 \<mapsto> s), next_ref := next_ref rt1 + 1,
         next_session_id := next_sid sid,
         activeSessions := om_emplace (key_of_encap e sid) (next_ref rt1) (activeSessions rt1),
         pppoe_outcoming := pppoe_outcoming rt1 @ [generate_header e (hwaddr rt1) ETH_PPPOE_DISCOVERY @
           disc_pkt PADS sid (present SERVICE_NAME ts' @ present HOST_UNIQ ts')]\<rparr>)"
    using padr_step [OF ts'(1-3) ok1, of e sid env thesis] that by blast
  have "sid \<notin> sessionSet rt" "sid \<noteq> 0" using allocateSession_found(1,2) [OF r(1,2)] by blast+
  then have "map_of (activeSessions rt) (key_of_encap e sid) = None"
    using tables_ok_insert(1) [OF r(1), of sid sid s e] s by (simp add: fresh_session_def sess_ident_def)
  with s show thesis
    by (intro that [OF run1 2]) (simp_all add: same om_find_emplace)
qed

text \<open>
  Everything after discovery. \<open>ready\<close> is asked of the state \<open>rt0\<close> before it, whose AAA and
  dataplane discovery leaves alone.
\<close>

lemma ppp_run:
  assumes rdy: "ready rt0 t p sid ip i vid" and s: "heap rt r = Some s" "fresh_session e0 sid s"
    and active: "map_of (activeSessions rt) (key_of_encap e sid) = Some r"
    and same: "conf rt = conf rt0" "lcp_conf rt = lcp_conf rt0" "vpp rt = vpp rt0" "aaa_sessions rt = aaa_sessions rt0"
    and cred: "length u < 256" "length pw < 256" and os: "asks_for ip t os"
  obtains rt3 rt4 rt5 s' ar a req rest where
    "processPPP env (pap_request (ppp_header PAP sid 1 j n) u pw pad) e rt = Some ('''', rt3)"
    "processPPP env (ppp_header IPCP sid 2 1 n' @ pad') e rt3 = Some ('''', rt4)"
    "processPPP env (conf_req_pkt (ppp_header IPCP sid 1 j' (length (enc_opts os))) os pad'') e rt4 = Some ('''', rt5)"
    "heap rt5 r = Some s'" "state (ipcp s') = Opened" "s_address s' = ip" "aaa_session_id s' = i" "echo_timer s' \<noteq> None"
    "state (lcp_fsm (lcp s')) = Req_Sent" "getSession i rt5 = (Some ar, '''')" "aheap rt5 ar = Some a" "a_username a = u"
    "a_address a = ip" "find_pool (t_framed_pool t) rt5 = Some (p\<lparr>ips := insert ip (ips p)\<rparr>)"
    "frame rt rt5" "pppoe_outcoming rt5 = pppoe_outcoming rt"
    "ppp_outcoming rt5 = ppp_outcoming rt @ map (\<lambda>q. generate_header e0 (hwaddr rt) ETH_PPPOE_SESSION @ q)
      [req, ppp_header PAP sid 2 0 0, ppp_header IPCP sid 1 1 6 @ [3, 6, 100, 64, 0, 1] @ replicate 14 0,
       conf_req_pkt (ppp_header IPCP sid 2 j' (length (enc_opts os))) os pad'']"
    "vapi_log (vpp rt5) = vapi_log (vpp rt) @
      Pppoe_add_del_session (ip4_bytes ip) (mac_bytes (source_mac e0)) vid sid True # rest"
proof -
  note d = readyD [OF rdy]
  have pool: "find_pool nm rt = find_pool nm rt0" for nm by (simp add: find_pool_def same)
  obtain rt3 s3 ar a req where run3: "processPPP env (pap_request (ppp_header PAP sid 1 j n) u pw pad) e rt = Some ('''', rt3)"
    and s3: "heap rt3 r = Some s3" "started s3" "encap s3 = e0" "session_id s3 = sid" "aaa_session_id s3 = i"
      "state (lcp_fsm (lcp s3)) = Req_Sent" "ipcp s3 = (PPP_FSM_ctor sid)\<lparr>state := Req_Sent\<rparr>"
    and a: "getSession i rt3 = (Some ar, '''')" "aheap rt3 ar = Some a" "a_username a = u" "a_address a = ip"
      "a_dns1 a = t_dns1 t" "a_dns2 a = t_dns2 t" "a_vrf a = t_vrf t" "a_unnumbered a = []"
    and fr3: "frame rt rt3" "vpp rt3 = vpp rt" "pppoe_outcoming rt3 = pppoe_outcoming rt"
    and pool3: "find_pool (t_framed_pool t) rt3 = Some (p\<lparr>ips := insert ip (ips p)\<rparr>)"
    and out3: "ppp_outcoming rt3 = ppp_outcoming rt @ map (\<lambda>q. generate_header e0 (hwaddr rt) ETH_PPPOE_SESSION @ q)
       [req, ppp_header PAP sid 2 0 0, ppp_header IPCP sid 1 1 6 @ [3, 6, 100, 64, 0, 1] @ replicate 14 0]"
    by (rule pap_step [of rt e sid r s e0 u pw t p ip i, unfolded same pool,
        OF active s d(3) cred d(4-15), of env j n pad]) (simp_all add: same)
  have act3: "map_of (activeSessions rt3) (key_of_encap e sid) = Some r" "hwaddr rt3 = hwaddr rt"
    using fr3(1) active by (simp_all add: frame_def)
  define rt4 where "rt4 = upd_sess r ipcp_acked rt3"
  have "state (ipcp s3) = Req_Sent" "pkt_id (ipcp s3) = 1" by (simp_all add: s3(7) PPP_FSM_ctor_def)
  from ipcp_ack_step [OF act3(1) s3(1,2) this]
  have run4: "processPPP env (ppp_header IPCP sid 2 1 n' @ pad') e rt3 = Some ('''', rt4)" by (simp add: rt4_def)
  have s4: "heap rt4 r = Some (ipcp_acked s3)" and same4: "aaa_sessions rt4 = aaa_sessions rt3" "aheap rt4 = aheap rt3"
    "vpp rt4 = vpp rt3" "activeSessions rt4 = activeSessions rt3" "conf rt4 = conf rt3" "hwaddr rt4 = hwaddr rt3"
    "pppoe_outcoming rt4 = pppoe_outcoming rt3" "ppp_outcoming rt4 = ppp_outcoming rt3" "getSession i rt4 = getSession i rt3"
    "frame rt3 rt4"
    using s3(1) by (simp_all add: rt4_def upd_sess_def [of r _ rt3] getSession_def)
      (simp add: frame_def ipcp_acked_def sess_ident_def)
  note os' = asks_for_agrees [OF os a(4-6)]
  obtain rt5 s5 k rest where run5: "processPPP env (conf_req_pkt (ppp_header IPCP sid 1 j' (length (enc_opts os))) os pad'') e rt4 = Some ('''', rt5)"
    and s5: "heap rt5 r = Some s5" "s_address s5 = a_address a" "state (ipcp s5) = Opened" "echo_timer s5 \<noteq> None"
      "lcp s5 = lcp (ipcp_acked s3)" "aaa_session_id s5 = aaa_session_id (ipcp_acked s3)"
    and fr5: "frame rt4 rt5" "pppoe_outcoming rt5 = pppoe_outcoming rt4" "aaa_sessions rt5 = aaa_sessions rt4"
      "aheap rt5 ar = Some (a\<lparr>a_ifindex := k\<rparr>)" "conf rt5 = conf rt4"
    and out5: "ppp_outcoming rt5 = ppp_outcoming rt4 @ [generate_header (encap (ipcp_acked s3)) (hwaddr rt4) ETH_PPPOE_SESSION @
       conf_req_pkt (ppp_header IPCP sid 2 j' (length (enc_opts os))) os pad'']"
    and log: "vapi_log (vpp rt5) = vapi_log (vpp rt4) @ Pppoe_add_del_session (ip4_bytes (a_address a))
       (mac_bytes (source_mac (encap (ipcp_acked s3)))) vid sid True # rest"
    by (rule ipcp_req_step [of rt4 e sid r "ipcp_acked s3" ar a os vid env j' pad''])
      (use act3 s3 s4 a same4 os' os fr3(2) d(16) in \<open>simp_all add: ipcp_acked_def asks_for_def same split: if_splits\<close>)
  have "frame rt rt5" using frame_trans [OF fr3(1) frame_trans [OF same4(10) fr5(1)]] .
  moreover have "getSession i rt5 = (Some ar, '''')" using a(1) fr5(3) same4(1) by (simp add: getSession_def)
  moreover have "find_pool (t_framed_pool t) rt5 = Some (p\<lparr>ips := insert ip (ips p)\<rparr>)"
    using pool3 fr5(5) same4(5) by (simp add: find_pool_def)
  ultimately show thesis
    by (intro that [OF run3 run4 run5 s5(1) _ _ _ _ _ _ fr5(4)])
      (use s5 s3 a fr5 fr3 same4 out3 out5 log act3 in \<open>simp_all add: ipcp_acked_def\<close>)
qed

text \<open>
  C4. A subscriber served, from its first frame to the dataplane. A daemon that is ready for one
  more subscriber receives five frames from behind one encapsulation: a PADI, a PADR with the cookie it was
  offered, a PAP request with any credentials, the acknowledgement of IPCP's request, and an IPCP
  request for the address and DNS servers it is to get. The answers are PADO and PADS, and LCP's
  request, the Authenticate-Ack, IPCP's request and the Configure-Ack, in this order in their
  queues; the session is active under its key with IPCP open, its AAA session has the lowest free
  address of the pool, that address is marked as used, and VPP is asked to add just this session.
  LCP need not be negotiated for any of it: its automaton still waits for the answer to its request.
\<close>

theorem subscriber_served:
  assumes rdy: "ready rt t p sid ip i vid" and rt: "rt = runtime l"
    and pol: "pol = pppoe_policy (conf rt) (outer_vlan e)" "length (ac_name pol) \<le> 251" "ck = padi_cookie env pol rt"
    and ts: "ts \<noteq> []" "tags_ok ts" "short_tags ts" "service_accepted pol ts"
    and new: "Pppoe_conn (source_mac e) (outer_vlan e) (inner_vlan e) ck \<notin> pendingSession rt"
    and ts': "ts' \<noteq> []" "tags_ok ts'" "short_tags ts'" "map_of ts' AC_COOKIE = (if insert_cookie pol then Some ck else None)"
    and cred: "length u < 256" "length pw < 256" and os: "asks_for ip t os"
    and f1: "carries f1 v e ETH_PPPOE_DISCOVERY (disc_pkt PADI 0 ts)"
    and f2: "carries f2 v e ETH_PPPOE_DISCOVERY (disc_pkt PADR 0 ts')"
    and f3: "carries f3 v e ETH_PPPOE_SESSION (pap_request (ppp_header PAP sid 1 j n) u pw pad)"
    and f4: "carries f4 v e ETH_PPPOE_SESSION (ppp_header IPCP sid 2 1 n' @ pad')"
    and f5: "carries f5 v e ETH_PPPOE_SESSION (conf_req_pkt (ppp_header IPCP sid 1 j' (length (enc_opts os))) os pad'')"
  shows "\<exists>l' r s ar a req rest.
    run_events env [Frame f1 v, Frame f2 v, Frame f3 v, Frame f4 v, Frame f5 v] l = Some l' \<and>
    map_of (activeSessions (runtime l')) (key_of_encap e sid) = Some r \<and> heap (runtime l') r = Some s \<and>
    state (ipcp s) = Opened \<and> s_address s = ip \<and> aaa_session_id s = i \<and> echo_timer s \<noteq> None \<and>
    state (lcp_fsm (lcp s)) = Req_Sent \<and>
    getSession i (runtime l') = (Some ar, '''') \<and> aheap (runtime l') ar = Some a \<and> a_username a = u \<and> a_address a = ip \<and>
    find_pool (t_framed_pool t) (runtime l') = Some (p\<lparr>ips := insert ip (ips p)\<rparr>) \<and>
    pppoe_outcoming (runtime l') = pppoe_outcoming rt @ map (\<lambda>q. generate_header e (hwaddr rt) ETH_PPPOE_DISCOVERY @ q)
      [disc_pkt PADO 0 (pado_tags pol ts ck), disc_pkt PADS sid (present SERVICE_NAME ts' @ present HOST_UNIQ ts')] \<and>
    ppp_outcoming (runtime l') = ppp_outcoming rt @ map (\<lambda>q. generate_header e (hwaddr rt) ETH_PPPOE_SESSION @ q)
      [req, ppp_header PAP sid 2 0 0, ppp_header IPCP sid 1 1 6 @ [3, 6, 100, 64, 0, 1] @ replicate 14 0,
       conf_req_pkt (ppp_header IPCP sid 2 j' (length (enc_opts os))) os pad''] \<and>
    vapi_log (vpp (runtime l')) = vapi_log (vpp rt) @
      Pppoe_add_del_session (ip4_bytes ip) (mac_bytes (source_mac e)) vid sid True # rest"
proof -
  let ?eD = "e\<lparr>encap_type := Some ETH_PPPOE_DISCOVERY\<rparr>" and ?eS = "e\<lparr>encap_type := Some ETH_PPPOE_SESSION\<rparr>"
  have polD: "pol = pppoe_policy (conf rt) (outer_vlan ?eD)"
    "Pppoe_conn (source_mac ?eD) (outer_vlan ?eD) (inner_vlan ?eD) ck \<notin> pendingSession rt" using pol new by simp_all
  obtain rt1 rt2 s2 where run: "processPPPOE env (disc_pkt PADI 0 ts) ?eD rt = Some ('''', rt1)"
      "processPPPOE env (disc_pkt PADR 0 ts') ?eD rt1 = Some ('''', rt2)"
    and s2: "map_of (activeSessions rt2) (key_of_encap ?eD sid) = Some (next_ref rt)" "heap rt2 (next_ref rt) = Some s2"
      "fresh_session ?eD sid s2"
    and same: "conf rt2 = conf rt" "lcp_conf rt2 = lcp_conf rt" "hwaddr rt2 = hwaddr rt" "vpp rt2 = vpp rt"
      "aaa_sessions rt2 = aaa_sessions rt" "ppp_outcoming rt2 = ppp_outcoming rt"
    and out: "pppoe_outcoming rt2 = pppoe_outcoming rt @ map (\<lambda>q. generate_header ?eD (hwaddr rt) ETH_PPPOE_DISCOVERY @ q)
      [disc_pkt PADO 0 (pado_tags pol ts ck), disc_pkt PADS sid (present SERVICE_NAME ts' @ present HOST_UNIQ ts')]"
    by (rule discovery_run [OF rdy polD(1) pol(2,3) ts polD(2) ts'])
  have act: "map_of (activeSessions rt2) (key_of_encap ?eS sid) = Some (next_ref rt)" using s2(1) by simp
  show ?thesis
    by (rule ppp_run [OF rdy s2(2,3) act same(1,2,4,5) cred os, of env j n pad n' pad' j' pad''])
      (use f1 f2 f3 f4 f5 rt run s2(1) same out in
        \<open>auto simp: handle_frame frame_def simp del: list.map handle.simps intro!: exI\<close>)
qed

section \<open>A daemon that has just started\<close>

text \<open>Its first subscriber gets session 1, AAA session 0 and the first address of the pool.\<close>

lemma start_ready:
  assumes init: "main_init env files (Some cfg) = Some rt" and auth: "authCHAP (conf_lcp cfg) \<or> authPAP (conf_lcp cfg)"
    and m: "aaa_method (aaa_conf cfg) = [NONE]" and tn: "local_template (aaa_conf cfg) \<noteq> []"
    and t: "map_of (pppoe_templates cfg) (local_template (aaa_conf cfg)) = Some t" "t_vrf t = []"
    and p: "map_of (aaa_pools (aaa_conf cfg)) (t_framed_pool t) = Some p" "start_ip p \<le> stop_ip p" "stop_ip p \<noteq> - 1" "ips p = {}"
  shows "ready rt t p 1 (start_ip p) 0 0"
proof -
  obtain rib where rt: "conf rt = cfg\<lparr>global_rib := rib\<rparr>" "lcp_conf rt = conf_lcp cfg" "aheap rt = Map.empty"
    "aaa_sessions rt = []" "sessionSet rt = {}" "next_session_id rt = 1" "pendingSession rt = {}"
    by (rule main_init_state [OF init, unfolded option.case])
  show ?thesis
    using rt assms tables_ok_main_init [OF init]
    by (simp add: ready_def find_pool_def sid_search.simps linorder_not_less)
qed

lemma carries_untagged:
  assumes "outer_vlan e = 0" "inner_vlan e = 0" "t \<noteq> ETH_VLAN"
  shows "carries (mac_bytes (destination_mac e) @ mac_bytes (source_mac e) @ [byte_at 1 t, byte_at 0 t] @ pkt) 0 e t pkt"
  using assms
  by (cases "destination_mac e"; cases "source_mac e")
    (simp add: carries_def encapsulation_ctor_def sizeof_defs load16_def mac_of_def bswap16_mk16)

section \<open>The sample subscriber\<close>

definition sample_frame :: "u16 \<Rightarrow> bytes \<Rightarrow> bytes" where
  "sample_frame t pkt = mac_bytes (MAC 2 0 0 0 0 9) @ mac_bytes (MAC 2 0 0 0 0 1) @ [byte_at 1 t, byte_at 0 t] @ pkt"

text \<open>What it sends: neither PADI nor PADR name a service.\<close>

definition sample_frames :: "event list" where
  "sample_frames =
     [Frame (sample_frame ETH_PPPOE_DISCOVERY (disc_pkt PADI 0 [(HOST_UNIQ, ''ab'')])) 0,
      Frame (sample_frame ETH_PPPOE_DISCOVERY (disc_pkt PADR 0 [(HOST_UNIQ, ''ab'')])) 0,
      Frame (sample_frame ETH_PPPOE_SESSION (pap_request (ppp_header PAP 1 1 1 8) ''u'' ''p'' [])) 0,
      Frame (sample_frame ETH_PPPOE_SESSION (ppp_header IPCP 1 2 1 4 @ [])) 0,
      Frame (sample_frame ETH_PPPOE_SESSION (conf_req_pkt (ppp_header IPCP 1 1 2 (length (enc_opts [(3, be32_bytes 0x64400002)])))
        [(3, be32_bytes 0x64400002)] [])) 0]"

definition sample_template :: PPPOELocalTemplate where
  "sample_template = \<lparr>t_framed_pool = ''p1'', t_dns1 = 0x08080808, t_dns2 = 0x01010101, t_vrf = [], t_unnumbered = []\<rparr>"

definition sample_pool :: FRAMED_POOL where
  "sample_pool = \<lparr>start_ip = 0x64400002, stop_ip = 0x644000FF, ips = {}\<rparr>"

text \<open>What the sample configuration gives for the sample subscriber, in the order \<open>subscriber_served\<close> asks.\<close>

lemma sample_start:
  assumes "main_init sample_env (\<lambda>f. []) (Some sample_conf) = Some rt"
  shows "ready rt sample_template sample_pool 1 0x64400002 0 0"
    and "pppoe_policy (conf rt) v = PPPOEPolicy_default" "pendingSession rt = {}"
    and "padi_cookie sample_env PPPOEPolicy_default rt = []"
proof -
  obtain rib where rt: "conf rt = sample_conf\<lparr>global_rib := rib\<rparr>" "pendingSession rt = {}"
    by (rule main_init_state [OF assms, unfolded option.case])
  show "ready rt sample_template sample_pool 1 0x64400002 0 0"
    using start_ready [OF assms, of sample_template sample_pool]
    by (simp add: sample_conf_def sample_template_def sample_pool_def)
  show "pppoe_policy (conf rt) v = PPPOEPolicy_default" "pendingSession rt = {}"
    "padi_cookie sample_env PPPOEPolicy_default rt = []"
    using rt by (simp_all add: pppoe_policy_def sample_conf_def padi_cookie_def PPPOEPolicy_default_def)
qed

lemma sample_inputs:
  "length (ac_name PPPOEPolicy_default) \<le> 251" "insert_cookie PPPOEPolicy_default = False"
  "[(HOST_UNIQ, ''ab'')] \<noteq> []" "tags_ok [(HOST_UNIQ, ''ab'')]" "short_tags [(HOST_UNIQ, ''ab'')]"
  "service_accepted PPPOEPolicy_default [(HOST_UNIQ, ''ab'')]"
  "asks_for 0x64400002 sample_template [(3, be32_bytes 0x64400002)]"
  by (simp_all add: PPPOEPolicy_default_def tags_ok_def short_tags_def service_accepted_def asks_for_def
    sample_template_def be32_bytes_def)

lemma sample_carries: "t \<noteq> ETH_VLAN \<Longrightarrow> carries (sample_frame t pkt) 0 sample_encap t pkt"
  using carries_untagged [of sample_encap t pkt] by (simp add: sample_encap_def sample_frame_def)

lemmas sample_carried = sample_carries [of ETH_PPPOE_DISCOVERY, simplified] sample_carries [of ETH_PPPOE_SESSION, simplified]

lemma sample_run:
  assumes "main_init sample_env (\<lambda>f. []) (Some sample_conf) = Some rt"
  obtains l' ar a r s where "run_events sample_env sample_frames (EVLoop_init rt) = Some l'"
    "find_pool ''p1'' (runtime l') = Some (sample_pool\<lparr>ips := {0x64400002}\<rparr>)"
    "getSession 0 (runtime l') = (Some ar, '''')" "aheap (runtime l') ar = Some a" "a_address a = 0x64400002"
    "map_of (activeSessions (runtime l')) (key_of_encap sample_encap 1) = Some r" "heap (runtime l') r = Some s"
    "state (ipcp s) = Opened" "pppoe_outcoming (runtime l') \<noteq> []"
proof -
  let ?eD = "sample_encap\<lparr>encap_type := Some ETH_PPPOE_DISCOVERY\<rparr>" and ?eS = "sample_encap\<lparr>encap_type := Some ETH_PPPOE_SESSION\<rparr>"
  note s = sample_start [OF assms] and i = sample_inputs
  have ck: "[] = padi_cookie sample_env PPPOEPolicy_default rt"
    "map_of [(HOST_UNIQ, ''ab'')] AC_COOKIE = (if insert_cookie PPPOEPolicy_default then Some [] else None)"
    by (simp_all add: s(4) i(2))
  have new: "Pppoe_conn (source_mac ?eD) (outer_vlan ?eD) (inner_vlan ?eD) [] \<notin> pendingSession rt"
    by (simp add: s(3))
  obtain rt1 rt2 s2 where run: "processPPPOE sample_env (disc_pkt PADI 0 [(HOST_UNIQ, ''ab'')]) ?eD rt = Some ('''', rt1)"
      "processPPPOE sample_env (disc_pkt PADR 0 [(HOST_UNIQ, ''ab'')]) ?eD rt1 = Some ('''', rt2)"
    and s2: "map_of (activeSessions rt2) (key_of_encap ?eD 1) = Some (next_ref rt)" "heap rt2 (next_ref rt) = Some s2"
      "fresh_session ?eD 1 s2"
    and same: "conf rt2 = conf rt" "lcp_conf rt2 = lcp_conf rt" "vpp rt2 = vpp rt" "aaa_sessions rt2 = aaa_sessions rt"
      "pppoe_outcoming rt2 = pppoe_outcoming rt @ map (\<lambda>q. generate_header ?eD (hwaddr rt) ETH_PPPOE_DISCOVERY @ q)
        [disc_pkt PADO 0 (pado_tags PPPOEPolicy_default [(HOST_UNIQ, ''ab'')] []),
         disc_pkt PADS 1 (present SERVICE_NAME [(HOST_UNIQ, ''ab'')] @ present HOST_UNIQ [(HOST_UNIQ, ''ab'')])]"
    by (rule discovery_run [OF s(1) s(2) [symmetric] i(1) ck(1) i(3-6) new i(3-5) ck(2)])
  have act: "map_of (activeSessions rt2) (key_of_encap ?eS 1) = Some (next_ref rt)" using s2(1) by simp
  have cred: "length ''u'' < 256" "length ''p'' < 256" by simp_all
  show thesis
    by (rule ppp_run [OF s(1) s2(2,3) act same(1-4) cred i(7), of sample_env 1 8 "[]" 4 "[]" 2 "[]"], rule that)
      (use run act same(5) in \<open>auto simp: frame_def sample_frames_def EVLoop_init_def handle_frame(1) [OF sample_carried(1)] handle_frame(2) [OF sample_carried(2)]
        sample_template_def sample_pool_def simp del: handle.simps\<close>)
qed

theorem subscriber_served_witness:
  "\<exists>rt l'. main_init sample_env (\<lambda>f. []) (Some sample_conf) = Some rt \<and>
     run_events sample_env sample_frames (EVLoop_init rt) = Some l' \<and>
     map_of (activeSessions (runtime l')) (key_of_encap sample_encap 1) \<noteq> None \<and>
     find_pool ''p1'' (runtime l') = Some (sample_pool\<lparr>ips := {0x64400002}\<rparr>)"
proof -
  obtain rt where rt: "main_init sample_env (\<lambda>f. []) (Some sample_conf) = Some rt" using main_init_sample by blast
  note s = sample_start [OF rt] and i = sample_inputs
  have l: "rt = runtime (EVLoop_init rt)" by (simp add: EVLoop_init_def)
  have ck: "[] = padi_cookie sample_env PPPOEPolicy_default rt"
    "map_of [(HOST_UNIQ, ''ab'')] AC_COOKIE = (if insert_cookie PPPOEPolicy_default then Some [] else None)"
    by (simp_all add: s(4) i(2))
  have new: "Pppoe_conn (source_mac sample_encap) (outer_vlan sample_encap) (inner_vlan sample_encap) [] \<notin> pendingSession rt"
    by (simp add: s(3))
  have "length ''u'' < 256" "length ''p'' < 256" by simp_all
  note subscriber_served [OF s(1) l s(2) [symmetric] i(1) ck(1) i(3-6) new i(3-5) ck(2) this i(7) sample_carried(1,1,2,2,2)]
  then show ?thesis
    using rt unfolding sample_frames_def by (fastforce simp: sample_template_def sample_pool_def simp del: run_events.simps)
qed

end
