(* ===== verification/Aaa_View.thy ===== *)
theory Aaa_View
  imports Handshake
begin

text \<open>
  The part of the state the AAA allocates from: the pools, the AAA sessions with their ids and
  addresses, and the map of sessions. Everything but opening and closing an AAA session and
  reloading the configuration leaves it alone.
\<close>

section \<open>The view\<close>

text \<open>What never changes about an AAA session: its id, and the address it took from which pool.\<close>

definition aaa_ident :: "AAA_Session \<Rightarrow> u32 \<times> bool \<times> string \<times> u32" where
  "aaa_ident s = (a_session_id s, free_ip s, a_framed_pool s, a_address s)"

lemma aaa_ident_simps [simp]:
  "aaa_ident (s\<lparr>a_timer := t\<rparr>) = aaa_ident s" "aaa_ident (s\<lparr>to_stop_acct := b\<rparr>) = aaa_ident s"
  "aaa_ident (s\<lparr>a_ifindex := i\<rparr>) = aaa_ident s"
  by (simp_all add: aaa_ident_def)

definition ident_of :: "PPPOERuntime \<Rightarrow> nat \<Rightarrow> (u32 \<times> bool \<times> string \<times> u32) option" where
  "ident_of rt r = map_option aaa_ident (aheap rt r)"

definition aaa_view ::
  "PPPOERuntime \<Rightarrow> (string, FRAMED_POOL) omap \<times> (nat \<Rightarrow> (u32 \<times> bool \<times> string \<times> u32) option) \<times> nat \<times>
   (u32, nat) omap" where
  "aaa_view rt = (aaa_pools (aaa_conf (conf rt)), \<lambda>r. map_option aaa_ident (aheap rt r), next_aref rt,
     aaa_sessions rt)"

lemma aaa_view_updates [simp]:
  "aaa_view (rt\<lparr>ppp_outcoming := q\<rparr>) = aaa_view rt" "aaa_view (rt\<lparr>pppoe_outcoming := q\<rparr>) = aaa_view rt"
  "aaa_view (rt\<lparr>heap := h\<rparr>) = aaa_view rt" "aaa_view (rt\<lparr>next_ref := n\<rparr>) = aaa_view rt"
  "aaa_view (rt\<lparr>activeSessions := m\<rparr>) = aaa_view rt" "aaa_view (rt\<lparr>sessionSet := u\<rparr>) = aaa_view rt"
  "aaa_view (rt\<lparr>pendingSession := c\<rparr>) = aaa_view rt" "aaa_view (rt\<lparr>pending_timers := t\<rparr>) = aaa_view rt"
  "aaa_view (rt\<lparr>next_session_id := i\<rparr>) = aaa_view rt" "aaa_view (rt\<lparr>auth_clients := ca\<rparr>) = aaa_view rt"
  "aaa_view (rt\<lparr>acct_clients := ca\<rparr>) = aaa_view rt" "aaa_view (rt\<lparr>vpp := v\<rparr>) = aaa_view rt"
  "aaa_view (rt\<lparr>nd_pos := n\<rparr>) = aaa_view rt" "aaa_view (rt\<lparr>stray_stores := n\<rparr>) = aaa_view rt"
  by (simp_all add: aaa_view_def)

lemma aaa_view_small [simp]:
  "aaa_view (push_ppp p rt) = aaa_view rt" "aaa_view (push_pppoe p rt) = aaa_view rt"
  "aaa_view (send_session_pkt e p rt) = aaa_view rt" "aaa_view (snd (draw env rt)) = aaa_view rt"
  "aaa_view (snd (draws env n rt)) = aaa_view rt" "aaa_view (upd_sess r f rt) = aaa_view rt"
  "aaa_view (snd (store8 i b p rt)) = aaa_view rt" "aaa_view (snd (store32 i w p rt)) = aaa_view rt"
  "aaa_view (upd_lcp r g rt) = aaa_view rt" "aaa_view (upd_ipcp r g rt) = aaa_view rt"
  "aaa_view (snd (on_vpp h rt)) = aaa_view rt" "aaa_view (put_client cl c rt) = aaa_view rt"
  by (simp_all add: push_ppp_def push_pppoe_def send_session_pkt_def snd_draw snd_draws upd_sess_def
      store8_def store32_def upd_lcp_def upd_ipcp_def on_vpp_def case_prod_unfold Let_def)
    (cases cl; simp)

lemma aaa_view_upd_aaa [simp]:
  "(\<And>s. aaa_ident (f s) = aaa_ident s) \<Longrightarrow> aaa_view (upd_aaa r f rt) = aaa_view rt"
  by (auto simp: aaa_view_def upd_aaa_def option.map_comp comp_def fun_eq_iff)

text \<open>The automaton's base class leaves a part of the state alone that its derived class does.\<close>

locale fsm_view = fsm_impl vt for vt +
  fixes view :: "PPPOERuntime \<Rightarrow> 'v"
  assumes upd_view: "view (upd_this vt g rt) = view rt"
    and conf_req_view: "v_send_conf_req vt rt = Some (ret, rt') \<Longrightarrow> view rt' = view rt"
    and check_view: "v_check_conf vt p rt = Some (ret, rt') \<Longrightarrow> view rt' = view rt"
    and term_ack_view: "v_send_term_ack vt p rt = Some (ret, rt') \<Longrightarrow> view rt' = view rt"
    and echo_rep_view: "v_send_echo_rep vt p rt = Some (ret, rt') \<Longrightarrow> view rt' = view rt"
    and recv_echo_view: "v_recv_echo_rep vt p rt = Some (ret, rt') \<Longrightarrow> view rt' = view rt"
begin

lemmas view_laws = upd_view conf_req_view check_view term_ack_view echo_rep_view recv_echo_view

lemma layer_up_view:
  assumes "layer_up vt rt = Some rt'"
  shows "view rt' = view rt"
proof -
  from assms obtain f where "this vt rt = Some f" by (auto simp: layer_up_def bind_eq_Some_conv)
  with assms show ?thesis
    by (cases "state f") (auto simp: layer_up_def bind_eq_Some_conv upd_view dest: conf_req_view)
qed

lemma open_view:
  assumes "fsm_open vt rt = Some rt'"
  shows "view rt' = view rt"
proof -
  from assms obtain f where "this vt rt = Some f" by (auto simp: fsm_open_def bind_eq_Some_conv)
  with assms show ?thesis
    by (cases "state f") (auto simp: fsm_open_def bind_eq_Some_conv upd_view dest: conf_req_view)
qed

lemma recv_conf_req_view:
  assumes "recv_conf_req vt p rt = Some (ret, rt')"
  shows "view rt' = view rt"
proof -
  from assms obtain f where "this vt rt = Some f" by (auto simp: recv_conf_req_def bind_eq_Some_conv)
  with assms show ?thesis
    by (cases "state f") (auto simp: recv_conf_req_def layer_down_def bind_eq_Some_conv upd_view
        dest!: conf_req_view check_view)
qed

lemma recv_conf_ack_view:
  assumes "recv_conf_ack vt p rt = Some (ret, rt')"
  shows "view rt' = view rt"
proof -
  from assms obtain f where "this vt rt = Some f" by (auto simp: recv_conf_ack_def bind_eq_Some_conv)
  with assms show ?thesis
    by (cases "state f") (auto simp: recv_conf_ack_def Let_def bind_eq_Some_conv upd_view
        dest!: conf_req_view layer_up_view split: if_splits)
qed

lemma recv_term_req_view:
  assumes "recv_term_req vt p rt = Some (ret, rt')"
  shows "view rt' = view rt"
proof -
  from assms obtain f where "this vt rt = Some f" by (auto simp: recv_term_req_def bind_eq_Some_conv)
  with assms show ?thesis
    by (cases "state f") (auto simp: recv_term_req_def bind_eq_Some_conv upd_view dest!: term_ack_view)
qed

lemma receive_view:
  assumes "receive vt p rt = Some (ret, rt')"
  shows "view rt' = view rt"
proof -
  from assms obtain f where "this vt rt = Some f" by (auto simp: receive_def bind_eq_Some_conv)
  with assms obtain code where *: "rt' = rt \<or> (case LCP_CODE_of code of
          Some CONF_REQ \<Rightarrow> recv_conf_req vt p rt
        | Some CONF_ACK \<Rightarrow> recv_conf_ack vt p rt
        | Some TERM_REQ \<Rightarrow> recv_term_req vt p rt
        | Some ECHO_REQ \<Rightarrow> v_send_echo_rep vt p rt
        | Some ECHO_REPLY \<Rightarrow> v_recv_echo_rep vt p rt
        | _ \<Rightarrow> Some ((ACT_NONE, ''''), rt)) = Some (ret, rt')"
    by (auto simp: receive_def bind_eq_Some_conv split: if_splits)
  show ?thesis
  proof (cases "LCP_CODE_of code")
    case (Some c)
    with * show ?thesis
      by (cases c) (auto dest: recv_conf_req_view recv_conf_ack_view recv_term_req_view echo_rep_view recv_echo_view)
  qed (use * in auto)
qed

end

text \<open>LCP and IPCP leave the AAA alone.\<close>

lemma lcp_opt_loop_view:
  assumes "lcp_opt_loop r p len off code rej rt = Some (res, rt')"
  shows "aaa_view rt' = aaa_view rt"
proof -
  have "aaa_view (snd (res, rt')) = aaa_view rt"
    by (rule lcp_opt_loop.raw_induct [where P = "\<lambda>r p len off code rej rt res. aaa_view (snd res) = aaa_view rt",
        OF _ assms]) (auto simp: bind_eq_Some_conv Let_def split: if_splits)
  then show ?thesis by simp
qed

lemma LCP_view:
  "LCP_send_conf_req env r rt = Some (ret, rt') \<Longrightarrow> aaa_view rt' = aaa_view rt"
  "LCP_send_conf_ack r p rt = Some (ret, rt') \<Longrightarrow> aaa_view rt' = aaa_view rt"
  "LCP_send_conf_nak r p rt = Some (ret, rt') \<Longrightarrow> aaa_view rt' = aaa_view rt"
  "LCP_send_conf_rej r rej i rt = Some (ret, rt') \<Longrightarrow> aaa_view rt' = aaa_view rt"
  "LCP_send_term_ack r p rt = Some (ret, rt') \<Longrightarrow> aaa_view rt' = aaa_view rt"
  "LCP_send_echo_rep r p rt = Some (ret, rt') \<Longrightarrow> aaa_view rt' = aaa_view rt"
  "LCP_send_echo_req r rt = Some (ret, rt') \<Longrightarrow> aaa_view rt' = aaa_view rt"
  "LCP_recv_echo_rep r p rt = Some (ret, rt') \<Longrightarrow> aaa_view rt' = aaa_view rt"
  by (auto simp: LCP_send_conf_req_def LCP_send_conf_ack_def LCP_send_conf_nak_def LCP_send_conf_rej_def
      LCP_send_term_ack_def LCP_send_echo_rep_def LCP_send_echo_req_def LCP_recv_echo_rep_def
      run_splits random_uin32_t_def case_prod_unfold split: if_splits)

lemma LCP_check_conf_view: "LCP_check_conf r p rt = Some (ret, rt') \<Longrightarrow> aaa_view rt' = aaa_view rt"
  by (auto simp: LCP_check_conf_def run_splits split: if_splits dest!: LCP_view lcp_opt_loop_view)

interpretation lcp_aaa: fsm_view "LCP_vtable env r" aaa_view for env r
  by unfold_locales (auto simp: LCP_vtable_def dest: LCP_view LCP_check_conf_view)

lemma set_parameters_view: "set_parameters a opts p rt = Some (p', rt') \<Longrightarrow> aaa_view rt' = aaa_view rt"
proof (induction opts arbitrary: p rt)
  case (Cons opt opts)
  from Cons.prems show ?case
    by (auto simp: bind_eq_Some_conv case_prod_unfold Let_def split: option.split_asm dest!: Cons.IH)
qed simp

lemma IPCP_view:
  "IPCP_send_conf_req r rt = Some (ret, rt') \<Longrightarrow> aaa_view rt' = aaa_view rt"
  "IPCP_send_conf_ack r p rt = Some (ret, rt') \<Longrightarrow> aaa_view rt' = aaa_view rt"
  "IPCP_send_conf_rej r rej i rt = Some (ret, rt') \<Longrightarrow> aaa_view rt' = aaa_view rt"
  "IPCP_send_conf_nak r p rt = Some (ret, rt') \<Longrightarrow> aaa_view rt' = aaa_view rt"
  by (auto simp: IPCP_send_conf_req_def IPCP_send_conf_ack_def IPCP_send_conf_rej_def IPCP_send_conf_nak_def
      run_splits case_prod_unfold split: option.split_asm prod.split_asm dest!: set_parameters_view)

lemma IPCP_answer_conf_view:
  "IPCP_answer_conf r p opts a rt = Some (ret, rt') \<Longrightarrow> aaa_view rt' = aaa_view rt"
  by (auto simp: IPCP_answer_conf_def run_splits split: if_splits dest!: IPCP_view)

lemma IPCP_check_conf_view: "IPCP_check_conf r p rt = Some (ret, rt') \<Longrightarrow> aaa_view rt' = aaa_view rt"
  by (auto simp: IPCP_check_conf_def run_splits split: if_splits prod.split_asm option.split_asm
      dest!: IPCP_answer_conf_view)

interpretation ipcp_aaa: fsm_view "IPCP_vtable r" aaa_view for r
  by unfold_locales (auto simp: IPCP_vtable_def IPCP_send_term_ack_def IPCP_send_echo_rep_def
      IPCP_recv_echo_rep_def dest: IPCP_view IPCP_check_conf_view)

text \<open>So do the replies of the authentication and the dataplane.\<close>

lemma ipcp_start_view: "ipcp_start r rt = Some rt' \<Longrightarrow> aaa_view rt' = aaa_view rt"
  by (auto simp: ipcp_start_def bind_eq_Some_conv dest!: ipcp_aaa.open_view ipcp_aaa.layer_up_view)

lemma replies_view [simp]:
  "aaa_view (snd (pap_reply code sid rt)) = aaa_view rt" "aaa_view (snd (chap_reply ccode sid rt)) = aaa_view rt"
  by (simp_all add: pap_reply_def chap_reply_def store8_def Let_def)

lemma send_auth_view:
  "PAP_send_auth_ack r rt = Some (ret, rt') \<Longrightarrow> aaa_view rt' = aaa_view rt"
  "PAP_send_auth_nak r rt = Some (ret, rt') \<Longrightarrow> aaa_view rt' = aaa_view rt"
  "CHAP_send_auth_ack r rt = Some (ret, rt') \<Longrightarrow> aaa_view rt' = aaa_view rt"
  "CHAP_send_auth_nak r rt = Some (ret, rt') \<Longrightarrow> aaa_view rt' = aaa_view rt"
  by (auto simp: PAP_send_auth_ack_def PAP_send_auth_nak_def CHAP_send_auth_ack_def CHAP_send_auth_nak_def
      run_splits case_prod_unfold dest!: ipcp_start_view)

lemma run_callback_view: "run_callback cb sid err rt = Some rt' \<Longrightarrow> aaa_view rt' = aaa_view rt"
  by (cases cb) (auto simp: PAP_callback_def CHAP_callback_def bind_eq_Some_conv split: if_splits
      dest!: send_auth_view)

lemma CHAP_open_view: "CHAP_open env r rt = Some rt' \<Longrightarrow> aaa_view rt' = aaa_view rt"
  by (auto simp: CHAP_open_def CHAP_send_conf_req_def run_splits random_string_def case_prod_unfold)

lemma start_session_view: "start_session env r rt = Some rt' \<Longrightarrow> aaa_view rt' = aaa_view rt"
  by (auto simp: start_session_def bind_eq_Some_conv split: if_splits
      dest!: lcp_aaa.open_view lcp_aaa.layer_up_view)

lemma lcp_layer_up_view: "lcp_layer_up env r rt = Some rt' \<Longrightarrow> aaa_view rt' = aaa_view rt"
  by (auto simp: lcp_layer_up_def PAP_open_def split: if_splits dest: CHAP_open_view ipcp_start_view)

lemma provision_dp_view: "provision_dp env r rt = Some (err, rt') \<Longrightarrow> aaa_view rt' = aaa_view rt"
  by (auto simp: provision_dp_def run_splits case_prod_unfold split: if_splits)

lemma startEcho_view [simp]: "aaa_view (startEcho env r rt) = aaa_view rt"
  by (simp add: startEcho_def case_prod_unfold Let_def)

lemma PPPOESession_dtor_view [simp]: "aaa_view (PPPOESession_dtor env s rt) = aaa_view rt"
proof -
  have "aaa_view (fold (clear_unnumbered env) els rt) = aaa_view rt" for els rt
    by (induction els arbitrary: rt) (simp_all add: clear_unnumbered_def)
  then show ?thesis by (simp add: PPPOESession_dtor_def deprovision_dp_def case_prod_unfold Let_def)
qed

lemma release_sess_view [simp]: "aaa_view (release_sess env r rt) = aaa_view rt"
  by (simp add: release_sess_def split: option.split)

lemma reject_proto_view: "reject_proto r p rt = Some rt' \<Longrightarrow> aaa_view rt' = aaa_view rt"
  by (auto simp: reject_proto_def bind_eq_Some_conv store8_def Let_def)

lemma request_view:
  "request env cl ser h e rt = Some rt' \<Longrightarrow> aaa_view rt' = aaa_view rt"
  "acct_request env cl ser h e rt = Some rt' \<Longrightarrow> aaa_view rt' = aaa_view rt"
  by (auto simp: request_def acct_request_def run_splits generateAuthenticator_def case_prod_unfold)

lemma startSessionRadius_view:
  "startSessionRadius env u pw e cb rt = Some rt' \<Longrightarrow> aaa_view rt' = aaa_view rt"
  "startSessionRadiusChap env u c d e cb rt = Some rt' \<Longrightarrow> aaa_view rt' = aaa_view rt"
  by (auto simp: startSessionRadius_def startSessionRadiusChap_def Let_def split: list.splits
      dest: request_view)

lemma send_acct_view: "send_acct env a req h r rt = Some rt' \<Longrightarrow> aaa_view rt' = aaa_view rt"
  by (auto simp: send_acct_def dest: request_view)

lemma PPPOESession_ctor_view [simp]: "aaa_view (snd (PPPOESession_ctor env e sid rt)) = aaa_view rt"
  by (simp add: PPPOESession_ctor_def case_prod_unfold Let_def)

lemma allocateSession_view:
  assumes "allocateSession env e rt = Some (res, rt')"
  shows "aaa_view rt' = aaa_view rt"
proof -
  from assms obtain found where "sid_search (sessionSet rt) (next_session_id rt) (next_session_id rt) = Some found"
    by (auto simp: allocateSession_def bind_eq_Some_conv)
  with assms show ?thesis
    by (cases found) (auto simp: allocateSession_def Let_def case_prod_unfold simp del: not_None_eq split: if_splits)
qed

lemma pendeSession_view [simp]: "aaa_view (snd (pendeSession m o' i c rt)) = aaa_view rt"
  by (simp add: pendeSession_def Let_def)

lemma process_padi_view: "process_padi env p e rt = Some (res, rt') \<Longrightarrow> aaa_view rt' = aaa_view rt"
  by (auto simp: process_padi_def Let_def bind_eq_Some_conv case_prod_unfold split: if_splits option.splits)

lemma process_padr_view: "process_padr env p e rt = Some (res, rt') \<Longrightarrow> aaa_view rt' = aaa_view rt"
  by (auto simp: process_padr_def checkSession_def run_splits case_prod_unfold split: if_splits
      dest!: allocateSession_view)

end
