(* ===== verification/Aaa_Invariant.thy ===== *)
theory Aaa_Invariant
  imports Aaa_View
begin

text \<open>
  The AAA sessions and the address pools as an allocator of addresses: between two reloads of the
  configuration every address a pool marks as used has exactly one owner, and the map of AAA
  sessions only names sessions that exist, under their own ids. The invariant, its preservation by
  every operation on AAA sessions, and by every event but a reload.
\<close>

section \<open>The invariant\<close>

definition used :: "string \<Rightarrow> PPPOERuntime \<Rightarrow> u32 set" where
  "used n rt = (case find_pool n rt of Some p \<Rightarrow> ips p | None \<Rightarrow> {})"

definition owns :: "PPPOERuntime \<Rightarrow> nat \<Rightarrow> string \<Rightarrow> u32 \<Rightarrow> bool" where
  "owns rt r n a \<longleftrightarrow> (\<exists>i. ident_of rt r = Some (i, True, n, a))"

text \<open>Address 0 stands for no address: a pool that is exhausted hands it out again and again.\<close>

definition aaa_ok :: "PPPOERuntime \<Rightarrow> bool" where
  "aaa_ok rt \<longleftrightarrow>
     (\<forall>r. ident_of rt r \<noteq> None \<longrightarrow> r < next_aref rt) \<and>
     (\<forall>n a. a \<noteq> 0 \<longrightarrow> a \<in> used n rt \<longrightarrow> (\<exists>r. owns rt r n a)) \<and>
     (\<forall>n a r. a \<noteq> 0 \<longrightarrow> owns rt r n a \<longrightarrow> a \<in> used n rt) \<and>
     (\<forall>n a r q. a \<noteq> 0 \<longrightarrow> owns rt r n a \<longrightarrow> owns rt q n a \<longrightarrow> r = q) \<and>
     (\<forall>i r. map_of (aaa_sessions rt) i = Some r \<longrightarrow> (\<exists>x. ident_of rt r = Some (i, x)))"

lemma aaa_okD:
  assumes "aaa_ok rt"
  shows "ident_of rt r \<noteq> None \<Longrightarrow> r < next_aref rt"
    and "a \<noteq> 0 \<Longrightarrow> a \<in> used n rt \<Longrightarrow> \<exists>r. owns rt r n a"
    and "a \<noteq> 0 \<Longrightarrow> owns rt r n a \<Longrightarrow> a \<in> used n rt"
    and "a \<noteq> 0 \<Longrightarrow> owns rt r n a \<Longrightarrow> owns rt q n a \<Longrightarrow> r = q"
    and "map_of (aaa_sessions rt) i = Some r \<Longrightarrow> \<exists>x. ident_of rt r = Some (i, x)"
  using assms unfolding aaa_ok_def by blast+

lemma aaa_viewD:
  assumes "aaa_view rt' = aaa_view rt"
  shows "ident_of rt' = ident_of rt" "used n rt' = used n rt" "owns rt' = owns rt"
    "next_aref rt' = next_aref rt" "aaa_sessions rt' = aaa_sessions rt"
proof -
  show 1: "ident_of rt' = ident_of rt" using assms by (simp add: aaa_view_def ident_of_def fun_eq_iff)
  show "owns rt' = owns rt" by (simp add: owns_def 1 fun_eq_iff)
qed (use assms in \<open>simp_all add: aaa_view_def used_def find_pool_def\<close>)

lemma aaa_ok_view:
  assumes "aaa_view rt' = aaa_view rt"
  shows "aaa_ok rt' \<longleftrightarrow> aaa_ok rt"
  by (simp add: aaa_ok_def aaa_viewD [OF assms])

section \<open>Opening a session\<close>

text \<open>What a constructor does to the pools: the address of the session it builds was free, and is used now.\<close>

definition takes_address :: "PPPOERuntime \<Rightarrow> AAA_Session \<Rightarrow> PPPOERuntime \<Rightarrow> bool" where
  "takes_address rt s rt' \<longleftrightarrow>
     ident_of rt' = ident_of rt \<and> next_aref rt' = next_aref rt \<and> aaa_sessions rt' = aaa_sessions rt \<and>
     (\<forall>n a. a \<noteq> 0 \<longrightarrow> a \<in> used n rt' \<longleftrightarrow>
        a \<in> used n rt \<or> free_ip s \<and> n = a_framed_pool s \<and> a = a_address s) \<and>
     (free_ip s \<longrightarrow> a_address s \<noteq> 0 \<longrightarrow> a_address s \<notin> used (a_framed_pool s) rt)"

lemma takes_none: "\<not> free_ip s \<Longrightarrow> takes_address rt s rt"
  by (simp add: takes_address_def)

lemma allocate_ip_from_free: "allocate_ip_from u stop i = Some (Some j) \<Longrightarrow> j \<notin> u"
proof -
  assume "allocate_ip_from u stop i = Some (Some j)"
  then have "\<forall>j'. Some j = Some j' \<longrightarrow> j' \<notin> u"
    by (rule allocate_ip_from.raw_induct [rotated, where P = "\<lambda>u stop i r. \<forall>j. r = Some j \<longrightarrow> j \<notin> u"])
      (auto split: if_splits)
  then show ?thesis by simp
qed

lemma allocate_ip_Some:
  "allocate_ip p = Some (a, p') \<Longrightarrow> a \<notin> ips p \<and> p' = p\<lparr>ips := insert a (ips p)\<rparr> \<or> a = 0 \<and> p' = p"
  by (auto simp: allocate_ip_def bind_eq_Some_conv split: option.split_asm dest: allocate_ip_from_free)

lemma used_put_pool: "used m (put_pool n p rt) = (if m = n then ips p else used m rt)"
  by (simp add: used_def)

lemma put_pool_simps [simp]:
  "ident_of (put_pool n p rt) = ident_of rt" "aheap (put_pool n p rt) = aheap rt"
  "next_aref (put_pool n p rt) = next_aref rt" "aaa_sessions (put_pool n p rt) = aaa_sessions rt"
  "acct_clients (put_pool n p rt) = acct_clients rt"
  by (simp_all add: put_pool_def ident_of_def fun_eq_iff)

lemma takes_allocated:
  assumes "allocate_ip p = Some (a, p')" and "find_pool n rt = Some p"
    and s: "free_ip s" "a_framed_pool s = n" "a_address s = a"
  shows "takes_address rt s (put_pool n p' rt)"
proof -
  have n: "used n rt = ips p" using assms(2) by (simp add: used_def)
  have p': "b \<noteq> 0 \<Longrightarrow> b \<in> ips p' \<longleftrightarrow> b \<in> ips p \<or> b = a" and "a \<noteq> 0 \<Longrightarrow> a \<notin> ips p" for b
    using allocate_ip_Some [OF assms(1)] by auto
  then show ?thesis by (simp add: takes_address_def used_put_pool s n)
qed

lemma takes_address_view:
  assumes "aaa_view rt1 = aaa_view rt" and "takes_address rt1 s rt'"
  shows "takes_address rt s rt'"
  using assms(2) by (simp add: takes_address_def aaa_viewD [OF assms(1)])

lemma ctor_takes_address:
  assumes "AAA_Session_ctor env i u t rt = Some (s, rt')"
  shows "takes_address rt s rt' \<and> a_session_id s = i"
proof -
  have "takes_address (snd (draw env rt)) s rt' \<and> a_session_id s = i"
    using assms
    by (auto simp: AAA_Session_ctor_def run_splits case_prod_unfold fresh_aaa_def split: option.split_asm
        intro!: takes_none takes_allocated)
  then show ?thesis using takes_address_view [of "snd (draw env rt)" rt] by simp
qed

lemma radius_ctor_takes_address:
  assumes "AAA_Session_radius_ctor env i u t resp acct rt = Some (s, rt')"
  shows "takes_address rt s rt' \<and> a_session_id s = i"
proof -
  obtain junk rt1 where d: "draw env rt = (junk, rt1)" by (cases "draw env rt")
  define s1 where "s1 =
     (let s = fresh_aaa i u (framed_ip resp) (Some acct) junk;
          template_to_find = (if pppoe_template resp \<noteq> [] then pppoe_template resp else t);
          s = (case map_of (pppoe_templates (conf rt1)) template_to_find of
                 Some t \<Rightarrow> s\<lparr>a_dns1 := t_dns1 t, a_dns2 := t_dns2 t, a_framed_pool := t_framed_pool t,
                             a_vrf := t_vrf t, a_unnumbered := t_unnumbered t\<rparr>
               | None \<Rightarrow> s);
          s = (if rs_framed_pool resp \<noteq> [] then s\<lparr>a_framed_pool := rs_framed_pool resp\<rparr> else s);
          s = (if rs_dns1 resp \<noteq> 0 then s\<lparr>a_dns1 := rs_dns1 resp\<rparr> else s)
      in (if rs_dns2 resp \<noteq> 0 then s\<lparr>a_dns2 := rs_dns2 resp\<rparr> else s))"
  have s1: "a_session_id s1 = i" "\<not> free_ip s1"
    by (simp_all add: s1_def fresh_aaa_def Let_def split: option.split)
  have run: "(if a_address s1 = 0 \<and> a_framed_pool s1 \<noteq> []
         then (case find_pool (a_framed_pool s1) rt1 of
                 None \<Rightarrow> Some (s1, rt1)
               | Some fr_pool \<Rightarrow> do {
                   (ip, fr_pool') \<leftarrow> allocate_ip fr_pool;
                   Some (s1\<lparr>a_address := ip, free_ip := True\<rparr>, put_pool (a_framed_pool s1) fr_pool' rt1)
                 })
         else Some (s1, rt1)) = Some (s, rt')"
    using assms unfolding AAA_Session_radius_ctor_def d Let_def prod.case s1_def .
  from run s1 have "takes_address rt1 s rt' \<and> a_session_id s = i"
    by (auto simp: bind_eq_Some_conv split: if_splits option.split_asm intro!: takes_none takes_allocated)
  then show ?thesis using takes_address_view [of rt1 rt] d aaa_view_small(4) [of env rt] by simp
qed

lemma new_aaa_simps:
  "ident_of (snd (new_aaa s rt)) = (ident_of rt)(next_aref rt \<mapsto> aaa_ident s)"
  "used n (snd (new_aaa s rt)) = used n rt" "next_aref (snd (new_aaa s rt)) = next_aref rt + 1"
  "aaa_sessions (snd (new_aaa s rt)) = aaa_sessions rt" "fst (new_aaa s rt) = next_aref rt"
  by (simp_all add: new_aaa_def ident_of_def fun_eq_iff used_def find_pool_def)

lemma aaa_ok_new_aaa:
  assumes ok: "aaa_ok rt" and t: "takes_address rt s rt'"
  shows "aaa_ok (snd (new_aaa s rt'))"
proof -
  let ?rt = "snd (new_aaa s rt')"
  have fresh: "ident_of rt (next_aref rt) = None" using aaa_okD(1) [OF ok] less_irrefl by blast
  have eqs: "next_aref rt' = next_aref rt" "aaa_sessions rt' = aaa_sessions rt" "ident_of rt' = ident_of rt"
    using t by (simp_all add: takes_address_def)
  have id: "ident_of ?rt = (ident_of rt)(next_aref rt \<mapsto> aaa_ident s)" by (simp add: new_aaa_simps eqs)
  have owns: "owns ?rt r n a \<longleftrightarrow> (if r = next_aref rt then free_ip s \<and> n = a_framed_pool s \<and> a = a_address s
      else owns rt r n a)" for r n a
    by (simp add: owns_def id aaa_ident_def) blast
  have none: "\<not> owns rt (next_aref rt) n a" for n a using fresh by (simp add: owns_def)
  have used: "a \<in> used n ?rt \<longleftrightarrow> a \<in> used n rt \<or> free_ip s \<and> n = a_framed_pool s \<and> a = a_address s"
    if "a \<noteq> 0" for n a
    using t that by (simp add: new_aaa_simps takes_address_def)
  have free: "a_address s \<notin> used (a_framed_pool s) rt" if "free_ip s" "a_address s \<noteq> 0"
    using t that by (simp add: takes_address_def)
  note old = ok [unfolded aaa_ok_def]
  show ?thesis
    unfolding aaa_ok_def
  proof (intro conjI allI impI)
    show "r < next_aref ?rt" if "ident_of ?rt r \<noteq> None" for r
      using that old by (simp add: id new_aaa_simps eqs less_Suc_eq split: if_splits)
    show "\<exists>r. owns ?rt r n a" if "a \<noteq> 0" "a \<in> used n ?rt" for n a
    proof (cases "a \<in> used n rt")
      case True
      with old that(1) obtain r where "owns rt r n a" by blast
      with none show ?thesis by (intro exI [of _ r]) (auto simp: owns)
    next
      case False
      with that used show ?thesis by (intro exI [of _ "next_aref rt"]) (simp add: owns)
    qed
    show "a \<in> used n ?rt" if "a \<noteq> 0" "owns ?rt r n a" for n a r
      using that aaa_okD(3) [OF ok that(1)] by (auto simp: used owns split: if_splits)
    show "r = q" if "a \<noteq> 0" "owns ?rt r n a" "owns ?rt q n a" for n a r q
    proof (cases "r = next_aref rt \<or> q = next_aref rt")
      case True
      with that free aaa_okD(3) [OF ok that(1)] show ?thesis by (auto simp: owns split: if_splits)
    next
      case False
      with that(2,3) have "owns rt r n a" "owns rt q n a" by (simp_all add: owns)
      then show ?thesis by (rule aaa_okD(4) [OF ok that(1)])
    qed
    show "\<exists>x. ident_of ?rt r = Some (i, x)" if "map_of (aaa_sessions ?rt) i = Some r" for i r
    proof -
      from that old obtain x where x: "ident_of rt r = Some (i, x)" by (simp add: new_aaa_simps eqs) blast
      with fresh have "r \<noteq> next_aref rt" by auto
      with x show ?thesis by (simp add: id del: split_paired_Ex)
    qed
  qed
qed

lemma sessions_simps [simp]:
  "ident_of (rt\<lparr>aaa_sessions := m\<rparr>) = ident_of rt" "used n (rt\<lparr>aaa_sessions := m\<rparr>) = used n rt"
  "owns (rt\<lparr>aaa_sessions := m\<rparr>) = owns rt"
  by (simp_all add: ident_of_def used_def find_pool_def owns_def fun_eq_iff)

lemma aaa_ok_sessions:
  assumes "aaa_ok rt" and "\<And>i r. map_of m i = Some r \<Longrightarrow> \<exists>x. ident_of rt r = Some (i, x)"
  shows "aaa_ok (rt\<lparr>aaa_sessions := m\<rparr>)"
  using assms by (simp add: aaa_ok_def del: split_paired_Ex)

lemma aaa_ok_emplace:
  assumes "aaa_ok rt" and "ident_of rt r = Some (i, x)"
  shows "aaa_ok (rt\<lparr>aaa_sessions := om_emplace i r (aaa_sessions rt)\<rparr>)"
  using assms aaa_okD(5) [OF assms(1)] by (intro aaa_ok_sessions) (auto simp: om_find_emplace simp del: split_paired_Ex split: if_splits)

lemma aaa_ok_erase: "aaa_ok rt \<Longrightarrow> aaa_ok (rt\<lparr>aaa_sessions := om_erase i (aaa_sessions rt)\<rparr>)"
  by (intro aaa_ok_sessions) (auto simp: om_find_erase split: if_splits dest: aaa_okD(5))

section \<open>Destroying a session\<close>

lemma dtor_simps [simp]:
  "ident_of (AAA_Session_dtor s rt) = ident_of rt" "aheap (AAA_Session_dtor s rt) = aheap rt"
  "next_aref (AAA_Session_dtor s rt) = next_aref rt" "aaa_sessions (AAA_Session_dtor s rt) = aaa_sessions rt"
  by (simp_all add: AAA_Session_dtor_def split: option.split)

lemma used_dtor:
  "used n (AAA_Session_dtor s rt) =
     (if free_ip s \<and> n = a_framed_pool s then used n rt - {a_address s} else used n rt)"
  by (auto simp: AAA_Session_dtor_def deallocate_ip_def used_put_pool used_def split: option.split)

text \<open>Its address is free again, and only its.\<close>

lemma aaa_ok_release_aaa:
  assumes ok: "aaa_ok rt"
  shows "aaa_ok (release_aaa r rt)"
proof (cases "aheap rt r = None \<or> aaa_held r rt")
  case True
  with ok show ?thesis by (auto simp: release_aaa_def split: option.split)
next
  case False
  then obtain s where s: "aheap rt r = Some s" and gone: "r \<notin> snd ` set (aaa_sessions rt)"
    by (auto simp: aaa_held_def)
  define rt' where "rt' = (AAA_Session_dtor s rt)\<lparr>aheap := (aheap rt)(r := None)\<rparr>"
  have rel: "release_aaa r rt = rt'" using False s by (simp add: release_aaa_def rt'_def)
  have eqs: "ident_of rt' = (ident_of rt)(r := None)" "next_aref rt' = next_aref rt"
    "aaa_sessions rt' = aaa_sessions rt"
    by (simp_all add: rt'_def ident_of_def fun_eq_iff)
  have used: "used n rt' = (if free_ip s \<and> n = a_framed_pool s then used n rt - {a_address s} else used n rt)" for n
    by (simp add: rt'_def used_dtor [symmetric]) (simp add: used_def find_pool_def)
  have owns: "owns rt' q n a \<longleftrightarrow> q \<noteq> r \<and> owns rt q n a" for q n a by (simp add: owns_def eqs)
  have mine: "owns rt r n a \<longleftrightarrow> free_ip s \<and> n = a_framed_pool s \<and> a = a_address s" for n a
    using s by (auto simp: owns_def ident_of_def aaa_ident_def)
  note old = aaa_okD [OF ok]
  have "\<exists>q. owns rt' q n a" if "a \<noteq> 0" "a \<in> used n rt'" for n a
  proof -
    from that(2) have "a \<in> used n rt" "\<not> owns rt r n a" by (auto simp: used mine split: if_splits)
    with old(2) [OF that(1) \<open>a \<in> used n rt\<close>] show ?thesis unfolding owns by metis
  qed
  moreover have "a \<in> used n rt'" if "a \<noteq> 0" "owns rt' q n a" for n a q
    using that old(3) [OF that(1)] old(4) [OF that(1), of q n r] by (auto simp: owns used mine)
  moreover have "\<exists>x. ident_of rt' q = Some (i, x)" if "map_of (aaa_sessions rt') i = Some q" for i q
  proof -
    have "map_of (aaa_sessions rt) i = Some q" using that by (simp add: eqs)
    with gone have "q \<noteq> r" by (force dest: map_of_SomeD)
    with old(5) [OF \<open>map_of (aaa_sessions rt) i = Some q\<close>] show ?thesis by (simp add: eqs)
  qed
  ultimately show ?thesis
    unfolding rel aaa_ok_def using old(1,4) by (simp add: owns eqs) blast
qed

section \<open>The operations of the AAA\<close>

lemma aaa_view_upd:
  "aaa_start env r rt = Some rt' \<Longrightarrow> aaa_view rt' = aaa_view rt"
  "aaa_stop env r rt = Some rt' \<Longrightarrow> aaa_view rt' = aaa_view rt"
  "on_started env r p rt = Some rt' \<Longrightarrow> aaa_view rt' = aaa_view rt"
  "on_interim_answer env r p rt = Some rt' \<Longrightarrow> aaa_view rt' = aaa_view rt"
  "on_stopped env r p rt = Some rt' \<Longrightarrow> aaa_view rt' = aaa_view rt"
  "on_failed r err rt = Some rt' \<Longrightarrow> aaa_view rt' = aaa_view rt"
  by (auto simp: aaa_start_def aaa_stop_def on_started_def on_interim_answer_def on_stopped_def on_failed_def
      parse_acct_answer_def run_splits split: option.split_asm dest!: send_acct_view)

lemma mapIfaceToSession_view [simp]: "aaa_view (mapIfaceToSession sid ifi rt) = aaa_view rt"
  by (simp add: mapIfaceToSession_def map_iface_def split: option.split)

lemmas aaa_ok_keep = aaa_ok_view [THEN iffD2]

lemma aaa_ok_stopSession:
  assumes run: "stopSession env sid rt = Some rt'" and ok: "aaa_ok rt"
  shows "aaa_ok rt'"
proof (cases "map_of (aaa_sessions rt) sid")
  case None
  with run ok show ?thesis by (simp add: stopSession_def)
next
  case (Some r)
  with run obtain rt1 where "aaa_stop env r rt = Some rt1"
    and rt': "rt' = release_aaa r (rt1\<lparr>aaa_sessions := om_erase sid (aaa_sessions rt1)\<rparr>)"
    by (auto simp: stopSession_def bind_eq_Some_conv)
  with ok have "aaa_ok rt1" using aaa_view_upd(2) aaa_ok_keep by blast
  then show ?thesis unfolding rt' by (intro aaa_ok_release_aaa aaa_ok_erase)
qed

lemma aaa_ok_on_interim:
  assumes run: "on_interim env r rt = Some rt'" and ok: "aaa_ok rt"
  shows "aaa_ok rt'"
proof -
  from run obtain rt1 where rt': "rt' = release_aaa r rt1" and "aaa_view rt1 = aaa_view rt"
    by (auto simp: on_interim_def run_splits split: option.split_asm dest!: send_acct_view)
  with ok show ?thesis using aaa_ok_keep aaa_ok_release_aaa by blast
qed

text \<open>Opening: the session is built, given a reference and entered under its id.\<close>

lemma aaa_ok_opened:
  assumes "takes_address rt s rt1" and "a_session_id s = i" and "aaa_ok rt"
    and "new_aaa s rt1 = (r, rt2)"
  shows "aaa_ok rt2" and "aaa_ok (rt2\<lparr>aaa_sessions := om_emplace i r (aaa_sessions rt2)\<rparr>)"
proof -
  have 2: "rt2 = snd (new_aaa s rt1)" "r = next_aref rt1" using assms(4) new_aaa_simps(5) [of s rt1] by simp_all
  show ok: "aaa_ok rt2" unfolding 2 using aaa_ok_new_aaa [OF assms(3,1)] .
  show "aaa_ok (rt2\<lparr>aaa_sessions := om_emplace i r (aaa_sessions rt2)\<rparr>)"
    by (rule aaa_ok_emplace [OF ok]) (simp add: 2 new_aaa_simps aaa_ident_def assms(2))
qed

lemma aaa_ok_startSessionNone:
  assumes run: "startSessionNone env u p rt = Some (res, rt')" and ok: "aaa_ok rt"
  shows "aaa_ok rt'"
proof (cases "rt' = rt")
  case False
  with run obtain i s rt1 where "AAA_Session_ctor env i u (local_template (aaa_conf (conf rt))) rt = Some (s, rt1)"
    and rt': "(let (r, rt) = new_aaa s rt1 in
          if map_of (aaa_sessions rt) i \<noteq> None
          then Some ((SESSION_ERROR, ''Failed to emplace user''), release_aaa r rt)
          else Some ((i, ''''), rt\<lparr>aaa_sessions := om_emplace i r (aaa_sessions rt)\<rparr>)) = Some (res, rt')"
    by (auto simp: startSessionNone_def bind_eq_Some_conv simp del: not_None_eq split: if_splits)
  from ctor_takes_address [OF this(1)] have t: "takes_address rt s rt1" "a_session_id s = i" by auto
  obtain r rt2 where 2: "new_aaa s rt1 = (r, rt2)" by (cases "new_aaa s rt1")
  with rt' aaa_ok_opened [OF t ok 2] show ?thesis
    by (auto simp: Let_def simp del: not_None_eq split: if_splits intro: aaa_ok_release_aaa)
qed (use ok in simp)

lemma aaa_ok_processRadiusAnswer:
  assumes run: "processRadiusAnswer env run_callback cb u code v rt = Some rt'" and ok: "aaa_ok rt"
  shows "aaa_ok rt'"
  using run
proof (cases rule: processRadiusAnswer_steps)
  case (full rt1)
  then have "aaa_view rt1 = aaa_view rt" "aaa_view rt' = aaa_view rt1" by (auto dest!: run_callback_view)
  with ok show ?thesis using aaa_ok_keep by blast
next
  case (built rt1 i res acct s rt2 r rt3)
  from built(1) have "aaa_view rt1 = aaa_view rt" by (auto dest!: run_callback_view)
  with ok have ok1: "aaa_ok rt1" using aaa_ok_keep by blast
  from radius_ctor_takes_address [OF built(2)] have t: "takes_address rt1 s rt2" "a_session_id s = i" by auto
  from built(4) have "aaa_view rt' = aaa_view (release_aaa r rt3) \<or>
      aaa_view rt' = aaa_view (rt3\<lparr>aaa_sessions := om_emplace i r (aaa_sessions rt3)\<rparr>)"
    by (auto dest!: run_callback_view aaa_view_upd(1))
  with aaa_ok_opened [OF t ok1 built(3)] aaa_ok_release_aaa show ?thesis using aaa_ok_keep by blast
qed

section \<open>Events\<close>

lemma aaa_ok_deallocateSession:
  assumes run: "deallocateSession env sid rt = Some (err, rt')" and ok: "aaa_ok rt"
  shows "aaa_ok rt'"
proof (cases "sid \<in> sessionSet rt")
  case False
  with run ok show ?thesis by (simp add: deallocateSession_def)
next
  case sid: True
  show ?thesis
  proof (cases "find_by_sid sid rt")
    case None
    with run sid have "aaa_view rt' = aaa_view rt" by (auto simp: deallocateSession_def)
    with ok show ?thesis using aaa_ok_keep by blast
  next
    case (Some kr)
    with run sid obtain a rt1 where "stopSession env a rt = Some rt1" "aaa_view rt' = aaa_view rt1"
      by (cases kr) (auto simp: deallocateSession_def bind_eq_Some_conv)
    with ok show ?thesis using aaa_ok_stopSession aaa_ok_keep by blast
  qed
qed

lemma ipcp_layer_up_view: "ipcp_layer_up env r rt = Some rt' \<Longrightarrow> aaa_view rt' = aaa_view rt"
  by (auto simp: ipcp_layer_up_def bind_eq_Some_conv dest!: provision_dp_view)

lemmas aaa_ok_by_view = run_callback_view [THEN aaa_ok_keep] send_auth_view [THEN aaa_ok_keep]
  request_view [THEN aaa_ok_keep] aaa_view_upd [THEN aaa_ok_keep] start_session_view [THEN aaa_ok_keep]
  lcp_aaa.receive_view [THEN aaa_ok_keep] ipcp_aaa.receive_view [THEN aaa_ok_keep] lcp_layer_up_view [THEN aaa_ok_keep]
  ipcp_layer_up_view [THEN aaa_ok_keep] reject_proto_view [THEN aaa_ok_keep] LCP_view [THEN aaa_ok_keep]
  allocateSession_view [THEN aaa_ok_keep]

interpretation aaa: daemon_inv aaa_ok
proof unfold_locales
  show "aaa_ok rt'" if "deallocateSession env si rt = Some (err, rt')" "aaa_ok rt" for env si rt err rt'
    using that by (rule aaa_ok_deallocateSession)
qed (rule aaa_ok_view; simp; fail | erule aaa_ok_keep [rotated]; simp; fail | rule aaa_ok_release_aaa; assumption
    | erule (1) aaa_ok_by_view aaa_ok_startSessionNone aaa_ok_processRadiusAnswer aaa_ok_on_interim
    | erule (2) aaa_ok_by_view)+

section \<open>The daemon between reloads\<close>

text \<open>The configuration file has no field for the addresses in use: its pools come in empty.\<close>

definition fresh_pools :: "PPPOEGlobalConf \<Rightarrow> bool" where
  "fresh_pools c \<longleftrightarrow> (\<forall>(n, p) \<in> set (aaa_pools (aaa_conf c)). ips p = {})"

text \<open>The states reached with the configuration the daemon was started with.\<close>

inductive unreloaded ::
  "env \<Rightarrow> (string \<Rightarrow> string list) \<Rightarrow> PPPOEGlobalConf \<Rightarrow> EVLoop \<Rightarrow> bool" for env files cfg where
  start: "main_init env files (Some cfg) = Some rt \<Longrightarrow> unreloaded env files cfg (EVLoop_init rt)"
| step: "unreloaded env files cfg l \<Longrightarrow> \<not> interrupted l \<Longrightarrow> enabled ev l \<Longrightarrow> handle env ev l = Some l' \<Longrightarrow>
    \<forall>c. ev \<noteq> Signal (SIGHUP (Some c)) \<Longrightarrow> unreloaded env files cfg l'"

lemma unreloaded_reachable: "unreloaded env files cfg l \<Longrightarrow> reachable env files (Some cfg) l"
  by (induction rule: unreloaded.induct) (blast intro: reachable.intros)+

lemma aaa_ok_main_init:
  assumes "main_init env files (Some cfg) = Some rt" and "fresh_pools cfg"
  shows "aaa_ok rt"
proof -
  obtain rib where rt: "conf rt = cfg\<lparr>global_rib := rib\<rparr>" "aheap rt = Map.empty" "aaa_sessions rt = []"
    by (rule main_init_state [OF assms(1), unfolded option.case])
  have "used n rt = {}" for n
    using assms(2) rt(1)
    by (auto simp: used_def find_pool_def fresh_pools_def split: option.split dest!: map_of_SomeD)
  then show ?thesis using rt(2,3) by (simp add: aaa_ok_def ident_of_def owns_def)
qed

lemma unreloaded_aaa_ok: "unreloaded env files cfg l \<Longrightarrow> fresh_pools cfg \<Longrightarrow> aaa_ok (runtime l)"
proof (induction rule: unreloaded.induct)
  case (start rt)
  then show ?case by (simp add: EVLoop_init_def aaa_ok_main_init)
next
  case (step l ev l')
  then show ?case using aaa.handle_inv by blast
qed

text \<open>
  C3. Until the configuration is reloaded, and whatever frames, datagrams, timers and signals
  come in: an address of a pool is marked as used exactly when one AAA session that has not been
  destroyed holds it from that pool, and then only one does; so two AAA sessions never have the same
  address from a pool, and no address of a destroyed session is lost. The map of AAA sessions
  names live sessions under their own ids.
\<close>

theorem addresses_exclusive:
  assumes "unreloaded env files cfg l" and "fresh_pools cfg"
  shows "(\<forall>n p a. find_pool n (runtime l) = Some p \<longrightarrow> a \<noteq> 0 \<longrightarrow> (a \<in> ips p \<longleftrightarrow>
      (\<exists>!r. \<exists>s. aheap (runtime l) r = Some s \<and> free_ip s \<and> a_framed_pool s = n \<and> a_address s = a))) \<and>
    (\<forall>r q s t. aheap (runtime l) r = Some s \<longrightarrow> aheap (runtime l) q = Some t \<longrightarrow> r \<noteq> q \<longrightarrow> free_ip s \<longrightarrow> free_ip t \<longrightarrow>
      a_framed_pool s = a_framed_pool t \<longrightarrow> a_address s \<noteq> 0 \<longrightarrow> a_address s \<noteq> a_address t) \<and>
    (\<forall>i r. map_of (aaa_sessions (runtime l)) i = Some r \<longrightarrow> (\<exists>s. aheap (runtime l) r = Some s \<and> a_session_id s = i))"
proof -
  let ?rt = "runtime l"
  have ok: "aaa_ok ?rt" using assms by (rule unreloaded_aaa_ok)
  have owns: "owns ?rt r n a \<longleftrightarrow> (\<exists>s. aheap ?rt r = Some s \<and> free_ip s \<and> a_framed_pool s = n \<and> a_address s = a)"
    for r n a by (auto simp: owns_def ident_of_def aaa_ident_def)
  have "a \<in> ips p \<longleftrightarrow> (\<exists>!r. owns ?rt r n a)" if "find_pool n ?rt = Some p" "a \<noteq> 0" for n p a
  proof -
    have "used n ?rt = ips p" using that(1) by (simp add: used_def)
    with aaa_okD(2-4) [OF ok that(2)] show ?thesis by metis
  qed
  moreover have "a_address s \<noteq> a_address t" if "aheap ?rt r = Some s" "aheap ?rt q = Some t" "r \<noteq> q" "free_ip s"
    "free_ip t" "a_framed_pool s = a_framed_pool t" "a_address s \<noteq> 0" for r q s t
    using aaa_okD(4) [OF ok that(7), of r "a_framed_pool s" q] that unfolding owns by auto
  moreover have "\<exists>s. aheap ?rt r = Some s \<and> a_session_id s = i" if "map_of (aaa_sessions ?rt) i = Some r" for i r
    using aaa_okD(5) [OF ok that] by (auto simp: ident_of_def aaa_ident_def)
  ultimately show ?thesis unfolding owns by blast
qed

text \<open>The sample subscriber's five frames are such a run: its address is in use and has one owner.\<close>

lemma unreloaded_frames:
  "unreloaded env files cfg l \<Longrightarrow> \<not> interrupted l \<Longrightarrow> \<forall>ev \<in> set evs. \<exists>f v. ev = Frame f v \<Longrightarrow>
     run_events env evs l = Some l' \<Longrightarrow> unreloaded env files cfg l'"
proof (induction evs arbitrary: l)
  case (Cons ev evs)
  then obtain f v l1 where ev: "ev = Frame f v" and run: "handle env ev l = Some l1" "run_events env evs l1 = Some l'"
    by (auto simp: bind_eq_Some_conv simp del: handle.simps)
  have "unreloaded env files cfg l1"
    using unreloaded.step [OF Cons.prems(1,2) _ run(1)] by (simp add: ev)
  moreover have "\<not> interrupted l1" using run(1) Cons.prems(2) by (auto simp: ev on_runtime_def)
  ultimately show ?case using Cons.IH run(2) Cons.prems(3) by simp
qed simp

lemma sample_reached:
  obtains l r s where "unreloaded sample_env (\<lambda>f. []) sample_conf l"
    "find_pool ''p1'' (runtime l) = Some (sample_pool\<lparr>ips := {0x64400002}\<rparr>)"
    "map_of (activeSessions (runtime l)) (key_of_encap sample_encap 1) = Some r" "heap (runtime l) r = Some s"
    "state (ipcp s) = Opened" "pppoe_outcoming (runtime l) \<noteq> []"
proof -
  obtain rt where rt: "main_init sample_env (\<lambda>f. []) (Some sample_conf) = Some rt" using main_init_sample by blast
  obtain l r s where run: "run_events sample_env sample_frames (EVLoop_init rt) = Some l"
    and l: "find_pool ''p1'' (runtime l) = Some (sample_pool\<lparr>ips := {0x64400002}\<rparr>)"
      "map_of (activeSessions (runtime l)) (key_of_encap sample_encap 1) = Some r" "heap (runtime l) r = Some s"
      "state (ipcp s) = Opened" "pppoe_outcoming (runtime l) \<noteq> []"
    by (rule sample_run [OF rt])
  have "unreloaded sample_env (\<lambda>f. []) sample_conf l"
    by (rule unreloaded_frames [OF unreloaded.start [OF rt] _ _ run]) (simp_all add: EVLoop_init_def sample_frames_def)
  then show thesis using that l by blast
qed

theorem addresses_exclusive_witness:
  "\<exists>l p. unreloaded sample_env (\<lambda>f. []) sample_conf l \<and> find_pool ''p1'' (runtime l) = Some p \<and> ips p = {0x64400002} \<and>
     (\<exists>!r. \<exists>s. aheap (runtime l) r = Some s \<and> free_ip s \<and> a_framed_pool s = ''p1'' \<and> a_address s = 0x64400002)"
proof -
  obtain l where l: "unreloaded sample_env (\<lambda>f. []) sample_conf l"
    and pool: "find_pool ''p1'' (runtime l) = Some (sample_pool\<lparr>ips := {0x64400002}\<rparr>)"
    by (rule sample_reached)
  have "fresh_pools sample_conf" by (simp add: fresh_pools_def sample_conf_def)
  note addresses_exclusive [OF l this, THEN conjunct1, THEN spec, THEN spec, THEN spec, THEN mp [OF _ pool], THEN mp,
      of "0x64400002"]
  then have "\<exists>!r. \<exists>s. aheap (runtime l) r = Some s \<and> free_ip s \<and> a_framed_pool s = ''p1'' \<and> a_address s = 0x64400002"
    by simp
  with l pool show ?thesis
    by (intro exI [of _ l] exI [of _ "sample_pool\<lparr>ips := {0x64400002}\<rparr>"]) simp
qed

end
