(* ===== verification/Conformance.thy ===== *)
theory Conformance
  imports Aaa_Invariant
begin

text \<open>
  Conformance of the daemon's state: the types its values have beyond those of the records. Every
  frame that waits to be sent is a PPPoE frame with a whole header, of the queue's EtherType and
  from the runtime's hardware address; every session's automata carry the session's id, number
  their requests 1, and remember the acknowledgement that opened them.
\<close>

section \<open>Frames and sessions\<close>

definition disc_frame :: "mac_t \<Rightarrow> bytes \<Rightarrow> bool" where
  "disc_frame hw f \<longleftrightarrow> (\<exists>e pkt. f = generate_header e hw ETH_PPPOE_DISCOVERY @ pkt \<and> 6 \<le> length pkt)"

definition sess_frame :: "mac_t \<Rightarrow> bytes \<Rightarrow> bool" where
  "sess_frame hw f \<longleftrightarrow> (\<exists>e pkt. f = generate_header e hw ETH_PPPOE_SESSION @ pkt \<and> 8 \<le> length pkt)"

lemma frame_intro [simp]:
  "6 \<le> length pkt \<Longrightarrow> disc_frame hw (generate_header e hw ETH_PPPOE_DISCOVERY @ pkt)"
  "8 \<le> length pkt \<Longrightarrow> sess_frame hw (generate_header e hw ETH_PPPOE_SESSION @ pkt)"
  unfolding disc_frame_def sess_frame_def by blast+

definition fsm_ok :: "u16 \<Rightarrow> PPP_FSM \<Rightarrow> bool" where
  "fsm_ok sid f \<longleftrightarrow> fsm_inv f \<and> pkt_id f = 1 \<and> fsm_session_id f = sid"

definition sess_ok :: "PPPOESession \<Rightarrow> bool" where
  "sess_ok s \<longleftrightarrow> fsm_ok (session_id s) (lcp_fsm (lcp s)) \<and> fsm_ok (session_id s) (ipcp s)"

text \<open>What conformance looks at.\<close>

definition io_view :: "PPPOERuntime \<Rightarrow> mac_t \<times> bytes list \<times> bytes list \<times> (nat \<rightharpoonup> PPPOESession)" where
  "io_view rt = (hwaddr rt, pppoe_outcoming rt, ppp_outcoming rt, heap rt)"

definition conforms :: "PPPOERuntime \<Rightarrow> bool" where
  "conforms rt \<longleftrightarrow> hwaddr rt = zero_mac \<and>
     (\<forall>f \<in> set (pppoe_outcoming rt). disc_frame zero_mac f) \<and>
     (\<forall>f \<in> set (ppp_outcoming rt). sess_frame zero_mac f) \<and>
     (\<forall>r s. heap rt r = Some s \<longrightarrow> sess_ok s)"

lemma conforms_view: "io_view rt' = io_view rt \<Longrightarrow> conforms rt' \<longleftrightarrow> conforms rt"
  by (simp add: io_view_def conforms_def)

lemmas conforms_keep = conforms_view [THEN iffD2]

lemma conforms_sess: "conforms rt \<Longrightarrow> heap rt r = Some s \<Longrightarrow> sess_ok s"
  by (simp add: conforms_def)

lemma conforms_send [simp]:
  "8 \<le> length pkt \<Longrightarrow> conforms (send_session_pkt e pkt rt) \<longleftrightarrow> conforms rt"
  "6 \<le> length pkt \<Longrightarrow>
     conforms (push_pppoe (generate_header e (hwaddr rt) ETH_PPPOE_DISCOVERY @ pkt) rt) \<longleftrightarrow> conforms rt"
  by (auto simp: conforms_def send_session_pkt_def push_ppp_def push_pppoe_def)

lemma conforms_upd_sess:
  "(\<And>s. heap rt r = Some s \<Longrightarrow> sess_ok (f s) \<longleftrightarrow> sess_ok s) \<Longrightarrow> conforms (upd_sess r f rt) \<longleftrightarrow> conforms rt"
  by (auto simp: conforms_def upd_sess_def)

lemma conforms_upd_sessI:
  "(\<And>s. heap rt r = Some s \<Longrightarrow> sess_ok s \<Longrightarrow> sess_ok (f s)) \<Longrightarrow> conforms rt \<Longrightarrow> conforms (upd_sess r f rt)"
  by (auto simp: conforms_def upd_sess_def)

lemma sess_ok_updates [simp]:
  "sess_ok (s\<lparr>started := b\<rparr>) \<longleftrightarrow> sess_ok s" "sess_ok (s\<lparr>aaa_session_id := a\<rparr>) \<longleftrightarrow> sess_ok s"
  "sess_ok (s\<lparr>username := c\<rparr>) \<longleftrightarrow> sess_ok s" "sess_ok (s\<lparr>s_address := a\<rparr>) \<longleftrightarrow> sess_ok s"
  "sess_ok (s\<lparr>ifindex := a\<rparr>) \<longleftrightarrow> sess_ok s" "sess_ok (s\<lparr>s_vrf := c\<rparr>) \<longleftrightarrow> sess_ok s"
  "sess_ok (s\<lparr>s_unnumbered := c\<rparr>) \<longleftrightarrow> sess_ok s" "sess_ok (s\<lparr>auth := p\<rparr>) \<longleftrightarrow> sess_ok s"
  "sess_ok (s\<lparr>chap := q\<rparr>) \<longleftrightarrow> sess_ok s" "sess_ok (s\<lparr>peer_MRU := m\<rparr>) \<longleftrightarrow> sess_ok s"
  "sess_ok (s\<lparr>our_magic_number := a\<rparr>) \<longleftrightarrow> sess_ok s" "sess_ok (s\<lparr>peer_magic_number := a\<rparr>) \<longleftrightarrow> sess_ok s"
  "sess_ok (s\<lparr>echo_timer := t\<rparr>) \<longleftrightarrow> sess_ok s" "sess_ok (s\<lparr>lcp := (lcp s)\<lparr>echo_counter := k\<rparr>\<rparr>) \<longleftrightarrow> sess_ok s"
  by (simp_all add: sess_ok_def)

lemma io_view_updates [simp]:
  "io_view (rt\<lparr>conf := c\<rparr>) = io_view rt" "io_view (rt\<lparr>next_ref := n\<rparr>) = io_view rt"
  "io_view (rt\<lparr>activeSessions := m\<rparr>) = io_view rt" "io_view (rt\<lparr>sessionSet := u\<rparr>) = io_view rt"
  "io_view (rt\<lparr>pendingSession := k\<rparr>) = io_view rt" "io_view (rt\<lparr>pending_timers := t\<rparr>) = io_view rt"
  "io_view (rt\<lparr>next_session_id := i\<rparr>) = io_view rt" "io_view (rt\<lparr>auth_clients := ca\<rparr>) = io_view rt"
  "io_view (rt\<lparr>acct_clients := ca\<rparr>) = io_view rt" "io_view (rt\<lparr>vpp := v\<rparr>) = io_view rt"
  "io_view (rt\<lparr>nd_pos := n\<rparr>) = io_view rt" "io_view (rt\<lparr>stray_stores := n\<rparr>) = io_view rt"
  "io_view (rt\<lparr>aheap := h\<rparr>) = io_view rt" "io_view (rt\<lparr>next_aref := n\<rparr>) = io_view rt"
  "io_view (rt\<lparr>aaa_sessions := am\<rparr>) = io_view rt"
  by (simp_all add: io_view_def)

lemma io_view_small [simp]:
  "io_view (snd (Runtime_State.draw env rt)) = io_view rt" "io_view (snd (draws env n rt)) = io_view rt"
  "io_view (snd (store8 i b p rt)) = io_view rt" "io_view (snd (store32 i w p rt)) = io_view rt"
  "io_view (snd (on_vpp h rt)) = io_view rt" "io_view (put_client cl c rt) = io_view rt"
  "io_view (upd_aaa q g rt) = io_view rt" "io_view (put_pool pn fp rt) = io_view rt"
  by (simp_all add: snd_draw snd_draws store8_def store32_def on_vpp_def upd_aaa_def put_pool_def
      case_prod_unfold Let_def)
    (cases cl; simp)

lemma conforms_updates [simp]:
  "conforms (rt\<lparr>conf := c\<rparr>) \<longleftrightarrow> conforms rt" "conforms (rt\<lparr>next_ref := n\<rparr>) \<longleftrightarrow> conforms rt"
  "conforms (rt\<lparr>activeSessions := m\<rparr>) \<longleftrightarrow> conforms rt" "conforms (rt\<lparr>sessionSet := u\<rparr>) \<longleftrightarrow> conforms rt"
  "conforms (rt\<lparr>pendingSession := k\<rparr>) \<longleftrightarrow> conforms rt" "conforms (rt\<lparr>pending_timers := t\<rparr>) \<longleftrightarrow> conforms rt"
  "conforms (rt\<lparr>next_session_id := i\<rparr>) \<longleftrightarrow> conforms rt" "conforms (rt\<lparr>vpp := v\<rparr>) \<longleftrightarrow> conforms rt"
  "conforms (rt\<lparr>nd_pos := n\<rparr>) \<longleftrightarrow> conforms rt" "conforms (put_client cl cc rt) \<longleftrightarrow> conforms rt"
  "conforms (snd (Runtime_State.draw env rt)) \<longleftrightarrow> conforms rt" "conforms (snd (draws env n rt)) \<longleftrightarrow> conforms rt"
  "conforms (snd (store8 j b p rt)) \<longleftrightarrow> conforms rt" "conforms (snd (store32 j w p rt)) \<longleftrightarrow> conforms rt"
  "conforms (snd (on_vpp h rt)) \<longleftrightarrow> conforms rt"
  by (rule conforms_view; simp)+

section \<open>The automaton\<close>

text \<open>The members of an automaton in a conforming state, and the changes a derived class makes to them.\<close>

locale fsm_members = fsm_impl vt for vt +
  assumes upd_ok: "this vt rt = Some f \<Longrightarrow> (\<And>i. fsm_ok i f \<Longrightarrow> fsm_ok i (g f)) \<Longrightarrow> conforms rt \<Longrightarrow>
      conforms (upd_this vt g rt)"
begin

lemma to_state_ok:
  assumes "st \<in> {Ack_Rcvd, Opened} \<Longrightarrow> state f \<in> {Ack_Rcvd, Opened}" and "this vt rt = Some f" and "conforms rt"
  shows "conforms (upd_this vt (to_state st) rt)"
  by (rule upd_ok [OF assms(2) _ assms(3)]) (use assms(1) in \<open>auto simp: fsm_ok_def fsm_inv_def to_state_def\<close>)

lemma nak_counter_ok: "this vt rt = Some f \<Longrightarrow> conforms rt \<Longrightarrow> conforms (upd_this vt (\<lambda>f. f\<lparr>nak_counter := k f\<rparr>) rt)"
  by (rule upd_ok) (auto simp: fsm_ok_def fsm_inv_def)

text \<open>A Configure-Request that is acknowledged, and one that is not.\<close>

lemma acknowledged_ok:
  assumes f: "this vt rt = Some f" and "conforms rt"
  shows "conforms (upd_this vt (\<lambda>f. f\<lparr>nak_counter := 0\<rparr>)
    (upd_this vt (to_state (if state f = Ack_Rcvd then Opened else Ack_Sent)) rt))"
  by (rule nak_counter_ok [OF this_upd [OF f]]) (rule to_state_ok [OF _ f \<open>conforms rt\<close>], auto split: if_splits)

lemma refused_ok:
  assumes f: "this vt rt = Some f" and "conforms rt"
  shows "conforms (if state f \<noteq> Ack_Rcvd then upd_this vt (to_state Req_Sent) rt else rt)"
    and "conforms (upd_this vt (\<lambda>f. f\<lparr>nak_counter := k f\<rparr>)
      (if state f \<noteq> Ack_Rcvd then upd_this vt (to_state Req_Sent) rt else rt))"
  using assms by (auto intro!: to_state_ok nak_counter_ok [OF this_upd] intro: nak_counter_ok)

end

locale fsm_conform = fsm_members vt for vt +
  assumes conf_req_ok: "v_send_conf_req vt rt = Some (ret, rt') \<Longrightarrow> conforms rt \<Longrightarrow> conforms rt'"
    and check_ok: "8 \<le> length p \<Longrightarrow> v_check_conf vt p rt = Some (ret, rt') \<Longrightarrow> conforms rt \<Longrightarrow> conforms rt'"
    and term_ack_ok: "8 \<le> length p \<Longrightarrow> v_send_term_ack vt p rt = Some (ret, rt') \<Longrightarrow> conforms rt \<Longrightarrow> conforms rt'"
    and echo_rep_ok: "8 \<le> length p \<Longrightarrow> v_send_echo_rep vt p rt = Some (ret, rt') \<Longrightarrow> conforms rt \<Longrightarrow> conforms rt'"
    and recv_echo_ok: "v_recv_echo_rep vt p rt = Some (ret, rt') \<Longrightarrow> conforms rt \<Longrightarrow> conforms rt'"
begin

lemma request_ok:
  assumes f: "this vt rt = Some f" and run: "v_send_conf_req vt rt = Some (ret, rt1)" and "conforms rt"
  shows "conforms rt1" "conforms (upd_this vt (to_state Req_Sent) rt1)"
proof -
  show 1: "conforms rt1" using conf_req_ok [OF run \<open>conforms rt\<close>] .
  have "this vt rt1 = Some f" using conf_req [OF run] f by simp
  then show "conforms (upd_this vt (to_state Req_Sent) rt1)" using 1 by (intro to_state_ok) simp
qed

lemma layer_up_ok:
  assumes "layer_up vt rt = Some rt'" and "conforms rt"
  shows "conforms rt'"
proof -
  from assms obtain f where "this vt rt = Some f" by (auto simp: layer_up_def bind_eq_Some_conv)
  with assms show ?thesis
    by (cases "state f") (auto simp: layer_up_def bind_eq_Some_conv intro: to_state_ok dest: request_ok)
qed

lemma open_ok:
  assumes "fsm_open vt rt = Some rt'" and "conforms rt"
  shows "conforms rt'"
proof -
  from assms obtain f where "this vt rt = Some f" by (auto simp: fsm_open_def bind_eq_Some_conv)
  with assms show ?thesis
    by (cases "state f") (auto simp: fsm_open_def bind_eq_Some_conv intro: to_state_ok dest: request_ok)
qed

lemma recv_conf_req_ok:
  assumes "recv_conf_req vt p rt = Some (ret, rt')" and "8 \<le> length p" and "conforms rt"
  shows "conforms rt'"
proof -
  from assms obtain f where f: "this vt rt = Some f" by (auto simp: recv_conf_req_def bind_eq_Some_conv)
  show ?thesis
  proof (cases "state f \<in> {Opened, Stopped}")
    case False
    with assms f show ?thesis by (cases "state f") (auto simp: recv_conf_req_def dest: check_ok)
  next
    case True
    with assms(1) f obtain ret1 rt1 where 1: "v_send_conf_req vt rt = Some (ret1, rt1)"
      and 2: "rt' = upd_this vt (to_state Req_Sent) rt1 \<or>
        v_check_conf vt p (upd_this vt (to_state Req_Sent) rt1) = Some (ret, rt')"
      by (auto simp: recv_conf_req_def layer_down_def bind_eq_Some_conv)
    from request_ok(2) [OF f 1 assms(3)] 2 show ?thesis using check_ok [OF assms(2)] by blast
  qed
qed

lemma recv_conf_ack_ok:
  assumes "recv_conf_ack vt p rt = Some (ret, rt')" and "conforms rt"
  shows "conforms rt'"
proof -
  let ?rt1 = "upd_this vt (\<lambda>f. f\<lparr>seen_ack := True\<rparr>) rt"
  from assms obtain f where f: "this vt rt = Some f" by (auto simp: recv_conf_ack_def bind_eq_Some_conv)
  have f1: "this vt ?rt1 = Some (f\<lparr>seen_ack := True\<rparr>)" by (rule this_upd [OF f])
  have 1: "conforms ?rt1" by (rule upd_ok [OF f _ assms(2)]) (simp add: fsm_ok_def fsm_inv_def)
  have acked: "conforms (upd_this vt (to_state st) ?rt1)" for st
    by (rule upd_ok [OF f1 _ 1]) (simp add: fsm_ok_def fsm_inv_def to_state_def)
  from assms f show ?thesis
    by (cases "state f") (auto simp: recv_conf_ack_def Let_def bind_eq_Some_conv 1 acked split: if_splits
        dest!: layer_up_ok request_ok(2) [OF f1 _ 1])
qed

lemma recv_term_req_ok:
  assumes "recv_term_req vt p rt = Some (ret, rt')" and "8 \<le> length p" and "conforms rt"
  shows "conforms rt'"
proof -
  from assms obtain f where f: "this vt rt = Some f" by (auto simp: recv_term_req_def bind_eq_Some_conv)
  have "conforms (upd_this vt (to_state st) rt)" if "st \<in> {Stopping, Req_Sent}" for st
    using that assms(3) by (intro to_state_ok [OF _ f]) auto
  with assms f show ?thesis
    by (cases "state f") (auto simp: recv_term_req_def bind_eq_Some_conv dest!: term_ack_ok)
qed

lemma receive_ok:
  assumes "receive vt p rt = Some (ret, rt')" and ok: "conforms rt"
  shows "conforms rt'"
proof -
  from assms obtain f where "this vt rt = Some f" by (auto simp: receive_def bind_eq_Some_conv)
  with assms obtain code where *: "rt' = rt \<or> 8 \<le> length p \<and> (case LCP_CODE_of code of
          Some CONF_REQ \<Rightarrow> recv_conf_req vt p rt
        | Some CONF_ACK \<Rightarrow> recv_conf_ack vt p rt
        | Some TERM_REQ \<Rightarrow> recv_term_req vt p rt
        | Some ECHO_REQ \<Rightarrow> v_send_echo_rep vt p rt
        | Some ECHO_REPLY \<Rightarrow> v_recv_echo_rep vt p rt
        | _ \<Rightarrow> Some ((ACT_NONE, ''''), rt)) = Some (ret, rt')"
    by (auto simp: receive_def bind_eq_Some_conv load8_def split: if_splits)
  show ?thesis
  proof (cases "LCP_CODE_of code")
    case (Some c)
    with * ok show ?thesis
      by (cases c) (auto dest: recv_conf_req_ok recv_conf_ack_ok recv_term_req_ok echo_rep_ok recv_echo_ok)
  qed (use * ok in auto)
qed

end

section \<open>LCP and IPCP\<close>

lemma length_packets [simp]:
  "lcp_conf_req_pkt pol sid i magic = Some pkt \<Longrightarrow> 8 \<le> length pkt"
  "8 \<le> length (conf_rej_pkt proto sid i rej)" "8 \<le> length (echo_req_pkt sid i magic)"
  "8 \<le> length (ipcp_conf_req_pkt sid i)" "8 \<le> length (fst (pap_reply code sid rt))"
  "8 \<le> length (fst (chap_reply ccode sid rt))" "8 \<le> length (chap_challenge_pkt sid chal ac)"
  by (auto simp: lcp_conf_req_pkt_def conf_rej_pkt_def echo_req_pkt_def ipcp_conf_req_pkt_def pap_reply_def
      chap_reply_def chap_challenge_pkt_def store8_def fill_pppoe_session_def sizeof_defs Let_def
      case_prod_unfold split: if_splits)

lemma lcp_opt_loop_ok:
  assumes "lcp_opt_loop r p len off code rej rt = Some (res, rt')"
  shows "conforms rt' \<longleftrightarrow> conforms rt"
proof -
  have "conforms (snd (res, rt')) \<longleftrightarrow> conforms rt"
    by (rule lcp_opt_loop.raw_induct [where P = "\<lambda>r p len off code rej rt res. conforms (snd res) \<longleftrightarrow> conforms rt",
        OF _ assms]) (auto simp: bind_eq_Some_conv Let_def conforms_upd_sess split: if_splits)
  then show ?thesis by simp
qed

lemma LCP_send_ok:
  "LCP_send_conf_req env r rt = Some (ret, rt') \<Longrightarrow> conforms rt \<Longrightarrow> conforms rt'"
  "8 \<le> length p \<Longrightarrow> LCP_send_conf_ack r p rt = Some (ret, rt') \<Longrightarrow> conforms rt \<Longrightarrow> conforms rt'"
  "8 \<le> length p \<Longrightarrow> LCP_send_conf_nak r p rt = Some (ret, rt') \<Longrightarrow> conforms rt \<Longrightarrow> conforms rt'"
  "LCP_send_conf_rej r rej i rt = Some (ret, rt') \<Longrightarrow> conforms rt \<Longrightarrow> conforms rt'"
  "8 \<le> length p \<Longrightarrow> LCP_send_term_ack r p rt = Some (ret, rt') \<Longrightarrow> conforms rt \<Longrightarrow> conforms rt'"
  "8 \<le> length p \<Longrightarrow> LCP_send_echo_rep r p rt = Some (ret, rt') \<Longrightarrow> conforms rt \<Longrightarrow> conforms rt'"
  "LCP_send_echo_req r rt = Some (ret, rt') \<Longrightarrow> conforms rt \<Longrightarrow> conforms rt'"
  "LCP_recv_echo_rep r p rt = Some (ret, rt') \<Longrightarrow> conforms rt \<Longrightarrow> conforms rt'"
  by (auto simp: LCP_send_conf_req_def LCP_send_conf_ack_def LCP_send_conf_nak_def LCP_send_conf_rej_def
      LCP_send_term_ack_def LCP_send_echo_rep_def LCP_send_echo_req_def LCP_recv_echo_rep_def
      run_splits random_uin32_t_def case_prod_unfold conforms_upd_sess split: if_splits)

interpretation lcp_members: fsm_members "LCP_vtable env r" for env r
proof unfold_locales
  fix rt f g
  assume "this (LCP_vtable env r) rt = Some f" "\<And>i. fsm_ok i f \<Longrightarrow> fsm_ok i (g f)" "conforms rt"
  then show "conforms (upd_this (LCP_vtable env r) g rt)"
    by (auto simp: LCP_vtable_def upd_lcp_def lcp_this_def sess_ok_def intro!: conforms_upd_sessI)
qed

interpretation ipcp_members: fsm_members "IPCP_vtable r" for r
proof unfold_locales
  fix rt f g
  assume "this (IPCP_vtable r) rt = Some f" "\<And>i. fsm_ok i f \<Longrightarrow> fsm_ok i (g f)" "conforms rt"
  then show "conforms (upd_this (IPCP_vtable r) g rt)"
    by (auto simp: IPCP_vtable_def upd_ipcp_def ipcp_this_def sess_ok_def intro!: conforms_upd_sessI)
qed

lemmas lcp_answers_ok = lcp_members.acknowledged_ok [unfolded LCP_vtable_def fsm_vtable.simps]
  lcp_members.refused_ok [unfolded LCP_vtable_def fsm_vtable.simps]
lemmas ipcp_answers_ok = ipcp_members.acknowledged_ok [unfolded IPCP_vtable_def fsm_vtable.simps]
  ipcp_members.refused_ok [unfolded IPCP_vtable_def fsm_vtable.simps]

lemma LCP_check_conf_ok:
  assumes run: "LCP_check_conf r p rt = Some (ret, rt')" and len: "8 \<le> length p" and "conforms rt"
  shows "conforms rt'"
proof -
  from run obtain raw where raw: "load16 p 10 = Some raw" by (auto simp: LCP_check_conf_def bind_eq_Some_conv)
  let ?len = "(ucast (bswap16 raw) :: u32) - of_nat sizeof_PPP_LCP"
  show ?thesis
  proof (cases "?len = 0")
    case True
    with run raw \<open>conforms rt\<close> show ?thesis by (simp add: LCP_check_conf_def)
  next
    case False
    with run raw obtain code rej rt1 f where loop: "lcp_opt_loop r p ?len 0 CONF_ACK [] rt = Some ((code, rej), rt1)"
      and f: "lcp_this r rt1 = Some f"
      by (auto simp: LCP_check_conf_def bind_eq_Some_conv Let_def)
    have 1: "conforms rt1" using lcp_opt_loop_ok [OF loop] \<open>conforms rt\<close> by simp
    from run raw False loop f show ?thesis
      by (auto simp: LCP_check_conf_def bind_eq_Some_conv Let_def split: if_splits
          dest!: LCP_send_ok(2,3) [OF len] LCP_send_ok(4))
        (use lcp_answers_ok [OF f 1] in auto)
  qed
qed


interpretation lcp_conform: fsm_conform "LCP_vtable env r" for env r
  by unfold_locales (auto simp: LCP_vtable_def dest: LCP_send_ok LCP_check_conf_ok)

lemma set_parameters_keeps: "set_parameters a opts p rt = Some (p', rt') \<Longrightarrow> io_view rt' = io_view rt \<and> length p' = length p"
proof (induction opts arbitrary: p rt)
  case (Cons opt opts)
  from Cons.prems show ?case
    by (auto simp: bind_eq_Some_conv case_prod_unfold Let_def store32_def split: option.split_asm dest!: Cons.IH)
qed simp

lemma IPCP_send_ok:
  "IPCP_send_conf_req r rt = Some (ret, rt') \<Longrightarrow> conforms rt \<Longrightarrow> conforms rt'"
  "8 \<le> length p \<Longrightarrow> IPCP_send_conf_ack r p rt = Some (ret, rt') \<Longrightarrow> conforms rt \<Longrightarrow> conforms rt'"
  "IPCP_send_conf_rej r rej i rt = Some (ret, rt') \<Longrightarrow> conforms rt \<Longrightarrow> conforms rt'"
  by (auto simp: IPCP_send_conf_req_def IPCP_send_conf_ack_def IPCP_send_conf_rej_def run_splits)

lemma IPCP_send_conf_nak_ok:
  assumes "8 \<le> length p" and "IPCP_send_conf_nak r p rt = Some (ret, rt')" and "conforms rt"
  shows "conforms rt'"
  using assms
  by (auto simp: IPCP_send_conf_nak_def run_splits case_prod_unfold split: option.split_asm prod.split_asm
      dest!: set_parameters_keeps conforms_view)

lemma IPCP_answer_conf_ok:
  assumes run: "IPCP_answer_conf r p opts a rt = Some (ret, rt')" and len: "8 \<le> length p" and ok: "conforms rt"
  shows "conforms rt'"
proof -
  from run obtain rej where rej: "collect_rejected p opts = Some rej"
    by (auto simp: IPCP_answer_conf_def bind_eq_Some_conv)
  show ?thesis
  proof (cases "rej = []")
    case False
    with run rej ok show ?thesis by (auto simp: IPCP_answer_conf_def bind_eq_Some_conv dest: IPCP_send_ok(3))
  next
    case True
    with run rej obtain f where f: "ipcp_this r rt = Some f" by (auto simp: IPCP_answer_conf_def bind_eq_Some_conv)
    from run rej True f show ?thesis
      by (auto simp: IPCP_answer_conf_def bind_eq_Some_conv Let_def split: if_splits
          dest!: IPCP_send_ok(2) [OF len] IPCP_send_conf_nak_ok [OF len])
        (use ipcp_answers_ok [OF f ok] in auto)
  qed
qed

lemma IPCP_check_conf_ok:
  assumes "IPCP_check_conf r p rt = Some (ret, rt')" and "8 \<le> length p" and "conforms rt"
  shows "conforms rt'"
  using assms
  by (auto simp: IPCP_check_conf_def run_splits conforms_upd_sess split: if_splits prod.split_asm option.split_asm
      dest!: IPCP_answer_conf_ok)

interpretation ipcp_conform: fsm_conform "IPCP_vtable r" for r
  by unfold_locales (auto simp: IPCP_vtable_def IPCP_send_term_ack_def IPCP_send_echo_rep_def
      IPCP_recv_echo_rep_def dest: IPCP_send_ok IPCP_check_conf_ok)

section \<open>Authentication, accounting and the dataplane\<close>

lemma ipcp_start_ok: "ipcp_start r rt = Some rt' \<Longrightarrow> conforms rt \<Longrightarrow> conforms rt'"
  by (auto simp: ipcp_start_def bind_eq_Some_conv dest: ipcp_conform.open_ok ipcp_conform.layer_up_ok)

lemma io_view_replies [simp]:
  "io_view (snd (pap_reply code sid rt)) = io_view rt" "io_view (snd (chap_reply ccode sid rt)) = io_view rt"
  by (simp_all add: pap_reply_def chap_reply_def store8_def Let_def)

lemma send_auth_ok:
  "PAP_send_auth_ack r rt = Some (ret, rt') \<Longrightarrow> conforms rt \<Longrightarrow> conforms rt'"
  "PAP_send_auth_nak r rt = Some (ret, rt') \<Longrightarrow> conforms rt \<Longrightarrow> conforms rt'"
  "CHAP_send_auth_ack r rt = Some (ret, rt') \<Longrightarrow> conforms rt \<Longrightarrow> conforms rt'"
  "CHAP_send_auth_nak r rt = Some (ret, rt') \<Longrightarrow> conforms rt \<Longrightarrow> conforms rt'"
  by (auto simp: PAP_send_auth_ack_def PAP_send_auth_nak_def CHAP_send_auth_ack_def CHAP_send_auth_nak_def
      run_splits case_prod_unfold conforms_view [OF io_view_replies(1)] conforms_view [OF io_view_replies(2)]
      dest!: ipcp_start_ok)

lemma run_callback_ok: "run_callback cb sid err rt = Some rt' \<Longrightarrow> conforms rt \<Longrightarrow> conforms rt'"
  by (cases cb) (auto simp: PAP_callback_def CHAP_callback_def bind_eq_Some_conv conforms_upd_sess split: if_splits
      dest!: send_auth_ok)

lemma CHAP_open_ok: "CHAP_open env r rt = Some rt' \<Longrightarrow> conforms rt \<Longrightarrow> conforms rt'"
  by (auto simp: CHAP_open_def CHAP_send_conf_req_def run_splits random_string_def case_prod_unfold conforms_upd_sess)

lemma start_session_ok: "start_session env r rt = Some rt' \<Longrightarrow> conforms rt \<Longrightarrow> conforms rt'"
  by (auto simp: start_session_def bind_eq_Some_conv conforms_upd_sess split: if_splits
      dest: lcp_conform.open_ok lcp_conform.layer_up_ok)

lemma lcp_layer_up_ok: "lcp_layer_up env r rt = Some rt' \<Longrightarrow> conforms rt \<Longrightarrow> conforms rt'"
  by (auto simp: lcp_layer_up_def PAP_open_def split: if_splits dest: CHAP_open_ok ipcp_start_ok)

lemma provision_dp_ok: "provision_dp env r rt = Some (err, rt') \<Longrightarrow> conforms rt \<Longrightarrow> conforms rt'"
  by (auto simp: provision_dp_def run_splits case_prod_unfold conforms_upd_sess split: if_splits)

lemma ipcp_layer_up_ok: "ipcp_layer_up env r rt = Some rt' \<Longrightarrow> conforms rt \<Longrightarrow> conforms rt'"
  by (auto simp: ipcp_layer_up_def bind_eq_Some_conv startEcho_def mapIfaceToSession_def map_iface_def
      case_prod_unfold Let_def conforms_upd_sess conforms_view [OF io_view_small(7)] split: option.split
      dest!: provision_dp_ok)

lemma reject_proto_ok: "8 \<le> length p \<Longrightarrow> reject_proto r p rt = Some rt' \<Longrightarrow> conforms rt \<Longrightarrow> conforms rt'"
  by (auto simp: reject_proto_def bind_eq_Some_conv store8_def Let_def conforms_view [OF io_view_updates(12)])

text \<open>The AAA touches neither sessions nor queues but through its callbacks.\<close>

lemma request_io:
  "request env cl ser h e rt = Some rt' \<Longrightarrow> io_view rt' = io_view rt"
  "acct_request env cl ser h e rt = Some rt' \<Longrightarrow> io_view rt' = io_view rt"
  by (auto simp: request_def acct_request_def run_splits generateAuthenticator_def case_prod_unfold)

lemma send_acct_io: "send_acct env a req h r rt = Some rt' \<Longrightarrow> io_view rt' = io_view rt"
  by (auto simp: send_acct_def dest: request_io)

lemma release_aaa_io [simp]: "io_view (release_aaa r rt) = io_view rt"
  by (simp add: release_aaa_def AAA_Session_dtor_def split: option.split)

lemma new_aaa_io [simp]: "new_aaa s rt = (r, rt') \<Longrightarrow> io_view rt' = io_view rt"
  by (auto simp: new_aaa_def)

lemma aaa_io:
  "aaa_start env r rt = Some rt' \<Longrightarrow> io_view rt' = io_view rt"
  "aaa_stop env r rt = Some rt' \<Longrightarrow> io_view rt' = io_view rt"
  "on_started env r p rt = Some rt' \<Longrightarrow> io_view rt' = io_view rt"
  "on_interim_answer env r p rt = Some rt' \<Longrightarrow> io_view rt' = io_view rt"
  "on_stopped env r p rt = Some rt' \<Longrightarrow> io_view rt' = io_view rt"
  "on_interim env r rt = Some rt' \<Longrightarrow> io_view rt' = io_view rt"
  by (auto simp: aaa_start_def aaa_stop_def on_started_def on_interim_answer_def on_stopped_def on_interim_def
      parse_acct_answer_def run_splits split: option.split_asm dest!: send_acct_io)

lemma stopSession_io: "stopSession env sid rt = Some rt' \<Longrightarrow> io_view rt' = io_view rt"
  by (auto simp: stopSession_def bind_eq_Some_conv split: option.split_asm dest!: aaa_io(2))

lemma ctor_io:
  "AAA_Session_ctor env sid u t rt = Some (s, rt') \<Longrightarrow> io_view rt' = io_view rt"
  "AAA_Session_radius_ctor env sid u t resp acct rt = Some (s, rt') \<Longrightarrow> io_view rt' = io_view rt"
  by (auto simp: AAA_Session_ctor_def AAA_Session_radius_ctor_def run_splits case_prod_unfold
      split: option.split_asm if_splits)

lemma startSessionNone_io: "startSessionNone env u p rt = Some (res, rt') \<Longrightarrow> io_view rt' = io_view rt"
  by (auto simp: startSessionNone_def new_aaa_def run_splits simp del: not_None_eq split: if_splits dest!: ctor_io)

lemma processRadiusAnswer_ok:
  assumes "processRadiusAnswer env run_callback cb u code v rt = Some rt'" and "conforms rt"
  shows "conforms rt'"
  using assms(1)
proof (cases rule: processRadiusAnswer_steps)
  case (full rt1)
  with assms(2) show ?thesis by (auto dest: run_callback_ok)
next
  case (built rt1 i res acct s rt2 r rt3)
  have 1: "conforms rt1" using built(1) assms(2) by (auto dest: run_callback_ok)
  have "io_view rt3 = io_view rt1" using ctor_io(2) [OF built(2)] new_aaa_io [OF built(3)] by simp
  then have "conforms rt3" using 1 conforms_keep by blast
  then have "conforms (release_aaa r rt3)" "conforms (rt3\<lparr>aaa_sessions := m\<rparr>)" for m
    by (simp_all add: conforms_view [OF release_aaa_io] conforms_view [OF io_view_updates(15)])
  with built(4) show ?thesis using run_callback_ok conforms_keep [OF aaa_io(1)] by blast
qed

section \<open>Opening and closing sessions\<close>

lemma PPPOESession_dtor_io [simp]: "io_view (PPPOESession_dtor env s rt) = io_view rt"
proof -
  have "io_view (fold (clear_unnumbered env) els rt) = io_view rt" for els rt
    by (induction els arbitrary: rt) (simp_all add: clear_unnumbered_def)
  then show ?thesis by (simp add: PPPOESession_dtor_def deprovision_dp_def case_prod_unfold Let_def)
qed

lemma release_sess_ok: "conforms rt \<Longrightarrow> conforms (release_sess env r rt)"
  using PPPOESession_dtor_io [of env _ rt]
  by (auto simp: release_sess_def conforms_def io_view_def split: option.split)

lemma PPPOESession_ctor_ok:
  "io_view (snd (PPPOESession_ctor env e sid rt)) = io_view rt" "sess_ok (fst (PPPOESession_ctor env e sid rt))"
  by (simp_all add: PPPOESession_ctor_def case_prod_unfold Let_def sess_ok_def fsm_ok_def fsm_inv_def PPP_FSM_ctor_def)

lemma allocateSession_ok:
  assumes run: "allocateSession env e rt = Some (res, rt')" and ok: "conforms rt"
  shows "conforms rt'"
proof -
  from run obtain found where "sid_search (sessionSet rt) (next_session_id rt) (next_session_id rt) = Some found"
    by (auto simp: allocateSession_def bind_eq_Some_conv)
  moreover have "conforms (q\<lparr>heap := (heap q)(r \<mapsto> fst (PPPOESession_ctor env e sid q0))\<rparr>)"
    if "conforms q" for q q0 r sid
    using that PPPOESession_ctor_ok(2) by (simp add: conforms_def)
  moreover have "conforms (snd (PPPOESession_ctor env e sid q)) \<longleftrightarrow> conforms q" for q sid
    by (rule conforms_view) (rule PPPOESession_ctor_ok(1))
  ultimately show ?thesis
    using run ok by (cases found) (auto simp: allocateSession_def Let_def case_prod_unfold simp del: not_None_eq
        split: if_splits intro!: release_sess_ok)
qed

lemma deallocateSession_ok:
  assumes run: "deallocateSession env sid rt = Some (err, rt')" and ok: "conforms rt"
  shows "conforms rt'"
proof (cases "find_by_sid sid rt")
  case None
  with run ok show ?thesis by (auto simp: deallocateSession_def split: if_splits)
next
  case (Some kr)
  have "conforms rt1" if "stopSession env a rt = Some rt1" for a rt1
    using stopSession_io [OF that] ok by (rule conforms_keep)
  with Some run ok show ?thesis
    by (cases kr) (auto simp: deallocateSession_def bind_eq_Some_conv split: if_splits intro!: release_sess_ok)
qed

section \<open>The daemon\<close>

lemmas conforms_by_view = request_io [THEN conforms_keep] aaa_io [THEN conforms_keep] startSessionNone_io [THEN conforms_keep]

interpretation conform: reload_inv conforms
proof unfold_locales
  fix rt assume "conforms rt"
  then show "conforms (rt\<lparr>pppoe_outcoming := [], ppp_outcoming := []\<rparr>)" by (simp add: conforms_def)
qed (simp add: conforms_upd_sess; fail | rule conforms_keep [OF release_aaa_io]; assumption | rule release_sess_ok; assumption
    | erule (1) conforms_by_view run_callback_ok send_auth_ok processRadiusAnswer_ok start_session_ok lcp_conform.receive_ok
        ipcp_conform.receive_ok lcp_layer_up_ok ipcp_layer_up_ok LCP_send_ok allocateSession_ok deallocateSession_ok
    | erule (2) reject_proto_ok)+

section \<open>Every reachable state\<close>

lemma conforms_main_init: "main_init env files cfg = Some rt \<Longrightarrow> conforms rt"
  by (erule main_init_state) (simp add: conforms_def)

lemma reachable_conforms: "reachable env files cfg l \<Longrightarrow> conforms (runtime l)"
  using conform.reachable_inv conforms_main_init by blast

lemma send_all_append [simp]: "send_all q sock = sock @ q"
  by (induction q arbitrary: sock) simp_all

text \<open>Only the periodic timer writes to the socket: what was queued.\<close>

lemma handle_wire:
  assumes "handle env ev l = Some l'"
  shows "wire l' = wire l \<or> wire l' = wire l @ pppoe_outcoming (runtime l) @ ppp_outcoming (runtime l)"
proof (cases ev)
  case (Signal s)
  with assms show ?thesis by (cases s) auto
qed (use assms in \<open>auto simp: on_runtime_def periodic_def Let_def\<close>)

lemma reachable_wire:
  "reachable env files cfg l \<Longrightarrow> f \<in> set (wire l) \<Longrightarrow> disc_frame zero_mac f \<or> sess_frame zero_mac f"
proof (induction arbitrary: f rule: reachable.induct)
  case (start rt)
  then show ?case by (simp add: EVLoop_init_def)
next
  case (step l ev l')
  have "conforms (runtime l)" using step.hyps(1) by (rule reachable_conforms)
  moreover have "f \<in> set (wire l) \<or> f \<in> set (pppoe_outcoming (runtime l)) \<or> f \<in> set (ppp_outcoming (runtime l))"
    using step.prems handle_wire [OF step.hyps(4)] by auto
  ultimately show ?case using step.IH unfolding conforms_def by blast
qed

lemma generate_header_source: "take 6 (drop 6 (generate_header e (MAC a b c d g h) t @ pkt)) = [a, b, c, d, g, h]"
  by (cases "source_mac e")
    (auto simp: generate_header_def Let_def sizeof_defs resize_Nil put16_def numeral_eq_Suc)

text \<open>
  C7. Whatever the daemon has sent or is about to send is a PPPoE frame: an Ethernet header, with the
  tags of some encapsulation, of EtherType discovery or session, and after it at least the PPPoE
  header, or the PPPoE, PPP and LCP headers. Its source address is always 00:00:00:00:00:00: nothing
  sets the runtime's \<open>hwaddr\<close>, and it is left to the dataplane behind the interface to put in its own.
\<close>

theorem wire_frames_typed:
  assumes "reachable env files cfg l" and "f \<in> set (wire l @ pppoe_outcoming (runtime l) @ ppp_outcoming (runtime l))"
  shows "(\<exists>e t pkt. f = generate_header e zero_mac t @ pkt \<and>
      (t = ETH_PPPOE_DISCOVERY \<and> 6 \<le> length pkt \<or> t = ETH_PPPOE_SESSION \<and> 8 \<le> length pkt)) \<and>
    take 6 (drop 6 f) = [0, 0, 0, 0, 0, 0]"
proof -
  have "conforms (runtime l)" using assms(1) by (rule reachable_conforms)
  then have f: "disc_frame zero_mac f \<or> sess_frame zero_mac f"
    using reachable_wire [OF assms(1)] assms(2) by (auto simp: conforms_def)
  then have "take 6 (drop 6 f) = [0, 0, 0, 0, 0, 0]"
    unfolding disc_frame_def sess_frame_def by (elim disjE exE conjE) (simp_all only: generate_header_source)
  with f show ?thesis unfolding disc_frame_def sess_frame_def by blast
qed

theorem wire_frames_typed_witness:
  "\<exists>l f. reachable sample_env (\<lambda>f. []) (Some sample_conf) l \<and> f \<in> set (pppoe_outcoming (runtime l)) \<and>
     take 6 (drop 6 f) = [0, 0, 0, 0, 0, 0]"
proof -
  obtain l where l: "unreloaded sample_env (\<lambda>f. []) sample_conf l" "pppoe_outcoming (runtime l) \<noteq> []"
    by (rule sample_reached)
  then have "hd (pppoe_outcoming (runtime l)) \<in> set (pppoe_outcoming (runtime l))" by simp
  with wire_frames_typed [OF unreloaded_reachable [OF l(1)]] unreloaded_reachable [OF l(1)] show ?thesis by fastforce
qed

text \<open>
  C8. In every reachable state, both automata of every session that has not been destroyed carry
  that session's id; they are in Ack-Received or Opened only if they have seen an acknowledgement
  of their own request; and the identifier of the requests they send is still 1, the same for every
  request, whatever was answered before.
\<close>

theorem automata_typed:
  assumes "reachable env files cfg l" and "heap (runtime l) r = Some s" and "f \<in> {lcp_fsm (lcp s), ipcp s}"
  shows "fsm_session_id f = session_id s \<and> pkt_id f = 1 \<and> (state f \<in> {Ack_Rcvd, Opened} \<longrightarrow> seen_ack f)"
  using conforms_sess [OF reachable_conforms [OF assms(1)] assms(2)] assms(3)
  by (auto simp: sess_ok_def fsm_ok_def fsm_inv_def)

theorem automata_typed_witness:
  "\<exists>l r s. reachable sample_env (\<lambda>f. []) (Some sample_conf) l \<and> heap (runtime l) r = Some s \<and>
     state (ipcp s) = Opened \<and> seen_ack (ipcp s) \<and> pkt_id (ipcp s) = 1"
proof -
  obtain l r s where l: "unreloaded sample_env (\<lambda>f. []) sample_conf l" "heap (runtime l) r = Some s" "state (ipcp s) = Opened"
    by (rule sample_reached)
  with automata_typed [OF unreloaded_reachable [OF l(1)] l(2), of "ipcp s"] unreloaded_reachable [OF l(1)]
  show ?thesis by blast
qed

end
