(* ===== verification/Cli.thy ===== *)
theory Cli
  imports Sessions Strings
begin

text \<open>
  The control socket: \<^verbatim>\<open>src/cli.hpp\<close> and \<^verbatim>\<open>src/cli.cpp\<close>. A client sends a serialized
  \<open>CLI_MSG\<close> that ends in two line breaks and gets one back.

  Boost.Serialization is the parameter \<open>A\<close>: an archive takes values one after another and gives
  them back in the same order, each read as the type it was written as (an enumerator as its
  byte, a vector as its length and elements). An archive that does not hold what is read from it
  throws (\<^const>\<open>None\<close>).
\<close>

section \<open>Archives\<close>

datatype cell = U8 u8 | U16 u16 | U32 u32 | Str string | Mac mac_t | Count nat

datatype cell_type = T8 | T16 | T32 | TStr | TMac | TCount

fun type_of :: "cell \<Rightarrow> cell_type" where
  "type_of (U8 _) = T8"
| "type_of (U16 _) = T16"
| "type_of (U32 _) = T32"
| "type_of (Str _) = TStr"
| "type_of (Mac _) = TMac"
| "type_of (Count _) = TCount"

text \<open>\<open>ar_get\<close> reads the next value from an input archive, \<open>ar_text\<close> is what an output archive holds.\<close>

record 'i archive =
  ar_text :: "cell list \<Rightarrow> string"
  ar_open :: "string \<Rightarrow> 'i"
  ar_get :: "cell_type \<Rightarrow> 'i \<Rightarrow> (cell \<times> 'i) option"

fun reads :: "'i archive \<Rightarrow> 'i \<Rightarrow> cell list \<Rightarrow> bool" where
  "reads A i [] \<longleftrightarrow> True"
| "reads A i (c # cs) \<longleftrightarrow> (\<exists>j. ar_get A (type_of c) i = Some (c, j) \<and> reads A j cs)"

text \<open>What was written is read, whatever follows it in the stream.\<close>

definition archive_ok :: "'i archive \<Rightarrow> bool" where
  "archive_ok A \<longleftrightarrow> (\<forall>cs rest. reads A (ar_open A (ar_text A cs @ rest)) cs)"

definition get_u8 :: "'i archive \<Rightarrow> 'i \<Rightarrow> (u8 \<times> 'i) option" where
  "get_u8 A i = (case ar_get A T8 i of Some (U8 v, i) \<Rightarrow> Some (v, i) | _ \<Rightarrow> None)"

definition get_u16 :: "'i archive \<Rightarrow> 'i \<Rightarrow> (u16 \<times> 'i) option" where
  "get_u16 A i = (case ar_get A T16 i of Some (U16 v, i) \<Rightarrow> Some (v, i) | _ \<Rightarrow> None)"

definition get_u32 :: "'i archive \<Rightarrow> 'i \<Rightarrow> (u32 \<times> 'i) option" where
  "get_u32 A i = (case ar_get A T32 i of Some (U32 v, i) \<Rightarrow> Some (v, i) | _ \<Rightarrow> None)"

definition get_string :: "'i archive \<Rightarrow> 'i \<Rightarrow> (string \<times> 'i) option" where
  "get_string A i = (case ar_get A TStr i of Some (Str v, i) \<Rightarrow> Some (v, i) | _ \<Rightarrow> None)"

definition get_mac :: "'i archive \<Rightarrow> 'i \<Rightarrow> (mac_t \<times> 'i) option" where
  "get_mac A i = (case ar_get A TMac i of Some (Mac v, i) \<Rightarrow> Some (v, i) | _ \<Rightarrow> None)"

definition get_count :: "'i archive \<Rightarrow> 'i \<Rightarrow> (nat \<times> 'i) option" where
  "get_count A i = (case ar_get A TCount i of Some (Count v, i) \<Rightarrow> Some (v, i) | _ \<Rightarrow> None)"

text \<open>A vector is its length and its elements.\<close>

definition put_vector :: "('a \<Rightarrow> cell list) \<Rightarrow> 'a list \<Rightarrow> cell list" where
  "put_vector put xs = Count (length xs) # concat (map put xs)"

fun get_n :: "('i \<Rightarrow> ('a \<times> 'i) option) \<Rightarrow> nat \<Rightarrow> 'i \<Rightarrow> ('a list \<times> 'i) option" where
  "get_n get 0 i = Some ([], i)"
| "get_n get (Suc n) i = do { (x, i) \<leftarrow> get i; (xs, i) \<leftarrow> get_n get n i; Some (x # xs, i) }"

definition get_vector :: "'i archive \<Rightarrow> ('i \<Rightarrow> ('a \<times> 'i) option) \<Rightarrow> 'i \<Rightarrow> ('a list \<times> 'i) option" where
  "get_vector A get i = do { (n, i) \<leftarrow> get_count A i; get_n get n i }"

text \<open>The function templates.\<close>

definition serialize :: "'i archive \<Rightarrow> ('a \<Rightarrow> cell list) \<Rightarrow> 'a \<Rightarrow> string" where
  "serialize A put x = ar_text A (put x)"

definition deserialize :: "'i archive \<Rightarrow> ('i \<Rightarrow> ('a \<times> 'i) option) \<Rightarrow> string \<Rightarrow> 'a option" where
  "deserialize A get val = map_option fst (get (ar_open A val))"

section \<open>Messages\<close>

text \<open>The type and the command of a message are bytes: a client may send any value.\<close>

datatype CLI_CMD_TYPE = REQUEST | RESPONSE

fun CLI_CMD_TYPE_val :: "CLI_CMD_TYPE \<Rightarrow> u8" where
  "CLI_CMD_TYPE_val REQUEST = 0"
| "CLI_CMD_TYPE_val RESPONSE = 1"

datatype CLI_CMD = GET_VERSION | GET_PPPOE_SESSIONS | GET_AAA_SESSIONS | GET_VPP_IFACES

fun CLI_CMD_val :: "CLI_CMD \<Rightarrow> u8" where
  "CLI_CMD_val GET_VERSION = 0"
| "CLI_CMD_val GET_PPPOE_SESSIONS = 1"
| "CLI_CMD_val GET_AAA_SESSIONS = 2"
| "CLI_CMD_val GET_VPP_IFACES = 3"

definition CLI_CMD_of :: "u8 \<Rightarrow> CLI_CMD option" where
  "CLI_CMD_of b =
     (if b = 0 then Some GET_VERSION else if b = 1 then Some GET_PPPOE_SESSIONS
      else if b = 2 then Some GET_AAA_SESSIONS else if b = 3 then Some GET_VPP_IFACES else None)"

record CLI_MSG =
  msg_type :: u8
  msg_cmd :: u8
  msg_data :: string
  msg_error :: string

definition put_CLI_MSG :: "CLI_MSG \<Rightarrow> cell list" where
  "put_CLI_MSG m = [U8 (msg_type m), U8 (msg_cmd m), Str (msg_data m), Str (msg_error m)]"

definition get_CLI_MSG :: "'i archive \<Rightarrow> 'i \<Rightarrow> (CLI_MSG \<times> 'i) option" where
  "get_CLI_MSG A i = do {
     (t, i) \<leftarrow> get_u8 A i;
     (c, i) \<leftarrow> get_u8 A i;
     (d, i) \<leftarrow> get_string A i;
     (e, i) \<leftarrow> get_string A i;
     Some (\<lparr>msg_type = t, msg_cmd = c, msg_data = d, msg_error = e\<rparr>, i)
   }"

record PPPOE_SESSION_DUMP =
  pd_aaa_session_id :: u32
  pd_session_id :: u16
  pd_cookie :: string
  pd_username :: string
  pd_address :: u32
  pd_ifindex :: u32
  pd_vrf :: string
  pd_unnumbered :: string

definition put_PPPOE_SESSION_DUMP :: "PPPOE_SESSION_DUMP \<Rightarrow> cell list" where
  "put_PPPOE_SESSION_DUMP d =
     [U32 (pd_aaa_session_id d), U16 (pd_session_id d), Str (pd_cookie d), Str (pd_username d),
      U32 (pd_address d), U32 (pd_ifindex d), Str (pd_vrf d), Str (pd_unnumbered d)]"

definition get_PPPOE_SESSION_DUMP :: "'i archive \<Rightarrow> 'i \<Rightarrow> (PPPOE_SESSION_DUMP \<times> 'i) option" where
  "get_PPPOE_SESSION_DUMP A i = do {
     (a, i) \<leftarrow> get_u32 A i;
     (s, i) \<leftarrow> get_u16 A i;
     (c, i) \<leftarrow> get_string A i;
     (u, i) \<leftarrow> get_string A i;
     (ip, i) \<leftarrow> get_u32 A i;
     (ifi, i) \<leftarrow> get_u32 A i;
     (v, i) \<leftarrow> get_string A i;
     (n, i) \<leftarrow> get_string A i;
     Some (\<lparr>pd_aaa_session_id = a, pd_session_id = s, pd_cookie = c, pd_username = u, pd_address = ip,
       pd_ifindex = ifi, pd_vrf = v, pd_unnumbered = n\<rparr>, i)
   }"

record AAA_SESSION_DUMP =
  ad_session_id :: u32
  ad_username :: string
  ad_address :: string
  ad_dns1 :: string
  ad_dns2 :: string
  ad_framed_pool :: string
  ad_vrf :: string
  ad_unnumbered :: string

definition put_AAA_SESSION_DUMP :: "AAA_SESSION_DUMP \<Rightarrow> cell list" where
  "put_AAA_SESSION_DUMP d =
     [U32 (ad_session_id d), Str (ad_username d), Str (ad_address d), Str (ad_dns1 d), Str (ad_dns2 d),
      Str (ad_framed_pool d), Str (ad_vrf d), Str (ad_unnumbered d)]"

definition get_AAA_SESSION_DUMP :: "'i archive \<Rightarrow> 'i \<Rightarrow> (AAA_SESSION_DUMP \<times> 'i) option" where
  "get_AAA_SESSION_DUMP A i = do {
     (s, i) \<leftarrow> get_u32 A i;
     (u, i) \<leftarrow> get_string A i;
     (a, i) \<leftarrow> get_string A i;
     (d1, i) \<leftarrow> get_string A i;
     (d2, i) \<leftarrow> get_string A i;
     (p, i) \<leftarrow> get_string A i;
     (v, i) \<leftarrow> get_string A i;
     (n, i) \<leftarrow> get_string A i;
     Some (\<lparr>ad_session_id = s, ad_username = u, ad_address = a, ad_dns1 = d1, ad_dns2 = d2,
       ad_framed_pool = p, ad_vrf = v, ad_unnumbered = n\<rparr>, i)
   }"

text \<open>An interface as it is sent: its type is a byte, assigned or not.\<close>

record VPPInterface_row =
  r_name :: string
  r_device :: string
  r_mac :: mac_t
  r_sw_if_index :: u32
  r_speed :: u32
  r_mtu :: u16
  r_type :: u8

definition put_VPPInterface :: "VPPInterface_row \<Rightarrow> cell list" where
  "put_VPPInterface v =
     [Str (r_name v), Str (r_device v), Mac (r_mac v), U32 (r_sw_if_index v), U32 (r_speed v),
      U16 (r_mtu v), U8 (r_type v)]"

definition get_VPPInterface :: "'i archive \<Rightarrow> 'i \<Rightarrow> (VPPInterface_row \<times> 'i) option" where
  "get_VPPInterface A i = do {
     (n, i) \<leftarrow> get_string A i;
     (d, i) \<leftarrow> get_string A i;
     (m, i) \<leftarrow> get_mac A i;
     (s, i) \<leftarrow> get_u32 A i;
     (sp, i) \<leftarrow> get_u32 A i;
     (u, i) \<leftarrow> get_u16 A i;
     (t, i) \<leftarrow> get_u8 A i;
     Some (\<lparr>r_name = n, r_device = d, r_mac = m, r_sw_if_index = s, r_speed = sp, r_mtu = u, r_type = t\<rparr>, i)
   }"

text \<open>The four responses: a version string, or a vector of rows.\<close>

definition put_GET_VERSION_RESP :: "string \<Rightarrow> cell list" where
  "put_GET_VERSION_RESP v = [Str v]"

definition put_GET_PPPOE_SESSION_RESP :: "PPPOE_SESSION_DUMP list \<Rightarrow> cell list" where
  "put_GET_PPPOE_SESSION_RESP ss = put_vector put_PPPOE_SESSION_DUMP ss"

definition get_GET_PPPOE_SESSION_RESP :: "'i archive \<Rightarrow> 'i \<Rightarrow> (PPPOE_SESSION_DUMP list \<times> 'i) option" where
  "get_GET_PPPOE_SESSION_RESP A = get_vector A (get_PPPOE_SESSION_DUMP A)"

definition put_GET_AAA_SESSIONS_RESP :: "AAA_SESSION_DUMP list \<Rightarrow> cell list" where
  "put_GET_AAA_SESSIONS_RESP ss = put_vector put_AAA_SESSION_DUMP ss"

definition get_GET_AAA_SESSIONS_RESP :: "'i archive \<Rightarrow> 'i \<Rightarrow> (AAA_SESSION_DUMP list \<times> 'i) option" where
  "get_GET_AAA_SESSIONS_RESP A = get_vector A (get_AAA_SESSION_DUMP A)"

definition put_GET_VPP_IFACES_RESP :: "VPPInterface_row list \<Rightarrow> cell list" where
  "put_GET_VPP_IFACES_RESP is = put_vector put_VPPInterface is"

definition get_GET_VPP_IFACES_RESP :: "'i archive \<Rightarrow> 'i \<Rightarrow> (VPPInterface_row list \<times> 'i) option" where
  "get_GET_VPP_IFACES_RESP A = get_vector A (get_VPPInterface A)"

section \<open>Commands\<close>

fun IfaceType_val :: "IfaceType \<Rightarrow> u8" where
  "IfaceType_val LOOPBACK = 0"
| "IfaceType_val HW_IFACE = 1"
| "IfaceType_val TAP = 2"
| "IfaceType_val SUBIF = 3"

text \<open>An interface whose type was never assigned sends what is in memory.\<close>

definition iface_row :: "env \<Rightarrow> VPPInterface \<Rightarrow> PPPOERuntime \<Rightarrow> VPPInterface_row \<times> PPPOERuntime" where
  "iface_row env v rt =
     (let (t, rt) = (case v_type v of
            Some t \<Rightarrow> (IfaceType_val t, rt) | None \<Rightarrow> (let (x, rt) = draw env rt in (ucast x, rt)))
      in (\<lparr>r_name = v_name v, r_device = v_device v, r_mac = v_mac v, r_sw_if_index = v_sw_if_index v,
           r_speed = v_speed v, r_mtu = v_mtu v, r_type = t\<rparr>, rt))"

fun iface_rows :: "env \<Rightarrow> VPPInterface list \<Rightarrow> PPPOERuntime \<Rightarrow> VPPInterface_row list \<times> PPPOERuntime" where
  "iface_rows env [] rt = ([], rt)"
| "iface_rows env (v # vs) rt =
     (let (r, rt) = iface_row env v rt; (rs, rt) = iface_rows env vs rt in (r # rs, rt))"

definition pppoe_dump :: "PPPOESession \<Rightarrow> PPPOE_SESSION_DUMP" where
  "pppoe_dump v =
     \<lparr>pd_aaa_session_id = aaa_session_id v, pd_session_id = session_id v, pd_cookie = cookie v,
      pd_username = username v, pd_address = s_address v, pd_ifindex = ifindex v, pd_vrf = s_vrf v,
      pd_unnumbered = s_unnumbered v\<rparr>"

fun pppoe_dumps :: "PPPOERuntime \<Rightarrow> (pppoe_key_t \<times> nat) list \<Rightarrow> PPPOE_SESSION_DUMP list option" where
  "pppoe_dumps rt [] = Some []"
| "pppoe_dumps rt ((k, r) # rest) = do {
     v \<leftarrow> heap rt r;
     ds \<leftarrow> pppoe_dumps rt rest;
     Some (pppoe_dump v # ds)
   }"

text \<open>\<open>ats\<close> is the text of an address.\<close>

definition aaa_dump :: "(address_v4_t \<Rightarrow> string) \<Rightarrow> AAA_Session \<Rightarrow> AAA_SESSION_DUMP" where
  "aaa_dump ats s =
     \<lparr>ad_session_id = a_session_id s, ad_username = a_username s, ad_address = ats (a_address s),
      ad_dns1 = ats (a_dns1 s), ad_dns2 = ats (a_dns2 s), ad_framed_pool = a_framed_pool s,
      ad_vrf = a_vrf s, ad_unnumbered = a_unnumbered s\<rparr>"

fun aaa_dumps ::
  "(address_v4_t \<Rightarrow> string) \<Rightarrow> PPPOERuntime \<Rightarrow> (pppoe_key_t \<times> nat) list \<Rightarrow> AAA_SESSION_DUMP list option" where
  "aaa_dumps ats rt [] = Some []"
| "aaa_dumps ats rt ((k, r) # rest) = do {
     v \<leftarrow> heap rt r;
     (case getSession (aaa_session_id v) rt of
        (None, _) \<Rightarrow> aaa_dumps ats rt rest
      | (Some a, _) \<Rightarrow> do {
          s \<leftarrow> aheap rt a;
          ds \<leftarrow> aaa_dumps ats rt rest;
          Some (aaa_dump ats s # ds)
        })
   }"

text \<open>The data of the answer, or nothing for a command there is no case for.\<close>

definition cmd_data ::
  "'i archive \<Rightarrow> (address_v4_t \<Rightarrow> string) \<Rightarrow> env \<Rightarrow> u8 \<Rightarrow> PPPOERuntime \<Rightarrow> (string option \<times> PPPOERuntime) option" where
  "cmd_data A ats env cmd rt =
     (case CLI_CMD_of cmd of
        Some GET_VERSION \<Rightarrow> Some (Some (serialize A put_GET_VERSION_RESP ''v1.0''), rt)
      | Some GET_VPP_IFACES \<Rightarrow>
          (let (ifs, rt) = on_vpp (get_ifaces (vapi env)) rt; (rows, rt) = iface_rows env ifs rt
           in Some (Some (serialize A put_GET_VPP_IFACES_RESP rows), rt))
      | Some GET_PPPOE_SESSIONS \<Rightarrow> do {
          ds \<leftarrow> pppoe_dumps rt (activeSessions rt);
          Some (Some (serialize A put_GET_PPPOE_SESSION_RESP ds), rt)
        }
      | Some GET_AAA_SESSIONS \<Rightarrow> do {
          ds \<leftarrow> aaa_dumps ats rt (activeSessions rt);
          Some (Some (serialize A put_GET_AAA_SESSIONS_RESP ds), rt)
        }
      | None \<Rightarrow> Some (None, rt))"

definition end_of_msg :: string where
  "end_of_msg = [CHR 0x0D, CHR 0x0A, CHR 0x0D, CHR 0x0A]"

definition run_cmd ::
  "'i archive \<Rightarrow> (address_v4_t \<Rightarrow> string) \<Rightarrow> env \<Rightarrow> string \<Rightarrow> PPPOERuntime \<Rightarrow> (string \<times> PPPOERuntime) option" where
  "run_cmd A ats env cmd rt = do {
     in_msg \<leftarrow> deserialize A (get_CLI_MSG A) cmd;
     let out_msg = \<lparr>msg_type = CLI_CMD_TYPE_val RESPONSE, msg_cmd = msg_cmd in_msg, msg_data = [], msg_error = []\<rparr>;
     (data, rt) \<leftarrow> cmd_data A ats env (msg_cmd in_msg) rt;
     let out_msg = (case data of
         Some d \<Rightarrow> out_msg\<lparr>msg_data := d\<rparr>
       | None \<Rightarrow> out_msg\<lparr>msg_error := ''Can't process this command''\<rparr>);
     Some (serialize A put_CLI_MSG out_msg @ end_of_msg, rt)
   }"

section \<open>Connections\<close>

text \<open>
  A connection reads up to the end of a message, runs it, writes the answer and reads again.
  \<open>request_buf\<close> is what has been received and not consumed, \<open>written\<close> what was sent; it reads
  unless a write is under way, and it is over once an operation fails.
\<close>

datatype cli_phase = Reading | Writing string | Over

record CLISession =
  request_buf :: string
  written :: string
  phase :: cli_phase

definition CLISession_start :: CLISession where
  "CLISession_start = \<lparr>request_buf = [], written = [], phase = Reading\<rparr>"

text \<open>The text before the first end of a message and the text after it.\<close>

fun split_msg :: "string \<Rightarrow> (string \<times> string) option" where
  "split_msg [] = None"
| "split_msg (c # s) =
     (if starts_with (c # s) end_of_msg then Some ([], drop 4 (c # s))
      else map_option (\<lambda>(m, r). (c # m, r)) (split_msg s))"

definition do_read ::
  "'i archive \<Rightarrow> (address_v4_t \<Rightarrow> string) \<Rightarrow> env \<Rightarrow> CLISession \<Rightarrow> PPPOERuntime \<Rightarrow> (CLISession \<times> PPPOERuntime) option" where
  "do_read A ats env c rt =
     (case split_msg (request_buf c) of
        None \<Rightarrow> Some (c\<lparr>phase := Reading\<rparr>, rt)
      | Some (cmd, rest) \<Rightarrow> do {
          (out, rt) \<leftarrow> run_cmd A ats env cmd rt;
          Some (c\<lparr>request_buf := rest, phase := Writing out\<rparr>, rt)
        })"

text \<open>
  Events of a connection: bytes arrive (those that arrive during a write wait in the socket), the socket takes \<open>n\<close> bytes of the answer
  (\<^verbatim>\<open>async_write_some\<close> may take fewer than it is given), or an operation fails.
\<close>

datatype cli_event = Received string | Wrote nat | Failed

fun on_cli ::
  "'i archive \<Rightarrow> (address_v4_t \<Rightarrow> string) \<Rightarrow> env \<Rightarrow> cli_event \<Rightarrow> CLISession \<Rightarrow> PPPOERuntime \<Rightarrow>
     (CLISession \<times> PPPOERuntime) option" where
  "on_cli A ats env (Received s) c rt =
     (if phase c = Reading then do_read A ats env (c\<lparr>request_buf := request_buf c @ s\<rparr>) rt
      else Some (c\<lparr>request_buf := request_buf c @ s\<rparr>, rt))"
| "on_cli A ats env (Wrote n) c rt =
     (case phase c of
        Writing out \<Rightarrow> do_read A ats env (c\<lparr>written := written c @ take n out\<rparr>) rt
      | _ \<Rightarrow> Some (c, rt))"
| "on_cli A ats env Failed c rt = Some (c\<lparr>phase := Over\<rparr>, rt)"

end
