(* ===== verification/Text_Output.thy ===== *)
theory Text_Output
  imports Cli Radius_Msg
begin

text \<open>
  The stream operators of \<^verbatim>\<open>src/string_helpers.cpp\<close> and \<^verbatim>\<open>src/log.cpp\<close> as functions
  to text: the lines of the log, and the tables the control program prints. The fill character is
  the blank; an enumerator no case prints leaves nothing.
\<close>

section \<open>Numbers and columns\<close>

definition dec :: "'a::len word \<Rightarrow> string" where
  "dec w = to_string_digits (unat w)"

fun hex_digits :: "nat \<Rightarrow> string" where
  "hex_digits n = (if n < 16 then [hex_digit n] else hex_digits (n div 16) @ [hex_digit (n mod 16)])"

declare hex_digits.simps [simp del]

text \<open>\<^verbatim>\<open>std::hex << std::showbase\<close>: zero has no base.\<close>

definition hex_base :: "'a::len word \<Rightarrow> string" where
  "hex_base w = (if w = 0 then ''0'' else ''0x'' @ hex_digits (unat w))"

text \<open>\<^verbatim>\<open>std::setw\<close> with the text to the left, and to the right.\<close>

definition setw_left :: "nat \<Rightarrow> string \<Rightarrow> string" where
  "setw_left n s = s @ replicate (n - length s) CHR '' ''"

definition setw_right :: "nat \<Rightarrow> string \<Rightarrow> string" where
  "setw_right n s = replicate (n - length s) CHR '' '' @ s"

definition endl :: string where "endl = [CHR 0x0A]"

section \<open>Enumerators\<close>

fun RADIUS_CODE_text :: "RADIUS_CODE \<Rightarrow> string" where
  "RADIUS_CODE_text ACCESS_REQUEST = ''ACCESS_REQUEST''"
| "RADIUS_CODE_text ACCESS_ACCEPT = ''ACCESS_ACCEPT''"
| "RADIUS_CODE_text ACCESS_REJECT = ''ACCESS_REJECT''"
| "RADIUS_CODE_text ACCOUNTING_REQUEST = ''ACCOUNTING_REQUEST''"
| "RADIUS_CODE_text ACCOUNTING_RESPONSE = ''ACCOUNTING_RESPONSE''"
| "RADIUS_CODE_text ACCESS_CHALLENGE = ''ACCESS_CHALLENGE''"
| "RADIUS_CODE_text RESERVED = ''RESERVED''"

definition PPPOE_CODE_text :: "byte \<Rightarrow> string" where
  "PPPOE_CODE_text b =
     (case PPPOE_CODE_of b of
        Some PADI \<Rightarrow> ''PADI'' | Some PADO \<Rightarrow> ''PADO'' | Some PADR \<Rightarrow> ''PADR''
      | Some PADS \<Rightarrow> ''PADS'' | Some PADT \<Rightarrow> ''PADT'' | _ \<Rightarrow> [])"

definition PPP_PROTO_text :: "u16 \<Rightarrow> string" where
  "PPP_PROTO_text w =
     (case PPP_PROTO_of w of
        Some CHAP \<Rightarrow> ''CHAP'' | Some IPCP \<Rightarrow> ''IPCP'' | Some LCP \<Rightarrow> ''LCP''
      | Some IPV4 \<Rightarrow> ''IPV4'' | Some IPV6 \<Rightarrow> ''IPV6'' | Some IPV6CP \<Rightarrow> ''IPV6CP''
      | Some PAP \<Rightarrow> ''PAP'' | Some LQR \<Rightarrow> ''LQR'' | None \<Rightarrow> [])"

definition IfaceType_text :: "u8 \<Rightarrow> string" where
  "IfaceType_text b =
     (if b = IfaceType_val HW_IFACE then ''HW_IFACE'' else if b = IfaceType_val LOOPBACK then ''LOOPBACK''
      else if b = IfaceType_val TAP then ''TAP'' else if b = IfaceType_val SUBIF then ''SUBIF''
      else ''UNKNOWN'')"

fun LOGL_text :: "LOGL \<Rightarrow> string" where
  "LOGL_text TRACE = ''[TRACE] ''"
| "LOGL_text DEBUG = ''[DEBUG] ''"
| "LOGL_text INFO = ''[INFO] ''"
| "LOGL_text WARN = ''[WARN] ''"
| "LOGL_text ERROR = ''[ERROR] ''"
| "LOGL_text ALERT = ''[ALERT] ''"

datatype LOGS = L_MAIN | L_PACKET | L_PPPOED | L_PPP | L_LCP | L_IPCP | L_CHAP | L_PPP_AUTH | L_AAA
  | L_RADIUS | L_VPP | L_SESSION

fun LOGS_text :: "LOGS \<Rightarrow> string" where
  "LOGS_text L_MAIN = ''[MAIN] ''"
| "LOGS_text L_PACKET = ''[PACKET] ''"
| "LOGS_text L_PPPOED = ''[PPPOED] ''"
| "LOGS_text L_PPP = ''[PPP] ''"
| "LOGS_text L_LCP = ''[LCP] ''"
| "LOGS_text L_IPCP = ''[IPCP] ''"
| "LOGS_text L_CHAP = ''[CHAP] ''"
| "LOGS_text L_PPP_AUTH = ''[PPP_AUTH] ''"
| "LOGS_text L_AAA = ''[AAA] ''"
| "LOGS_text L_RADIUS = ''[RADIUS] ''"
| "LOGS_text L_VPP = ''[VPP] ''"
| "LOGS_text L_SESSION = ''[SESSION] ''"

section \<open>Packets and keys\<close>

text \<open>A discovery header: the type is the low half of its first byte. The session id is not swapped.\<close>

definition disc_text :: "bytes \<Rightarrow> string option" where
  "disc_text p = do {
     vt \<leftarrow> load8 p 0;
     code \<leftarrow> load8 p 1;
     sid \<leftarrow> load16 p 2;
     len \<leftarrow> load16 p 4;
     Some (''discovery packet: '' @ ''Type = '' @ dec (vt AND 0x0F) @ '' '' @
       ''Version = '' @ dec (drop_bit 4 vt) @ '' '' @ ''Code = '' @ PPPOE_CODE_text code @
       ''Session id = '' @ dec sid @ '' '' @ ''length = '' @ dec (bswap16 len))
   }"

definition eth_text :: "bytes \<Rightarrow> string option" where
  "eth_text p = do {
     t \<leftarrow> load16 p 12;
     Some (mac_to_string (mac_of p 6) @ '' -> '' @ mac_to_string (mac_of p 0) @
       '' ethertype: '' @ setw_right 2 (hex_base (bswap16 t)))
   }"

definition PacketPrint :: "bytes \<Rightarrow> string option" where
  "PacketPrint p = do {
     eth \<leftarrow> eth_text p;
     t \<leftarrow> load16 p 12;
     (vlan, payload, eth_type) \<leftarrow>
       (if bswap16 t = ETH_VLAN then do {
          vid \<leftarrow> load16 p 14;
          t \<leftarrow> load16 p 16;
          Some ('' vlan '' @ dec (0x0FFF AND bswap16 vid), 18, bswap16 t)
        }
        else Some ([], 14, bswap16 t));
     (if eth_type = ETH_PPPOE_DISCOVERY then do {
        code \<leftarrow> load8 p (payload + 1);
        Some (eth @ vlan @ '' PPPoE Discovery: '' @ PPPOE_CODE_text code)
      }
      else if eth_type = ETH_PPPOE_SESSION then do {
        sid \<leftarrow> load16 p (payload + 2);
        proto \<leftarrow> load16 p (payload + 6);
        Some (eth @ vlan @ '' PPPoE Session: '' @ dec (bswap16 sid) @ '' proto: '' @ PPP_PROTO_text (bswap16 proto))
      }
      else Some (eth @ vlan))
   }"

definition RadiusPacket_text :: "bytes \<Rightarrow> string option" where
  "RadiusPacket_text p = do {
     code \<leftarrow> load8 p 0;
     i \<leftarrow> load8 p 1;
     len \<leftarrow> load16 p 2;
     Some (''Code: '' @ (case find (\<lambda>c. RADIUS_CODE_val c = code)
           [ACCESS_REQUEST, ACCESS_ACCEPT, ACCESS_REJECT, ACCOUNTING_REQUEST, ACCOUNTING_RESPONSE,
            ACCESS_CHALLENGE, RESERVED] of Some c \<Rightarrow> RADIUS_CODE_text c | None \<Rightarrow> []) @
       '' Id: '' @ dec i @ '' Length: '' @ dec (bswap16 len))
   }"

definition key_text :: "pppoe_key_t \<Rightarrow> string" where
  "key_text k = ''PPPoE Key: mac: '' @ mac_to_string (key_mac k) @ '' session id: '' @ dec (key_session_id k) @
     '' outer vlan: '' @ dec (key_outer k) @ '' inner vlan: '' @ dec (key_inner k)"

definition conn_text :: "pppoe_conn_t \<Rightarrow> string" where
  "conn_text k = ''PPPoE Connection: mac: '' @ mac_to_string (conn_mac k) @ '' cookie: '' @ conn_cookie k @
     '' outer vlan: '' @ dec (conn_outer k) @ '' inner vlan: '' @ dec (conn_inner k)"

definition session_text :: "(address_v4_t \<Rightarrow> string) \<Rightarrow> PPPOESession \<Rightarrow> string" where
  "session_text ats s = setw_left 6 (dec (session_id s)) @
     setw_left 20 (mac_to_string (destination_mac (encap s))) @ setw_left 20 (username s) @
     setw_left 20 (ats (s_address s))"

section \<open>The tables of the control program\<close>

definition pppoe_row_text :: "(address_v4_t \<Rightarrow> string) \<Rightarrow> PPPOE_SESSION_DUMP \<Rightarrow> string" where
  "pppoe_row_text ats s =
     setw_left 10 (dec (pd_aaa_session_id s)) @ setw_left 10 (dec (pd_session_id s)) @
     setw_left 10 (pd_cookie s) @ setw_left 20 (pd_username s) @ setw_left 20 (ats (pd_address s)) @
     setw_left 10 (dec (pd_ifindex s)) @ setw_left 10 (pd_vrf s) @ setw_left 10 (pd_unnumbered s) @ endl"

definition pppoe_table :: "(address_v4_t \<Rightarrow> string) \<Rightarrow> PPPOE_SESSION_DUMP list \<Rightarrow> string" where
  "pppoe_table ats ss =
     '' '' @ setw_left 10 ''AAA SID'' @ setw_left 10 ''SessID'' @ setw_left 10 ''Cookie'' @
     setw_left 20 ''Username'' @ setw_left 20 ''Address'' @ setw_left 10 ''Ifindex'' @
     setw_left 10 ''VRF'' @ setw_left 10 ''Unnumbered'' @ endl @ concat (map (pppoe_row_text ats) ss)"

definition iface_row_text :: "VPPInterface_row \<Rightarrow> string" where
  "iface_row_text i =
     setw_left 6 (dec (r_sw_if_index i)) @ setw_left 30 (r_name i) @ setw_left 10 (r_device i) @
     setw_left 20 (mac_to_string (r_mac i)) @ setw_left 10 (dec (r_mtu i)) @ setw_left 10 (dec (r_speed i)) @
     setw_left 10 (IfaceType_text (r_type i)) @ endl"

definition ifaces_table :: "VPPInterface_row list \<Rightarrow> string" where
  "ifaces_table is =
     '' '' @ setw_left 6 ''Ifx'' @ setw_left 30 ''Name'' @ setw_left 10 ''Device'' @ setw_left 20 ''MAC'' @
     setw_left 10 ''MTU'' @ setw_left 10 ''Speed'' @ setw_left 10 ''Type'' @ endl @
     concat (map iface_row_text is)"

definition aaa_row_text :: "AAA_SESSION_DUMP \<Rightarrow> string" where
  "aaa_row_text s =
     setw_left 6 (dec (ad_session_id s)) @ setw_left 16 (ad_username s) @ setw_left 16 (ad_address s) @
     setw_left 16 (ad_dns1 s) @ setw_left 16 (ad_dns2 s) @ setw_left 16 (ad_framed_pool s) @
     setw_left 16 (ad_unnumbered s) @ setw_left 16 (ad_vrf s) @ endl"

definition aaa_table :: "AAA_SESSION_DUMP list \<Rightarrow> string" where
  "aaa_table ss =
     '' '' @ setw_left 6 ''SID'' @ setw_left 16 ''Username'' @ setw_left 16 ''Address'' @ setw_left 16 ''DNS1'' @
     setw_left 16 ''DNS2'' @ setw_left 16 ''FramedPool'' @ setw_left 16 ''Unnumbered'' @ setw_left 16 ''VRF'' @
     endl @ concat (map aaa_row_text ss)"

definition version_text :: "string \<Rightarrow> string" where
  "version_text v = ''Version: '' @ v"

definition VPPInterface_text :: "VPPInterface_row \<Rightarrow> string" where
  "VPPInterface_text i =
     ''VPP interface '' @ r_name i @ ''; Device: '' @ r_device i @ ''; mac: '' @ mac_to_string (r_mac i) @
     ''; ifindex: '' @ dec (r_sw_if_index i) @ ''; speed: '' @ dec (r_speed i) @ ''; MTU: '' @ dec (r_mtu i) @
     ''; type: '' @ IfaceType_text (r_type i)"

definition counters_text :: "VPPIfaceCounters \<Rightarrow> string" where
  "counters_text c =
     ''Drops:  '' @ dec (drops c) @ '' TxPkts: '' @ dec (txPkts c) @ '' TxBytes: '' @ dec (txBytes c) @
     '' RxPkts: '' @ dec (rxPkts c) @ '' RxBytes: '' @ dec (rxBytes c)"

section \<open>The logger\<close>

text \<open>
  A logger writes to a stream, from a least level on; a line below it is dropped up to its end.
  \<open>time\<close> is the text of the clock, and \<open>opened\<close> what a log file holds that can be opened for
  appending.
\<close>

record Logger =
  os :: string
  minimum :: LOGL
  noop :: bool

fun LOGL_val :: "LOGL \<Rightarrow> nat" where
  "LOGL_val TRACE = 0" | "LOGL_val DEBUG = 1" | "LOGL_val INFO = 2" | "LOGL_val WARN = 3"
| "LOGL_val ERROR = 4" | "LOGL_val ALERT = 5"

definition Logger_ctor :: Logger where
  "Logger_ctor = \<lparr>os = [], minimum = INFO, noop = False\<rparr>"

definition Logger_stream_ctor :: "string \<Rightarrow> Logger" where
  "Logger_stream_ctor out = \<lparr>os = out, minimum = INFO, noop = False\<rparr>"

definition Logger_file_ctor :: "(string \<Rightarrow> string option) \<Rightarrow> string \<Rightarrow> Logger option" where
  "Logger_file_ctor opened filename =
     (case opened filename of None \<Rightarrow> None | Some content \<Rightarrow> Some \<lparr>os = content, minimum = INFO, noop = False\<rparr>)"

definition setLevel :: "LOGL \<Rightarrow> Logger \<Rightarrow> Logger" where
  "setLevel level l = l\<lparr>minimum := level\<rparr>"

definition log_data :: "string \<Rightarrow> Logger \<Rightarrow> Logger" where
  "log_data data l = (if \<not> noop l then l\<lparr>os := os l @ data\<rparr> else l)"

definition log_endl :: "Logger \<Rightarrow> Logger" where
  "log_endl l = (if \<not> noop l then l\<lparr>os := os l @ endl, noop := False\<rparr> else l\<lparr>noop := False\<rparr>)"

definition printTime :: "string \<Rightarrow> Logger \<Rightarrow> Logger" where
  "printTime time l = log_data (time @ '': '') l"

definition log_at :: "LOGL \<Rightarrow> string \<Rightarrow> Logger \<Rightarrow> Logger" where
  "log_at level time l =
     (let l = (if LOGL_val (minimum l) > LOGL_val level then l\<lparr>noop := True\<rparr> else l) in printTime time l)"

text \<open>A whole line: its start, its parts, its end.\<close>

definition log_line :: "LOGL \<Rightarrow> string \<Rightarrow> string list \<Rightarrow> Logger \<Rightarrow> Logger" where
  "log_line level time parts l = log_endl (fold log_data parts (log_at level time l))"

lemma log_data_simps [simp]:
  "noop (log_data d l) = noop l" "minimum (log_data d l) = minimum l"
  "os (log_data d l) = (if noop l then os l else os l @ d)"
  by (simp_all add: log_data_def)

lemma log_parts:
  "noop (fold log_data parts l) = noop l \<and> minimum (fold log_data parts l) = minimum l \<and>
   os (fold log_data parts l) = (if noop l then os l else os l @ concat parts)"
  by (induction parts arbitrary: l) simp_all

text \<open>
  Lines come out whole or not at all: after any number of lines, the log holds exactly those of
  a level at or above the least one, in order, each with its time, its parts and a line end.
\<close>

lemma log_keeps_lines:
  assumes "\<not> noop l"
  shows "os (fold (\<lambda>(level, time, parts). log_line level time parts) ls l) =
     os l @ concat (map (\<lambda>(level, time, parts). time @ '': '' @ concat parts @ endl)
       (filter (\<lambda>(level, _). LOGL_val (minimum l) \<le> LOGL_val level) ls))"
  using assms
proof (induction ls arbitrary: l)
  case (Cons x ls)
  obtain level time parts where x: "x = (level, time, parts)" by (cases x)
  let ?l = "log_line level time parts l"
  have "\<not> noop ?l" "minimum ?l = minimum l"
    "os ?l = os l @ (if LOGL_val (minimum l) \<le> LOGL_val level then time @ '': '' @ concat parts @ endl else [])"
    using Cons.prems log_parts [of parts "log_at level time l"]
    by (auto simp: log_line_def log_endl_def log_at_def printTime_def Let_def)
  with Cons.IH [of ?l] show ?case by (simp add: x)
qed simp

section \<open>The logger of the daemon\<close>

text \<open>
  The constructor of the runtime: the level of the configuration, in the file it names if that can be
  opened, else on the console.
\<close>

definition choose_logger :: "(string \<Rightarrow> string option) \<Rightarrow> string \<Rightarrow> PPPOEGlobalConf \<Rightarrow> Logger" where
  "choose_logger opened time c =
     (if log_file c \<noteq> [] then
        (case Logger_file_ctor opened (log_file c) of
           Some l \<Rightarrow> log_line INFO time [LOGS_text L_MAIN, ''Log output redirected to file: '', log_file c]
             (setLevel (log_level c) l)
         | None \<Rightarrow> log_line ERROR time [LOGS_text L_MAIN, ''Failed to open log file '', log_file c, '': '',
             ''Cannot open log file: '' @ log_file c, '', using console output'']
             (setLevel (log_level c) Logger_ctor))
      else setLevel (log_level c) Logger_ctor)"

text \<open>Its level is that of the configuration, it is ready for a line, and a file keeps what it holds.\<close>

lemma minimum_log_line [simp]: "minimum (log_line level time parts l) = minimum l"
  using log_parts [of parts "log_at level time l"]
  by (simp add: log_line_def log_endl_def log_at_def printTime_def Let_def)

lemma log_line_idle [simp]: "\<not> noop (log_line level time parts l)"
  by (simp add: log_line_def log_endl_def)

lemma choose_logger_level: "minimum (choose_logger opened time c) = log_level c" "\<not> noop (choose_logger opened time c)"
  by (simp_all add: choose_logger_def setLevel_def Logger_ctor_def split: option.split)

lemma choose_logger_appends:
  assumes "log_file c \<noteq> []" and "opened (log_file c) = Some content"
  shows "\<exists>more. os (choose_logger opened time c) = content @ more"
  using assms log_keeps_lines [of "(Logger_stream_ctor content)\<lparr>minimum := log_level c\<rparr>"
      "[(INFO, time, [LOGS_text L_MAIN, ''Log output redirected to file: '', log_file c])]"]
  by (auto simp: choose_logger_def setLevel_def Logger_file_ctor_def Logger_stream_ctor_def)

text \<open>The function \<open>log\<close> writes a line to the console, whatever the level.\<close>

definition log_msg :: "string \<Rightarrow> string \<Rightarrow> string \<Rightarrow> string" where
  "log_msg time msg out = out @ time @ '': '' @ msg @ endl"

section \<open>Hexadecimal\<close>

definition hex_upper :: "nat \<Rightarrow> char" where
  "hex_upper n = char_of (if n < 10 then 48 + n else 55 + n)"

text \<open>\<open>md5_hex\<close> of \<^verbatim>\<open>src/utils.cpp\<close> prints its argument; the hash it computes is not used.\<close>

definition md5_hex :: "env \<Rightarrow> string \<Rightarrow> string" where
  "md5_hex env v =
     (let hash = md5 env (bytes_of_string v)
      in concat (map (\<lambda>c. [hex_upper (of_char c div 16), hex_upper (of_char c mod 16)]) v))"

lemma md5_hex_no_hash: "md5_hex env v = md5_hex env' v" "length (md5_hex env v) = 2 * length v"
  unfolding md5_hex_def Let_def by (rule refl, induction v) simp_all

definition printHex :: "bytes \<Rightarrow> string" where
  "printHex pkt = concat (map (\<lambda>b. hex_byte b @ '' '') pkt) @ endl"

end
