(* ===== verification/Raw_Socket.thy ===== *)
theory Raw_Socket
  imports Conformance Text_Output
begin

text \<open>
  The raw packet socket of \<^verbatim>\<open>src/evloop.cpp\<close>: how it is bound, what \<^verbatim>\<open>recvmsg\<close> gives
  and what becomes of it, and the periodic sending, with their failures and the lines of the log that
  read the packets. The kernel's answers are data of the events. A \<^const>\<open>None\<close> is an exception,
  which leaves \<open>io.run\<close> and ends the daemon, or a read past a buffer.
\<close>

section \<open>Opening\<close>

record sockaddr_ll =
  sll_family :: u16
  sll_protocol :: u16
  sll_ifindex :: u32
  sll_hatype :: u16

text \<open>
  What the kernel does with the two sockets: they can be opened, an interface has an index or 0, an
  address can be bound, the auxiliary data can be asked for.
\<close>

record net_kernel =
  opens :: bool
  if_nametoindex :: "string \<Rightarrow> u32"
  binds :: "sockaddr_ll \<Rightarrow> bool"
  auxdata_ok :: bool

text \<open>
  The loop and its sockets. \<open>listening\<close> and \<open>listening_ppp\<close> say whether a wait for a packet is
  pending on either socket, \<open>spilled\<close> counts the bytes the kernel wrote past the control buffer, and
  \<open>log_minimum\<close> is the least level of the logger, which a reload does not change.
\<close>

record Daemon =
  evl :: EVLoop
  bound :: sockaddr_ll
  auxdata :: bool
  listening :: bool
  listening_ppp :: bool
  spilled :: nat
  log_minimum :: LOGL

definition PF_PACKET :: u16 where "PF_PACKET = 17"
definition ETH_P_ALL :: u16 where "ETH_P_ALL = 3"
definition SOL_PACKET :: int where "SOL_PACKET = 263"
definition SOL_SOCKET :: int where "SOL_SOCKET = 1"
definition PACKET_AUXDATA :: int where "PACKET_AUXDATA = 8"

definition EVLoop_ctor :: "net_kernel \<Rightarrow> PPPOERuntime \<Rightarrow> Daemon option" where
  "EVLoop_ctor k rt =
     (let addr = \<lparr>sll_family = PF_PACKET, sll_protocol = bswap16 ETH_P_ALL,
                   sll_ifindex = if_nametoindex k (tap_name (conf rt)), sll_hatype = 1\<rparr>
      in if \<not> opens k then None
         else if \<not> binds k addr then None
         else Some \<lparr>evl = EVLoop_init rt, bound = addr, auxdata = auxdata_ok k, listening = True,
                    listening_ppp = False, spilled = 0, log_minimum = log_level (conf rt)\<rparr>)"

section \<open>Receiving\<close>

text \<open>
  A control message: level, type and data. What \<^verbatim>\<open>recvmsg\<close> gives: its result, the bytes in
  \<open>pktbuf\<close>, and the control messages.
\<close>

datatype cmsg = Cmsg int int bytes

record recv_result =
  received :: int
  pktbuf :: bytes
  controls :: "cmsg list"

text \<open>
  The tag of the last auxiliary message; \<open>tp_vlan_tci\<close> is at offset 16 of the structure, in the
  host's byte order. It is taken whole: identifier, priority and drop eligibility.
\<close>

fun outer_vlan_of :: "int \<Rightarrow> cmsg list \<Rightarrow> u16 \<Rightarrow> u16 option" where
  "outer_vlan_of level [] vlan = Some vlan"
| "outer_vlan_of level (Cmsg l t dat # ms) vlan =
     (if l = level \<and> t = PACKET_AUXDATA then do { tci \<leftarrow> load16 dat 16; outer_vlan_of level ms tci }
      else outer_vlan_of level ms vlan)"

text \<open>
  The control buffer given is one header of 16 bytes, the size given 40: the kernel writes what fits
  into 40 bytes. A message takes its header and its data; the next one starts at a multiple of eight.
\<close>

fun cmsg_written :: "cmsg list \<Rightarrow> nat" where
  "cmsg_written [] = 0"
| "cmsg_written [Cmsg l t dat] = 16 + length dat"
| "cmsg_written (Cmsg l t dat # ms) = 16 + (length dat + 7) div 8 * 8 + cmsg_written ms"

definition spill :: "nat \<Rightarrow> cmsg list \<Rightarrow> nat" where
  "spill room ms = min 40 (cmsg_written ms) - room"

text \<open>
  \<open>generic_receive\<close> with the length the socket gave. A negative one becomes a length no vector can
  have; the line of the log, at level \<open>INFO\<close>, reads the packet before it is looked at.
\<close>

definition logs_info :: "Daemon \<Rightarrow> bool" where
  "logs_info d \<longleftrightarrow> \<not> LOGL_val (log_minimum d) > LOGL_val INFO"

definition receive_logged :: "env \<Rightarrow> recv_result \<Rightarrow> u16 \<Rightarrow> Daemon \<Rightarrow> Daemon option" where
  "receive_logged env m vlan d =
     (if received m < 0 then None
      else do {
        let pkt = take (nat (received m)) (pktbuf m);
        line \<leftarrow> (if logs_info d then PacketPrint pkt else Some []);
        l \<leftarrow> on_runtime (generic_receive env pkt vlan) (evl d);
        Some (d\<lparr>evl := l\<rparr>)
      })"

text \<open>An error is logged, and nothing waits for the next packet.\<close>

definition receive_pppoe :: "env \<Rightarrow> string option \<Rightarrow> recv_result \<Rightarrow> Daemon \<Rightarrow> Daemon option" where
  "receive_pppoe env ec m d =
     (let d = d\<lparr>listening := False\<rparr> in
      case ec of
        Some message \<Rightarrow> Some d
      | None \<Rightarrow> do {
          let d = d\<lparr>spilled := spilled d + spill 16 (controls m)\<rparr>;
          outer \<leftarrow> outer_vlan_of SOL_PACKET (controls m) 0;
          d \<leftarrow> receive_logged env m outer d;
          Some (d\<lparr>listening := True\<rparr>)
        })"

text \<open>
  The handler of the second socket, which nothing waits on. Its control buffer is a pointer, and what
  it reads of the tag is not used.
\<close>

definition receive_ppp :: "env \<Rightarrow> string option \<Rightarrow> recv_result \<Rightarrow> Daemon \<Rightarrow> Daemon option" where
  "receive_ppp env ec m d =
     (let d = d\<lparr>listening_ppp := False\<rparr> in
      case ec of
        Some message \<Rightarrow> Some d
      | None \<Rightarrow> do {
          let d = d\<lparr>spilled := spilled d + spill 8 (controls m)\<rparr>;
          outer \<leftarrow> outer_vlan_of SOL_SOCKET (controls m) 0;
          d \<leftarrow> receive_logged env m 0 d;
          Some (d\<lparr>listening_ppp := True\<rparr>)
        })"

section \<open>Sending\<close>

text \<open>
  One reply after the other: it is printed, if the log has lines of level \<open>INFO\<close>, and sent. \<open>oks\<close> says
  which sends succeed, all of them after its end; one that fails throws.
\<close>

fun send_replies :: "bool \<Rightarrow> bytes list \<Rightarrow> bool list \<Rightarrow> bytes list \<Rightarrow> (bytes list \<times> bool list) option" where
  "send_replies info [] oks sock = Some (sock, oks)"
| "send_replies info (reply # queue) oks sock = do {
     line \<leftarrow> (if info then PacketPrint reply else Some []);
     let (ok, oks) = (case oks of [] \<Rightarrow> (True, []) | b # bs \<Rightarrow> (b, bs));
     if ok then send_replies info queue oks (sock @ [reply]) else None
   }"

definition send_periodic :: "bool list \<Rightarrow> Daemon \<Rightarrow> Daemon option" where
  "send_periodic oks d = do {
     let l = evl d;
     let rt = runtime l;
     (sock, oks) \<leftarrow> send_replies (logs_info d) (pppoe_outcoming rt) oks (wire l);
     let rt = rt\<lparr>pppoe_outcoming := []\<rparr>;
     (sock, oks) \<leftarrow> send_replies (logs_info d) (ppp_outcoming rt) oks sock;
     let rt = rt\<lparr>ppp_outcoming := []\<rparr>;
     Some (d\<lparr>evl := l\<lparr>runtime := rt, wire := sock\<rparr>\<rparr>)
   }"

section \<open>The daemon with its sockets\<close>

datatype io_event =
    Readable "string option" recv_result
  | Readable_ppp "string option" recv_result
  | Tick "bool list"
  | Other event

fun io_handle :: "env \<Rightarrow> io_event \<Rightarrow> Daemon \<Rightarrow> Daemon option" where
  "io_handle env (Readable ec m) d = receive_pppoe env ec m d"
| "io_handle env (Readable_ppp ec m) d = receive_ppp env ec m d"
| "io_handle env (Tick oks) d = send_periodic oks d"
| "io_handle env (Other ev) d = map_option (\<lambda>l. d\<lparr>evl := l\<rparr>) (handle env ev (evl d))"

text \<open>
  The kernel tells of a packet where a wait is pending, with auxiliary data only if it was asked for;
  what is received fits into \<open>pktbuf\<close>. Frames and the periodic timer have events of their own.
\<close>

definition recv_ok :: "bool \<Rightarrow> recv_result \<Rightarrow> bool" where
  "recv_ok aux m \<longleftrightarrow> length (pktbuf m) = 1500 \<and> received m \<in> {-1..1500} \<and> (aux \<or> controls m = [])"

fun io_enabled :: "io_event \<Rightarrow> Daemon \<Rightarrow> bool" where
  "io_enabled (Readable ec m) d \<longleftrightarrow> listening d \<and> recv_ok (auxdata d) m"
| "io_enabled (Readable_ppp ec m) d \<longleftrightarrow> listening_ppp d \<and> recv_ok False m"
| "io_enabled (Tick oks) d \<longleftrightarrow> True"
| "io_enabled (Other ev) d \<longleftrightarrow> enabled ev (evl d) \<and>
     (case ev of Frame f v \<Rightarrow> False | Periodic_timer \<Rightarrow> False | _ \<Rightarrow> True)"

inductive daemon_reachable ::
  "env \<Rightarrow> (string \<Rightarrow> string list) \<Rightarrow> PPPOEGlobalConf option \<Rightarrow> net_kernel \<Rightarrow> Daemon \<Rightarrow> bool"
  for env files cfg k where
  start: "main_init env files cfg = Some rt \<Longrightarrow> EVLoop_ctor k rt = Some d \<Longrightarrow> daemon_reachable env files cfg k d"
| step: "daemon_reachable env files cfg k d \<Longrightarrow> \<not> interrupted (evl d) \<Longrightarrow> io_enabled ev d \<Longrightarrow>
    io_handle env ev d = Some d' \<Longrightarrow> daemon_reachable env files cfg k d'"

section \<open>Refinement\<close>

lemma send_replies_sent: "send_replies info q oks sock = Some (sock', oks') \<Longrightarrow> sock' = sock @ q"
proof (induction q arbitrary: oks sock)
  case (Cons reply q)
  then obtain oks1 where "send_replies info q oks1 (sock @ [reply]) = Some (sock', oks')"
    by (auto simp: bind_eq_Some_conv case_prod_unfold Let_def split: if_splits)
  from Cons.IH [OF this] show ?case by simp
qed simp

lemma send_periodic_evl: "send_periodic oks d = Some d' \<Longrightarrow> d' = d\<lparr>evl := periodic (evl d)\<rparr>"
  by (auto simp: send_periodic_def periodic_def Let_def bind_eq_Some_conv dest!: send_replies_sent)

lemma receive_logged_frame:
  assumes "receive_logged env m vlan d = Some d'"
  shows "handle env (Frame (take (nat (received m)) (pktbuf m)) vlan) (evl d) = Some (evl d')"
    and "d' = d\<lparr>evl := evl d'\<rparr>"
  using assms by (auto simp: receive_logged_def Let_def bind_eq_Some_conv split: if_splits)

lemma receive_logged_ppp: "receive_logged env m vlan d = Some d' \<Longrightarrow> listening_ppp d' = listening_ppp d"
  by (auto simp: receive_logged_def Let_def bind_eq_Some_conv split: if_splits)

text \<open>A step of the daemon is a step of the loop, or leaves the loop as it is.\<close>

lemma io_step:
  assumes "io_enabled ev d" and "io_handle env ev d = Some d'"
  shows "evl d' = evl d \<or> (\<exists>ev'. enabled ev' (evl d) \<and> handle env ev' (evl d) = Some (evl d'))"
proof (cases ev)
  case (Readable ec m)
  with assms show ?thesis
    by (cases ec) (auto simp: receive_pppoe_def Let_def bind_eq_Some_conv simp del: handle.simps
        dest!: receive_logged_frame(1) intro!: exI [of _ "Frame _ _"])
next
  case (Readable_ppp ec m)
  with assms show ?thesis
    by (cases ec) (auto simp: receive_ppp_def Let_def bind_eq_Some_conv simp del: handle.simps
        dest!: receive_logged_frame(1) intro!: exI [of _ "Frame _ _"])
next
  case (Tick oks)
  with assms show ?thesis by (auto dest!: send_periodic_evl intro!: exI [of _ Periodic_timer])
next
  case (Other ev')
  with assms show ?thesis by auto
qed

lemma daemon_reachable_evl: "daemon_reachable env files cfg k d \<Longrightarrow> reachable env files cfg (evl d)"
proof (induction rule: daemon_reachable.induct)
  case (start rt d)
  then show ?case by (auto simp: EVLoop_ctor_def Let_def split: if_splits intro: reachable.start)
next
  case (step d ev d')
  from io_step [OF step.hyps(3,4)] show ?case
    using step.IH step.hyps(2) by (auto intro: reachable.step)
qed

section \<open>Printing replies\<close>

lemma generate_header_inner:
  "outer_vlan e = 0 \<Longrightarrow> inner_vlan e \<noteq> 0 \<Longrightarrow>
   generate_header e mac t = mac_bytes (source_mac e) @ mac_bytes mac @ [byte_at 1 t, byte_at 0 t, 0, 0, 0, 0]"
  by (cases mac; cases "source_mac e")
    (simp add: generate_header_def sizeof_defs resize_Nil Let_def put16_def bswap16_def replicate_numeral)

lemma PacketPrint_frame:
  assumes "t = ETH_PPPOE_DISCOVERY \<and> 6 \<le> length pkt \<or> t = ETH_PPPOE_SESSION \<and> 8 \<le> length pkt"
  shows "\<exists>line. PacketPrint (generate_header e hw t @ pkt) = Some line"
proof -
  note defs = PacketPrint_def eth_text_def load16_def load8_def bswap16_mk16
  show ?thesis
  proof (cases "outer_vlan e = 0"; cases "inner_vlan e = 0"; cases hw; cases "source_mac e")
    qed (use assms in \<open>auto simp: generate_header_cases generate_header_inner defs\<close>)
qed

section \<open>A loop that no longer listens\<close>

lemma activeSessions_release [simp]: "activeSessions (release_sess env r rt) = activeSessions rt"
  by (cases rule: release_sess_cases [of env r rt]) (auto simp: frame_def)

lemma activeSessions_deallocate:
  assumes "deallocateSession env sid rt = Some (err, rt')"
  shows "set (activeSessions rt') \<subseteq> set (activeSessions rt)"
proof (cases "find_by_sid sid rt")
  case None
  with assms show ?thesis by (auto simp: deallocateSession_def split: if_splits)
next
  case (Some kr)
  with assms show ?thesis
    by (cases kr) (auto simp: deallocateSession_def bind_eq_Some_conv om_erase_def frame_def split: if_splits dest!: frame_stopSession)
qed

lemma frame_active: "frame rt rt' \<Longrightarrow> activeSessions rt' = activeSessions rt"
  by (simp add: frame_def)

lemma activeSessions_release_aaa [simp]: "activeSessions (release_aaa q rt) = activeSessions rt"
  by (rule frame_active) simp

interpretation deaf: answer_inv "\<lambda>rt. set (activeSessions rt) \<subseteq> A" for A
proof unfold_locales
  show "set (activeSessions (put_client cl c rt)) \<subseteq> A \<longleftrightarrow> set (activeSessions rt) \<subseteq> A" for cl c rt
    by (cases cl) simp_all
  show "set (activeSessions rt') \<subseteq> A" if "deallocateSession env sid rt = Some (err, rt')" "set (activeSessions rt) \<subseteq> A"
    for env sid rt err rt' using activeSessions_deallocate [OF that(1)] that(2) by blast
qed (auto simp: frame_active [OF frame_on_answers(1)] frame_active [OF frame_on_answers(2)] frame_active [OF frame_on_answers(3)]
    frame_active [OF frame_on_interim] frame_active [OF frame_processRadiusAnswer [OF call_frames_run_callback]]
    frame_active [OF call_framesD [OF call_frames_run_callback]] upd_sess_def
    split: option.splits dest!: LCP_echo_frames(4) frame_active)

inductive io_run :: "env \<Rightarrow> Daemon \<Rightarrow> io_event list \<Rightarrow> Daemon \<Rightarrow> bool" for env where
  ended: "io_run env d [] d"
| step: "\<not> interrupted (evl d) \<Longrightarrow> io_enabled ev d \<Longrightarrow> io_handle env ev d = Some d1 \<Longrightarrow> io_run env d1 evs d' \<Longrightarrow>
    io_run env d (ev # evs) d'"

lemma deaf_run:
  assumes "io_run env d evs d'" and "\<not> listening d" "\<not> listening_ppp d" "set (activeSessions (runtime (evl d))) \<subseteq> A"
  shows "\<not> listening d' \<and> (\<forall>ec m. Readable ec m \<notin> set evs) \<and> set (activeSessions (runtime (evl d'))) \<subseteq> A"
  using assms
proof (induction rule: io_run.induct)
  case (ended d)
  then show ?case by simp
next
  case (step d ev d1 evs d')
  have "\<not> listening d1 \<and> \<not> listening_ppp d1 \<and> set (activeSessions (runtime (evl d1))) \<subseteq> A"
  proof (cases ev)
    case (Tick oks)
    with step show ?thesis by (auto dest!: send_periodic_evl simp: periodic_def Let_def)
  next
    case (Other ev')
    with step.hyps(3) obtain l where l: "handle env ev' (evl d) = Some l" "d1 = d\<lparr>evl := l\<rparr>" by auto
    have quiet: "ev' \<noteq> Frame f v" for f v using step.hyps(2) Other by auto
    have "set (activeSessions (runtime l)) \<subseteq> A"
    proof (cases "\<exists>c. ev' = Signal (SIGHUP (Some c))")
      case True
      with l(1) have "activeSessions (runtime l) = activeSessions (runtime (evl d))" by (auto simp: reloadConfig_def)
      with step.prems(3) show ?thesis by simp
    qed (use deaf.handle_quiet [OF l(1) step.prems(3) quiet] in blast)
    with l step.prems show ?thesis by simp
  qed (use step in auto)
  with step show ?case by (cases ev) auto
qed

lemma daemon_reachable_ppp: "daemon_reachable env files cfg k d \<Longrightarrow> \<not> listening_ppp d"
proof (induction rule: daemon_reachable.induct)
  case (start rt d)
  then show ?case by (auto simp: EVLoop_ctor_def Let_def split: if_splits)
next
  case (step d ev d')
  show ?case
  proof (cases ev)
    case (Readable ec m)
    with step show ?thesis
      by (cases ec) (auto simp: receive_pppoe_def Let_def bind_eq_Some_conv dest!: receive_logged_ppp)
  qed (use step in \<open>auto dest!: send_periodic_evl\<close>)
qed

lemma send_replies_iff:
  "\<forall>f \<in> set q. \<exists>line. PacketPrint f = Some line \<Longrightarrow>
   send_replies info q oks sock =
     (if False \<in> set (take (length q) oks) then None else Some (sock @ q, drop (length q) oks))"
  by (induction q arbitrary: oks sock) (auto split: list.split)

lemma send_periodic_eq:
  assumes "daemon_reachable env files cfg k d" and "rt = runtime (evl d)"
  shows "send_periodic oks d =
    (if False \<in> set (take (length (pppoe_outcoming rt) + length (ppp_outcoming rt)) oks) then None
     else Some (d\<lparr>evl := (evl d)\<lparr>runtime := rt\<lparr>pppoe_outcoming := [], ppp_outcoming := []\<rparr>,
       wire := wire (evl d) @ pppoe_outcoming rt @ ppp_outcoming rt\<rparr>\<rparr>))"
proof -
  have "conforms rt" using reachable_conforms [OF daemon_reachable_evl [OF assms(1)]] by (simp add: assms(2))
  then have "\<forall>f \<in> set (pppoe_outcoming rt). \<exists>line. PacketPrint f = Some line"
    "\<forall>f \<in> set (ppp_outcoming rt). \<exists>line. PacketPrint f = Some line"
    using PacketPrint_frame by (fastforce simp: conforms_def disc_frame_def sess_frame_def)+
  then show ?thesis
    by (auto simp: send_periodic_def send_replies_iff Let_def assms(2) [symmetric] take_add)
qed

lemma send_periodic_returns: "daemon_reachable env files cfg k d \<Longrightarrow> \<exists>d'. io_handle env (Tick []) d = Some d'"
  using send_periodic_eq [OF _ refl] by simp

section \<open>The sample subscriber behind the socket\<close>

definition recv_of :: "bytes \<Rightarrow> cmsg list \<Rightarrow> recv_result" where
  "recv_of f ms = \<lparr>received = int (length f), pktbuf = f @ replicate (1500 - length f) 0, controls = ms\<rparr>"

definition sample_kernel :: net_kernel where
  "sample_kernel = \<lparr>opens = True, if_nametoindex = \<lambda>_. 7, binds = \<lambda>_. True, auxdata_ok = True\<rparr>"

lemma io_frame:
  assumes "handle env (Frame f 0) (evl d) = Some l" and "length f \<le> 1500" and "PacketPrint f = Some line" and "listening d"
  shows "io_enabled (Readable None (recv_of f [])) d" "io_handle env (Readable None (recv_of f [])) d = Some (d\<lparr>evl := l\<rparr>)"
  using assms by (auto simp: recv_ok_def recv_of_def receive_pppoe_def receive_logged_def spill_def Let_def)

lemma daemon_frames:
  "daemon_reachable env files cfg k d \<Longrightarrow> \<not> interrupted (evl d) \<Longrightarrow> listening d \<Longrightarrow> auxdata d \<Longrightarrow>
     \<forall>ev \<in> set evs. \<exists>f line. ev = Frame f 0 \<and> length f \<le> 1500 \<and> PacketPrint f = Some line \<Longrightarrow>
     run_events env evs (evl d) = Some l \<Longrightarrow>
   \<exists>d'. daemon_reachable env files cfg k d' \<and> evl d' = l \<and> listening d' \<and> auxdata d' \<and> \<not> interrupted l"
proof (induction evs arbitrary: d)
  case (Cons ev evs)
  then obtain f line l1 where ev: "ev = Frame f 0" "length f \<le> 1500" "PacketPrint f = Some line"
    and run: "handle env ev (evl d) = Some l1" "run_events env evs l1 = Some l"
    by (auto simp: bind_eq_Some_conv simp del: handle.simps)
  let ?d = "d\<lparr>evl := l1\<rparr>"
  have "daemon_reachable env files cfg k ?d"
    using daemon_reachable.step [OF Cons.prems(1,2)] io_frame [OF run(1) [unfolded ev(1)] ev(2,3) Cons.prems(3)] by blast
  moreover have "\<not> interrupted l1" using run(1) Cons.prems(2) by (auto simp: ev on_runtime_def)
  ultimately show ?case using Cons.IH [of ?d] Cons.prems run(2) by simp
qed auto

lemma PacketPrint_sample:
  assumes "t = ETH_PPPOE_DISCOVERY \<and> 6 \<le> length pkt \<or> t = ETH_PPPOE_SESSION \<and> 8 \<le> length pkt"
  shows "\<exists>line. PacketPrint (sample_frame t pkt) = Some line"
proof -
  have "sample_frame t pkt = generate_header (sample_encap\<lparr>source_mac := MAC 2 0 0 0 0 9\<rparr>) (MAC 2 0 0 0 0 1) t @ pkt"
    by (simp add: generate_header_untagged sample_frame_def sample_encap_def)
  then show ?thesis using PacketPrint_frame [OF assms] by metis
qed

lemma sample_daemon:
  obtains d r s where "daemon_reachable sample_env (\<lambda>f. []) (Some sample_conf) sample_kernel d"
    "listening d" "auxdata d" "\<not> interrupted (evl d)"
    "map_of (activeSessions (runtime (evl d))) (key_of_encap sample_encap 1) = Some r"
    "pppoe_outcoming (runtime (evl d)) \<noteq> []"
proof -
  obtain rt where rt: "main_init sample_env (\<lambda>f. []) (Some sample_conf) = Some rt" using main_init_sample by blast
  obtain l r where run: "run_events sample_env sample_frames (EVLoop_init rt) = Some l"
    and l: "map_of (activeSessions (runtime l)) (key_of_encap sample_encap 1) = Some r" "pppoe_outcoming (runtime l) \<noteq> []"
    by (rule sample_run [OF rt])
  obtain d where d: "EVLoop_ctor sample_kernel rt = Some d" "evl d = EVLoop_init rt" "listening d" "auxdata d"
    by (simp add: EVLoop_ctor_def sample_kernel_def Let_def)
  have shown: "\<exists>f' line. Frame (sample_frame t pkt) 0 = Frame f' 0 \<and> length f' \<le> 1500 \<and> PacketPrint f' = Some line"
    if "t = ETH_PPPOE_DISCOVERY \<and> 6 \<le> length pkt \<or> t = ETH_PPPOE_SESSION \<and> 8 \<le> length pkt" "length pkt \<le> 100" for t pkt
    using PacketPrint_sample [OF that(1)] that(2) by (auto simp: sample_frame_def)
  have "\<forall>ev \<in> set sample_frames. \<exists>f line. ev = Frame f 0 \<and> length f \<le> 1500 \<and> PacketPrint f = Some line"
    unfolding sample_frames_def
    by (auto simp only: list.set ball_simps intro!: shown)
      (simp_all add: disc_pkt_def be16_bytes_def be32_bytes_def pap_request_def conf_req_pkt_def ppp_header_def enc_tag_def bytes_of_string_def)
  from daemon_frames [OF daemon_reachable.start [OF rt d(1)] _ d(3,4) this, of l] run d(2) l that
  show thesis by (auto simp: EVLoop_init_def)
qed

section \<open>Properties\<close>



text \<open>
  C9. When its period ends, the daemon sends what is queued, discovery first, each queue in order, and
  empties both queues, at every level of the log: no queued frame is too short for the line that
  prints it. Only a send that fails ends it.
\<close>

theorem tick_sends_queues:
  assumes "daemon_reachable env files cfg k d" and "rt = runtime (evl d)"
  shows "io_handle env (Tick oks) d =
    (if False \<in> set (take (length (pppoe_outcoming rt) + length (ppp_outcoming rt)) oks) then None
     else Some (d\<lparr>evl := (evl d)\<lparr>runtime := rt\<lparr>pppoe_outcoming := [], ppp_outcoming := []\<rparr>,
       wire := wire (evl d) @ pppoe_outcoming rt @ ppp_outcoming rt\<rparr>\<rparr>))"
  using send_periodic_eq [OF assms] by simp

theorem tick_sends_queues_witness:
  "\<exists>d d'. daemon_reachable sample_env (\<lambda>f. []) (Some sample_conf) sample_kernel d \<and>
     pppoe_outcoming (runtime (evl d)) \<noteq> [] \<and> io_handle sample_env (Tick []) d = Some d' \<and>
     wire (evl d') = wire (evl d) @ pppoe_outcoming (runtime (evl d)) @ ppp_outcoming (runtime (evl d))"
proof -
  obtain d where d: "daemon_reachable sample_env (\<lambda>f. []) (Some sample_conf) sample_kernel d"
    "pppoe_outcoming (runtime (evl d)) \<noteq> []" by (rule sample_daemon)
  with tick_sends_queues [OF d(1) refl, of "[]"] show ?thesis by - (rule exI [of _ d], simp)
qed

text \<open>
  C24. After an error on the socket the daemon is deaf for good: whatever follows, it never waits for
  a packet again, receives none, and opens no session; it runs on all the same, and its sessions can
  only end.
\<close>

theorem receive_error_deafens:
  assumes "daemon_reachable env files cfg k d" and "io_run env d (Readable (Some message) m # evs) d'"
  shows "\<not> listening d' \<and> (\<forall>ec m. Readable ec m \<notin> set evs) \<and>
    set (activeSessions (runtime (evl d'))) \<subseteq> set (activeSessions (runtime (evl d)))"
proof -
  from assms(2) obtain d1 where 1: "io_handle env (Readable (Some message) m) d = Some d1" and run: "io_run env d1 evs d'"
    by (cases rule: io_run.cases) auto
  from 1 have "d1 = d\<lparr>listening := False\<rparr>" by (simp add: receive_pppoe_def)
  with daemon_reachable_ppp [OF assms(1)] run show ?thesis by (intro deaf_run [of env d1 evs d']) simp_all
qed

theorem receive_error_deafens_witness:
  "\<exists>d d'. daemon_reachable sample_env (\<lambda>f. []) (Some sample_conf) sample_kernel d \<and> listening d \<and>
     io_run sample_env d [Readable (Some ''error'') (recv_of [] []), Tick []] d' \<and> \<not> listening d'"
proof -
  obtain d where d: "daemon_reachable sample_env (\<lambda>f. []) (Some sample_conf) sample_kernel d"
    "listening d" "auxdata d" "\<not> interrupted (evl d)" by (rule sample_daemon)
  let ?m = "recv_of [] []" and ?d = "d\<lparr>listening := False\<rparr>"
  have on: "io_enabled (Readable (Some ''error'') ?m) d" using d(2,3) by (simp add: recv_ok_def recv_of_def)
  have err: "io_handle sample_env (Readable (Some ''error'') ?m) d = Some ?d" by (simp add: receive_pppoe_def)
  have d1: "daemon_reachable sample_env (\<lambda>f. []) (Some sample_conf) sample_kernel ?d"
    using daemon_reachable.step [OF d(1,4) on err] .
  obtain d' where "io_handle sample_env (Tick []) ?d = Some d'"
    using send_periodic_returns [OF d1] by blast
  then have "io_run sample_env d [Readable (Some ''error'') ?m, Tick []] d'"
    using d(4) on err by (intro io_run.step; simp) (rule io_run.ended)
  with receive_error_deafens [OF d(1) this] d show ?thesis by blast
qed

text \<open>
  C25. The tag the kernel reports is compared with all its sixteen bits: a subscriber's session frame that
  comes with another priority than its PADI had, if only that, finds no session, and nothing at
  all is done with it.
\<close>

theorem priority_loses_session:
  assumes d: "daemon_reachable env files cfg k d" and key: "(key, r) \<in> set (activeSessions (runtime (evl d)))"
    and f: "f = mac_bytes dst @ mac_bytes src @ [0x88, 0x64] @ inPkt" "8 \<le> length inPkt"
      "load16 inPkt 2 = Some (bswap16 (key_session_id key))"
    and m: "received m = int (length f)" "take (length f) (pktbuf m) = f"
    and tag: "controls m = [Cmsg SOL_PACKET PACKET_AUXDATA aux]" "load16 aux 16 = Some tci" "tci \<noteq> key_outer key"
  shows "io_handle env (Readable None m) d = Some (d\<lparr>spilled := spilled d + (min 40 (16 + length aux) - 16), listening := True\<rparr>)"
proof -
  let ?rt = "runtime (evl d)" and ?e = "\<lparr>source_mac = src, destination_mac = dst, outer_vlan = tci, inner_vlan = 0,
      encap_type = Some ETH_PPPOE_SESSION\<rparr>"
  have "tables_ok ?rt" using reachable_tables_ok [OF daemon_reachable_evl [OF d]] .
  then have inj: "inj_on key_session_id (fst ` set (activeSessions ?rt))" by (simp add: tables_ok_def)
  have "map_of (activeSessions ?rt) (key_of_encap ?e (key_session_id key)) = None"
  proof (rule ccontr)
    assume "\<not> ?thesis"
    then obtain q where "(key_of_encap ?e (key_session_id key), q) \<in> set (activeSessions ?rt)" by (auto dest: map_of_SomeD)
    with inj key have "key_of_encap ?e (key_session_id key) = key"
      by (intro inj_onD [OF inj]) (force simp: key_of_encap_def)+
    with tag(3) show False by (cases key) (simp add: key_of_encap_def)
  qed
  then have ppp: "processPPP env inPkt ?e ?rt = Some ('''', ?rt)" using f(3) by (simp add: processPPP_def)
  have session: "bswap16 (mk16 0x88 0x64) = ETH_PPPOE_SESSION" by (simp add: bswap16_def mk16_def)
  have ctor: "encapsulation_ctor f tci 0 = Some (?e, inPkt)"
    by (cases dst; cases src) (simp add: f(1) encapsulation_ctor_def sizeof_defs load16_def mac_of_def session)
  have "generic_receive env f tci ?rt = Some ?rt"
    by (simp add: generic_receive_def ctor ppp)
  moreover have "\<exists>line. PacketPrint f = Some line"
    using f(2) by (cases dst; cases src) (simp add: f(1) PacketPrint_def eth_text_def load16_def session)
  ultimately show ?thesis
    using m tag(1,2) by (auto simp: receive_pppoe_def receive_logged_def on_runtime_def spill_def Let_def)
qed

theorem priority_loses_session_witness:
  "\<exists>d m. daemon_reachable sample_env (\<lambda>f. []) (Some sample_conf) sample_kernel d \<and>
     key_of_encap sample_encap 1 \<in> fst ` set (activeSessions (runtime (evl d))) \<and>
     outer_vlan_of SOL_PACKET (controls m) 0 = Some 0x2000 \<and>
     io_handle sample_env (Readable None m) d = Some (d\<lparr>spilled := spilled d + 20, listening := True\<rparr>)"
proof -
  obtain d r where d: "daemon_reachable sample_env (\<lambda>f. []) (Some sample_conf) sample_kernel d"
    and key: "map_of (activeSessions (runtime (evl d))) (key_of_encap sample_encap 1) = Some r" by (rule sample_daemon)
  let ?aux = "replicate 16 0 @ [0, 0x20, 0, 0] :: bytes" and ?pkt = "ppp_header LCP 1 9 1 8"
  let ?f = "mac_bytes (MAC 2 0 0 0 0 1) @ mac_bytes (MAC 2 0 0 0 0 9) @ [0x88, 0x64] @ ?pkt"
  let ?m = "recv_of ?f [Cmsg SOL_PACKET PACKET_AUXDATA ?aux]"
  have tci: "load16 ?aux 16 = Some 0x2000" by (simp add: load16_def mk16_def nth_append)
  have pkt: "8 \<le> length ?pkt" "load16 ?pkt 2 = Some (bswap16 (key_session_id (key_of_encap sample_encap 1)))"
    by (simp_all add: ppp_header_def key_of_encap_def load16_def bswap16_def)
  have "io_handle sample_env (Readable None ?m) d =
      Some (d\<lparr>spilled := spilled d + (min 40 (16 + length ?aux) - 16), listening := True\<rparr>)"
    by (rule priority_loses_session [where dst = "MAC 2 0 0 0 0 1" and src = "MAC 2 0 0 0 0 9" and inPkt = ?pkt,
        OF d map_of_SomeD [OF key] refl pkt _ _ _ tci])
      (simp_all add: recv_of_def key_of_encap_def sample_encap_def)
  moreover have "outer_vlan_of SOL_PACKET (controls ?m) 0 = Some 0x2000" using tci by (simp add: recv_of_def)
  ultimately show ?thesis
    using d map_of_SomeD [OF key] by (intro exI [of _ d] exI [of _ ?m]) (force simp: image_iff)
qed

end
