(* ===== verification/Yaml.thy ===== *)
theory Yaml
  imports Config
begin

text \<open>
  The configuration file: \<^verbatim>\<open>src/yaml.hpp\<close> and \<^verbatim>\<open>src/yaml.cpp\<close>, with a \<open>convert\<close> per
  configuration type, and the text form of addresses.

  yaml-cpp and Boost.Asio are not part of the repository: a node, its construction and reading, and
  the text forms of addresses are the parameter \<open>Y\<close> of every definition. A conversion that throws is
  \<^const>\<open>None\<close>.
\<close>

section \<open>The libraries\<close>

text \<open>
  \<open>y_get\<close> is \<^verbatim>\<open>node[key]\<close> on a constant node: it throws on a scalar, and gives an undefined
  node for a missing key. \<open>y_put\<close> is the assignment \<^verbatim>\<open>node[key] = value\<close>. The conversions of
  yaml-cpp's own types are a constructor \<open>y_of_\<close> and a reader that may throw; a sequence and a
  map are read into the nodes they hold. \<open>y_emit\<close> is the output operator and \<open>y_load\<close> the
  parser, on the contents of a file.
\<close>

record ('n, 't) yaml_lib =
  y_null :: 'n
  y_get :: "'n \<Rightarrow> string \<Rightarrow> 'n option option"
  y_put :: "'n \<Rightarrow> string \<Rightarrow> 'n \<Rightarrow> 'n"
  y_of_string :: "string \<Rightarrow> 'n"
  y_string :: "'n \<Rightarrow> string option"
  y_of_bool :: "bool \<Rightarrow> 'n"
  y_bool :: "'n \<Rightarrow> bool option"
  y_of_u16 :: "u16 \<Rightarrow> 'n"
  y_u16 :: "'n \<Rightarrow> u16 option"
  y_of_u32 :: "u32 \<Rightarrow> 'n"
  y_u32 :: "'n \<Rightarrow> u32 option"
  y_of_seq :: "'n list \<Rightarrow> 'n"
  y_seq :: "'n \<Rightarrow> 'n list option"
  y_of_map :: "('n \<times> 'n) list \<Rightarrow> 'n"
  y_map :: "'n \<Rightarrow> ('n \<times> 'n) list option"
  y_emit :: "'n \<Rightarrow> 't"
  y_load :: "'t \<Rightarrow> 'n option"
  addr_to_string :: "address_v4_t \<Rightarrow> string"
  addr_from_string :: "string \<Rightarrow> address_v4_t option"
  net_to_string :: "network_v4_t \<Rightarrow> string"
  make_network_v4 :: "string \<Rightarrow> network_v4_t option"

text \<open>The dotted decimal form of an address, and the form with a prefix length.\<close>

definition dotted :: "address_v4_t \<Rightarrow> string" where
  "dotted a = to_string_digits (unat a div 16777216) @ ''.'' @ to_string_digits (unat a div 65536 mod 256) @ ''.'' @
     to_string_digits (unat a div 256 mod 256) @ ''.'' @ to_string_digits (unat a mod 256)"

definition dotted_net :: "network_v4_t \<Rightarrow> string" where
  "dotted_net n = dotted (net_address n) @ ''/'' @ to_string_digits (prefix_length n)"

text \<open>
  What the libraries document: a value stored is the value read, a key set on a map is found and
  leaves the others alone, a node written out is loaded back, and addresses read and print in dotted
  decimal form.
\<close>

definition yaml_ok :: "('n, 't) yaml_lib \<Rightarrow> bool" where
  "yaml_ok Y \<longleftrightarrow>
     (\<forall>k. y_get Y (y_null Y) k = Some None) \<and>
     y_seq Y (y_null Y) = None \<and>
     (\<forall>n k v k'. y_seq Y n = None \<and> y_get Y n k \<noteq> None \<longrightarrow> y_seq Y (y_put Y n k v) = None \<and>
        y_get Y (y_put Y n k v) k' = (if k' = k then Some (Some v) else y_get Y n k')) \<and>
     (\<forall>s. y_string Y (y_of_string Y s) = Some s) \<and>
     (\<forall>b. y_bool Y (y_of_bool Y b) = Some b) \<and>
     (\<forall>w. y_u16 Y (y_of_u16 Y w) = Some w) \<and>
     (\<forall>w. y_u32 Y (y_of_u32 Y w) = Some w) \<and>
     (\<forall>ns. y_seq Y (y_of_seq Y ns) = Some ns) \<and>
     (\<forall>kvs. y_map Y (y_of_map Y kvs) = Some kvs) \<and>
     (\<forall>n. y_load Y (y_emit Y n) = Some n) \<and>
     (\<forall>a. addr_to_string Y a = dotted a \<and> addr_from_string Y (dotted a) = Some a) \<and>
     (\<forall>n. net_to_string Y n = dotted_net n) \<and>
     (\<forall>n. prefix_length n \<le> 32 \<longrightarrow> make_network_v4 Y (dotted_net n) = Some n)"

section \<open>Reading and writing members\<close>

text \<open>\<^verbatim>\<open>node[key].as<T>()\<close>, and the same under a test that the key is there.\<close>

definition required :: "('n, 't) yaml_lib \<Rightarrow> ('n \<Rightarrow> 'a option) \<Rightarrow> 'n \<Rightarrow> string \<Rightarrow> 'a option" where
  "required Y as_T node key =
     (case y_get Y node key of Some (Some v) \<Rightarrow> as_T v | _ \<Rightarrow> None)"

definition if_defined :: "('n, 't) yaml_lib \<Rightarrow> ('n \<Rightarrow> 'a option) \<Rightarrow> 'n \<Rightarrow> string \<Rightarrow> 'a \<Rightarrow> 'a option" where
  "if_defined Y as_T node key old =
     (case y_get Y node key of None \<Rightarrow> None | Some None \<Rightarrow> Some old | Some (Some v) \<Rightarrow> as_T v)"

text \<open>yaml-cpp's vectors and maps: element by element, a later key replacing an earlier one.\<close>

definition of_vector :: "('n, 't) yaml_lib \<Rightarrow> ('a \<Rightarrow> 'n) \<Rightarrow> 'a list \<Rightarrow> 'n" where
  "of_vector Y enc xs = y_of_seq Y (map enc xs)"

definition as_vector :: "('n, 't) yaml_lib \<Rightarrow> ('n \<Rightarrow> 'a option) \<Rightarrow> 'n \<Rightarrow> 'a list option" where
  "as_vector Y dec n = do { ns \<leftarrow> y_seq Y n; those (map dec ns) }"

definition of_map :: "('n, 't) yaml_lib \<Rightarrow> ('k \<Rightarrow> 'n) \<Rightarrow> ('v \<Rightarrow> 'n) \<Rightarrow> ('k, 'v) omap \<Rightarrow> 'n" where
  "of_map Y ek ev m = y_of_map Y (map (\<lambda>(k, v). (ek k, ev v)) m)"

fun map_entries ::
  "('n \<Rightarrow> 'k::linorder option) \<Rightarrow> ('n \<Rightarrow> 'v option) \<Rightarrow> ('n \<times> 'n) list \<Rightarrow> ('k, 'v) omap \<Rightarrow> ('k, 'v) omap option" where
  "map_entries dk dv [] m = Some m"
| "map_entries dk dv ((kn, vn) # rest) m =
     do { k \<leftarrow> dk kn; v \<leftarrow> dv vn; map_entries dk dv rest (om_set k v m) }"

definition as_map ::
  "('n, 't) yaml_lib \<Rightarrow> ('n \<Rightarrow> 'k::linorder option) \<Rightarrow> ('n \<Rightarrow> 'v option) \<Rightarrow> 'n \<Rightarrow> ('k, 'v) omap option" where
  "as_map Y dk dv n = do { kvs \<leftarrow> y_map Y n; map_entries dk dv kvs [] }"

definition as_address :: "('n, 't) yaml_lib \<Rightarrow> 'n \<Rightarrow> address_v4_t option" where
  "as_address Y n = do { s \<leftarrow> y_string Y n; addr_from_string Y s }"

definition as_network :: "('n, 't) yaml_lib \<Rightarrow> 'n \<Rightarrow> network_v4_t option" where
  "as_network Y n = do { s \<leftarrow> y_string Y n; make_network_v4 Y s }"

section \<open>The conversions\<close>

subsection \<open>Policies\<close>

definition encode_PPPOEPolicy :: "('n, 't) yaml_lib \<Rightarrow> PPPOEPolicy \<Rightarrow> 'n" where
  "encode_PPPOEPolicy Y rhs =
     (let node = y_null Y;
          node = y_put Y node ''ac_name'' (y_of_string Y (ac_name rhs));
          node = y_put Y node ''service_name'' (of_vector Y (y_of_string Y) (service_name rhs));
          node = y_put Y node ''insert_cookie'' (y_of_bool Y (insert_cookie rhs));
          node = y_put Y node ''ignore_service_name'' (y_of_bool Y (ignore_service_name rhs))
      in node)"

definition decode_PPPOEPolicy :: "('n, 't) yaml_lib \<Rightarrow> 'n \<Rightarrow> PPPOEPolicy option" where
  "decode_PPPOEPolicy Y node = do {
     a \<leftarrow> required Y (y_string Y) node ''ac_name'';
     s \<leftarrow> required Y (as_vector Y (y_string Y)) node ''service_name'';
     c \<leftarrow> required Y (y_bool Y) node ''insert_cookie'';
     i \<leftarrow> required Y (y_bool Y) node ''ignore_service_name'';
     Some \<lparr>ac_name = a, service_name = s, insert_cookie = c, ignore_service_name = i\<rparr>
   }"

definition encode_LCPPolicy :: "('n, 't) yaml_lib \<Rightarrow> LCPPolicy \<Rightarrow> 'n" where
  "encode_LCPPolicy Y rhs =
     (let node = y_null Y;
          node = y_put Y node ''insert_magic_number'' (y_of_bool Y (insertMagicNumber rhs));
          node = y_put Y node ''mru'' (y_of_u16 Y (lcp_MRU rhs));
          node = y_put Y node ''auth_chap'' (y_of_bool Y (authCHAP rhs));
          node = y_put Y node ''auth_pap'' (y_of_bool Y (authPAP rhs))
      in node)"

definition decode_LCPPolicy :: "('n, 't) yaml_lib \<Rightarrow> 'n \<Rightarrow> LCPPolicy option" where
  "decode_LCPPolicy Y node = do {
     let rhs = LCPPolicy_default;
     m \<leftarrow> if_defined Y (y_bool Y) node ''insert_magic_number'' (insertMagicNumber rhs);
     u \<leftarrow> if_defined Y (y_u16 Y) node ''mru'' (lcp_MRU rhs);
     c \<leftarrow> if_defined Y (y_bool Y) node ''auth_chap'' (authCHAP rhs);
     p \<leftarrow> if_defined Y (y_bool Y) node ''auth_pap'' (authPAP rhs);
     Some \<lparr>insertMagicNumber = m, lcp_MRU = u, authCHAP = c, authPAP = p\<rparr>
   }"

subsection \<open>AAA\<close>

definition encode_FRAMED_POOL :: "('n, 't) yaml_lib \<Rightarrow> FRAMED_POOL \<Rightarrow> 'n" where
  "encode_FRAMED_POOL Y rhs =
     (let node = y_null Y;
          node = y_put Y node ''start_ip'' (y_of_string Y (addr_to_string Y (start_ip rhs)));
          node = y_put Y node ''stop_ip'' (y_of_string Y (addr_to_string Y (stop_ip rhs)))
      in node)"

definition decode_FRAMED_POOL :: "('n, 't) yaml_lib \<Rightarrow> 'n \<Rightarrow> FRAMED_POOL option" where
  "decode_FRAMED_POOL Y node = do {
     a \<leftarrow> required Y (as_address Y) node ''start_ip'';
     b \<leftarrow> required Y (as_address Y) node ''stop_ip'';
     Some \<lparr>start_ip = a, stop_ip = b, ips = {}\<rparr>
   }"

fun method_name :: "AAA_METHODS \<Rightarrow> string" where
  "method_name NONE = ''NONE''"
| "method_name LOCAL = ''LOCAL''"
| "method_name RADIUS = ''RADIUS''"

definition encode_AAA_METHODS :: "('n, 't) yaml_lib \<Rightarrow> AAA_METHODS \<Rightarrow> 'n" where
  "encode_AAA_METHODS Y rhs = y_of_string Y (method_name rhs)"

definition decode_AAA_METHODS :: "('n, 't) yaml_lib \<Rightarrow> 'n \<Rightarrow> AAA_METHODS option" where
  "decode_AAA_METHODS Y node = do {
     t \<leftarrow> y_string Y node;
     if t = ''NONE'' then Some NONE
     else if t = ''LOCAL'' then Some LOCAL
     else if t = ''RADIUS'' then Some RADIUS
     else None
   }"

definition encode_PPPOELocalTemplate :: "('n, 't) yaml_lib \<Rightarrow> PPPOELocalTemplate \<Rightarrow> 'n" where
  "encode_PPPOELocalTemplate Y rhs =
     (let node = y_null Y;
          node = y_put Y node ''framed_pool'' (y_of_string Y (t_framed_pool rhs));
          node = y_put Y node ''dns1'' (y_of_string Y (addr_to_string Y (t_dns1 rhs)));
          node = y_put Y node ''dns2'' (y_of_string Y (addr_to_string Y (t_dns2 rhs)));
          node = (if t_vrf rhs \<noteq> [] then y_put Y node ''vrf'' (y_of_string Y (t_vrf rhs)) else node);
          node = (if t_unnumbered rhs \<noteq> [] then y_put Y node ''unnumbered'' (y_of_string Y (t_unnumbered rhs))
                  else node)
      in node)"

definition decode_PPPOELocalTemplate :: "('n, 't) yaml_lib \<Rightarrow> 'n \<Rightarrow> PPPOELocalTemplate option" where
  "decode_PPPOELocalTemplate Y node = do {
     p \<leftarrow> required Y (y_string Y) node ''framed_pool'';
     a \<leftarrow> required Y (as_address Y) node ''dns1'';
     b \<leftarrow> required Y (as_address Y) node ''dns2'';
     v \<leftarrow> if_defined Y (y_string Y) node ''vrf'' [];
     u \<leftarrow> if_defined Y (y_string Y) node ''unnumbered'' [];
     Some \<lparr>t_framed_pool = p, t_dns1 = a, t_dns2 = b, t_vrf = v, t_unnumbered = u\<rparr>
   }"

definition encode_AAARadConf :: "('n, 't) yaml_lib \<Rightarrow> AAARadConf \<Rightarrow> 'n" where
  "encode_AAARadConf Y rhs =
     (let node = y_null Y;
          node = y_put Y node ''address'' (y_of_string Y (addr_to_string Y (rad_address rhs)));
          node = y_put Y node ''port'' (y_of_u16 Y (rad_port rhs));
          node = y_put Y node ''secret'' (y_of_string Y (rad_secret rhs))
      in node)"

definition decode_AAARadConf :: "('n, 't) yaml_lib \<Rightarrow> 'n \<Rightarrow> AAARadConf option" where
  "decode_AAARadConf Y node = do {
     a \<leftarrow> required Y (as_address Y) node ''address'';
     p \<leftarrow> required Y (y_u16 Y) node ''port'';
     s \<leftarrow> required Y (y_string Y) node ''secret'';
     Some \<lparr>rad_address = a, rad_port = p, rad_secret = s\<rparr>
   }"

definition encode_AAAConf :: "('n, 't) yaml_lib \<Rightarrow> AAAConf \<Rightarrow> 'n" where
  "encode_AAAConf Y rhs =
     (let node = y_null Y;
          node = y_put Y node ''pools'' (of_map Y (y_of_string Y) (encode_FRAMED_POOL Y) (aaa_pools rhs));
          node = y_put Y node ''method'' (of_vector Y (encode_AAA_METHODS Y) (aaa_method rhs));
          node = (if local_template rhs \<noteq> []
                  then y_put Y node ''local_template'' (y_of_string Y (local_template rhs)) else node);
          node = y_put Y node ''dictionaries'' (of_vector Y (y_of_string Y) (dictionaries rhs));
          node = y_put Y node ''auth_servers'' (of_map Y (y_of_string Y) (encode_AAARadConf Y) (auth_servers rhs));
          node = y_put Y node ''acct_servers'' (of_map Y (y_of_string Y) (encode_AAARadConf Y) (acct_servers rhs))
      in node)"

definition decode_AAAConf :: "('n, 't) yaml_lib \<Rightarrow> 'n \<Rightarrow> AAAConf option" where
  "decode_AAAConf Y node = do {
     p \<leftarrow> required Y (as_map Y (y_string Y) (decode_FRAMED_POOL Y)) node ''pools'';
     m \<leftarrow> required Y (as_vector Y (decode_AAA_METHODS Y)) node ''method'';
     l \<leftarrow> if_defined Y (y_string Y) node ''local_template'' [];
     d \<leftarrow> if_defined Y (as_vector Y (y_string Y)) node ''dictionaries'' [];
     au \<leftarrow> if_defined Y (as_map Y (y_string Y) (decode_AAARadConf Y)) node ''auth_servers'' [];
     ac \<leftarrow> if_defined Y (as_map Y (y_string Y) (decode_AAARadConf Y)) node ''acct_servers'' [];
     Some \<lparr>aaa_method = m, aaa_pools = p, local_template = l, dictionaries = d, auth_servers = au,
           acct_servers = ac\<rparr>
   }"

subsection \<open>Interfaces, routes and VRFs\<close>

text \<open>The name of the unnumbered interface is neither written nor read.\<close>

definition encode_InterfaceUnit :: "('n, 't) yaml_lib \<Rightarrow> InterfaceUnit \<Rightarrow> 'n" where
  "encode_InterfaceUnit Y rhs =
     (let node = y_null Y;
          node = y_put Y node ''admin_state'' (y_of_bool Y (u_admin_state rhs));
          node = (case u_address rhs of
              Some a \<Rightarrow> y_put Y node ''address'' (y_of_string Y (net_to_string Y a))
            | None \<Rightarrow> node);
          node = y_put Y node ''vlan'' (y_of_u16 Y (u_vlan rhs));
          node = (if u_vrf rhs \<noteq> [] then y_put Y node ''vrf'' (y_of_string Y (u_vrf rhs)) else node)
      in node)"

definition decode_InterfaceUnit :: "('n, 't) yaml_lib \<Rightarrow> 'n \<Rightarrow> InterfaceUnit option" where
  "decode_InterfaceUnit Y node = do {
     s \<leftarrow> if_defined Y (y_bool Y) node ''admin_state'' True;
     a \<leftarrow> if_defined Y (\<lambda>n. map_option Some (as_network Y n)) node ''address'' None;
     v \<leftarrow> required Y (y_u16 Y) node ''vlan'';
     r \<leftarrow> if_defined Y (y_string Y) node ''vrf'' [];
     Some \<lparr>u_address = a, u_vlan = v, u_admin_state = s, u_vrf = r, u_unnumbered = [], u_sw_if_index = - 1\<rparr>
   }"

definition encode_InterfaceConf :: "('n, 't) yaml_lib \<Rightarrow> InterfaceConf \<Rightarrow> 'n" where
  "encode_InterfaceConf Y rhs =
     (let node = y_null Y;
          node = y_put Y node ''device'' (y_of_string Y (i_device rhs));
          node = y_put Y node ''admin_state'' (y_of_bool Y (i_admin_state rhs));
          node = (case i_mtu rhs of Some m \<Rightarrow> y_put Y node ''mtu'' (y_of_u16 Y m) | None \<Rightarrow> node);
          node = y_put Y node ''units'' (of_map Y (y_of_u16 Y) (encode_InterfaceUnit Y) (i_units rhs))
      in node)"

definition decode_InterfaceConf :: "('n, 't) yaml_lib \<Rightarrow> 'n \<Rightarrow> InterfaceConf option" where
  "decode_InterfaceConf Y node = do {
     d \<leftarrow> required Y (y_string Y) node ''device'';
     s \<leftarrow> required Y (y_bool Y) node ''admin_state'';
     m \<leftarrow> if_defined Y (\<lambda>n. map_option Some (y_u16 Y n)) node ''mtu'' None;
     u \<leftarrow> required Y (as_map Y (y_u16 Y) (decode_InterfaceUnit Y)) node ''units'';
     Some \<lparr>i_device = d, i_admin_state = s, i_mtu = m, i_units = u\<rparr>
   }"

text \<open>The index of a route in VPP is left as it is found; nothing reads it before it is set.\<close>

definition encode_StaticRIBEntry :: "('n, 't) yaml_lib \<Rightarrow> StaticRIBEntry \<Rightarrow> 'n" where
  "encode_StaticRIBEntry Y rhs =
     (let node = y_null Y;
          node = y_put Y node ''destination'' (y_of_string Y (net_to_string Y (destination rhs)));
          node = y_put Y node ''nexthop'' (y_of_string Y (addr_to_string Y (nexthop rhs)));
          node = (case rib_description rhs of
              Some d \<Rightarrow> y_put Y node ''description'' (y_of_string Y d) | None \<Rightarrow> node)
      in node)"

definition decode_StaticRIBEntry :: "('n, 't) yaml_lib \<Rightarrow> 'n \<Rightarrow> StaticRIBEntry option" where
  "decode_StaticRIBEntry Y node = do {
     d \<leftarrow> required Y (as_network Y) node ''destination'';
     h \<leftarrow> required Y (as_address Y) node ''nexthop'';
     t \<leftarrow> if_defined Y (\<lambda>n. map_option Some (y_string Y n)) node ''description'' None;
     Some \<lparr>destination = d, nexthop = h, rib_description = t, rid_in_vpp = 0\<rparr>
   }"

definition encode_StaticRIB :: "('n, 't) yaml_lib \<Rightarrow> StaticRIBEntry list \<Rightarrow> 'n" where
  "encode_StaticRIB Y rhs = y_put Y (y_null Y) ''entries'' (of_vector Y (encode_StaticRIBEntry Y) rhs)"

definition decode_StaticRIB :: "('n, 't) yaml_lib \<Rightarrow> 'n \<Rightarrow> StaticRIBEntry list option" where
  "decode_StaticRIB Y node = required Y (as_vector Y (decode_StaticRIBEntry Y)) node ''entries''"

definition encode_VRFConf :: "('n, 't) yaml_lib \<Rightarrow> VRFConf \<Rightarrow> 'n" where
  "encode_VRFConf Y rhs =
     (let node = y_null Y;
          node = y_put Y node ''name'' (y_of_string Y (vrf_name rhs));
          node = y_put Y node ''table_id'' (y_of_u32 Y (vrf_table_id rhs));
          node = y_put Y node ''rib'' (encode_StaticRIB Y (vrf_rib rhs))
      in node)"

definition decode_VRFConf :: "('n, 't) yaml_lib \<Rightarrow> 'n \<Rightarrow> VRFConf option" where
  "decode_VRFConf Y node = do {
     n \<leftarrow> required Y (y_string Y) node ''name'';
     t \<leftarrow> required Y (y_u32 Y) node ''table_id'';
     r \<leftarrow> required Y (decode_StaticRIB Y) node ''rib'';
     Some \<lparr>vrf_name = n, vrf_table_id = t, vrf_rib = r\<rparr>
   }"

subsection \<open>The log level\<close>

fun log_level_name :: "LOGL \<Rightarrow> string" where
  "log_level_name TRACE = ''TRACE''"
| "log_level_name DEBUG = ''DEBUG''"
| "log_level_name INFO = ''INFO''"
| "log_level_name WARN = ''WARNING''"
| "log_level_name ERROR = ''ERROR''"
| "log_level_name ALERT = ''CRITICAL''"

definition encode_LOGL :: "('n, 't) yaml_lib \<Rightarrow> LOGL \<Rightarrow> 'n" where
  "encode_LOGL Y rhs = y_of_string Y (log_level_name rhs)"

definition decode_LOGL :: "('n, 't) yaml_lib \<Rightarrow> 'n \<Rightarrow> LOGL option" where
  "decode_LOGL Y node = do {
     t \<leftarrow> y_string Y node;
     if t = ''TRACE'' then Some TRACE
     else if t = ''DEBUG'' then Some DEBUG
     else if t = ''INFO'' then Some INFO
     else if t = ''WARNING'' then Some WARN
     else if t = ''ERROR'' then Some ERROR
     else if t = ''CRITICAL'' then Some ALERT
     else None
   }"

subsection \<open>The whole configuration\<close>

definition encode_PPPOEGlobalConf :: "('n, 't) yaml_lib \<Rightarrow> PPPOEGlobalConf \<Rightarrow> 'n" where
  "encode_PPPOEGlobalConf Y rhs =
     (let node = y_null Y;
          node = y_put Y node ''tap_name'' (y_of_string Y (tap_name rhs));
          node = y_put Y node ''log_level'' (encode_LOGL Y (log_level rhs));
          node = (if log_file rhs \<noteq> [] then y_put Y node ''log_file'' (y_of_string Y (log_file rhs)) else node);
          node = y_put Y node ''interfaces'' (of_vector Y (encode_InterfaceConf Y) (interfaces rhs));
          node = y_put Y node ''default_pppoe_conf'' (encode_PPPOEPolicy Y (default_pppoe_conf rhs));
          node = y_put Y node ''pppoe_confs'' (of_map Y (y_of_u16 Y) (encode_PPPOEPolicy Y) (pppoe_confs rhs));
          node = y_put Y node ''pppoe_templates''
            (of_map Y (y_of_string Y) (encode_PPPOELocalTemplate Y) (pppoe_templates rhs));
          node = y_put Y node ''aaa_conf'' (encode_AAAConf Y (aaa_conf rhs));
          node = y_put Y node ''lcp_conf'' (encode_LCPPolicy Y (conf_lcp rhs));
          node = y_put Y node ''global_rib'' (encode_StaticRIB Y (global_rib rhs));
          node = y_put Y node ''vrfs'' (of_vector Y (encode_VRFConf Y) (conf_vrfs rhs))
      in node)"

definition decode_PPPOEGlobalConf :: "('n, 't) yaml_lib \<Rightarrow> 'n \<Rightarrow> PPPOEGlobalConf option" where
  "decode_PPPOEGlobalConf Y node = do {
     tn \<leftarrow> required Y (y_string Y) node ''tap_name'';
     ll \<leftarrow> if_defined Y (decode_LOGL Y) node ''log_level'' INFO;
     lf \<leftarrow> if_defined Y (y_string Y) node ''log_file'' [];
     ifs \<leftarrow> required Y (as_vector Y (decode_InterfaceConf Y)) node ''interfaces'';
     dp \<leftarrow> required Y (decode_PPPOEPolicy Y) node ''default_pppoe_conf'';
     pc \<leftarrow> required Y (as_map Y (y_u16 Y) (decode_PPPOEPolicy Y)) node ''pppoe_confs'';
     pt \<leftarrow> required Y (as_map Y (y_string Y) (decode_PPPOELocalTemplate Y)) node ''pppoe_templates'';
     ac \<leftarrow> required Y (decode_AAAConf Y) node ''aaa_conf'';
     lc \<leftarrow> if_defined Y (decode_LCPPolicy Y) node ''lcp_conf'' LCPPolicy_default;
     gr \<leftarrow> required Y (decode_StaticRIB Y) node ''global_rib'';
     vs \<leftarrow> required Y (as_vector Y (decode_VRFConf Y)) node ''vrfs'';
     Some \<lparr>tap_name = tn, log_level = ll, log_file = lf, interfaces = ifs, default_pppoe_conf = dp,
       pppoe_confs = pc, pppoe_templates = pt, aaa_conf = ac, conf_lcp = lc, global_rib = gr, conf_vrfs = vs\<rparr>
   }"

text \<open>
  \<open>conf_init\<close> prints the node to \<^verbatim>\<open>config.yaml\<close>; \<open>reloadConfig\<close> loads the file and converts it.
\<close>

definition save_config :: "('n, 't) yaml_lib \<Rightarrow> PPPOEGlobalConf \<Rightarrow> 't" where
  "save_config Y c = y_emit Y (encode_PPPOEGlobalConf Y c)"

definition load_config :: "('n, 't) yaml_lib \<Rightarrow> 't \<Rightarrow> PPPOEGlobalConf option" where
  "load_config Y text = do { node \<leftarrow> y_load Y text; decode_PPPOEGlobalConf Y node }"

end
