(* ===== verification/Yaml_Spec.thy ===== *)
theory Yaml_Spec
  imports Yaml
begin

text \<open>
  What is written to the configuration file is read back: the conversions of \<^theory_text>\<open>Yaml\<close>
  composed, on every configuration the daemon can hold, and what they lose.
\<close>

section \<open>Nodes of the library\<close>

definition struct_node :: "('n, 't) yaml_lib \<Rightarrow> 'n \<Rightarrow> bool" where
  "struct_node Y n \<longleftrightarrow> y_seq Y n = None \<and> (\<forall>k. y_get Y n k \<noteq> None)"

lemma yaml_okD:
  assumes "yaml_ok Y"
  shows "y_get Y (y_null Y) k = Some None"
    "y_string Y (y_of_string Y s) = Some s" "y_bool Y (y_of_bool Y b) = Some b"
    "y_u16 Y (y_of_u16 Y w) = Some w" "y_u32 Y (y_of_u32 Y w') = Some w'"
    "y_seq Y (y_of_seq Y ns) = Some ns" "y_map Y (y_of_map Y kvs) = Some kvs" "y_load Y (y_emit Y n) = Some n"
    "addr_from_string Y (addr_to_string Y a) = Some a" "net_to_string Y i = dotted_net i"
    "prefix_length i \<le> 32 \<Longrightarrow> make_network_v4 Y (dotted_net i) = Some i"
    "addr_from_string Y (dotted a) = Some a" "y_seq Y (y_null Y) = None"
  using assms unfolding yaml_ok_def by (blast | simp)+

lemma yaml_ok_put:
  assumes "yaml_ok Y" "y_seq Y n = None" "y_get Y n k \<noteq> None"
  shows "y_seq Y (y_put Y n k v) = None"
    "y_get Y (y_put Y n k v) k' = (if k' = k then Some (Some v) else y_get Y n k')"
proof -
  from assms(1) have "\<forall>n k v k'. y_seq Y n = None \<and> y_get Y n k \<noteq> None \<longrightarrow> y_seq Y (y_put Y n k v) = None \<and>
      y_get Y (y_put Y n k v) k' = (if k' = k then Some (Some v) else y_get Y n k')"
    unfolding yaml_ok_def by (elim conjE)
  note put = this [rule_format, OF conjI [OF assms(2,3)], of v k']
  show "y_seq Y (y_put Y n k v) = None" by (rule put [THEN conjunct1])
  show "y_get Y (y_put Y n k v) k' = (if k' = k then Some (Some v) else y_get Y n k')"
    by (rule put [THEN conjunct2])
qed

lemma struct_null [simp]: "yaml_ok Y \<Longrightarrow> struct_node Y (y_null Y)"
  by (simp add: struct_node_def yaml_okD(1,13))

lemma get_null [simp]: "yaml_ok Y \<Longrightarrow> y_get Y (y_null Y) k = Some None"
  by (rule yaml_okD)

lemma get_put [simp]:
  assumes "yaml_ok Y" "struct_node Y n"
  shows "y_get Y (y_put Y n k v) k' = (if k' = k then Some (Some v) else y_get Y n k')"
  using yaml_ok_put(2) [OF assms(1)] assms(2) by (simp add: struct_node_def)

lemma struct_put [simp]: "yaml_ok Y \<Longrightarrow> struct_node Y n \<Longrightarrow> struct_node Y (y_put Y n k v)"
  unfolding struct_node_def [of Y "y_put Y n k v"] by (simp add: struct_node_def yaml_ok_put(1))

lemma get_if: "y_get Y (if c then a else b) k = (if c then y_get Y a k else y_get Y b k)"
  by (cases c) simp_all

lemma struct_if [simp]: "struct_node Y a \<Longrightarrow> struct_node Y b \<Longrightarrow> struct_node Y (if c then a else b)"
  by (cases c) simp_all

lemma scalars_read [simp]:
  assumes "yaml_ok Y"
  shows "y_string Y (y_of_string Y s) = Some s" "y_bool Y (y_of_bool Y b) = Some b"
    "y_u16 Y (y_of_u16 Y w) = Some w" "y_u32 Y (y_of_u32 Y v) = Some v"
    "as_address Y (y_of_string Y (addr_to_string Y a)) = Some a"
    "prefix_length n \<le> 32 \<Longrightarrow> as_network Y (y_of_string Y (net_to_string Y n)) = Some n"
    "y_load Y (y_emit Y d) = Some d"
  by (simp_all add: yaml_okD [OF assms] as_address_def as_network_def)

lemma vector_read:
  assumes "yaml_ok Y" "\<And>x. x \<in> set xs \<Longrightarrow> dec (enc x) = Some (f x)"
  shows "as_vector Y dec (of_vector Y enc xs) = Some (map f xs)"
proof -
  have "those (map dec (map enc xs)) = Some (map f xs)"
    using assms(2) by (induction xs) auto
  then show ?thesis by (simp add: as_vector_def of_vector_def yaml_okD [OF assms(1)])
qed

lemma om_set_append: "om_ok (m @ (k, v) # r) \<Longrightarrow> om_set k w m = m @ [(k, w)]"
proof -
  assume ok: "om_ok (m @ (k, v) # r)"
  then have "map_of m k = None" and lt: "\<forall>x \<in> set m. fst x < k"
    by (auto simp: om_ok_def sorted_append map_of_eq_None_iff less_le image_iff)
  moreover have "insort_key fst (k, w) m = m @ [(k, w)]" using lt by (induction m) auto
  moreover have "om_erase k m = m" unfolding om_erase_def using lt by (intro filter_True) fastforce
  ultimately show ?thesis by (simp add: om_set_def om_emplace_def)
qed

lemma entries_read:
  "(\<And>k v. (k, v) \<in> set xs \<Longrightarrow> dk (ek k) = Some k \<and> dv (ev v) = Some (f v)) \<Longrightarrow>
   om_ok (m @ map (apsnd f) xs) \<Longrightarrow>
   map_entries dk dv (map (\<lambda>(k, v). (ek k, ev v)) xs) m = Some (m @ map (apsnd f) xs)"
proof (induction xs arbitrary: m)
  case (Cons x xs)
  obtain k v where x: "x = (k, v)" by (cases x)
  from Cons.prems have set: "om_set k (f v) m = m @ [(k, f v)]" by (simp add: x om_set_append)
  from Cons.prems have "dk (ek k) = Some k" "dv (ev v) = Some (f v)" by (auto simp: x)
  with Cons.IH [of "m @ [(k, f v)]"] Cons.prems show ?case by (auto simp: x set)
qed simp

lemma map_read:
  assumes "yaml_ok Y" "om_ok m"
    and "\<And>k. dk (ek k) = Some k" "\<And>k v. (k, v) \<in> set m \<Longrightarrow> dv (ev v) = Some (f v)"
  shows "as_map Y dk dv (of_map Y ek ev m) = Some (map (apsnd f) m)"
proof -
  have "om_ok (map (apsnd f) m)"
    using assms(2) by (simp add: om_ok_def comp_def)
  then have "map_entries dk dv (map (\<lambda>(k, v). (ek k, ev v)) m) [] = Some (map (apsnd f) m)"
    using entries_read [of m dk ek dv ev f "[]"] assms(3,4) by simp
  then show ?thesis by (simp add: as_map_def of_map_def yaml_okD [OF assms(1)])
qed

section \<open>What a configuration keeps\<close>

text \<open>Addresses in use, interface indices, route indices and unnumbered interfaces are not written.\<close>

definition kept_pool :: "FRAMED_POOL \<Rightarrow> FRAMED_POOL" where
  "kept_pool p = p\<lparr>ips := {}\<rparr>"

definition kept_unit :: "InterfaceUnit \<Rightarrow> InterfaceUnit" where
  "kept_unit u = u\<lparr>u_unnumbered := [], u_sw_if_index := - 1\<rparr>"

definition kept_route :: "StaticRIBEntry \<Rightarrow> StaticRIBEntry" where
  "kept_route e = e\<lparr>rid_in_vpp := 0\<rparr>"

definition kept_iface :: "InterfaceConf \<Rightarrow> InterfaceConf" where
  "kept_iface i = i\<lparr>i_units := map (apsnd kept_unit) (i_units i)\<rparr>"

definition kept_vrf :: "VRFConf \<Rightarrow> VRFConf" where
  "kept_vrf v = v\<lparr>vrf_rib := map kept_route (vrf_rib v)\<rparr>"

definition kept_aaa :: "AAAConf \<Rightarrow> AAAConf" where
  "kept_aaa a = a\<lparr>aaa_pools := map (apsnd kept_pool) (aaa_pools a)\<rparr>"

definition kept_conf :: "PPPOEGlobalConf \<Rightarrow> PPPOEGlobalConf" where
  "kept_conf c = c\<lparr>interfaces := map kept_iface (interfaces c), aaa_conf := kept_aaa (aaa_conf c),
     global_rib := map kept_route (global_rib c), conf_vrfs := map kept_vrf (conf_vrfs c)\<rparr>"

text \<open>The maps are maps, and a prefix is no longer than an address.\<close>

definition unit_ok :: "InterfaceUnit \<Rightarrow> bool" where
  "unit_ok u \<longleftrightarrow> (case u_address u of Some a \<Rightarrow> prefix_length a \<le> 32 | None \<Rightarrow> True)"

definition route_ok :: "StaticRIBEntry \<Rightarrow> bool" where
  "route_ok e \<longleftrightarrow> prefix_length (destination e) \<le> 32"

definition conf_ok :: "PPPOEGlobalConf \<Rightarrow> bool" where
  "conf_ok c \<longleftrightarrow>
     list_all (\<lambda>i. om_ok (i_units i) \<and> list_all (unit_ok \<circ> snd) (i_units i)) (interfaces c) \<and>
     om_ok (pppoe_confs c) \<and> om_ok (pppoe_templates c) \<and>
     om_ok (aaa_pools (aaa_conf c)) \<and> om_ok (auth_servers (aaa_conf c)) \<and> om_ok (acct_servers (aaa_conf c)) \<and>
     list_all route_ok (global_rib c) \<and> list_all (list_all route_ok \<circ> vrf_rib) (conf_vrfs c)"

section \<open>Each conversion\<close>

lemmas member_simps = required_def if_defined_def get_if

lemma LOGL_read [simp]: "yaml_ok Y \<Longrightarrow> decode_LOGL Y (encode_LOGL Y l) = Some l"
  by (cases l) (simp_all add: decode_LOGL_def encode_LOGL_def)

lemma method_read [simp]: "yaml_ok Y \<Longrightarrow> decode_AAA_METHODS Y (encode_AAA_METHODS Y m) = Some m"
  by (cases m) (simp_all add: decode_AAA_METHODS_def encode_AAA_METHODS_def)

lemma strings_read [simp]:
  "yaml_ok Y \<Longrightarrow> as_vector Y (y_string Y) (of_vector Y (y_of_string Y) ss) = Some ss"
  using vector_read [of Y ss "y_string Y" "y_of_string Y" "\<lambda>x. x"] by simp

lemma policy_read [simp]: "yaml_ok Y \<Longrightarrow> decode_PPPOEPolicy Y (encode_PPPOEPolicy Y p) = Some p"
  by (simp add: decode_PPPOEPolicy_def encode_PPPOEPolicy_def member_simps)

lemma lcp_policy_read [simp]: "yaml_ok Y \<Longrightarrow> decode_LCPPolicy Y (encode_LCPPolicy Y p) = Some p"
  by (simp add: decode_LCPPolicy_def encode_LCPPolicy_def member_simps)

lemma pool_read [simp]: "yaml_ok Y \<Longrightarrow> decode_FRAMED_POOL Y (encode_FRAMED_POOL Y p) = Some (kept_pool p)"
  by (simp add: decode_FRAMED_POOL_def encode_FRAMED_POOL_def member_simps kept_pool_def)

lemma server_read [simp]: "yaml_ok Y \<Longrightarrow> decode_AAARadConf Y (encode_AAARadConf Y p) = Some p"
  by (simp add: decode_AAARadConf_def encode_AAARadConf_def member_simps)

lemma template_read [simp]:
  "yaml_ok Y \<Longrightarrow> decode_PPPOELocalTemplate Y (encode_PPPOELocalTemplate Y t) = Some t"
  by (simp add: decode_PPPOELocalTemplate_def encode_PPPOELocalTemplate_def member_simps Let_def)

lemma unit_read [simp]:
  "yaml_ok Y \<Longrightarrow> unit_ok u \<Longrightarrow> decode_InterfaceUnit Y (encode_InterfaceUnit Y u) = Some (kept_unit u)"
  by (cases "u_address u")
    (simp_all add: decode_InterfaceUnit_def encode_InterfaceUnit_def member_simps kept_unit_def unit_ok_def Let_def)

lemma route_read [simp]:
  "yaml_ok Y \<Longrightarrow> route_ok e \<Longrightarrow> decode_StaticRIBEntry Y (encode_StaticRIBEntry Y e) = Some (kept_route e)"
  by (cases "rib_description e")
    (simp_all add: decode_StaticRIBEntry_def encode_StaticRIBEntry_def member_simps kept_route_def route_ok_def)

lemma rib_read [simp]:
  "yaml_ok Y \<Longrightarrow> list_all route_ok es \<Longrightarrow> decode_StaticRIB Y (encode_StaticRIB Y es) = Some (map kept_route es)"
  by (simp add: decode_StaticRIB_def encode_StaticRIB_def member_simps vector_read list_all_iff)

lemma vrf_read [simp]:
  "yaml_ok Y \<Longrightarrow> list_all route_ok (vrf_rib v) \<Longrightarrow> decode_VRFConf Y (encode_VRFConf Y v) = Some (kept_vrf v)"
  by (simp add: decode_VRFConf_def encode_VRFConf_def member_simps kept_vrf_def)

lemma map_id_read [simp]:
  assumes "yaml_ok Y" "om_ok m" "\<And>k. dk (ek k) = Some k" "\<And>v. dv (ev v) = Some v"
  shows "as_map Y dk dv (of_map Y ek ev m) = Some m"
  using map_read [of Y m dk ek dv ev "\<lambda>v. v"] assms by (simp add: apsnd_def map_prod_def)

lemma iface_read [simp]:
  assumes "yaml_ok Y" "om_ok (i_units i)" "list_all (unit_ok \<circ> snd) (i_units i)"
  shows "decode_InterfaceConf Y (encode_InterfaceConf Y i) = Some (kept_iface i)"
proof -
  have "as_map Y (y_u16 Y) (decode_InterfaceUnit Y) (of_map Y (y_of_u16 Y) (encode_InterfaceUnit Y) (i_units i)) =
      Some (map (apsnd kept_unit) (i_units i))"
    using assms by (intro map_read) (auto simp: list_all_iff)
  with assms(1) show ?thesis
    by (cases "i_mtu i") (simp_all add: decode_InterfaceConf_def encode_InterfaceConf_def member_simps kept_iface_def)
qed

lemma aaa_read [simp]:
  assumes "yaml_ok Y" "om_ok (aaa_pools a)" "om_ok (auth_servers a)" "om_ok (acct_servers a)"
  shows "decode_AAAConf Y (encode_AAAConf Y a) = Some (kept_aaa a)"
proof -
  have "as_map Y (y_string Y) (decode_FRAMED_POOL Y) (of_map Y (y_of_string Y) (encode_FRAMED_POOL Y) (aaa_pools a)) =
      Some (map (apsnd kept_pool) (aaa_pools a))"
    using assms by (intro map_read) auto
  moreover have "as_vector Y (decode_AAA_METHODS Y) (of_vector Y (encode_AAA_METHODS Y) (aaa_method a)) =
      Some (aaa_method a)"
    using vector_read [OF assms(1), of "aaa_method a" "decode_AAA_METHODS Y" "encode_AAA_METHODS Y" "\<lambda>x. x"]
      assms(1) by simp
  ultimately show ?thesis
    using assms by (simp add: decode_AAAConf_def encode_AAAConf_def member_simps kept_aaa_def Let_def)
qed

section \<open>The whole configuration\<close>

lemma conf_read:
  assumes "yaml_ok Y" "conf_ok c"
  shows "load_config Y (save_config Y c) = Some (kept_conf c)"
proof -
  have "as_vector Y (decode_InterfaceConf Y) (of_vector Y (encode_InterfaceConf Y) (interfaces c)) =
      Some (map kept_iface (interfaces c))"
    using assms by (intro vector_read) (auto simp: conf_ok_def list_all_iff)
  moreover have "as_vector Y (decode_VRFConf Y) (of_vector Y (encode_VRFConf Y) (conf_vrfs c)) =
      Some (map kept_vrf (conf_vrfs c))"
    using assms by (intro vector_read) (auto simp: conf_ok_def list_all_iff)
  ultimately have "decode_PPPOEGlobalConf Y (encode_PPPOEGlobalConf Y c) = Some (kept_conf c)"
    using assms
    by (simp add: decode_PPPOEGlobalConf_def encode_PPPOEGlobalConf_def member_simps kept_conf_def conf_ok_def Let_def)
  with assms(1) show ?thesis by (simp add: load_config_def save_config_def)
qed

text \<open>
  C34. A configuration that is saved and loaded again comes back as it was, but for what a
  configuration only holds while the daemon runs (the addresses handed out, the indices VPP gave)
  and for the unnumbered interface of a subinterface, which the conversions leave out.
\<close>

theorem config_roundtrip:
  assumes "yaml_ok Y" "conf_ok c"
  shows "load_config Y (save_config Y c) = Some (kept_conf c)"
  using assms by (rule conf_read)

end
