(* ===== verification/Text_Numbers.thy ===== *)
theory Text_Numbers
  imports Radius_Dict
begin

text \<open>
  Reading a decimal number back from a text, for the libraries the examples run on.
\<close>

fun read_nat :: "nat \<Rightarrow> string \<Rightarrow> nat \<times> string" where
  "read_nat n [] = (n, [])"
| "read_nat n (c # s) = (case digit_of c of Some d \<Rightarrow> read_nat (10 * n + d) s | None \<Rightarrow> (n, c # s))"

definition stops :: "string \<Rightarrow> bool" where
  "stops s \<longleftrightarrow> (s = [] \<or> digit_of (hd s) = None)"

lemma digit_of_char [simp]: "d < 10 \<Longrightarrow> digit_of (char_of (48 + d)) = Some d"
  by (simp add: digit_of_def)

lemma read_nat_stops: "stops s \<Longrightarrow> read_nat n s = (n, s)"
  by (cases s) (auto simp: stops_def)

lemma read_nat_digits: "stops s \<Longrightarrow> read_nat 0 (to_string_digits n @ s) = (n, s)"
proof -
  have "read_nat 0 (to_string_digits n @ r) = read_nat n r" for r
  proof (induction n arbitrary: r rule: to_string_digits.induct)
    case (1 n)
    show ?case
    proof (cases "n < 10")
      case True
      then show ?thesis by (subst to_string_digits.simps) simp
    next
      case False
      have "digit_of (char_of (48 + n mod 10)) = Some (n mod 10)" by simp
      moreover have "10 * (n div 10) + n mod 10 = n" by simp
      ultimately show ?thesis
        using False 1 [OF False, of "char_of (48 + n mod 10) # r"] by (subst to_string_digits.simps) simp
    qed
  qed
  then show "stops s \<Longrightarrow> read_nat 0 (to_string_digits n @ s) = (n, s)" by (simp add: read_nat_stops)
qed

end
