(* ===== verification/Yaml_Doc.thy ===== *)
theory Yaml_Doc
  imports Yaml_Spec Startup Text_Numbers "HOL-Library.AList"
begin

text \<open>
  Documents as a library for \<^theory_text>\<open>Yaml\<close>: a tree of scalars, sequences and maps that meets
  \<^const>\<open>yaml_ok\<close>, with numbers and addresses as the text they print to. The examples run on it.
\<close>

datatype doc = DNull | DScalar string | DSeq "doc list" | DMap "(doc \<times> doc) list"

section \<open>Addresses as text\<close>

definition read_dotted :: "string \<Rightarrow> address_v4_t \<times> string" where
  "read_dotted s =
     (let (a, s) = read_nat 0 s; (b, s) = read_nat 0 (tl s); (c, s) = read_nat 0 (tl s); (d, s) = read_nat 0 (tl s)
      in (of_nat (16777216 * a + 65536 * b + 256 * c + d), s))"

lemma read_dotted_dotted: "stops s \<Longrightarrow> read_dotted (dotted a @ s) = (a, s)"
proof -
  have sep: "stops (CHR ''.'' # r)" for r by (simp add: stops_def digit_of_def)
  have split: "n = 16777216 * (n div 16777216) + 65536 * (n div 65536 mod 256) + 256 * (n div 256 mod 256) + n mod 256"
    for n :: nat
  proof -
    have sum: "x = 16777216 * q3 + 65536 * r2 + 256 * r1 + r0"
      if "256 * q1 + r0 = x" "256 * q2 + r1 = q1" "256 * q3 + r2 = q2" for x q1 q2 q3 r0 r1 r2 :: nat
      using that by simp
    have "n div 65536 = n div 256 div 256" "n div 16777216 = n div 256 div 256 div 256"
      using div_mult2_eq [of n 256 256] div_mult2_eq [of n 65536 256] by simp_all
    then show ?thesis by (simp only:) (rule sum [OF mult_div_mod_eq mult_div_mod_eq mult_div_mod_eq])
  qed
  have "of_nat (16777216 * (unat a div 16777216) + 65536 * (unat a div 65536 mod 256) +
      256 * (unat a div 256 mod 256) + unat a mod 256) = a"
    by (simp only: split [symmetric] of_nat_unat ucast_id)
  then show "stops s \<Longrightarrow> read_dotted (dotted a @ s) = (a, s)"
    by (simp add: read_dotted_def dotted_def read_nat_digits sep)
qed

section \<open>The library\<close>

fun doc_get :: "doc \<Rightarrow> string \<Rightarrow> doc option option" where
  "doc_get (DScalar s) k = None"
| "doc_get (DMap kvs) k = Some (map_of kvs (DScalar k))"
| "doc_get n k = Some None"

fun doc_put :: "doc \<Rightarrow> string \<Rightarrow> doc \<Rightarrow> doc" where
  "doc_put (DMap kvs) k v = DMap (AList.update (DScalar k) v kvs)"
| "doc_put DNull k v = DMap [(DScalar k, v)]"
| "doc_put n k v = n"

fun doc_string :: "doc \<Rightarrow> string option" where
  "doc_string (DScalar s) = Some s"
| "doc_string n = None"

definition doc_nat :: "nat \<Rightarrow> doc \<Rightarrow> nat option" where
  "doc_nat bound n = (case doc_string n of
       Some s \<Rightarrow> (case read_nat 0 s of (v, r) \<Rightarrow> if s \<noteq> [] \<and> r = [] \<and> v < bound then Some v else None)
     | None \<Rightarrow> None)"

definition doc_lib :: "(doc, doc) yaml_lib" where
  "doc_lib =
     \<lparr>y_null = DNull, y_get = doc_get, y_put = doc_put, y_of_string = DScalar, y_string = doc_string,
      y_of_bool = (\<lambda>b. DScalar (if b then ''true'' else ''false'')),
      y_bool = (\<lambda>n. if n = DScalar ''true'' then Some True else if n = DScalar ''false'' then Some False else None),
      y_of_u16 = (\<lambda>w. DScalar (to_string_digits (unat w))), y_u16 = (\<lambda>n. map_option of_nat (doc_nat 65536 n)),
      y_of_u32 = (\<lambda>w. DScalar (to_string_digits (unat w))),
      y_u32 = (\<lambda>n. map_option of_nat (doc_nat 4294967296 n)),
      y_of_seq = DSeq, y_seq = (\<lambda>n. case n of DSeq ns \<Rightarrow> Some ns | _ \<Rightarrow> None),
      y_of_map = DMap, y_map = (\<lambda>n. case n of DMap kvs \<Rightarrow> Some kvs | _ \<Rightarrow> None),
      y_emit = (\<lambda>n. n), y_load = Some,
      addr_to_string = dotted,
      addr_from_string = (\<lambda>s. case read_dotted s of (a, r) \<Rightarrow> if r = [] then Some a else None),
      net_to_string = dotted_net,
      make_network_v4 = (\<lambda>s. case read_dotted s of (a, r) \<Rightarrow>
        (case read_nat 0 (tl r) of (p, r) \<Rightarrow>
          if r = [] \<and> p \<le> 32 then Some \<lparr>net_address = a, prefix_length = p\<rparr> else None))\<rparr>"

lemma doc_nat_digits: "n < bound \<Longrightarrow> doc_nat bound (DScalar (to_string_digits n)) = Some n"
  using read_nat_digits [of "[]" n] by (simp add: doc_nat_def stops_def)

lemma doc_lib_ok: "yaml_ok doc_lib"
proof -
  have put: "doc_get (doc_put n k v) k' = (if k' = k then Some (Some v) else doc_get n k') \<and>
      (case doc_put n k v of DSeq ns \<Rightarrow> Some ns | _ \<Rightarrow> None) = None"
    if "(case n of DSeq ns \<Rightarrow> Some ns | _ \<Rightarrow> None) = None" "doc_get n k \<noteq> None" for n k v k'
    using that by (cases n) (simp_all add: update_conv')
  have u16: "unat (w :: u16) < 65536" for w using unsigned_less [of w] by simp
  have u32: "unat (w :: u32) < 4294967296" for w using unsigned_less [of w] by simp
  have slash: "stops (CHR ''/'' # r)" for r by (simp add: stops_def digit_of_def)
  have addr: "read_dotted (dotted a) = (a, [])" for a
    using read_dotted_dotted [of "[]" a] by (simp add: stops_def)
  have num: "read_nat 0 (to_string_digits n) = (n, [])" for n
    using read_nat_digits [of "[]" n] by (simp add: stops_def)
  have net: "read_dotted (dotted_net n) = (net_address n, ''/'' @ to_string_digits (prefix_length n))" for n
    using read_dotted_dotted [OF slash] by (simp add: dotted_net_def)
  show ?thesis
    unfolding yaml_ok_def doc_lib_def yaml_lib.simps
    by (intro conjI allI impI) (simp_all add: put doc_nat_digits u16 u32 addr net num)
qed

section \<open>An example\<close>

definition sample_iface :: InterfaceConf where
  "sample_iface = \<lparr>i_device = ''G0'', i_admin_state = True, i_mtu = Some 1500,
     i_units = [(200, \<lparr>u_address = None, u_vlan = 200, u_admin_state = True, u_vrf = [],
                      u_unnumbered = ''loop0'', u_sw_if_index = 3\<rparr>)]\<rparr>"

theorem config_roundtrip_witness:
  "map_option (\<lambda>c. (map (map (u_unnumbered \<circ> snd) \<circ> i_units) (interfaces c), map (ips \<circ> snd) (aaa_pools (aaa_conf c)),
       pppoe_templates c))
     (load_config doc_lib (save_config doc_lib
       (PPPOEGlobalConf_default\<lparr>interfaces := [sample_iface],
         aaa_conf := \<lparr>aaa_method = [NONE, RADIUS], aaa_pools = [(''p'', \<lparr>start_ip = 1, stop_ip = 9, ips = {1, 2}\<rparr>)],
           local_template = [], dictionaries = [], auth_servers = [], acct_servers = []\<rparr>\<rparr>))) =
   Some ([[[]]], [{}], [])"
  by (subst config_roundtrip [OF doc_lib_ok])
    (simp_all add: conf_ok_def om_ok_def kept_conf_def kept_aaa_def kept_pool_def kept_iface_def kept_unit_def
      sample_iface_def PPPOEGlobalConf_default_def unit_ok_def)

end
