(* ===== verification/Main_Program.thy ===== *)
theory Main_Program
  imports Yaml_Doc
begin

text \<open>
  \<^verbatim>\<open>src/main.cpp\<close>: the sample configuration \<open>conf_init\<close> writes, and what \<open>main\<close> does with its
  arguments. A text that is no address throws; here that is \<^const>\<open>None\<close>.
\<close>

section \<open>Constructors from text\<close>

definition FRAMED_POOL_ctor :: "('n, 't) yaml_lib \<Rightarrow> string \<Rightarrow> string \<Rightarrow> FRAMED_POOL option" where
  "FRAMED_POOL_ctor Y sta sto = do {
     a \<leftarrow> addr_from_string Y sta;
     b \<leftarrow> addr_from_string Y sto;
     Some \<lparr>start_ip = a, stop_ip = b, ips = {}\<rparr>
   }"

definition AAARadConf_ctor :: "('n, 't) yaml_lib \<Rightarrow> string \<Rightarrow> u16 \<Rightarrow> string \<Rightarrow> AAARadConf option" where
  "AAARadConf_ctor Y a p s = do {
     addr \<leftarrow> addr_from_string Y a;
     Some \<lparr>rad_address = addr, rad_port = p, rad_secret = s\<rparr>
   }"

section \<open>The sample configuration\<close>

definition init_templates :: "('n, 't) yaml_lib \<Rightarrow> (string, PPPOELocalTemplate) omap option" where
  "init_templates Y = do {
     d1 \<leftarrow> addr_from_string Y ''8.8.8.8'';
     d2 \<leftarrow> addr_from_string Y ''1.1.1.1'';
     let pppoe_template = \<lparr>t_framed_pool = ''pppoe_pool1'', t_dns1 = d1, t_dns2 = d2, t_vrf = [],
       t_unnumbered = ''G1.150''\<rparr>;
     let templates = om_emplace ''template1'' pppoe_template [];
     let pppoe_template = pppoe_template\<lparr>t_framed_pool := ''vrf_pool1'', t_vrf := ''RED'',
       t_unnumbered := ''G1.250''\<rparr>;
     Some (om_emplace ''template2'' pppoe_template templates)
   }"

definition init_aaa :: "('n, 't) yaml_lib \<Rightarrow> AAAConf option" where
  "init_aaa Y = do {
     p1 \<leftarrow> FRAMED_POOL_ctor Y ''100.64.0.10'' ''100.64.255.255'';
     p2 \<leftarrow> FRAMED_POOL_ctor Y ''100.66.0.10'' ''100.66.0.255'';
     au \<leftarrow> AAARadConf_ctor Y ''127.0.0.1'' 1812 ''testing123'';
     ac \<leftarrow> AAARadConf_ctor Y ''127.0.0.1'' 1813 ''testing123'';
     Some \<lparr>aaa_method = [NONE, RADIUS],
       aaa_pools = om_emplace ''vrf_pool1'' p2 (om_emplace ''pppoe_pool1'' p1 []),
       local_template = ''template1'',
       dictionaries = [''/usr/share/freeradius/dictionary.rfc2865'', ''/usr/share/freeradius/dictionary.rfc2866'',
         ''/usr/share/freeradius/dictionary.rfc2869'', ''/usr/share/freeradius/dictionary.ericsson.ab''],
       auth_servers = om_emplace ''main_auth_1'' au [], acct_servers = om_emplace ''main_acct_1'' ac []\<rparr>
   }"

text \<open>The two interfaces; a unit is changed and stored again for the next VLAN.\<close>

definition InterfaceUnit_default :: "u16 \<Rightarrow> InterfaceUnit" where
  "InterfaceUnit_default vlan =
     \<lparr>u_address = None, u_vlan = vlan, u_admin_state = True, u_vrf = [], u_unnumbered = [], u_sw_if_index = - 1\<rparr>"

definition init_G0 :: InterfaceConf where
  "init_G0 =
     (let unit = InterfaceUnit_default 200;
          units = om_emplace 200 unit [];
          unit = unit\<lparr>u_vlan := 201\<rparr>;
          units = om_emplace 201 unit units;
          unit = unit\<lparr>u_vlan := 202\<rparr>;
          units = om_emplace 202 unit units
      in \<lparr>i_device = ''G0'', i_admin_state = True, i_mtu = Some 1500, i_units = units\<rparr>)"

definition init_G1 :: "('n, 't) yaml_lib \<Rightarrow> InterfaceConf option" where
  "init_G1 Y = do {
     n \<leftarrow> make_network_v4 Y ''10.0.0.2/24'';
     let unit = (InterfaceUnit_default 150)\<lparr>u_address := Some n\<rparr>;
     let units = om_emplace 150 unit [];
     n \<leftarrow> make_network_v4 Y ''10.10.0.2/24'';
     let unit = unit\<lparr>u_address := Some n, u_vlan := 250, u_vrf := ''RED''\<rparr>;
     let units = om_emplace 250 unit units;
     Some \<lparr>i_device = ''G1'', i_admin_state = True, i_mtu = Some 1500, i_units = units\<rparr>
   }"

definition init_route :: "('n, 't) yaml_lib \<Rightarrow> string \<Rightarrow> StaticRIBEntry option" where
  "init_route Y gateway = do {
     d \<leftarrow> make_network_v4 Y ''0.0.0.0/0'';
     h \<leftarrow> addr_from_string Y gateway;
     Some \<lparr>destination = d, nexthop = h, rib_description = Some ''default gateway'', rid_in_vpp = 0\<rparr>
   }"

definition init_conf :: "('n, 't) yaml_lib \<Rightarrow> PPPOEGlobalConf option" where
  "init_conf Y = do {
     let global_conf = PPPOEGlobalConf_default\<lparr>tap_name := ''tap0'', log_level := INFO,
       default_pppoe_conf := \<lparr>ac_name = ''vBNG AC PPPoE'', service_name = [''inet'', ''pppoe''],
         insert_cookie = True, ignore_service_name = True\<rparr>\<rparr>;
     templates \<leftarrow> init_templates Y;
     aaa \<leftarrow> init_aaa Y;
     g1 \<leftarrow> init_G1 Y;
     route \<leftarrow> init_route Y ''10.0.0.1'';
     red \<leftarrow> init_route Y ''10.10.0.1'';
     Some (global_conf\<lparr>pppoe_templates := templates, aaa_conf := aaa,
       conf_lcp := \<lparr>insertMagicNumber = True, lcp_MRU = 1492, authCHAP = True, authPAP = False\<rparr>,
       interfaces := [init_G0, g1], global_rib := [route],
       conf_vrfs := [\<lparr>vrf_name = ''RED'', vrf_table_id = 10, vrf_rib = [red]\<rparr>]\<rparr>)
   }"

text \<open>What \<open>conf_init\<close> writes to \<^verbatim>\<open>config.yaml\<close>.\<close>

definition conf_init :: "('n, 't) yaml_lib \<Rightarrow> 't option" where
  "conf_init Y = map_option (save_config Y) (init_conf Y)"

section \<open>The program\<close>

text \<open>
  The arguments as Boost.Program_options reads them: \<^const>\<open>None\<close> for an error, otherwise
  whether help and a sample configuration are asked for, and the path of the configuration. The
  program exits with a status, having written a file or not, or it runs the daemon on the runtime
  it built. An exception out of \<open>conf_init\<close> is caught, one out of the constructor is not.
\<close>

datatype 't main_result = Exit int "(string \<times> 't) option" | Run PPPOERuntime | Crash

definition main_start ::
  "('n, 't) yaml_lib \<Rightarrow> env \<Rightarrow> (string \<Rightarrow> string list) \<Rightarrow> (string \<Rightarrow> 't option) \<Rightarrow>
     (bool \<times> bool \<times> string) option \<Rightarrow> 't main_result" where
  "main_start Y env files disk args =
     (case args of
        None \<Rightarrow> Exit (- 1) None
      | Some (help, genconf, path_config) \<Rightarrow>
          if help then Exit 0 None
          else if genconf then
            (case conf_init Y of Some text \<Rightarrow> Exit 0 (Some (''config.yaml'', text)) | None \<Rightarrow> Exit (- 1) None)
          else
            (case main_init env files (do { text \<leftarrow> disk path_config; load_config Y text }) of
               Some rt \<Rightarrow> Run rt | None \<Rightarrow> Crash))"

section \<open>The sample configuration starts the daemon\<close>

lemma digit_chars:
  "char_of (48::nat) = CHR ''0''" "char_of (49::nat) = CHR ''1''" "char_of (50::nat) = CHR ''2''"
  "char_of (51::nat) = CHR ''3''" "char_of (52::nat) = CHR ''4''" "char_of (53::nat) = CHR ''5''"
  "char_of (54::nat) = CHR ''6''" "char_of (55::nat) = CHR ''7''" "char_of (56::nat) = CHR ''8''"
  "char_of (57::nat) = CHR ''9''"
  by code_simp+

lemma dotted_texts:
  "dotted 0x08080808 = ''8.8.8.8''" "dotted 0x01010101 = ''1.1.1.1''" "dotted 0x6440000A = ''100.64.0.10''"
  "dotted 0x6440FFFF = ''100.64.255.255''" "dotted 0x6442000A = ''100.66.0.10''"
  "dotted 0x644200FF = ''100.66.0.255''" "dotted 0x7F000001 = ''127.0.0.1''"
  "dotted 0x0A000001 = ''10.0.0.1''" "dotted 0x0A0A0001 = ''10.10.0.1''"
  "dotted_net \<lparr>net_address = 0x0A000002, prefix_length = 24\<rparr> = ''10.0.0.2/24''"
  "dotted_net \<lparr>net_address = 0x0A0A0002, prefix_length = 24\<rparr> = ''10.10.0.2/24''"
  "dotted_net \<lparr>net_address = 0, prefix_length = 0\<rparr> = ''0.0.0.0/0''"
  by (simp_all add: dotted_net_def dotted_def to_string_digits.simps digit_chars)

lemma texts_read:
  assumes "yaml_ok Y"
  shows "addr_from_string Y ''8.8.8.8'' = Some 0x08080808" "addr_from_string Y ''1.1.1.1'' = Some 0x01010101"
    "addr_from_string Y ''100.64.0.10'' = Some 0x6440000A" "addr_from_string Y ''100.64.255.255'' = Some 0x6440FFFF"
    "addr_from_string Y ''100.66.0.10'' = Some 0x6442000A" "addr_from_string Y ''100.66.0.255'' = Some 0x644200FF"
    "addr_from_string Y ''127.0.0.1'' = Some 0x7F000001" "addr_from_string Y ''10.0.0.1'' = Some 0x0A000001"
    "addr_from_string Y ''10.10.0.1'' = Some 0x0A0A0001"
    "make_network_v4 Y ''10.0.0.2/24'' = Some \<lparr>net_address = 0x0A000002, prefix_length = 24\<rparr>"
    "make_network_v4 Y ''10.10.0.2/24'' = Some \<lparr>net_address = 0x0A0A0002, prefix_length = 24\<rparr>"
    "make_network_v4 Y ''0.0.0.0/0'' = Some \<lparr>net_address = 0, prefix_length = 0\<rparr>"
  using yaml_okD(11,12) [OF assms] unfolding dotted_texts [symmetric] by simp_all

lemma init_conf_read:
  assumes "yaml_ok Y"
  obtains c where "init_conf Y = Some c" "conf_ok c" "kept_conf c = c"
    "dictionaries (aaa_conf c) = [''/usr/share/freeradius/dictionary.rfc2865'',
       ''/usr/share/freeradius/dictionary.rfc2866'', ''/usr/share/freeradius/dictionary.rfc2869'',
       ''/usr/share/freeradius/dictionary.ericsson.ab'']"
proof -
  note eval = texts_read [OF assms] init_conf_def init_templates_def init_aaa_def init_G0_def init_G1_def
    init_route_def FRAMED_POOL_ctor_def AAARadConf_ctor_def InterfaceUnit_default_def om_emplace_def
    PPPOEGlobalConf_default_def
  have "\<exists>c. init_conf Y = Some c" by (simp add: eval)
  then obtain c where c: "init_conf Y = Some c" by blast
  have "conf_ok c" using c by (auto simp: eval conf_ok_def om_ok_def unit_ok_def route_ok_def)
  moreover have "kept_conf c = c"
    using c by (auto simp: eval kept_conf_def kept_aaa_def kept_pool_def kept_iface_def kept_unit_def
        kept_vrf_def kept_route_def)
  moreover have "dictionaries (aaa_conf c) = [''/usr/share/freeradius/dictionary.rfc2865'',
       ''/usr/share/freeradius/dictionary.rfc2866'', ''/usr/share/freeradius/dictionary.rfc2869'',
       ''/usr/share/freeradius/dictionary.ericsson.ab'']"
    using c by (auto simp: eval)
  ultimately show ?thesis using that c by blast
qed



end
