(* ===== verification/Cli_Spec.thy ===== *)
theory Cli_Spec
  imports Cli Text_Numbers Yaml Pppoe_Spec
begin

text \<open>
  The control socket as its client sees it: messages survive their serialization, a request is
  answered with what the tables hold, and what a malformed request or a short write does.
\<close>

section \<open>Readers\<close>

text \<open>A reader undoes its writer wherever in the stream it starts.\<close>

locale reader =
  fixes A :: "'i archive"
    and put :: "'a \<Rightarrow> cell list"
    and get :: "'i \<Rightarrow> ('a \<times> 'i) option"
  assumes get_put: "reads A i (put x @ rest) \<Longrightarrow> \<exists>j. get i = Some (x, j) \<and> reads A j rest"
begin

lemma get_n_put: "reads A i (concat (map put xs) @ rest) \<Longrightarrow>
    \<exists>j. get_n get (length xs) i = Some (xs, j) \<and> reads A j rest"
proof (induction xs arbitrary: i)
  case (Cons x xs)
  then obtain j where "get i = Some (x, j)" "reads A j (concat (map put xs) @ rest)"
    using get_put [of i x "concat (map put xs) @ rest"] by auto
  with Cons.IH [of j] show ?case by auto
qed simp

lemma vector_put: "reads A i (put_vector put xs @ rest) \<Longrightarrow>
    \<exists>j. get_vector A get i = Some (xs, j) \<and> reads A j rest"
  by (auto simp: put_vector_def get_vector_def get_count_def dest!: get_n_put)

lemma deserialize_serialize: "archive_ok A \<Longrightarrow> deserialize A get (serialize A put x @ rest) = Some x"
  using get_put [of "ar_open A (ar_text A (put x) @ rest)" x "[]"]
  by (auto simp: archive_ok_def deserialize_def serialize_def)

end

lemmas get_cell_defs = get_u8_def get_u16_def get_u32_def get_string_def get_mac_def

interpretation msg: reader A put_CLI_MSG "get_CLI_MSG A" for A :: "'i archive"
  by unfold_locales (auto simp: put_CLI_MSG_def get_CLI_MSG_def get_cell_defs)

interpretation version: reader A put_GET_VERSION_RESP "get_string A" for A :: "'i archive"
  by unfold_locales (auto simp: put_GET_VERSION_RESP_def get_cell_defs)

interpretation pppoe_row: reader A put_PPPOE_SESSION_DUMP "get_PPPOE_SESSION_DUMP A" for A :: "'i archive"
  by unfold_locales (auto simp: put_PPPOE_SESSION_DUMP_def get_PPPOE_SESSION_DUMP_def get_cell_defs)

interpretation aaa_row: reader A put_AAA_SESSION_DUMP "get_AAA_SESSION_DUMP A" for A :: "'i archive"
  by unfold_locales (auto simp: put_AAA_SESSION_DUMP_def get_AAA_SESSION_DUMP_def get_cell_defs)

interpretation vif_row: reader A put_VPPInterface "get_VPPInterface A" for A :: "'i archive"
  by unfold_locales (auto simp: put_VPPInterface_def get_VPPInterface_def get_cell_defs)

interpretation pppoe_resp: reader A put_GET_PPPOE_SESSION_RESP "get_GET_PPPOE_SESSION_RESP A" for A :: "'i archive"
  by unfold_locales
    (simp add: put_GET_PPPOE_SESSION_RESP_def get_GET_PPPOE_SESSION_RESP_def pppoe_row.vector_put)

interpretation aaa_resp: reader A put_GET_AAA_SESSIONS_RESP "get_GET_AAA_SESSIONS_RESP A" for A :: "'i archive"
  by unfold_locales
    (simp add: put_GET_AAA_SESSIONS_RESP_def get_GET_AAA_SESSIONS_RESP_def aaa_row.vector_put)

interpretation ifaces_resp: reader A put_GET_VPP_IFACES_RESP "get_GET_VPP_IFACES_RESP A" for A :: "'i archive"
  by unfold_locales
    (simp add: put_GET_VPP_IFACES_RESP_def get_GET_VPP_IFACES_RESP_def vif_row.vector_put)

section \<open>An archive\<close>

text \<open>
  A concrete archive, for the examples: values are their bytes, low byte first, and a length is a
  decimal number and a colon.
\<close>

fun cell_text :: "cell \<Rightarrow> string" where
  "cell_text (U8 v) = string_of_bytes [v]"
| "cell_text (U16 v) = string_of_bytes [byte_at 0 v, byte_at 1 v]"
| "cell_text (U32 v) = string_of_bytes [byte_at 0 v, byte_at 1 v, byte_at 2 v, byte_at 3 v]"
| "cell_text (Str s) = to_string_digits (length s) @ '':'' @ s"
| "cell_text (Mac m) = string_of_bytes (mac_bytes m)"
| "cell_text (Count n) = to_string_digits n @ '':''"

fun cell_get :: "cell_type \<Rightarrow> string \<Rightarrow> (cell \<times> string) option" where
  "cell_get T8 s = (case bytes_of_string (take 1 s) of [a] \<Rightarrow> Some (U8 a, drop 1 s) | _ \<Rightarrow> None)"
| "cell_get T16 s = (case bytes_of_string (take 2 s) of [a, b] \<Rightarrow> Some (U16 (mk16 a b), drop 2 s) | _ \<Rightarrow> None)"
| "cell_get T32 s = (case bytes_of_string (take 4 s) of [a, b, c, d] \<Rightarrow> Some (U32 (mk32 a b c d), drop 4 s) | _ \<Rightarrow> None)"
| "cell_get TStr s = (case read_nat 0 s of (n, r) \<Rightarrow>
     if r = [] \<or> length (tl r) < n then None else Some (Str (take n (tl r)), drop n (tl r)))"
| "cell_get TMac s = (case bytes_of_string (take 6 s) of
       [a, b, c, d, e, f] \<Rightarrow> Some (Mac (MAC a b c d e f), drop 6 s) | _ \<Rightarrow> None)"
| "cell_get TCount s = (case read_nat 0 s of (n, r) \<Rightarrow> if r = [] then None else Some (Count n, tl r))"

definition byte_archive :: "string archive" where
  "byte_archive = \<lparr>ar_text = \<lambda>cs. concat (map cell_text cs), ar_open = \<lambda>s. s, ar_get = cell_get\<rparr>"

lemma byte_archive_ok: "archive_ok byte_archive"
proof -
  have colon: "stops (CHR '':'' # r)" for r by (simp add: stops_def digit_of_def)
  have cell: "cell_get (type_of c) (cell_text c @ rest) = Some (c, rest)" for c rest
  proof (cases c)
    case (Mac m)
    then show ?thesis by (cases m) (simp add: string_of_bytes_def bytes_of_string_def)
  qed (simp_all add: read_nat_digits colon string_of_bytes_def bytes_of_string_def mk16_byte_at mk32_byte_at)
  have "reads byte_archive (concat (map cell_text cs) @ rest) cs" for cs rest
    by (induction cs) (simp_all add: byte_archive_def cell)
  then show ?thesis by (simp add: archive_ok_def byte_archive_def)
qed

section \<open>A request and its answer\<close>

lemma run_cmd_answer:
  assumes ok: "archive_ok A" and data: "cmd_data A ats env (msg_cmd m) rt = Some (data, rt')"
  shows "run_cmd A ats env (serialize A put_CLI_MSG m) rt =
    Some (serialize A put_CLI_MSG \<lparr>msg_type = 1, msg_cmd = msg_cmd m,
      msg_data = (case data of Some d \<Rightarrow> d | None \<Rightarrow> []),
      msg_error = (if data = None then ''Can't process this command'' else [])\<rparr> @ end_of_msg, rt')"
proof -
  have "deserialize A (get_CLI_MSG A) (serialize A put_CLI_MSG m) = Some m"
    using msg.deserialize_serialize [OF ok, of m "[]"] by simp
  with data show ?thesis by (simp add: run_cmd_def Let_def split: option.split)
qed

text \<open>A connection that has received a whole message and nothing else.\<close>

lemma on_cli_message:
  assumes "phase c = Reading" "request_buf c = []" "split_msg (bytes @ end_of_msg) = Some (bytes, [])"
    and "run_cmd A ats env bytes rt = Some (out, rt')"
  shows "on_cli A ats env (Received (bytes @ end_of_msg)) c rt = Some (c\<lparr>phase := Writing out\<rparr>, rt')"
  using assms by (cases c) (simp add: do_read_def)

lemma pppoe_dumps_tables:
  assumes "\<And>k r. (k, r) \<in> set m \<Longrightarrow> \<exists>s. heap rt r = Some s \<and> session_id s = key_session_id k"
  shows "\<exists>ds. pppoe_dumps rt m = Some ds \<and> map pd_session_id ds = map (key_session_id \<circ> fst) m \<and>
    list_all2 (\<lambda>(k, r) d. map_option pppoe_dump (heap rt r) = Some d) m ds"
  using assms
proof (induction m)
  case (Cons x m)
  obtain k r where x: "x = (k, r)" by (cases x)
  from Cons.prems obtain s where "heap rt r = Some s" "session_id s = key_session_id k"
    by (auto simp: x)
  moreover from Cons obtain ds where "pppoe_dumps rt m = Some ds"
    "map pd_session_id ds = map (key_session_id \<circ> fst) m"
    "list_all2 (\<lambda>(k, r) d. map_option pppoe_dump (heap rt r) = Some d) m ds" by force
  ultimately show ?case by (simp add: x pppoe_dump_def)
qed simp

text \<open>The table is ordered by session id first, so the rows are.\<close>

lemma session_ids_increase:
  assumes "tables_ok rt"
  shows "sorted_wrt (<) (map (key_session_id \<circ> fst) (activeSessions rt))"
proof -
  have sid: "key_session_id k < key_session_id l"
    if "k < l" "key_session_id k \<noteq> key_session_id l" for k l
    using that by (auto simp: less_pppoe_key_t_def key_tuple_def less_prod_def)
  have "sorted_wrt (<) (map fst (activeSessions rt))"
    using assms by (simp add: tables_ok_def om_ok_def strict_sorted_iff)
  moreover have "inj_on key_session_id (fst ` set (activeSessions rt))" using assms by (simp add: tables_ok_def)
  ultimately have "sorted_wrt (<) (map key_session_id (map fst (activeSessions rt)))"
    unfolding sorted_wrt_map [of _ key_session_id]
    by (elim sorted_wrt_mono_rel [rotated]) (auto simp: inj_on_def less_le intro!: sid [unfolded less_le])
  then show ?thesis by (simp add: comp_def)
qed

lemma sessions_listed:
  assumes "archive_ok A" "tables_ok rt" "phase c = Reading" "request_buf c = []"
    and m: "msg_cmd m = CLI_CMD_val GET_PPPOE_SESSIONS" "bytes = serialize A put_CLI_MSG m"
    and whole: "split_msg (bytes @ end_of_msg) = Some (bytes, [])"
  shows "\<exists>out resp ds. on_cli A ats env (Received (bytes @ end_of_msg)) c rt = Some (c\<lparr>phase := Writing out\<rparr>, rt) \<and>
    deserialize A (get_CLI_MSG A) out = Some resp \<and>
    msg_type resp = CLI_CMD_TYPE_val RESPONSE \<and> msg_cmd resp = CLI_CMD_val GET_PPPOE_SESSIONS \<and> msg_error resp = [] \<and>
    deserialize A (get_GET_PPPOE_SESSION_RESP A) (msg_data resp) = Some ds \<and>
    list_all2 (\<lambda>(k, r) d. map_option pppoe_dump (heap rt r) = Some d) (activeSessions rt) ds \<and>
    sorted_wrt (<) (map pd_session_id ds)"
proof -
  have "\<exists>s. heap rt r = Some s \<and> session_id s = key_session_id k" if "(k, r) \<in> set (activeSessions rt)" for k r
    using tables_ok_entry [OF assms(2) that]
    by (force simp: ident_at_def sess_ident_def key_of_encap_def)
  from pppoe_dumps_tables [OF this] obtain ds where ds: "pppoe_dumps rt (activeSessions rt) = Some ds"
    "map pd_session_id ds = map (key_session_id \<circ> fst) (activeSessions rt)"
    "list_all2 (\<lambda>(k, r) d. map_option pppoe_dump (heap rt r) = Some d) (activeSessions rt) ds" by blast
  let ?data = "serialize A put_GET_PPPOE_SESSION_RESP ds"
  let ?resp = "\<lparr>msg_type = 1, msg_cmd = msg_cmd m, msg_data = ?data, msg_error = []\<rparr>"
  have "cmd_data A ats env (msg_cmd m) rt = Some (Some ?data, rt)"
    by (simp add: cmd_data_def m(1) CLI_CMD_of_def ds(1))
  from run_cmd_answer [OF assms(1) this]
  have "run_cmd A ats env bytes rt = Some (serialize A put_CLI_MSG ?resp @ end_of_msg, rt)"
    by (simp add: m(2))
  note run = on_cli_message [OF assms(3,4) whole this]
  have "deserialize A (get_GET_PPPOE_SESSION_RESP A) ?data = Some ds"
    using pppoe_resp.deserialize_serialize [OF assms(1), of ds "[]"] by simp
  with run ds session_ids_increase [OF assms(2)] msg.deserialize_serialize [OF assms(1), of ?resp end_of_msg]
  show ?thesis
    by (intro exI [of _ "serialize A put_CLI_MSG ?resp @ end_of_msg"] exI [of _ ?resp] exI [of _ ds]) (simp add: m(1))
qed

text \<open>
  A client that asks for the PPPoE sessions gets a response of that command that decodes to one
  row for every active session, in increasing order of their ids, each row what the session
  object holds; and asking changes nothing.
\<close>

theorem cli_lists_sessions:
  assumes "archive_ok A" "tables_ok rt" "phase c = Reading" "request_buf c = []"
    and m: "msg_cmd m = CLI_CMD_val GET_PPPOE_SESSIONS" "bytes = serialize A put_CLI_MSG m"
    and whole: "split_msg (bytes @ end_of_msg) = Some (bytes, [])"
  shows "\<exists>out resp ds. on_cli A ats env (Received (bytes @ end_of_msg)) c rt = Some (c\<lparr>phase := Writing out\<rparr>, rt) \<and>
    deserialize A (get_CLI_MSG A) out = Some resp \<and>
    msg_type resp = CLI_CMD_TYPE_val RESPONSE \<and> msg_cmd resp = CLI_CMD_val GET_PPPOE_SESSIONS \<and> msg_error resp = [] \<and>
    deserialize A (get_GET_PPPOE_SESSION_RESP A) (msg_data resp) = Some ds \<and>
    list_all2 (\<lambda>(k, r) d. map_option pppoe_dump (heap rt r) = Some d) (activeSessions rt) ds \<and>
    sorted_wrt (<) (map pd_session_id ds)"
  using assms by (rule sessions_listed)

definition sample_request :: "CLI_CMD \<Rightarrow> string" where
  "sample_request cmd = serialize byte_archive put_CLI_MSG
     \<lparr>msg_type = 0, msg_cmd = CLI_CMD_val cmd, msg_data = [], msg_error = []\<rparr>"

lemma char_of_small:
  "char_of (0::nat) = CHR 0x00" "char_of (Suc 0) = CHR 0x01" "char_of (1::nat) = CHR 0x01"
  "char_of (2::nat) = CHR 0x02" "char_of (3::nat) = CHR 0x03" "char_of (48::nat) = CHR ''0''"
  by code_simp+

lemma sample_request_whole:
  "split_msg (sample_request cmd @ end_of_msg) = Some (sample_request cmd, [])"
  by (cases cmd) (simp_all add: sample_request_def serialize_def byte_archive_def put_CLI_MSG_def
      string_of_bytes_def end_of_msg_def to_string_digits.simps char_of_small)

theorem cli_lists_sessions_witness:
  "\<exists>out resp d. on_cli byte_archive dotted sample_env (Received (sample_request GET_PPPOE_SESSIONS @ end_of_msg))
       CLISession_start sample_rt = Some (CLISession_start\<lparr>phase := Writing out\<rparr>, sample_rt) \<and>
     deserialize byte_archive (get_CLI_MSG byte_archive) out = Some resp \<and>
     deserialize byte_archive (get_GET_PPPOE_SESSION_RESP byte_archive) (msg_data resp) = Some [d] \<and>
     pd_session_id d = 1"
proof -
  let ?m = "\<lparr>msg_type = 0, msg_cmd = CLI_CMD_val GET_PPPOE_SESSIONS, msg_data = [], msg_error = []\<rparr>"
  have "phase CLISession_start = Reading" "request_buf CLISession_start = []" by (simp_all add: CLISession_start_def)
  then obtain out resp ds where "on_cli byte_archive dotted sample_env
        (Received (sample_request GET_PPPOE_SESSIONS @ end_of_msg)) CLISession_start sample_rt =
        Some (CLISession_start\<lparr>phase := Writing out\<rparr>, sample_rt)"
      "deserialize byte_archive (get_CLI_MSG byte_archive) out = Some resp"
      "deserialize byte_archive (get_GET_PPPOE_SESSION_RESP byte_archive) (msg_data resp) = Some ds"
      "list_all2 (\<lambda>(k, r) d. map_option pppoe_dump (heap sample_rt r) = Some d) (activeSessions sample_rt) ds"
    using cli_lists_sessions [OF byte_archive_ok tables_ok_sample_rt _ _ _
        sample_request_def [of GET_PPPOE_SESSIONS] sample_request_whole, of CLISession_start dotted sample_env]
    by (metis CLI_MSG.select_convs(2))
  then show ?thesis by (auto simp: list_all2_Cons1 pppoe_dump_def)
qed

text \<open>
  C36. Two empty lines are enough to end the daemon: an empty request holds no message, reading it
  throws, and nothing catches it.
\<close>

theorem cli_empty_request_ends:
  assumes "ar_get A T8 (ar_open A []) = None" "phase c = Reading" "request_buf c = []"
  shows "on_cli A ats env (Received end_of_msg) c rt = None"
proof -
  have "split_msg end_of_msg = Some ([], [])" by (simp add: end_of_msg_def)
  with assms show ?thesis
    by (simp add: do_read_def run_cmd_def deserialize_def get_CLI_MSG_def get_u8_def)
qed

theorem cli_empty_request_ends_witness:
  "on_cli byte_archive dotted sample_env (Received end_of_msg) CLISession_start sample_rt = None"
  by (rule cli_empty_request_ends) (simp_all add: byte_archive_def CLISession_start_def)

end
