(* ===== verification/Program.thy ===== *)
theory Program
  imports Raw_Socket Main_Program Cli_Spec
begin

text \<open>
  The whole program: \<open>main\<close> from its arguments to its end, the daemon behind its sockets, and the clients
  of the control socket (\<open>CLIServer\<close> of \<^verbatim>\<open>src/cli.cpp\<close>), whose commands run between the daemon's
  events.
\<close>

section \<open>The program\<close>

record Program =
  daemon :: Daemon
  cli_sessions :: "CLISession list"

text \<open>The server starts when its path can be listened on; the constructor throws when it cannot.\<close>

definition CLIServer_ctor :: "bool \<Rightarrow> Daemon \<Rightarrow> Program option" where
  "CLIServer_ctor listens d = (if listens then Some \<lparr>daemon = d, cli_sessions = []\<rparr> else None)"

text \<open>\<open>main\<close> up to the loop: it ends with a status and perhaps a file written, throws, or runs.\<close>

datatype 't prog_result = Ended int "(string \<times> 't) option" | Running Program | Thrown

definition prog_start ::
  "('n, 't) yaml_lib \<Rightarrow> env \<Rightarrow> (string \<Rightarrow> string list) \<Rightarrow> (string \<Rightarrow> 't option) \<Rightarrow> net_kernel \<Rightarrow> bool \<Rightarrow>
     (bool \<times> bool \<times> string) option \<Rightarrow> 't prog_result" where
  "prog_start Y env files disk k listens args =
     (case main_start Y env files disk args of
        Exit n f \<Rightarrow> Ended n f
      | Crash \<Rightarrow> Thrown
      | Run rt \<Rightarrow>
          (case EVLoop_ctor k rt of
             None \<Rightarrow> Thrown
           | Some d \<Rightarrow> (case CLIServer_ctor listens d of None \<Rightarrow> Thrown | Some p \<Rightarrow> Running p)))"

text \<open>
  An accepted connection starts to read, a failed accept is passed over, and the server accepts again
  either way.
\<close>

definition do_accept :: "bool \<Rightarrow> Program \<Rightarrow> Program" where
  "do_accept ok p = (if ok then p\<lparr>cli_sessions := cli_sessions p @ [CLISession_start]\<rparr> else p)"

datatype prog_event = Io io_event | Accept bool | Client nat cli_event

fun prog_handle ::
  "'i archive \<Rightarrow> (address_v4_t \<Rightarrow> string) \<Rightarrow> env \<Rightarrow> prog_event \<Rightarrow> Program \<Rightarrow> Program option" where
  "prog_handle A ats env (Io ev) p = map_option (\<lambda>d. p\<lparr>daemon := d\<rparr>) (io_handle env ev (daemon p))"
| "prog_handle A ats env (Accept ok) p = Some (do_accept ok p)"
| "prog_handle A ats env (Client n ev) p = do {
     let d = daemon p;
     (c, rt) \<leftarrow> on_cli A ats env ev (cli_sessions p ! n) (runtime (evl d));
     Some (p\<lparr>daemon := d\<lparr>evl := (evl d)\<lparr>runtime := rt\<rparr>\<rparr>, cli_sessions := (cli_sessions p)[n := c]\<rparr>)
   }"

fun prog_enabled :: "prog_event \<Rightarrow> Program \<Rightarrow> bool" where
  "prog_enabled (Io ev) p \<longleftrightarrow> io_enabled ev (daemon p)"
| "prog_enabled (Accept ok) p \<longleftrightarrow> True"
| "prog_enabled (Client n ev) p \<longleftrightarrow> n < length (cli_sessions p)"

inductive prog_reachable ::
  "'i archive \<Rightarrow> (address_v4_t \<Rightarrow> string) \<Rightarrow> env \<Rightarrow> (string \<Rightarrow> string list) \<Rightarrow> PPPOEGlobalConf option \<Rightarrow> net_kernel \<Rightarrow>
     Program \<Rightarrow> bool"
  for A ats env files cfg k where
  start: "main_init env files cfg = Some rt \<Longrightarrow> EVLoop_ctor k rt = Some d \<Longrightarrow> CLIServer_ctor True d = Some p \<Longrightarrow>
    prog_reachable A ats env files cfg k p"
| step: "prog_reachable A ats env files cfg k p \<Longrightarrow> \<not> interrupted (evl (daemon p)) \<Longrightarrow> prog_enabled ev p \<Longrightarrow>
    prog_handle A ats env ev p = Some p' \<Longrightarrow> prog_reachable A ats env files cfg k p'"

lemma prog_start_reachable:
  assumes "prog_start Y env files disk k listens args = Running p"
  obtains cfg where "prog_reachable A ats env files cfg k p"
proof -
  from assms obtain rt d path where run: "main_start Y env files disk args = Run rt" and d: "EVLoop_ctor k rt = Some d"
    and p: "CLIServer_ctor True d = Some p"
    by (auto simp: prog_start_def CLIServer_ctor_def split: main_result.split_asm option.split_asm if_splits)
  from run obtain cfg where "main_init env files cfg = Some rt"
    by (auto simp: main_start_def split: option.split_asm if_splits)
  from that [OF prog_reachable.start [OF this d p]] show thesis .
qed

section \<open>Clients only read\<close>

lemma dp_only_draw: "dp_only rt (rt\<lparr>nd_pos := n\<rparr>)"
  by (simp add: dp_only_def)

lemma dp_only_iface_rows: "dp_only rt (snd (iface_rows env vs rt))"
proof (induction vs arbitrary: rt)
  case (Cons v vs)
  let ?rt1 = "snd (iface_row env v rt)"
  have "dp_only rt ?rt1" by (cases "v_type v") (simp_all add: iface_row_def draw_def dp_only_draw)
  from dp_only_trans [OF this Cons.IH] show ?case by (simp add: case_prod_unfold Let_def)
qed simp

lemma dp_only_cmd_data: "cmd_data A ats env cmd rt = Some (out, rt') \<Longrightarrow> dp_only rt rt'"
  using dp_only_trans [OF dp_only_on_vpp dp_only_iface_rows]
  by (auto simp: cmd_data_def Let_def case_prod_unfold bind_eq_Some_conv split: option.split_asm CLI_CMD.split_asm)

lemma dp_only_run_cmd:
  assumes "run_cmd A ats env cmd rt = Some (out, rt')"
  shows "dp_only rt rt'"
proof -
  from assms obtain m dat where "cmd_data A ats env m rt = Some (dat, rt')"
    by (auto simp: run_cmd_def Let_def bind_eq_Some_conv)
  then show ?thesis by (rule dp_only_cmd_data)
qed

lemma dp_only_do_read: "do_read A ats env c rt = Some (c', rt') \<Longrightarrow> dp_only rt rt'"
  by (auto simp: do_read_def bind_eq_Some_conv split: option.split_asm dest: dp_only_run_cmd)

lemma dp_only_on_cli: "on_cli A ats env ev c rt = Some (c', rt') \<Longrightarrow> dp_only rt rt'"
  by (cases ev) (auto split: if_splits cli_phase.split_asm dest: dp_only_do_read)

lemma client_step:
  assumes "prog_handle A ats env (Client n ev) p = Some p'"
  shows "\<exists>c v i. p' = p\<lparr>daemon := (daemon p)\<lparr>evl := (evl (daemon p))\<lparr>runtime := (runtime (evl (daemon p)))\<lparr>vpp := v, nd_pos := i\<rparr>\<rparr>\<rparr>,
    cli_sessions := (cli_sessions p)[n := c]\<rparr>"
proof -
  from assms obtain c rt where run: "on_cli A ats env ev (cli_sessions p ! n) (runtime (evl (daemon p))) = Some (c, rt)"
    and p': "p' = p\<lparr>daemon := (daemon p)\<lparr>evl := (evl (daemon p))\<lparr>runtime := rt\<rparr>\<rparr>, cli_sessions := (cli_sessions p)[n := c]\<rparr>"
    by (auto simp: Let_def bind_eq_Some_conv)
  from dp_only_on_cli [OF run] have "rt = (runtime (evl (daemon p)))\<lparr>vpp := vpp rt, nd_pos := nd_pos rt\<rparr>"
    by (simp only: dp_only_def)
  with p' show ?thesis by metis
qed

section \<open>The invariant of the whole program\<close>

definition prog_ok :: "Program \<Rightarrow> bool" where
  "prog_ok p \<longleftrightarrow> (let l = evl (daemon p) in tables_ok (runtime l) \<and> conforms (runtime l) \<and>
     (\<forall>f \<in> set (wire l). disc_frame zero_mac f \<or> sess_frame zero_mac f))"

lemma loop_step_ok:
  assumes "handle env ev l = Some l'" and "tables_ok (runtime l)" "conforms (runtime l)"
    and "\<forall>f \<in> set (wire l). disc_frame zero_mac f \<or> sess_frame zero_mac f"
  shows "tables_ok (runtime l')" "conforms (runtime l')" "\<forall>f \<in> set (wire l'). disc_frame zero_mac f \<or> sess_frame zero_mac f"
proof -
  show "tables_ok (runtime l')" using tables.handle_reload [OF assms(1,2)] .
  show "conforms (runtime l')" using conform.handle_reload [OF assms(1,3)] .
  show "\<forall>f \<in> set (wire l'). disc_frame zero_mac f \<or> sess_frame zero_mac f"
    using handle_wire [OF assms(1)] assms(3,4) by (auto simp: conforms_def)
qed

lemma prog_reachable_ok: "prog_reachable A ats env files cfg k p \<Longrightarrow> prog_ok p"
proof (induction rule: prog_reachable.induct)
  case (start rt d p)
  then have "evl (daemon p) = EVLoop_init rt" by (auto simp: CLIServer_ctor_def EVLoop_ctor_def Let_def split: if_splits)
  with tables_ok_main_init [OF start(1)] conforms_main_init [OF start(1)] show ?case
    by (simp add: prog_ok_def EVLoop_init_def)
next
  case (step p ev p')
  let ?l = "evl (daemon p)"
  have ok: "tables_ok (runtime ?l)" "conforms (runtime ?l)" "\<forall>f \<in> set (wire ?l). disc_frame zero_mac f \<or> sess_frame zero_mac f"
    using step.IH by (simp_all add: prog_ok_def Let_def)
  show ?case
  proof (cases ev)
    case (Io iev)
    with step.hyps(3,4) obtain d where d: "io_enabled iev (daemon p)" "io_handle env iev (daemon p) = Some d" "p' = p\<lparr>daemon := d\<rparr>"
      by auto
    from io_step [OF d(1,2)] have "prog_ok (p\<lparr>daemon := d\<rparr>)"
    proof (elim disjE exE conjE)
      fix ev' assume "handle env ev' ?l = Some (evl d)"
      from loop_step_ok [OF this ok] show ?thesis by (simp add: prog_ok_def Let_def)
    qed (use ok in \<open>simp add: prog_ok_def Let_def\<close>)
    then show ?thesis by (simp add: d(3))
  next
    case (Accept b)
    with step.hyps(4) step.IH show ?thesis by (auto simp: do_accept_def prog_ok_def)
  next
    case (Client n cev)
    with step.hyps(4) obtain c v i where p': "p' = p\<lparr>daemon := (daemon p)\<lparr>evl := ?l\<lparr>runtime := (runtime ?l)\<lparr>vpp := v, nd_pos := i\<rparr>\<rparr>\<rparr>,
        cli_sessions := (cli_sessions p)[n := c]\<rparr>"
      using client_step by blast
    have "tables_ok ((runtime ?l)\<lparr>vpp := v, nd_pos := i\<rparr>)" "conforms ((runtime ?l)\<lparr>vpp := v, nd_pos := i\<rparr>)"
      using ok by simp_all
    with ok(3) show ?thesis by (simp add: p' prog_ok_def Let_def)
  qed
qed

lemma daemon_prog_reachable:
  "daemon_reachable env files cfg k d \<Longrightarrow> prog_reachable A ats env files cfg k \<lparr>daemon = d, cli_sessions = []\<rparr>"
proof (induction rule: daemon_reachable.induct)
  case (start rt d)
  then show ?case by (intro prog_reachable.start) (simp_all add: CLIServer_ctor_def)
next
  case (step d ev d')
  from prog_reachable.step [OF step.IH, of "Io ev"] step.hyps show ?case by simp
qed

section \<open>The whole program\<close>



end
