(* ===== verification/Session_Machine.thy ===== *)
theory Session_Machine
  imports Aaa_Invariant
begin

text \<open>
  What becomes of sessions, said without the daemon: a machine over two sets, the connections that have
  been offered and the sessions that are active. The daemon refines it: every event it handles is a step
  of the machine.
\<close>

section \<open>The machine\<close>

type_synonym table = "pppoe_conn_t set \<times> pppoe_key_t set"

definition offered_to :: "encapsulation_t \<Rightarrow> pppoe_conn_t \<Rightarrow> bool" where
  "offered_to e c \<longleftrightarrow> conn_mac c = source_mac e \<and> conn_outer c = outer_vlan e \<and> conn_inner c = inner_vlan e"

text \<open>
  A frame may do nothing, have a connection offered to its sender, take up one that was offered to its
  sender with an id no session has, or in vain when there is none, or end the session whose id it
  carries, whoever sends it. Apart from frames, an offer runs out, and a session that is silent ends.
\<close>

inductive machine :: "event \<Rightarrow> table \<Rightarrow> table \<Rightarrow> bool" where
  idle: "machine ev (P, A) (P, A)"
| offered: "encapsulation_ctor f v 0 = Some (e, pkt) \<Longrightarrow> offered_to e c \<Longrightarrow> c \<notin> P \<Longrightarrow>
    machine (Frame f v) (P, A) (insert c P, A)"
| opened: "encapsulation_ctor f v 0 = Some (e, pkt) \<Longrightarrow> offered_to e c \<Longrightarrow> c \<in> P \<Longrightarrow>
    i \<noteq> 0 \<Longrightarrow> i \<notin> key_session_id ` A \<Longrightarrow>
    machine (Frame f v) (P, A) (P - {c}, insert (key_of_encap e i) A)"
| exhausted: "encapsulation_ctor f v 0 = Some (e, pkt) \<Longrightarrow> offered_to e c \<Longrightarrow> c \<in> P \<Longrightarrow>
    (\<forall>i. i \<noteq> 0 \<longrightarrow> i \<in> key_session_id ` A) \<Longrightarrow> machine (Frame f v) (P, A) (P - {c}, A)"
| ended: "encapsulation_ctor f v 0 = Some (e, pkt) \<Longrightarrow> k \<in> A \<Longrightarrow> load16 pkt 2 = Some (bswap16 (key_session_id k)) \<Longrightarrow>
    machine (Frame f v) (P, A) (P, A - {k})"
| expired: "machine (Pending_timer c) (P, A) (P - {c}, A)"
| silent: "k \<in> A \<Longrightarrow> machine (Echo_timer r) (P, A) (P, A - {k})"

text \<open>The machine by itself keeps the ids of sessions apart.\<close>

lemma machine_ids:
  assumes "machine ev s s'" and "inj_on key_session_id (snd s)" and "0 \<notin> key_session_id ` snd s"
  shows "inj_on key_session_id (snd s')" "0 \<notin> key_session_id ` snd s'"
  using assms by (induction rule: machine.induct) (auto simp: key_of_encap_def intro: inj_on_subset)

section \<open>The daemon's tables\<close>

definition table_of :: "PPPOERuntime \<Rightarrow> table" where
  "table_of rt = (pendingSession rt, fst ` set (activeSessions rt))"

lemma table_of_frame: "frame rt rt' \<Longrightarrow> table_of rt' = table_of rt"
  by (simp add: frame_def table_of_def)

lemma table_of_small [simp]:
  "table_of (rt\<lparr>nd_pos := n\<rparr>) = table_of rt" "table_of (upd_sess r g rt) = table_of rt"
  "table_of (push_pppoe pkt rt) = table_of rt" "table_of (rt\<lparr>vpp := w\<rparr>) = table_of rt"
  "table_of (rt\<lparr>conf := c\<rparr>) = table_of rt" "table_of (rt\<lparr>pppoe_outcoming := a, ppp_outcoming := b\<rparr>) = table_of rt"
  by (simp_all add: table_of_def upd_sess_def push_pppoe_def split: option.split)

lemma table_of_release [simp]: "table_of (release_sess env r rt) = table_of rt"
  by (cases rule: release_sess_cases [of env r rt]) (auto simp: frame_def table_of_def)

lemma om_erase_keys: "om_ok m \<Longrightarrow> fst ` set (om_erase k m) = fst ` set m - {k}"
  by (auto simp: om_erase_def image_iff)

text \<open>Ending a session takes away one key, with the id that was given.\<close>

lemma table_deallocate:
  assumes ok: "tables_ok rt" and run: "deallocateSession env sid rt = Some (err, rt')"
  obtains "table_of rt' = table_of rt"
  | k where "k \<in> snd (table_of rt)" "key_session_id k = sid" "table_of rt' = (fst (table_of rt), snd (table_of rt) - {k})"
proof (cases rule: deallocateSession_cases [OF ok run, case_names unknown freed])
  case unknown
  then show thesis using that(1) by simp
next
  case (freed k r rt1)
  have om: "om_ok (activeSessions rt)" using ok by (simp add: tables_ok_def)
  let ?q = "rt1\<lparr>activeSessions := om_erase k (activeSessions rt)\<rparr>"
  have "table_of rt' = table_of (release_sess env r ?q)" by (simp add: freed(6) table_of_def)
  also have "\<dots> = (pendingSession rt, fst ` set (activeSessions rt) - {k})"
    using freed(5) by (simp add: table_of_def om_erase_keys [OF om]) (simp add: frame_def)
  finally show thesis using that(2) [of k] freed(3,4) by (force simp: table_of_def)
qed

lemma machine_deallocate:
  assumes "tables_ok rt" and "deallocateSession env sid rt = Some (err, rt')"
    and "\<And>k. k \<in> snd (table_of rt) \<Longrightarrow> key_session_id k = sid \<Longrightarrow>
      machine ev (table_of rt) (fst (table_of rt), snd (table_of rt) - {k})"
  shows "machine ev (table_of rt) (table_of rt')"
proof (cases rule: table_deallocate [OF assms(1,2)])
  case 1
  then show ?thesis using machine.idle [of ev "fst (table_of rt)" "snd (table_of rt)"] by simp
next
  case (2 k)
  then show ?thesis using assms(3) by simp
qed

lemma machine_same: "table_of rt' = table_of rt \<Longrightarrow> machine ev (table_of rt) (table_of rt')"
  using machine.idle [of ev "fst (table_of rt)" "snd (table_of rt)"] by simp

section \<open>Frames\<close>

lemma table_of_pende: "table_of (snd (pendeSession m outr innr ck rt)) =
    (insert (Pppoe_conn m outr innr ck) (fst (table_of rt)), snd (table_of rt))"
  by (auto simp: pendeSession_def table_of_def Let_def)

lemma machine_padi:
  assumes e: "encapsulation_ctor f v 0 = Some (e, pkt)" and run: "process_padi env pkt e rt = Some (res, rt')"
  shows "machine (Frame f v) (table_of rt) (table_of rt')"
proof -
  let ?c = "\<lambda>ck. Pppoe_conn (source_mac e) (outer_vlan e) (inner_vlan e) ck"
  from run have "table_of rt' = table_of rt \<or> (\<exists>ck. table_of rt' = (insert (?c ck) (fst (table_of rt)), snd (table_of rt)))"
    by (auto simp: process_padi_def Let_def bind_eq_Some_conv case_prod_unfold random_string_def snd_draws table_of_pende
        split: if_splits option.split_asm)
  then show ?thesis
  proof (elim disjE exE)
    fix ck
    assume 1: "table_of rt' = (insert (?c ck) (fst (table_of rt)), snd (table_of rt))"
    show ?thesis
    proof (cases "?c ck \<in> fst (table_of rt)")
      case True
      with 1 show ?thesis by (intro machine_same) (simp add: insert_absorb)
    next
      case False
      with 1 machine.offered [OF e, of "?c ck" "fst (table_of rt)" "snd (table_of rt)"] show ?thesis
        by (simp add: offered_to_def)
    qed
  qed (rule machine_same)
qed

lemma machine_padr:
  assumes e: "encapsulation_ctor f v 0 = Some (e, pkt)" and run: "process_padr env pkt e rt = Some (res, rt')"
    and ok: "tables_ok rt"
  shows "machine (Frame f v) (table_of rt) (table_of rt')"
proof -
  from run consider "rt' = rt"
    | c sid err where "c \<in> pendingSession rt" "offered_to e c"
        "allocateSession env e (rt\<lparr>pendingSession := pendingSession rt - {c}\<rparr>) = Some ((sid, err), rt')"
    by (auto simp: process_padr_def checkSession_def offered_to_def Let_def bind_eq_Some_conv case_prod_unfold
        split: if_splits)
  then show ?thesis
  proof cases
    case 1
    then show ?thesis by (simp add: machine_same)
  next
    case (2 c sid err)
    let ?rt = "rt\<lparr>pendingSession := pendingSession rt - {c}\<rparr>"
    have ok': "tables_ok ?rt" using ok by simp
    have ids: "sessionSet rt = key_session_id ` snd (table_of rt)"
      using ok by (force simp: tables_ok_def table_of_def ident_at_def key_of_encap_def)
    have c: "c \<in> fst (table_of rt)" using 2(1) by (simp add: table_of_def)
    show ?thesis
    proof (cases rule: allocateSession_cases [OF ok', of e env, case_names found full])
      case (found i s rt1)
      have free: "map_of (activeSessions rt) (key_of_encap e i) = None"
        using tables_ok_insert(1) [OF ok' found(1,2) next_sid_nonzero found(3)] by simp
      have "table_of rt' = (fst (table_of rt) - {c}, insert (key_of_encap e i) (snd (table_of rt)))"
        using found(6) 2(3) found(4) free by (auto simp: table_of_def set_om_emplace frame_def)
      with machine.opened [OF e 2(2) c found(2), of "snd (table_of rt)"] found(1) ids show ?thesis by simp
    next
      case full
      then have "table_of rt' = (fst (table_of rt) - {c}, snd (table_of rt))" using 2(3) by (simp add: table_of_def)
      with machine.exhausted [OF e 2(2) c, of "snd (table_of rt)"] full(2) ids show ?thesis by simp
    qed
  qed
qed

lemma machine_disc:
  assumes e: "encapsulation_ctor f v 0 = Some (e, pkt)" and run: "processPPPOE env pkt e rt = Some (err, rt')"
    and ok: "tables_ok rt"
  shows "machine (Frame f v) (table_of rt) (table_of rt')"
proof -
  have reply: "table_of (snd (reply_disc e ((er, out), q))) = table_of q" for er out q
    by (simp add: reply_disc_def)
  from run obtain code where c: "load8 pkt 1 = Some code" by (auto simp: processPPPOE_def bind_eq_Some_conv)
  show ?thesis
  proof (cases "PPPOE_CODE_of code \<in> {Some PADI, Some PADR}")
    case True
    with run c obtain er out q where q: "process_padi env pkt e rt = Some ((er, out), q) \<or> process_padr env pkt e rt = Some ((er, out), q)"
      and "rt' = snd (reply_disc e ((er, out), q))"
      by (auto simp: processPPPOE_def) (metis snd_conv)+
    then have "table_of rt' = table_of q" by (simp add: reply)
    with q machine_padi [OF e] machine_padr [OF e _ ok] show ?thesis by auto
  next
    case False
    show ?thesis
    proof (cases "PPPOE_CODE_of code = Some PADT")
      case True
      with run c obtain raw er where raw: "load16 pkt 2 = Some raw" and de: "deallocateSession env (bswap16 raw) rt = Some (er, rt')"
        by (auto simp: processPPPOE_def bind_eq_Some_conv)
      show ?thesis
        by (rule machine_deallocate [OF ok de])
          (use machine.ended [OF e, of _ "snd (table_of rt)" "fst (table_of rt)"] raw in auto)
    next
      case no: False
      with False run c have "rt' = rt" by (simp add: processPPPOE_def split: option.split_asm PPPOE_CODE.split_asm)
      then show ?thesis by (simp add: machine_same)
    qed
  qed
qed

lemma machine_lcp:
  assumes e: "encapsulation_ctor f v 0 = Some (e, pkt)" and sid: "load16 pkt 2 = Some (bswap16 sid)"
    and ok: "tables_ok rt" and r: "map_option session_id (heap rt r) = Some sid"
    and run: "process_lcp env r pkt rt = Some (res, rt')"
  shows "machine (Frame f v) (table_of rt) (table_of rt')"
proof -
  from run obtain act err rt1 where 1: "receive (LCP_vtable env r) pkt rt = Some ((act, err), rt1)"
    by (auto simp: process_lcp_def bind_eq_Some_conv)
  have fr: "frame rt rt1" using lcp_impl.receive_frame [OF 1] .
  then have same: "table_of rt1 = table_of rt" and ok1: "tables_ok rt1" using table_of_frame tables_ok_frame [OF _ ok] by blast+
  have "map_option sess_ident (heap rt1 r) = map_option sess_ident (heap rt r)" using fr by (simp add: frame_def)
  then have r1: "map_option session_id (heap rt1 r) = Some sid"
    using r by (cases "heap rt r"; cases "heap rt1 r") (auto simp: sess_ident_def)
  from 1 run consider "rt' = rt1" | "lcp_layer_up env r rt1 = Some rt'"
    | s er where "heap rt1 r = Some s" "deallocateSession env (session_id s) rt1 = Some (er, rt')"
    by (cases act) (auto simp: process_lcp_def bind_eq_Some_conv split: if_splits)
  then show ?thesis
  proof cases
    case 1
    with same show ?thesis by (intro machine_same) simp
  next
    case 2
    with same frame_lcp_layer_up [OF 2] show ?thesis by (intro machine_same) (simp add: table_of_frame)
  next
    case (3 s er)
    with r1 have "session_id s = sid" by simp
    with machine_deallocate [OF ok1 3(2), of "Frame f v"] machine.ended [OF e, of _ "snd (table_of rt)" "fst (table_of rt)"] sid
    show ?thesis by (auto simp: same)
  qed
qed

lemma machine_ppp:
  assumes e: "encapsulation_ctor f v 0 = Some (e, pkt)" and run: "processPPP env pkt e rt = Some (err, rt')"
    and ok: "tables_ok rt"
  shows "machine (Frame f v) (table_of rt) (table_of rt')"
proof -
  from run obtain raw where raw: "load16 pkt 2 = Some raw" by (auto simp: processPPP_def bind_eq_Some_conv)
  show ?thesis
  proof (cases "map_of (activeSessions rt) (key_of_encap e (bswap16 raw))")
    case None
    with run raw show ?thesis by (simp add: processPPP_def machine_same)
  next
    case (Some r)
    with run raw obtain rt1 proto where 1: "start_session env r rt = Some rt1"
      and 2: "(case PPP_PROTO_of (bswap16 proto) of
             Some LCP \<Rightarrow> process_lcp env r pkt rt1
           | Some PAP \<Rightarrow> do { (ret, rt) \<leftarrow> PAP_receive env r pkt rt1; Some ('''', rt) }
           | Some CHAP \<Rightarrow> do { (ret, rt) \<leftarrow> CHAP_receive env r pkt rt1; Some ('''', rt) }
           | Some IPCP \<Rightarrow> do { rt \<leftarrow> process_ipcp env r pkt rt1; Some ('''', rt) }
           | _ \<Rightarrow> do { rt \<leftarrow> reject_proto r pkt rt1; Some ('''', rt) }) = Some (err, rt')"
      unfolding processPPP_def by (simp only: option.case bind_eq_Some_conv Option.bind.simps) blast
    have fr: "frame rt rt1" using frame_start_session [OF 1] .
    have ok1: "tables_ok rt1" and same: "table_of rt1 = table_of rt" using fr tables_ok_frame [OF _ ok] table_of_frame by blast+
    obtain sid e' where id: "ident_at rt r = Some (sid, e')" "key_of_encap e (bswap16 raw) = key_of_encap e' sid"
      using tables_ok_entry [OF ok map_of_SomeD [OF Some]] by metis
    then have "ident_at rt1 r = Some (bswap16 raw, e')" using fr by (simp add: frame_def ident_at_def key_of_encap_def)
    then have r1: "map_option session_id (heap rt1 r) = Some (bswap16 raw)" by (auto simp: ident_at_def sess_ident_def)
    show ?thesis
    proof (cases "PPP_PROTO_of (bswap16 proto) = Some LCP")
      case True
      with 2 machine_lcp [OF e, of "bswap16 raw" rt1 r] raw ok1 r1 same show ?thesis by simp
    next
      case False
      with 2 have "frame rt1 rt'"
        by (auto simp: bind_eq_Some_conv split: option.split_asm PPP_PROTO.split_asm
            intro: frame_PAP_receive frame_CHAP_receive frame_process_ipcp frame_reject_proto)
      with same show ?thesis by (intro machine_same) (simp add: table_of_frame)
    qed
  qed
qed

section \<open>Every event\<close>

text \<open>RADIUS, in all its answers and time-outs, leaves the tables as they are.\<close>

interpretation quiet: radius_inv "frame rt0" for rt0
proof unfold_locales
  show "frame rt0 (put_client cl c rt) \<longleftrightarrow> frame rt0 rt" for cl c rt by (cases cl) (simp_all add: frame_def)
qed (auto intro: frame_trans frame_on_answers frame_on_interim frame_processRadiusAnswer [OF call_frames_run_callback]
    call_framesD [OF call_frames_run_callback])

lemma machine_frame_event:
  assumes run: "generic_receive env f v rt = Some rt'" and ok: "tables_ok rt"
  shows "machine (Frame f v) (table_of rt) (table_of rt')"
proof -
  from run obtain e pkt where e: "encapsulation_ctor f v 0 = Some (e, pkt)"
    by (auto simp: generic_receive_def bind_eq_Some_conv)
  obtain t rt1 where t: "(case encap_type e of Some t \<Rightarrow> (t, rt)
      | None \<Rightarrow> (let (v, rt) = draw env rt in (ucast v, rt))) = (t, rt1)" by fastforce
  then have same: "table_of rt1 = table_of rt" "tables_ok rt1" using ok by (auto simp: draw_def split: option.splits)
  from run e t have "(if t = ETH_PPPOE_DISCOVERY then map_option snd (processPPPOE env pkt e rt1)
     else if t = ETH_PPPOE_SESSION then map_option snd (processPPP env pkt e rt1) else Some rt1) = Some rt'"
    by (simp add: generic_receive_def)
  with machine_disc [OF e _ same(2)] machine_ppp [OF e _ same(2)] same(1) show ?thesis
    by (auto split: if_splits intro: machine_same)
qed

lemma machine_echo:
  assumes run: "sendEchoReq env r rt = Some rt'" and ok: "tables_ok rt"
  shows "machine (Echo_timer r) (table_of rt) (table_of rt')"
proof -
  from run obtain act err rt1 where 1: "LCP_send_echo_req r rt = Some ((act, err), rt1)"
    by (auto simp: sendEchoReq_def bind_eq_Some_conv)
  have fr: "frame rt rt1" using LCP_echo_frames(4) [OF 1] by simp
  have same: "table_of rt1 = table_of rt" and ok1: "tables_ok rt1" using fr table_of_frame tables_ok_frame [OF _ ok] by blast+
  show ?thesis
  proof (cases "act = LAYER_DOWN")
    case False
    have "table_of (startEcho env r rt1) = table_of rt1" by (simp add: startEcho_def draw_def)
    with False 1 run same show ?thesis by (intro machine_same) (simp add: sendEchoReq_def)
  next
    case True
    with 1 run obtain s :: PPPOESession and er rt2 where 2: "deallocateSession env (session_id s) rt1 = Some (er, rt2)"
      and "rt' = release_sess env r (upd_sess r (\<lambda>s. s\<lparr>echo_timer := None\<rparr>) rt2)"
      by (auto simp: sendEchoReq_def bind_eq_Some_conv)
    then have "table_of rt' = table_of rt2" by simp
    with machine_deallocate [OF ok1 2, of "Echo_timer r"] machine.silent [of _ "snd (table_of rt)" r "fst (table_of rt)"]
    show ?thesis by (auto simp: same)
  qed
qed

lemma machine_handle:
  assumes run: "handle env ev l = Some l'" and ok: "tables_ok (runtime l)"
  shows "machine ev (table_of (runtime l)) (table_of (runtime l'))"
proof (cases ev)
  case (Frame f v)
  with run ok show ?thesis by (auto simp: on_runtime_def dest: machine_frame_event)
next
  case (Datagram cl sender dat)
  with run show ?thesis
    using quiet.receive_datagram_inv [OF _ frame_refl] by (cases sender) (auto simp: on_runtime_def intro!: machine_same table_of_frame)
next
  case (Request_timer cl i)
  with run show ?thesis
    using quiet.request_timer_inv [OF _ frame_refl] by (auto simp: on_runtime_def intro!: machine_same table_of_frame)
next
  case (Pending_timer c)
  let ?rt = "runtime l"
  have "table_of (clearPendingSession c (?rt\<lparr>pending_timers := ts\<rparr>)) = (fst (table_of ?rt) - {c}, snd (table_of ?rt))" for ts
    by (auto simp: clearPendingSession_def table_of_def)
  with run Pending_timer machine.expired [of c "fst (table_of ?rt)" "snd (table_of ?rt)"] show ?thesis
    by (auto simp: on_runtime_def)
next
  case (Echo_timer r)
  with run ok show ?thesis by (auto simp: on_runtime_def dest: machine_echo)
next
  case (Interim_timer r)
  with run show ?thesis by (auto simp: on_runtime_def intro!: machine_same table_of_frame frame_on_interim)
next
  case Periodic_timer
  with run show ?thesis by (auto simp: periodic_def Let_def intro!: machine_same)
next
  case (Vpp_timer segment)
  with run show ?thesis by (auto simp: on_runtime_def intro!: machine_same)
next
  case (Signal s)
  with run show ?thesis by (cases s) (auto simp: reloadConfig_def intro!: machine_same split: option.split)
qed

text \<open>
  C2. The daemon refines the machine of sessions: in every reachable state, every event it handles
  changes the offered connections and the active sessions by one step of the machine. So a session
  only opens by a frame from a subscriber that was offered a connection, which is used up, and with an
  id that is not 0 and that no session has; sessions only end by a frame that carries their id, from
  whoever, or by the echo timer; and no answer of a RADIUS server, no signal and no other timer opens or
  ends one.
\<close>

theorem sessions_refine_machine:
  assumes "reachable env files cfg l" and "handle env ev l = Some l'"
  shows "machine ev (table_of (runtime l)) (table_of (runtime l'))"
  using machine_handle [OF assms(2) reachable_tables_ok [OF assms(1)]] .

text \<open>The sample subscriber's first frame offers it a connection.\<close>

theorem sessions_refine_machine_witness:
  "\<exists>rt l. main_init sample_env (\<lambda>f. []) (Some sample_conf) = Some rt \<and>
     handle sample_env (hd sample_frames) (EVLoop_init rt) = Some l \<and>
     machine (hd sample_frames) (table_of rt) (table_of (runtime l))"
proof -
  obtain rt where rt: "main_init sample_env (\<lambda>f. []) (Some sample_conf) = Some rt" using main_init_sample by blast
  obtain l where "run_events sample_env sample_frames (EVLoop_init rt) = Some l" by (rule sample_run [OF rt])
  moreover have "sample_frames = hd sample_frames # tl sample_frames" by (simp add: sample_frames_def)
  ultimately obtain l1 where l1: "handle sample_env (hd sample_frames) (EVLoop_init rt) = Some l1"
    by (metis bind_eq_Some_conv run_events.simps(2))
  from sessions_refine_machine [OF reachable.start [OF rt] l1] rt l1 show ?thesis
    by (intro exI [of _ rt] exI [of _ l1]) (simp add: EVLoop_init_def)
qed

end
