(* ===== verification/Lcp_Options.thy ===== *)
theory Lcp_Options
  imports Lcp_Spec
begin

text \<open>
  When the loop over the options of an LCP Configure-Request returns.
\<close>

text \<open>The bytes the loop reads of an option, by its type.\<close>

definition value_inside :: "bytes \<Rightarrow> nat \<Rightarrow> bool" where
  "value_inside p opt \<longleftrightarrow>
     opt + (if LCP_OPTIONS_of (p ! opt) = Some MRU then 4
            else if LCP_OPTIONS_of (p ! opt) = Some MAGIC_NUMBER then 6
            else unat (p ! (opt + 1))) \<le> length p"

text \<open>
  The options area is well formed from an offset on: the length byte of every option is inside the
  packet and is not 0, and so is what the loop reads of the option.
\<close>

inductive lcp_opts_wf :: "bytes \<Rightarrow> u32 \<Rightarrow> u32 \<Rightarrow> bool" for p len where
  stop: "\<not> offset < len \<Longrightarrow> lcp_opts_wf p len offset"
| step: "offset < len \<Longrightarrow> 13 + unat offset < length p \<Longrightarrow> p ! (13 + unat offset) \<noteq> 0 \<Longrightarrow>
    value_inside p (12 + unat offset) \<Longrightarrow> lcp_opts_wf p len (offset + ucast (p ! (13 + unat offset))) \<Longrightarrow>
    lcp_opts_wf p len offset"

lemma lcp_opt_loop_step:
  assumes "offset < len" "13 + unat offset < length p" "value_inside p (12 + unat offset)"
  shows "\<exists>code' rej' rt'. lcp_opt_loop r p len offset code rej rt =
    lcp_opt_loop r p len (offset + ucast (p ! (13 + unat offset))) code' rej' rt'"
  using assms
  by (subst lcp_opt_loop.simps)
    (auto simp: load8_def load16_def load32_def load_range_def value_inside_def split: if_splits)

lemma wf_lcp_opt_loop: "lcp_opts_wf p len offset \<Longrightarrow> \<exists>res. lcp_opt_loop r p len offset code rej rt = Some res"
proof (induction arbitrary: code rej rt rule: lcp_opts_wf.induct)
  case (stop offset)
  then show ?case by (subst lcp_opt_loop.simps) simp
next
  case (step offset)
  from lcp_opt_loop_step [OF step.hyps(1,2,4)] step.IH show ?case by metis
qed

lemma lcp_opt_loop_wf:
  assumes "lcp_opt_loop r p len offset code rej rt = Some res"
  shows "lcp_opts_wf p len offset"
proof (rule lcp_opt_loop.raw_induct [where P = "\<lambda>r p len offset code rej rt res. lcp_opts_wf p len offset", OF _ assms])
  fix loop r p len offset code rej rt res
  assume IH: "\<And>r p len offset code rej rt res. loop r p len offset code rej rt = Some res \<Longrightarrow> lcp_opts_wf p len offset"
    and eq: "(if offset < len
      then let opt = 12 + unat offset in
        load8 p (opt + 1) \<bind> (\<lambda>optlen. let offset = offset + ucast optlen in
        load8 p opt \<bind> (\<lambda>o'.
        (if LCP_OPTIONS_of o' = Some MRU
         then load16 p (opt + 2) \<bind> (\<lambda>v. loop r p len offset code rej
             (upd_sess r (\<lambda>s. s\<lparr>peer_MRU := bswap16 v\<rparr>) rt))
         else if LCP_OPTIONS_of o' = Some MAGIC_NUMBER
         then load32 p (opt + 2) \<bind> (\<lambda>v. loop r p len offset code rej
             (upd_sess r (\<lambda>s. s\<lparr>peer_magic_number := bswap32 v\<rparr>) rt))
         else load_range p opt (unat optlen) \<bind> (\<lambda>bs. loop r p len offset CONF_REJ (rej @ bs) rt))))
      else Some ((code, rej), rt)) = Some res"
  show "lcp_opts_wf p len offset"
  proof (cases "offset < len")
    case True
    let ?o = "p ! (13 + unat offset)"
    from eq True have b: "13 + unat offset < length p" "value_inside p (12 + unat offset)"
      and "\<exists>code' rej' rt'. loop r p len (offset + ucast ?o) code' rej' rt' = Some res"
      by (auto simp: load8_def load16_def load32_def load_range_def value_inside_def Let_def bind_eq_Some_conv
          split: if_splits)
    with IH have wf: "lcp_opts_wf p len (offset + ucast ?o)" by blast
    show ?thesis
    proof (cases "?o = 0")
      case True
      with wf show ?thesis by simp
    qed (use True b wf in \<open>auto intro: lcp_opts_wf.step\<close>)
  qed (auto intro: lcp_opts_wf.stop)
qed

lemma zero_not_wf: "lcp_opts_wf p len offset \<Longrightarrow> offset < len \<Longrightarrow> p ! (13 + unat offset) \<noteq> 0"
  by (auto elim: lcp_opts_wf.cases)

text \<open>
  C19. The loop over the options of a Configure-Request returns exactly on a well-formed area: at
  an option of length 0 it never does, although every byte it reads is inside the packet. One
  frame before authentication stops the daemon.
\<close>

theorem lcp_options_return_iff:
  "(lcp_opt_loop r p len offset code rej rt \<noteq> None \<longleftrightarrow> lcp_opts_wf p len offset) \<and>
   (offset < len \<and> p ! (13 + unat offset) = 0 \<longrightarrow> lcp_opt_loop r p len offset code rej rt = None)"
  using wf_lcp_opt_loop lcp_opt_loop_wf zero_not_wf by (metis not_Some_eq)

theorem lcp_options_return_iff_witness:
  "lcp_opt_loop 0 (replicate 12 0 @ [2, 0, 0, 0]) 4 0 CONF_ACK [] sample_rt = None"
  using lcp_options_return_iff [of 0 "replicate 12 0 @ [2, 0, 0, 0]" 4 0 CONF_ACK "[]" sample_rt]
  by (simp add: nth_append)

end
