(* ===== verification/Auth_Spec.thy ===== *)
theory Auth_Spec
  imports Aaa_Spec
begin

text \<open>
  Authentication where methods, reloads and the challenge meet: what a successful NONE leaves to be
  done, what a reload of the configuration does to addresses in use, and CHAP's challenge.
\<close>

section \<open>NONE, then RADIUS\<close>

lemma startSessionRadius_sends:
  assumes c: "auth_clients rt = (n, c) # cs" "map_of (callbacks c) (last_id c + 1) = None"
  shows "\<exists>rt' c' it. startSessionRadius env u pw e cb rt = Some rt' \<and>
    heap rt' = heap rt \<and> ppp_outcoming rt' = ppp_outcoming rt \<and>
    get_client (Auth_server n) rt' = Some c' \<and> length (sent c') = Suc (length (sent c)) \<and>
    map_of (callbacks c') (last_id c + 1) = Some it \<and> response it = ProcessRadiusAnswer cb u"
  using c
  by (simp add: startSessionRadius_def request_def generateAuthenticator_def register_and_send_def client_send_def
      Let_def case_prod_unfold snd_draws om_find_set om_find_emplace)

text \<open>
  C13. With the methods NONE and RADIUS, a peer that NONE has admitted, with its Ack sent and IPCP
  started, is sent on to the RADIUS server as well: the request goes out, and its answer, whenever
  it comes, is bound to the same PPPoE session.
\<close>

theorem none_then_radius_requests:
  assumes s: "heap rt r = Some s" "\<not> auth_started (auth s)" "state (ipcp s) = Initial"
    and ok: "pap_request_ok hdr u pw" and m: "aaa_method (aaa_conf (conf rt)) = [NONE, RADIUS]"
    and tn: "local_template (aaa_conf (conf rt)) \<noteq> []"
    and t: "map_of (pppoe_templates (conf rt)) (local_template (aaa_conf (conf rt))) = Some t"
    and p: "find_pool (t_framed_pool t) rt = Some p" "stop_ip p \<noteq> - 1"
    and free: "start_ip p \<le> k" "k \<le> stop_ip p" "k \<notin> ips p"
    and i: "map_of (aaa_sessions rt) i = None" "i \<noteq> - 1" "\<And>j. j < i \<Longrightarrow> map_of (aaa_sessions rt) j \<noteq> None"
    and c: "auth_clients rt = (n, c) # cs" "map_of (callbacks c) (last_id c + 1) = None"
  shows "\<exists>rt' c' it. PAP_receive env r (pap_request hdr u pw pad) rt = Some ((ACT_NONE, ''''), rt') \<and>
    heap rt' r = Some (pap_accepted i (s\<lparr>username := u\<rparr>)) \<and>
    ppp_outcoming rt' = ppp_outcoming rt @ pap_welcome s (hwaddr rt) \<and>
    get_client (Auth_server n) rt' = Some c' \<and> length (sent c') = Suc (length (sent c)) \<and>
    map_of (callbacks c') (last_id c + 1) = Some it \<and>
    response it = ProcessRadiusAnswer (PAP_auth_callback r) u"
proof -
  obtain rt2 where
    "PAP_receive env r (pap_request hdr u pw pad) rt = map_option (Pair (ACT_NONE, ''''))
       (startSessionRadius env u pw (encap s) (PAP_auth_callback r) rt2)"
    "heap rt2 r = Some (pap_accepted i (s\<lparr>username := u\<rparr>))"
    "ppp_outcoming rt2 = ppp_outcoming rt @ pap_welcome s (hwaddr rt)" "auth_clients rt2 = auth_clients rt"
    by (rule pap_none_step [OF s ok m tn t p free i, of env pad]) simp_all
  with startSessionRadius_sends [of rt2 n c cs env u pw "encap s" "PAP_auth_callback r"] c
  show ?thesis by fastforce
qed

definition sample_client :: AuthClient where
  "sample_client = AuthClient_ctor 0x7F000001 1812 ''s'' empty_dict"

text \<open>The running daemon of the examples with a RADIUS server and both methods.\<close>

definition sample_radius_rt :: PPPOERuntime where
  "sample_radius_rt = sample_rt\<lparr>
     conf := sample_conf\<lparr>aaa_conf := (aaa_conf sample_conf)\<lparr>aaa_method := [NONE, RADIUS]\<rparr>\<rparr>,
     auth_clients := [(''main'', sample_client)]\<rparr>"

theorem none_then_radius_requests_witness:
  "\<exists>rt' c'. PAP_receive sample_env 0 (pap_request [0x11, 0, 0, 1, 0, 10, 0xc0, 0x23, 1, 5, 0, 8] ''u'' ''p'' [])
       sample_radius_rt = Some ((ACT_NONE, ''''), rt') \<and>
     get_client (Auth_server ''main'') rt' = Some c' \<and> length (sent c') = 1 \<and> length (ppp_outcoming rt') = 2"
proof -
  let ?t = "\<lparr>t_framed_pool = ''p1'', t_dns1 = 0x08080808, t_dns2 = 0x01010101, t_vrf = [], t_unnumbered = []\<rparr>"
  let ?p = "\<lparr>start_ip = 0x64400002, stop_ip = 0x644000FF, ips = {}\<rparr>"
  have 0: "j < 1 \<Longrightarrow> map_of [(0 :: u32, 0 :: nat)] j \<noteq> None" for j by (simp add: word_less_1)
  have "pap_request_ok [0x11, 0, 0, 1, 0, 10, 0xc0, 0x23, 1, 5, 0, 8] ''u'' ''p''" by (simp add: pap_request_ok_def)
  from none_then_radius_requests [of sample_radius_rt 0 sample_session, where k = "0x64400002" and i = 1
      and env = sample_env and pad = "[]" and n = "''main''" and c = sample_client and cs = "[]", OF _ _ _ this, of ?t ?p]
  show ?thesis
    using 0 by (fastforce simp: sample_radius_rt_def sample_client_def AuthClient_ctor_def PPP_FSM_ctor_def sample_conf_def
        find_pool_def pap_welcome_def)
qed

section \<open>A reload while addresses are in use\<close>

lemma allocate_ip_empty:
  assumes "start_ip p \<le> stop_ip p" "stop_ip p \<noteq> - 1" "ips p = {}"
  shows "allocate_ip p = Some (start_ip p, p\<lparr>ips := {start_ip p}\<rparr>)"
proof (cases rule: allocate_ip_cases [OF assms(2), case_names found full])
  case (found i)
  with assms have "i = start_ip p" by (metis empty_iff order_le_less)
  with found assms show ?thesis by simp
next
  case full
  with assms show ?thesis by auto
qed

text \<open>
  C14. Two subscribers get the same address when the configuration is reloaded between their
  admissions, although the first one's AAA session is still there: the pools come back empty from
  the file.
\<close>

theorem reload_reuses_address:
  assumes tn: "local_template (aaa_conf (conf rt)) \<noteq> []"
    and t: "map_of (pppoe_templates (conf rt)) (local_template (aaa_conf (conf rt))) = Some t"
    and p: "find_pool (t_framed_pool t) rt = Some p" "start_ip p \<le> stop_ip p" "stop_ip p \<noteq> - 1" "ips p = {}"
    and i: "map_of (aaa_sessions rt) i = None" "i \<noteq> - 1" "\<And>k. k < i \<Longrightarrow> map_of (aaa_sessions rt) k \<noteq> None"
    and j: "map_of (aaa_sessions rt) j = None" "j \<noteq> - 1" "j \<noteq> i"
      "\<And>k. k < j \<Longrightarrow> map_of (aaa_sessions rt) k \<noteq> None \<or> k = i"
  shows "\<exists>rt1 rt2 x y a b. startSessionNone env u pw rt = Some ((i, ''''), rt1) \<and>
    startSessionNone env u' pw' (reloadConfig (Some (conf rt)) rt1) = Some ((j, ''''), rt2) \<and>
    getSession i rt2 = (Some x, '''') \<and> aheap rt2 x = Some a \<and> a_username a = u \<and> a_address a = start_ip p \<and>
    getSession j rt2 = (Some y, '''') \<and> aheap rt2 y = Some b \<and> a_username b = u' \<and> a_address b = start_ip p"
proof -
  have ip: "allocate_ip p = Some (start_ip p, p\<lparr>ips := {start_ip p}\<rparr>)" using p(2-4) by (rule allocate_ip_empty)
  define rt1 where "rt1 = (put_pool (t_framed_pool t) (p\<lparr>ips := {start_ip p}\<rparr>) (rt\<lparr>nd_pos := nd_pos rt + 1\<rparr>))
      \<lparr>aheap := (aheap rt)(next_aref rt \<mapsto> none_session i u t (start_ip p) (nondet env (nd_pos rt))),
       next_aref := next_aref rt + 1, aaa_sessions := om_emplace i (next_aref rt) (aaa_sessions rt)\<rparr>"
  have run1: "startSessionNone env u pw rt = Some ((i, ''''), rt1)"
    unfolding rt1_def by (rule startSessionNone_ok [OF tn t p(1) ip find_free_sid_least [OF i] i(2)])
  let ?rt = "reloadConfig (Some (conf rt)) rt1"
  have rt: "conf ?rt = conf rt" "find_pool n ?rt = find_pool n rt" "next_aref ?rt = next_aref rt + 1"
    "aaa_sessions ?rt = om_emplace i (next_aref rt) (aaa_sessions rt)"
    "aheap ?rt = (aheap rt)(next_aref rt \<mapsto> none_session i u t (start_ip p) (nondet env (nd_pos rt)))" for n
    by (simp_all add: reloadConfig_def rt1_def find_pool_def put_pool_def)
  have "map_of (aaa_sessions ?rt) j = None" "\<And>k. k < j \<Longrightarrow> map_of (aaa_sessions ?rt) k \<noteq> None"
    using i(1) j by (auto simp: rt om_find_emplace)
  note sid = find_free_sid_least [OF this(1) j(2) this(2)]
  from startSessionNone_ok [of ?rt, OF _ _ _ ip sid j(2), of t env u' pw'] tn t p(1) rt(1,2)
  obtain rt2 where run2: "startSessionNone env u' pw' ?rt = Some ((j, ''''), rt2)"
    and rt2: "aheap rt2 = (aheap ?rt)(next_aref ?rt \<mapsto> none_session j u' t (start_ip p) (nondet env (nd_pos ?rt)))"
      "aaa_sessions rt2 = om_emplace j (next_aref ?rt) (aaa_sessions ?rt)" by auto
  have "map_of (aaa_sessions rt2) i = Some (next_aref rt)" "map_of (aaa_sessions rt2) j = Some (next_aref ?rt)"
    using i(1) j(1,3) by (auto simp: rt2 rt om_find_emplace)
  with run1 run2 rt2 rt show ?thesis by (simp add: getSession_def none_session_def)
qed

theorem reload_reuses_address_witness:
  "\<exists>rt1 rt2 x y a b. startSessionNone sample_env ''u1'' ''p'' (runtime_init sample_conf) = Some ((0, ''''), rt1) \<and>
     startSessionNone sample_env ''u2'' ''p'' (reloadConfig (Some sample_conf) rt1) = Some ((1, ''''), rt2) \<and>
     getSession 0 rt2 = (Some x, '''') \<and> aheap rt2 x = Some a \<and>
     getSession 1 rt2 = (Some y, '''') \<and> aheap rt2 y = Some b \<and> a_address a = a_address b"
proof -
  let ?t = "\<lparr>t_framed_pool = ''p1'', t_dns1 = 0x08080808, t_dns2 = 0x01010101, t_vrf = [], t_unnumbered = []\<rparr>"
  let ?p = "\<lparr>start_ip = 0x64400002, stop_ip = 0x644000FF, ips = {}\<rparr>"
  show ?thesis
    using reload_reuses_address [of "runtime_init sample_conf" ?t ?p 0 1 sample_env "''u1''" "''p''" "''u2''" "''p''"]
    by (fastforce simp: runtime_init_def sample_conf_def find_pool_def word_less_1)
qed

section \<open>CHAP's challenge\<close>

lemma put_range_inside:
  "i + length bs \<le> length p \<Longrightarrow> put_range i bs p = take i p @ bs @ drop (i + length bs) p"
proof (induction i bs p rule: put_range.induct)
  case (2 i b bs p)
  then have "take (i + 1) (p[i := b]) = take i p @ [b]" by (simp add: take_Suc_conv_app_nth)
  with 2 show ?case by simp
qed simp

lemma chap_challenge_bytes:
  assumes "length chal = 16"
  shows "chap_challenge_pkt sid chal ac =
    ppp_header CHAP sid (CHAP_CODE_val CHALLENGE) 0 (17 + length ac) @ 16 # chal @ bytes_of_string ac"
proof -
  note put = put_range_inside [of 13 chal, unfolded assms]
  show ?thesis
    using assms
    by (simp add: chap_challenge_pkt_def sizeof_defs Let_def resize_def fill_pppoe_session_def put8_def put16_def
        put replicate_numeral ppp_header_def bswap16_def add.commute)
qed

text \<open>
  C15. Opening CHAP sends one challenge: the MD5 of 32 random characters, 16 bytes, with the name the
  policy of the subscriber's VLAN gives the concentrator; the same 16 bytes are what the session
  remembers for the response. Its identifier is always 0.
\<close>

theorem chap_challenge_sent:
  assumes "heap rt r = Some s"
  shows "\<exists>seed chal rt'. CHAP_open env r rt = Some rt' \<and>
    length seed = 32 \<and> set seed \<subseteq> set charset \<and> chal = resize 16 (md5 env (bytes_of_string seed)) \<and>
    heap rt' r = Some (s\<lparr>chap := (chap s)\<lparr>challenge := chal\<rparr>\<rparr>) \<and>
    ppp_outcoming rt' = ppp_outcoming rt @
      [generate_header (encap s) (hwaddr rt) ETH_PPPOE_SESSION @
       ppp_header CHAP (session_id s) 1 0 (17 + length (ac_name (pppoe_policy (conf rt) (outer_vlan (encap s))))) @
       16 # chal @ bytes_of_string (ac_name (pppoe_policy (conf rt) (outer_vlan (encap s))))]"
proof -
  let ?seed = "map randchar (fst (draws env 32 rt))"
  have "set ?seed \<subseteq> set charset"
  proof -
    have "randchar v \<in> set charset" for v
    proof -
      have "length charset = 62" by (simp add: charset_def)
      then show ?thesis by (simp add: randchar_def)
    qed
    then show ?thesis by auto
  qed
  moreover have "length ?seed = 32" by (simp add: length_draws)
  ultimately show ?thesis
    using assms
    by (intro exI [of _ ?seed])
      (simp add: CHAP_open_def CHAP_send_conf_req_def random_string_def Let_def case_prod_unfold snd_draws
        upd_sess_def chap_challenge_bytes send_session_pkt_def push_ppp_def)
qed

theorem chap_challenge_sent_witness:
  "\<exists>chal rt'. CHAP_open sample_env 0 sample_rt = Some rt' \<and> length chal = 16 \<and>
     map_option (\<lambda>s. challenge (chap s)) (heap rt' 0) = Some chal \<and> length (ppp_outcoming rt') = 1"
  using chap_challenge_sent [of sample_rt 0 sample_session sample_env] by (auto simp: resize_def)

end
