(* ===== verification/Pppctl.thy ===== *)
theory Pppctl
  imports Text_Output Cli_Spec
begin

text \<open>
  The control program: \<^verbatim>\<open>src/pppctl.hpp\<close> and \<^verbatim>\<open>src/pppctl.cpp\<close>. Its commands are a tree of
  words; the nodes are not shared, so the tree is a value. The terminal and the socket are
  parameters.
\<close>

section \<open>Words\<close>

text \<open>\<^verbatim>\<open>boost::split\<close> on blanks; the empty tokens are erased.\<close>

fun split_at_blank :: "string \<Rightarrow> string list" where
  "split_at_blank [] = [[]]"
| "split_at_blank (c # s) =
     (if c = CHR '' '' then [] # split_at_blank s
      else (case split_at_blank s of t # ts \<Rightarrow> (c # t) # ts | [] \<Rightarrow> [[c]]))"

definition split :: "string \<Rightarrow> string list" where
  "split input = filter (\<lambda>t. t \<noteq> []) (split_at_blank input)"

section \<open>The tree of commands\<close>

datatype cmd_callback = Get_version | Get_interfaces | Get_pppoe_sessions | Get_aaa_sessions | Exit_cb

datatype CLINodeType = BEGIN | STATIC | ARGUMENT | END

datatype CLINode = CLINode (node_type: CLINodeType) (node_token: string) (node_callback: "cmd_callback option")
  (next_nodes: "CLINode list")

definition next_node :: "string \<Rightarrow> CLINode \<Rightarrow> CLINode option" where
  "next_node tok node = find (\<lambda>v. node_token v = tok) (next_nodes node)"

text \<open>The first node of a list with a token, changed.\<close>

fun at_first :: "('a \<Rightarrow> bool) \<Rightarrow> ('a \<Rightarrow> 'a) \<Rightarrow> 'a list \<Rightarrow> 'a list" where
  "at_first P f [] = []"
| "at_first P f (x # xs) = (if P x then f x # xs else x # at_first P f xs)"

primrec add_tokens :: "string list \<Rightarrow> cmd_callback \<Rightarrow> CLINode \<Rightarrow> CLINode" where
  "add_tokens [] cb node =
     CLINode (node_type node) (node_token node) (node_callback node) (next_nodes node @ [CLINode END [] (Some cb) []])"
| "add_tokens (tok # toks) cb node =
     CLINode (node_type node) (node_token node) (node_callback node)
       (if next_node tok node \<noteq> None
        then at_first (\<lambda>v. node_token v = tok) (add_tokens toks cb) (next_nodes node)
        else next_nodes node @ [add_tokens toks cb (CLINode STATIC tok None [])])"

definition add_cmd :: "string \<Rightarrow> cmd_callback \<Rightarrow> CLINode \<Rightarrow> CLINode" where
  "add_cmd full_command cb start = add_tokens (split full_command) cb start"

definition CLICMD_ctor :: CLINode where
  "CLICMD_ctor =
     (let node = CLINode BEGIN [] None [];
          node = add_cmd ''show version'' Get_version node;
          node = add_cmd ''show interfaces'' Get_interfaces node;
          node = add_cmd ''show pppoe sessions'' Get_pppoe_sessions node;
          node = add_cmd ''show aaa sessions'' Get_aaa_sessions node
      in add_cmd ''exit'' Exit_cb node)"

text \<open>A token that no next node has leaves the walk where it is.\<close>

fun walk :: "string list \<Rightarrow> CLINode \<Rightarrow> CLINode" where
  "walk [] node = node"
| "walk (tok # toks) node = walk toks (case next_node tok node of Some n \<Rightarrow> n | None \<Rightarrow> node)"

text \<open>The callback of a command; \<^const>\<open>None\<close> is the exception ``Wrong command''.\<close>

definition call_cmd :: "CLINode \<Rightarrow> string \<Rightarrow> cmd_callback option" where
  "call_cmd start cmd =
     (let node = walk (split cmd) start;
          node = (case next_nodes node of [n] \<Rightarrow> n | _ \<Rightarrow> node)
      in if node_type node \<noteq> END then None else node_callback node)"

text \<open>Completions: the words walked so far, and what the last ones may continue to.\<close>

fun append_walk :: "string list \<Rightarrow> string \<Rightarrow> string list \<Rightarrow> CLINode \<Rightarrow> CLINode \<times> string \<times> string list" where
  "append_walk [] common ret node = (node, common, ret)"
| "append_walk (tok # toks) common ret node =
     (case next_node tok node of
        Some n \<Rightarrow> append_walk toks (common @ node_token n @ '' '') ret n
      | None \<Rightarrow> append_walk toks common
          (ret @ map (\<lambda>n. common @ node_token n) (filter (\<lambda>n. starts_with (node_token n) tok) (next_nodes node))) node)"

definition append_cmd :: "CLINode \<Rightarrow> string \<Rightarrow> string list" where
  "append_cmd start cmd =
     (let (node, common, ret) = append_walk (split cmd) [] [] start
      in if ret = [] then map (\<lambda>n. common @ node_token n) (next_nodes node) else ret)"

section \<open>The client\<close>

text \<open>What each callback sends; the request's data and error are empty. \<open>exit\<close> ends the program.\<close>

definition cli_request :: "'i archive \<Rightarrow> CLI_CMD \<Rightarrow> string" where
  "cli_request A cmd = serialize A put_CLI_MSG
     \<lparr>msg_type = CLI_CMD_TYPE_val REQUEST, msg_cmd = CLI_CMD_val cmd, msg_data = [], msg_error = []\<rparr>"

fun callback_msg :: "'i archive \<Rightarrow> cmd_callback \<Rightarrow> string option" where
  "callback_msg A Get_version = Some (cli_request A GET_VERSION)"
| "callback_msg A Get_interfaces = Some (cli_request A GET_VPP_IFACES)"
| "callback_msg A Get_pppoe_sessions = Some (cli_request A GET_PPPOE_SESSIONS)"
| "callback_msg A Get_aaa_sessions = Some (cli_request A GET_AAA_SESSIONS)"
| "callback_msg A Exit_cb = None"

text \<open>The errors the program reports on its error stream.\<close>

datatype client_error = Wrong_command | Connection_error | Bad_message

record CLIClient =
  current_cmd :: string
  screen :: string
  errors :: "client_error list"
  exited :: bool

definition greeting :: string where "greeting = ''pppctl# ''"

text \<open>\<^verbatim>\<open>\033[2K\<close> clears the line.\<close>

definition clear_line :: string where "clear_line = CHR 0x1B # ''[2K''"

definition CLIClient_ctor :: CLIClient where
  "CLIClient_ctor = \<lparr>current_cmd = [], screen = clear_line @ greeting, errors = [], exited = False\<rparr>"

definition print :: "string \<Rightarrow> CLIClient \<Rightarrow> CLIClient" where
  "print s cl = cl\<lparr>screen := screen cl @ s\<rparr>"

definition resp_text :: "'i archive \<Rightarrow> (address_v4_t \<Rightarrow> string) \<Rightarrow> CLI_MSG \<Rightarrow> string option" where
  "resp_text A ats result =
     (case CLI_CMD_of (msg_cmd result) of
        Some GET_PPPOE_SESSIONS \<Rightarrow>
          map_option (pppoe_table ats) (deserialize A (get_GET_PPPOE_SESSION_RESP A) (msg_data result))
      | Some GET_AAA_SESSIONS \<Rightarrow> map_option aaa_table (deserialize A (get_GET_AAA_SESSIONS_RESP A) (msg_data result))
      | Some GET_VERSION \<Rightarrow> map_option version_text (deserialize A (get_string A) (msg_data result))
      | Some GET_VPP_IFACES \<Rightarrow> map_option ifaces_table (deserialize A (get_GET_VPP_IFACES_RESP A) (msg_data result))
      | None \<Rightarrow> Some [])"

text \<open>The response is printed; a part that cannot be read throws, after what was printed before it.\<close>

definition print_resp :: "'i archive \<Rightarrow> (address_v4_t \<Rightarrow> string) \<Rightarrow> string \<Rightarrow> CLIClient \<Rightarrow> bool \<times> CLIClient" where
  "print_resp A ats m cl =
     (case deserialize A (get_CLI_MSG A) m of
        None \<Rightarrow> (False, cl)
      | Some result \<Rightarrow>
          (let cl = (if msg_error result \<noteq> [] then print (''Error: '' @ msg_error result @ endl) cl else cl)
           in if CLI_CMD_of (msg_cmd result) = None then (True, cl)
              else case resp_text A ats result of
                  None \<Rightarrow> (False, cl)
                | Some t \<Rightarrow> (True, print (t @ endl) cl)))"

text \<open>
  \<open>srv\<close> is the daemon: what is read up to the end of a message once the bytes are written, or
  nothing when the socket fails.
\<close>

definition process_input ::
  "'i archive \<Rightarrow> (address_v4_t \<Rightarrow> string) \<Rightarrow> (string \<Rightarrow> string option) \<Rightarrow> CLINode \<Rightarrow> string \<Rightarrow> CLIClient \<Rightarrow> CLIClient" where
  "process_input A ats srv tree inp cl =
     (case call_cmd tree inp of
        None \<Rightarrow> cl\<lparr>errors := errors cl @ [Wrong_command]\<rparr>
      | Some cb \<Rightarrow>
          (case callback_msg A cb of
             None \<Rightarrow> cl\<lparr>exited := True\<rparr>
           | Some m \<Rightarrow>
               (case srv (m @ end_of_msg) of
                  None \<Rightarrow> cl\<lparr>errors := errors cl @ [Connection_error]\<rparr>
                | Some reply \<Rightarrow>
                    (let (ok, cl) = print_resp A ats reply cl
                     in if ok then cl else cl\<lparr>errors := errors cl @ [Bad_message]\<rparr>))))"

definition print_tokens :: "string list \<Rightarrow> CLIClient \<Rightarrow> CLIClient" where
  "print_tokens toks cl = fold (\<lambda>t. print ('' '' @ t @ endl)) toks cl"

definition complete :: "CLINode \<Rightarrow> CLIClient \<Rightarrow> CLIClient" where
  "complete tree cl =
     (let cl = print endl cl; append = append_cmd tree (current_cmd cl)
      in case append of
           [a] \<Rightarrow> cl\<lparr>current_cmd := a @ '' ''\<rparr>
         | _ \<Rightarrow> print_tokens append cl)"

definition is_alnum :: "char \<Rightarrow> bool" where
  "is_alnum c \<longleftrightarrow> (let n = (of_char c :: nat) in 48 \<le> n \<and> n \<le> 57 \<or> 65 \<le> n \<and> n \<le> 90 \<or> 97 \<le> n \<and> n \<le> 122)"

text \<open>One character. The case of the backspace has no break: it goes on with that of the tabulator.\<close>

definition process_char ::
  "'i archive \<Rightarrow> (address_v4_t \<Rightarrow> string) \<Rightarrow> (string \<Rightarrow> string option) \<Rightarrow> CLINode \<Rightarrow> char \<Rightarrow> CLIClient \<Rightarrow> CLIClient" where
  "process_char A ats srv tree ch cl =
     (if ch = CHR ''?'' then print_tokens (append_cmd tree (current_cmd cl)) (print endl cl)
      else if ch = CHR 0x08 then
        complete tree (if current_cmd cl \<noteq> [] then cl\<lparr>current_cmd := butlast (current_cmd cl)\<rparr> else cl)
      else if ch = CHR 0x09 then complete tree cl
      else if ch = CHR 0x0A then
        (let cl = print endl cl
         in if current_cmd cl \<noteq> [] then (process_input A ats srv tree (current_cmd cl) cl)\<lparr>current_cmd := []\<rparr>
            else cl)
      else if is_alnum ch \<or> ch = CHR '' '' then cl\<lparr>current_cmd := current_cmd cl @ [ch]\<rparr>
      else cl)"

text \<open>
  Characters read from the terminal, and the prompt after them. The characters are committed to
  the buffer twice, the second time by the handler; \<open>extra\<close> is what that puts behind them.
\<close>

definition on_read ::
  "'i archive \<Rightarrow> (address_v4_t \<Rightarrow> string) \<Rightarrow> (string \<Rightarrow> string option) \<Rightarrow> CLINode \<Rightarrow> string \<Rightarrow> string \<Rightarrow> CLIClient \<Rightarrow> CLIClient" where
  "on_read A ats srv tree chars extra cl =
     (let cl = fold (\<lambda>ch cl. if exited cl then cl else process_char A ats srv tree ch cl) (chars @ extra) cl
      in if exited cl then cl else print (clear_line @ [CHR 0x0D] @ greeting @ current_cmd cl) cl)"

end
