(* ===== verification/Pppctl_Spec.thy ===== *)
theory Pppctl_Spec
  imports Pppctl
begin

text \<open>
  The control program as its user sees it: which words make a command, what it prints, and what
  its keys do; composed with the daemon at the other end of the socket.
\<close>

section \<open>Words\<close>

lemma split_at_blank_nonempty [simp]: "split_at_blank s \<noteq> []"
  by (induction s) (auto split: list.split)

lemma split_at_blank_append:
  "split_at_blank (a @ CHR '' '' # b) = split_at_blank a @ split_at_blank b"
  by (induction a) (auto split: list.split)

lemma split_blank_append: "split (a @ '' '' @ b) = split a @ split b"
  by (simp add: split_def split_at_blank_append)

lemma split_word: "CHR '' '' \<notin> set w \<Longrightarrow> split w = (if w = [] then [] else [w])"
proof -
  have "CHR '' '' \<notin> set w \<Longrightarrow> split_at_blank w = [w]" by (induction w) auto
  then show "CHR '' '' \<notin> set w \<Longrightarrow> split w = (if w = [] then [] else [w])" by (simp add: split_def)
qed

section \<open>The commands\<close>

lemma tree:
  "CLICMD_ctor = CLINode BEGIN [] None
     [CLINode STATIC ''show'' None
        [CLINode STATIC ''version'' None [CLINode END [] (Some Get_version) []],
         CLINode STATIC ''interfaces'' None [CLINode END [] (Some Get_interfaces) []],
         CLINode STATIC ''pppoe'' None [CLINode STATIC ''sessions'' None [CLINode END [] (Some Get_pppoe_sessions) []]],
         CLINode STATIC ''aaa'' None [CLINode STATIC ''sessions'' None [CLINode END [] (Some Get_aaa_sessions) []]]],
      CLINode STATIC ''exit'' None [CLINode END [] (Some Exit_cb) []]]"
  by (simp add: CLICMD_ctor_def add_cmd_def split_def next_node_def Let_def)

lemma walk_append: "walk (xs @ ys) n = walk ys (walk xs n)"
  by (induction xs arbitrary: n) simp_all

definition words :: "string set" where
  "words = {[], ''show'', ''version'', ''interfaces'', ''pppoe'', ''aaa'', ''sessions'', ''exit''}"

fun known :: "CLINode \<Rightarrow> bool" where
  "known (CLINode t tok cb ns) \<longleftrightarrow> (\<forall>n \<in> set ns. node_token n \<in> words \<and> known n)"

lemma known_next: "known node \<Longrightarrow> next_node tok node = Some n \<Longrightarrow> known n \<and> tok \<in> words"
  unfolding next_node_def by (cases node) (auto dest!: find_SomeD)

lemma known_walk: "known node \<Longrightarrow> known (walk toks node)"
  by (induction toks arbitrary: node) (auto split: option.split dest: known_next)

lemma known_tree: "known CLICMD_ctor"
  by (simp add: tree words_def)

text \<open>
  C38. A word that is in no command does not count, wherever it stands: a line with it runs the
  command the line without it runs, so \<open>exit now\<close> exits.
\<close>

theorem ctl_unknown_word_skipped:
  assumes "w \<notin> words" "CHR '' '' \<notin> set w"
  shows "call_cmd CLICMD_ctor (a @ '' '' @ w @ '' '' @ b) = call_cmd CLICMD_ctor (a @ '' '' @ b)"
proof -
  let ?n = "walk (split a) CLICMD_ctor"
  have "known ?n" by (rule known_walk [OF known_tree])
  then have "next_node w ?n = None" using known_next [of ?n w] assms(1) by (cases "next_node w ?n") auto
  moreover have "w \<noteq> []" using assms(1) by (auto simp: words_def)
  ultimately have "walk (split (a @ '' '' @ w @ '' '' @ b)) CLICMD_ctor = walk (split (a @ '' '' @ b)) CLICMD_ctor"
    using split_word [OF assms(2)] split_blank_append [of a] split_blank_append [of w b]
    by (simp add: walk_append)
  then show ?thesis by (simp add: call_cmd_def)
qed

theorem ctl_unknown_word_skipped_witness:
  "call_cmd CLICMD_ctor ''exit now '' = Some Exit_cb \<and> call_cmd CLICMD_ctor ''show new version'' = Some Get_version"
proof -
  have "call_cmd CLICMD_ctor ''exit now '' = call_cmd CLICMD_ctor ''exit ''"
    using ctl_unknown_word_skipped [of "''now''" "''exit''" "[]"] by (simp add: words_def)
  moreover have "call_cmd CLICMD_ctor ''show new version'' = call_cmd CLICMD_ctor ''show version''"
    using ctl_unknown_word_skipped [of "''new''" "''show''" "''version''"] by (simp add: words_def)
  ultimately show ?thesis by (simp add: call_cmd_def tree split_def next_node_def)
qed

section \<open>The keys\<close>

lemma current_cmd_print [simp]: "current_cmd (print s cl) = current_cmd cl"
  by (simp add: print_def)

lemma backspace_exit:
  "current_cmd cl = ''exit'' \<Longrightarrow> current_cmd (process_char A ats srv CLICMD_ctor CHR 0x08 cl) = ''exit ''"
  "current_cmd cl \<in> {''exit '', ''exit  ''} \<Longrightarrow>
     current_cmd (process_char A ats srv CLICMD_ctor CHR 0x08 cl) = ''exit  ''"
  by (auto simp: process_char_def complete_def append_cmd_def tree split_def next_node_def Let_def)

text \<open>
  Once \<open>exit\<close> is on the line it cannot be erased: every backspace takes one character off and
  then completes the line again.
\<close>

theorem ctl_backspace_completes:
  assumes "current_cmd cl = ''exit''"
  shows "current_cmd ((process_char A ats srv CLICMD_ctor CHR 0x08 ^^ Suc (Suc n)) cl) = ''exit  ''"
proof (induction n)
  case 0
  then show ?case using backspace_exit [of _ A ats srv] assms by simp
next
  case (Suc n)
  then show ?case using backspace_exit(2) [of _ A ats srv] by simp
qed

theorem ctl_backspace_completes_witness:
  "current_cmd ((process_char byte_archive dotted (\<lambda>m. None) CLICMD_ctor CHR 0x08 ^^ 2)
     (CLIClient_ctor\<lparr>current_cmd := ''exit''\<rparr>)) = ''exit  ''"
  using ctl_backspace_completes [of "CLIClient_ctor\<lparr>current_cmd := ''exit''\<rparr>" 0 byte_archive dotted "\<lambda>m. None"]
  by (simp add: numeral_2_eq_2)

section \<open>Client and daemon\<close>

text \<open>The daemon's end of a new connection, when the socket takes the whole answer at once.\<close>

definition daemon_answers ::
  "'i archive \<Rightarrow> (address_v4_t \<Rightarrow> string) \<Rightarrow> env \<Rightarrow> PPPOERuntime \<Rightarrow> string \<Rightarrow> string option" where
  "daemon_answers A ats env rt bytes =
     (case on_cli A ats env (Received bytes) CLISession_start rt of
        Some (c, _) \<Rightarrow> (case phase c of Writing out \<Rightarrow> Some out | _ \<Rightarrow> None)
      | None \<Rightarrow> None)"

lemma type_line:
  assumes "\<And>ch. ch \<in> set line \<Longrightarrow> is_alnum ch \<or> ch = CHR '' ''"
  shows "fold (process_char A ats srv tree) line cl = cl\<lparr>current_cmd := current_cmd cl @ line\<rparr>"
  using assms
proof (induction line arbitrary: cl)
  case (Cons ch line)
  have "process_char A ats srv tree ch cl = cl\<lparr>current_cmd := current_cmd cl @ [ch]\<rparr>"
    using Cons.prems [of ch] by (auto simp: process_char_def is_alnum_def)
  with Cons show ?case by simp
qed simp

lemma lists_sessions: 
  assumes "archive_ok A" "tables_ok rt"
    and whole: "split_msg (cli_request A GET_PPPOE_SESSIONS @ end_of_msg) = Some (cli_request A GET_PPPOE_SESSIONS, [])"
  shows "\<exists>out resp ds. daemon_answers A ats env rt (cli_request A GET_PPPOE_SESSIONS @ end_of_msg) = Some out \<and>
    deserialize A (get_CLI_MSG A) out = Some resp \<and> msg_cmd resp = CLI_CMD_val GET_PPPOE_SESSIONS \<and>
    msg_error resp = [] \<and> deserialize A (get_GET_PPPOE_SESSION_RESP A) (msg_data resp) = Some ds \<and>
    list_all2 (\<lambda>(k, r) d. map_option pppoe_dump (heap rt r) = Some d) (activeSessions rt) ds"
proof -
  have c: "phase CLISession_start = Reading" "request_buf CLISession_start = []"
    by (simp_all add: CLISession_start_def)
  let ?m = "\<lparr>msg_type = CLI_CMD_TYPE_val REQUEST, msg_cmd = CLI_CMD_val GET_PPPOE_SESSIONS, msg_data = [], msg_error = []\<rparr>"
  have m: "msg_cmd ?m = CLI_CMD_val GET_PPPOE_SESSIONS" by simp
  from sessions_listed [OF assms(1,2) c m cli_request_def [of A GET_PPPOE_SESSIONS] whole, of ats env]
  show ?thesis by (fastforce simp: daemon_answers_def)
qed



end
