(* ===== verification/Terminal.thy ===== *)
theory Terminal
  imports Pppctl_Spec
begin

unbundle bit_operations_syntax

text \<open>
  The control program as a process: \<open>main\<close>, the terminal it sets up, the signals and the ways it ends
  (\<^verbatim>\<open>src/pppctl.cpp\<close>). What the system calls answer is given; a status is \<^const>\<open>None\<close>
  while the program runs.
\<close>

section \<open>The terminal\<close>

record termios =
  c_iflag :: u32
  c_oflag :: u32
  c_cflag :: u32
  c_lflag :: u32
  c_cc :: bytes

definition ECHO :: u32 where "ECHO = 0x0008"
definition ICANON :: u32 where "ICANON = 0x0002"
definition IEXTEN :: u32 where "IEXTEN = 0x8000"
definition VTIME :: nat where "VTIME = 5"
definition VMIN :: nat where "VMIN = 6"

text \<open>Echo, canonical mode and extended input processing off; a byte at a time, no timer.\<close>

definition raw_mode :: "termios \<Rightarrow> termios" where
  "raw_mode tio =
     (let tio = tio\<lparr>c_lflag := c_lflag tio AND NOT (ECHO OR ICANON OR IEXTEN)\<rparr>;
          tio = tio\<lparr>c_cc := (c_cc tio)[VMIN := 1]\<rparr>
      in tio\<lparr>c_cc := (c_cc tio)[VTIME := 0]\<rparr>)"

definition zero_tio :: termios where
  "zero_tio = \<lparr>c_iflag = 0, c_oflag = 0, c_cflag = 0, c_lflag = 0, c_cc = replicate 32 0\<rparr>"

section \<open>The program\<close>

text \<open>\<open>reading\<close>: a read from the terminal is pending. The global \<open>orig_tio\<close> is zero until it is read.\<close>

record Ctl =
  tty :: termios
  orig_tio :: termios
  cli :: CLIClient
  reading :: bool
  error_text :: string
  status :: "int option"

text \<open>
  The start: \<open>got\<close> and \<open>put\<close> say whether the settings of the terminal can be read and changed, \<open>conn\<close>
  is the text of the exception when the daemon's socket cannot be connected to.
\<close>

definition ctl_start :: "bool \<Rightarrow> bool \<Rightarrow> string option \<Rightarrow> termios \<Rightarrow> Ctl" where
  "ctl_start got put conn t =
     (let c = \<lparr>tty = t, orig_tio = zero_tio, cli = CLIClient_ctor, reading = False, error_text = [], status = None\<rparr>
      in if \<not> got then c\<lparr>error_text := ''Cannot get terminal settings'' @ endl, status := Some (- 1)\<rparr>
      else let c = c\<lparr>orig_tio := t\<rparr>
      in if \<not> put then c\<lparr>error_text := ''Cannot set terminal settings'' @ endl, status := Some (- 1)\<rparr>
      else let c = c\<lparr>tty := raw_mode (orig_tio c)\<rparr>
      in case conn of
           Some what \<Rightarrow> c\<lparr>error_text := what @ endl, status := Some 1\<rparr>
         | None \<Rightarrow> c\<lparr>reading := True\<rparr>)"

text \<open>The handler of SIGTERM and SIGINT, and what the command \<open>exit\<close> does.\<close>

definition signal_handler_term :: "Ctl \<Rightarrow> Ctl" where
  "signal_handler_term c = c\<lparr>tty := orig_tio c, status := Some 0\<rparr>"

definition exit_cb :: "Ctl \<Rightarrow> Ctl" where
  "exit_cb c = c\<lparr>tty := orig_tio c, status := Some 0\<rparr>"

text \<open>
  A read that has ended. After an error nothing reads the terminal any more; the program goes on
  waiting for signals.
\<close>

datatype ctl_event = Typed "string \<Rightarrow> string option" "string option" string string | Term_signal

fun ctl_step :: "'i archive \<Rightarrow> (address_v4_t \<Rightarrow> string) \<Rightarrow> ctl_event \<Rightarrow> Ctl \<Rightarrow> Ctl" where
  "ctl_step A ats (Typed srv (Some ec) chars extra) c = c\<lparr>reading := False\<rparr>"
| "ctl_step A ats (Typed srv None chars extra) c =
     (let c = c\<lparr>cli := on_read A ats srv CLICMD_ctor chars extra (cli c), reading := False\<rparr>
      in if exited (cli c) then exit_cb c else c\<lparr>reading := True\<rparr>)"
| "ctl_step A ats Term_signal c = signal_handler_term c"

fun ctl_enabled :: "ctl_event \<Rightarrow> Ctl \<Rightarrow> bool" where
  "ctl_enabled (Typed srv ec chars extra) c \<longleftrightarrow> reading c"
| "ctl_enabled Term_signal c \<longleftrightarrow> True"

inductive ctl_reachable :: "'i archive \<Rightarrow> (address_v4_t \<Rightarrow> string) \<Rightarrow> string option \<Rightarrow> termios \<Rightarrow> Ctl \<Rightarrow> bool"
  for A ats conn t where
  start: "ctl_reachable A ats conn t (ctl_start got put conn t)"
| step: "ctl_reachable A ats conn t c \<Longrightarrow> status c = None \<Longrightarrow> ctl_enabled ev c \<Longrightarrow>
    ctl_reachable A ats conn t (ctl_step A ats ev c)"

section \<open>The terminal at the end\<close>

lemma raw_mode_echo: "c_lflag (raw_mode t) AND ECHO = 0"
  by (rule bit_word_eqI) (auto simp: raw_mode_def Let_def bit_simps)

lemma ctl_reachable_inv:
  "ctl_reachable A ats conn t c \<Longrightarrow>
     (status c = None \<longrightarrow> tty c = raw_mode t \<and> orig_tio c = t \<and> conn = None \<and> \<not> exited (cli c)) \<and>
     (status c = Some 0 \<longrightarrow> tty c = t \<and> conn = None) \<and> (status c = Some 1 \<longrightarrow> tty c = raw_mode t \<and> conn \<noteq> None) \<and>
     (status c = Some (- 1) \<longrightarrow> tty c = t) \<and> (status c \<in> {None, Some 0, Some 1, Some (- 1)})"
proof (induction rule: ctl_reachable.induct)
  case (start got put)
  then show ?case by (auto simp: ctl_start_def Let_def CLIClient_ctor_def split: option.split)
next
  case (step c ev)
  then show ?case
    by (cases "(A, ats, ev, c)" rule: ctl_step.cases) (auto simp: exit_cb_def signal_handler_term_def Let_def)
qed

text \<open>
  C39. The control program leaves the terminal as it found it when it ends with \<open>exit\<close> or by a signal, and when it could
  not set it up; it ends so only if it could connect to the daemon. If it could not, it ends with
  status 1 and leaves the terminal without echo and line editing. While it runs, the terminal is
  in its raw mode.
\<close>

theorem ctl_leaves_terminal:
  assumes "ctl_reachable A ats conn t c"
  shows "(status c = None \<longrightarrow> tty c = raw_mode t \<and> conn = None) \<and>
    (status c = Some 0 \<longrightarrow> tty c = t \<and> conn = None) \<and>
    (status c = Some 1 \<longrightarrow> tty c = raw_mode t \<and> c_lflag (tty c) AND ECHO = 0 \<and> conn \<noteq> None) \<and>
    (status c = Some (- 1) \<longrightarrow> tty c = t) \<and> status c \<in> {None, Some 0, Some 1, Some (- 1)}"
  using ctl_reachable_inv [OF assms] raw_mode_echo [of t] by auto

text \<open>A terminal with echo, and no daemon.\<close>

theorem ctl_leaves_terminal_witness:
  "\<exists>c. ctl_reachable byte_archive dotted (Some ''No such file or directory'') (zero_tio\<lparr>c_lflag := 0x8A3B\<rparr>) c \<and>
     status c = Some 1 \<and> 0x8A3B AND ECHO \<noteq> 0 \<and> c_lflag (tty c) AND ECHO = 0"
proof -
  let ?t = "zero_tio\<lparr>c_lflag := 0x8A3B\<rparr>" and ?conn = "Some ''No such file or directory''"
  let ?c = "ctl_start True True ?conn ?t"
  have r: "ctl_reachable byte_archive dotted ?conn ?t ?c" by (rule ctl_reachable.start)
  have "status ?c = Some 1" by (simp add: ctl_start_def Let_def)
  moreover have "(0x8A3B :: u32) AND ECHO \<noteq> 0" by (simp add: ECHO_def)
  ultimately show ?thesis using ctl_leaves_terminal [OF r] r by blast
qed

end
