(* ===== verification/Spec2Isabelle.thy ===== *)
theory Spec2Isabelle
  imports Program Session_Machine Lcp_Options Auth_Spec Pppoe_Spec Terminal
begin

text \<open>
  pppcpd, a PPPoE control plane for VPP: a model of the daemon and of its control program.

  The program. \<^verbatim>\<open>src/main.cpp\<close> builds one \<open>PPPOERuntime\<close> (\<^verbatim>\<open>src/runtime.cpp\<close>) from a YAML file,
  brings the dataplane into the configured state (\<^verbatim>\<open>src/vpp.cpp\<close>) and runs an event loop
  (\<^verbatim>\<open>src/evloop.cpp\<close>). Ethernet frames go through \<^verbatim>\<open>src/encap.cpp\<close> to PPPoE discovery
  (\<^verbatim>\<open>src/pppoe.cpp\<close>), which opens and ends sessions, or to PPP (\<^verbatim>\<open>src/ppp.cpp\<close>), which hands
  them to a session's LCP, PAP, CHAP or IPCP (\<^verbatim>\<open>src/ppp_fsm.cpp\<close>, \<^verbatim>\<open>src/ppp_lcp.cpp\<close>,
  \<^verbatim>\<open>src/ppp_auth.cpp\<close>, \<^verbatim>\<open>src/ppp_chap.cpp\<close>, \<^verbatim>\<open>src/ppp_ipcp.cpp\<close>). LCP up starts authentication;
  authentication asks the AAA (\<^verbatim>\<open>src/aaa.cpp\<close>), which admits locally or through RADIUS
  (\<^verbatim>\<open>src/auth_client.cpp\<close>) and calls back; the callback starts IPCP; IPCP up provisions the session
  in VPP and starts accounting (\<^verbatim>\<open>src/session.cpp\<close>, \<^verbatim>\<open>src/aaa_session.cpp\<close>). Replies wait in two
  queues that a timer empties. A second program, \<^verbatim>\<open>src/pppctl.cpp\<close>, talks to the daemon through a
  socket (\<^verbatim>\<open>src/cli.cpp\<close>).

  How it is modelled. A run of the code is a function to an option: \<^const>\<open>None\<close> is a load outside a
  buffer, a dead or null object, an exception nothing catches, or an endless loop. Stores outside a
  buffer are counted (\<open>stray_stores\<close>). Objects behind shared pointers live in two stores of the
  runtime record, and bound handlers are values of a datatype. Words keep their width. A random
  value or uninitialised memory is the next draw of \<^const>\<open>nondet\<close>. Third-party code is a
  parameter: MD5 and the VPP API in \<open>env\<close>, yaml-cpp and the text of addresses in \<open>yaml_lib\<close>,
  Boost.Serialization in \<open>archive\<close>, the dictionary files as their lines. Where a property needs
  more of a library than that, \<open>yaml_ok\<close> and \<open>archive_ok\<close> say what it documents, and
  \<open>doc_lib\<close> and \<open>byte_archive\<close> are libraries that do it.

  The theories, with the files they model.

    \<^item> \<^theory_text>\<open>Prelude\<close>: outcomes, strings, \<^verbatim>\<open>std::map\<close> as an ordered list; the locales
      \<open>std_map\<close> and \<open>allocator\<close>, interpreted on the map, the pools and the session ids.
    \<^item> \<^theory_text>\<open>Net_Bytes\<close>, \<^theory_text>\<open>Wire\<close>, \<^theory_text>\<open>Encap\<close>: loads and stores in packets, \<^verbatim>\<open>net_integer.hpp\<close>,
      \<^verbatim>\<open>packet.hpp\<close>, \<^verbatim>\<open>packet.cpp\<close>, \<^verbatim>\<open>ethernet.hpp\<close>, \<^verbatim>\<open>encap.cpp\<close>.
    \<^item> \<^theory_text>\<open>Config\<close>, \<^theory_text>\<open>Yaml\<close>, \<^theory_text>\<open>Yaml_Spec\<close>, \<^theory_text>\<open>Yaml_Doc\<close>, \<^theory_text>\<open>Main_Program\<close>, \<^theory_text>\<open>Startup\<close>:
      \<^verbatim>\<open>config.hpp\<close>, \<^verbatim>\<open>policy.hpp\<close>, \<^verbatim>\<open>yaml.cpp\<close>, \<^verbatim>\<open>main.cpp\<close> and the constructor of the runtime.
    \<^item> \<^theory_text>\<open>Vpp\<close>: \<^verbatim>\<open>vpp.cpp\<close>; \<^theory_text>\<open>Ip_Pool\<close>: the pools of \<^verbatim>\<open>aaa.cpp\<close>.
    \<^item> \<^theory_text>\<open>Radius_Dict\<close>, \<^theory_text>\<open>Radius_Avp\<close>, \<^theory_text>\<open>Radius_Msg\<close>, \<^theory_text>\<open>Radius_Client\<close>: \<^verbatim>\<open>radius_dict.cpp\<close>,
      \<^verbatim>\<open>radius_avp.cpp\<close>, \<^verbatim>\<open>request_response.cpp\<close>, \<^verbatim>\<open>auth_client.cpp\<close>.
    \<^item> \<^theory_text>\<open>Runtime_State\<close>: the records of sessions, clients and runtime (\<^verbatim>\<open>session.hpp\<close>,
      \<^verbatim>\<open>runtime.hpp\<close> and the headers of the protocols), the random values of \<^verbatim>\<open>utils.cpp\<close>, and the
      relation \<open>frame\<close>: what every handler but the openers and closers of sessions preserves.
    \<^item> \<^theory_text>\<open>Aaa_Sessions\<close>, \<^theory_text>\<open>Aaa\<close>, \<^theory_text>\<open>Sessions\<close>: \<^verbatim>\<open>aaa_session.cpp\<close>, \<^verbatim>\<open>aaa.cpp\<close>, \<^verbatim>\<open>session.cpp\<close>
      and the tables of \<^verbatim>\<open>runtime.cpp\<close>.
    \<^item> \<^theory_text>\<open>Ppp_Fsm\<close>, \<^theory_text>\<open>Options\<close>, \<^theory_text>\<open>Ppp_Lcp\<close>, \<^theory_text>\<open>Ppp_Ipcp\<close>, \<^theory_text>\<open>Ppp_Auth\<close>, \<^theory_text>\<open>Ppp\<close>: the automaton
      over a record of its virtual methods, with the locale of what an implementation keeps,
      interpreted on LCP and IPCP; the protocols; the dispatcher.
    \<^item> \<^theory_text>\<open>Pppoe\<close>, \<^theory_text>\<open>Evloop\<close>: \<^verbatim>\<open>pppoe.cpp\<close>, \<^verbatim>\<open>evloop.cpp\<close>; \<open>reachable\<close> is the daemon as a
      transition system over frames, datagrams, timers, signals and the clean-up. \<^theory_text>\<open>Raw_Socket\<close>
      puts the sockets around it (opening, \<^verbatim>\<open>recvmsg\<close> with its control messages, sends that fail,
      the log lines that read packets) and shows that \<open>daemon_reachable\<close> refines \<open>reachable\<close>;
      \<^theory_text>\<open>Program\<close> adds \<open>main\<close> and the clients of the control socket (\<open>prog_reachable\<close>).
    \<^item> \<^theory_text>\<open>Daemon_Inv\<close>: the locales \<open>radius_inv\<close>, \<open>answer_inv\<close>, \<open>daemon_inv\<close> and \<open>reload_inv\<close>, which
      carry a property of the runtime from the single operations through the composed handlers to every
      event. They are interpreted on the session tables there, on addresses in \<^theory_text>\<open>Aaa_Invariant\<close>, on the
      typing of frames and automata in \<^theory_text>\<open>Conformance\<close>, on a deaf loop in \<^theory_text>\<open>Raw_Socket\<close>, and on what
      RADIUS leaves alone in \<^theory_text>\<open>Session_Machine\<close>: an abstract machine of offered connections and
      active sessions that the daemon refines.
    \<^item> \<^theory_text>\<open>Strings\<close>, \<^theory_text>\<open>Text_Output\<close>: \<^verbatim>\<open>string_helpers.cpp\<close>, \<^verbatim>\<open>log.hpp\<close>, \<^verbatim>\<open>log.cpp\<close>, the choice of
      the logger in \<^verbatim>\<open>runtime.cpp\<close>, and the printers of \<^verbatim>\<open>utils.cpp\<close>.
    \<^item> \<^theory_text>\<open>Cli\<close>, \<^theory_text>\<open>Cli_Spec\<close>, \<^theory_text>\<open>Pppctl\<close>, \<^theory_text>\<open>Pppctl_Spec\<close>, \<^theory_text>\<open>Terminal\<close>: \<^verbatim>\<open>cli.hpp\<close>, \<^verbatim>\<open>cli.cpp\<close>,
      \<^verbatim>\<open>pppctl.cpp\<close>; the locale \<open>reader\<close> (a reader undoes its writer) is interpreted on every
      message.
    \<^item> \<^theory_text>\<open>Handshake\<close>: a subscriber from its first frame to the dataplane, as a run of the
      daemon. \<^theory_text>\<open>Aaa_View\<close>, \<^theory_text>\<open>Aaa_Invariant\<close>: what the AAA sees of the runtime (locale \<open>fsm_view\<close>,
      interpreted on LCP and IPCP), and the invariant of addresses and AAA sessions.
      \<^theory_text>\<open>Conformance\<close>: the types of frames and automata (locales \<open>fsm_members\<close> and \<open>fsm_conform\<close>,
      interpreted on LCP and IPCP).
    \<^item> \<^theory_text>\<open>Session_Tables\<close>, \<^theory_text>\<open>Lcp_Spec\<close>, \<^theory_text>\<open>Lcp_Options\<close>, \<^theory_text>\<open>Ipcp_Spec\<close>, \<^theory_text>\<open>Aaa_Spec\<close>,
      \<^theory_text>\<open>Auth_Spec\<close>, \<^theory_text>\<open>Pppoe_Spec\<close> hold the properties of those components; \<^theory_text>\<open>Samples\<close> and
      \<^theory_text>\<open>Text_Numbers\<close> serve the examples. This theory has those of the session tables and of the
      automata.

  What is shown. The invariant \<open>tables_ok\<close> of the session tables holds in every reachable state,
  and \<open>aaa_ok\<close>, one owner for every address in use, in every state reached without a reload of the
  configuration (\<open>unreloaded\<close>); every frame sent is a well-formed PPPoE frame, and every automaton
  belongs to its session (\<open>conforms\<close>). Sessions open and end by the steps of an abstract machine
  only (\<open>sessions_refine_machine\<close>). All this holds of the daemon behind its sockets too, whatever the
  kernel answers. A daemon that is ready for a subscriber serves it
  (\<open>subscriber_served\<close>): its frames are answered, and its session ends up open and in the
  dataplane. The automata report a layer up exactly when they open. Requests are answered as
  the options ask, in bytes; what the daemon writes (frames, tags, attributes, passwords, the
  configuration, messages of the control socket) is read back. Admission is followed from the PAP
  request to the address and the packets sent. Other properties pin down behaviour that is not
  meant: a refused RADIUS answer that admits, a PADT from anyone, a method list that goes on after a
  success, frames of PAP and IPCP served before LCP is, addresses given twice after a reload, an
  option that stops the daemon, a request that ends it, an error after which it no longer listens,
  a change of priority that loses a session.

  Bounds. The loops over packet bytes and the searches for free ids are \<open>partial_function\<close>s without
  fuel: that they return is proved where it holds (\<open>session_id_allocated\<close>,
  \<open>allocate_ip_lowest_free\<close>) and where it does not the exact condition is
  (\<open>lcp_options_return_iff\<close>). The tag parser terminates by its offset.

  Not modelled. The system itself: what the kernel, the sockets and the terminal answer comes in with
  the events. Logging has no effect on the runtime, so the handlers leave it out but for the
  lines of the event loop, which read whole packets at level \<open>INFO\<close>. Time is not measured: a timer
  that runs may end at any moment, and callbacks run one after another as the single thread of the code
  runs them. The headers' declarations of packed structures appear as offsets into packets.
\<close>

section \<open>Session ids\<close>

text \<open>
  C1. In every state the daemon reaches, from any configuration and through any frames, datagrams,
  timers and signals, the tables of sessions agree: an id is marked as taken exactly when an active
  session carries it, it is never 0, each active session is filed under the key made of its own
  encapsulation and id, and no two active sessions share an id.
\<close>

theorem reachable_sessions_consistent:
  assumes "reachable env files cfg l"
  shows "0 \<notin> sessionSet (runtime l) \<and>
    sessionSet (runtime l) = key_session_id ` fst ` set (activeSessions (runtime l)) \<and>
    (\<forall>(k, r) \<in> set (activeSessions (runtime l)). \<exists>s. heap (runtime l) r = Some s \<and>
       k = key_of_encap (encap s) (session_id s)) \<and>
    distinct (map (\<lambda>(k, r). key_session_id k) (activeSessions (runtime l)))"
  using tables_ok_consistent [OF reachable_tables_ok [OF assms]] by blast

theorem reachable_sessions_consistent_witness:
  "\<exists>l k r. reachable sample_env (\<lambda>f. []) (Some sample_conf) l \<and> (k, r) \<in> set (activeSessions (runtime l)) \<and>
     key_session_id k = 1 \<and> 1 \<in> sessionSet (runtime l)"
proof -
  obtain l r where l: "unreloaded sample_env (\<lambda>f. []) sample_conf l"
    "map_of (activeSessions (runtime l)) (key_of_encap sample_encap 1) = Some r" by (rule sample_reached)
  note ids = reachable_sessions_consistent [OF unreloaded_reachable [OF l(1)], THEN conjunct2, THEN conjunct1]
  have k: "(key_of_encap sample_encap 1, r) \<in> set (activeSessions (runtime l))" using l(2) by (rule map_of_SomeD)
  have sid: "key_session_id (key_of_encap sample_encap 1) = 1" by (simp add: key_of_encap_def)
  have "key_session_id (fst (key_of_encap sample_encap 1, r)) \<in> sessionSet (runtime l)"
    unfolding ids by (intro imageI k)
  with sid k unreloaded_reachable [OF l(1)] show ?thesis
    by (intro exI [of _ l] exI [of _ "key_of_encap sample_encap 1"] exI [of _ r]) simp
qed

text \<open>
  C21. Allocating a session always returns. As long as one of the 65535 ids is free, it hands out a
  free one that is not 0, files a new session object under it and marks the id taken; when all are
  taken it reports so and changes nothing.
\<close>

theorem session_id_allocated:
  assumes "tables_ok rt"
  shows "\<exists>i err rt'. allocateSession env e rt = Some ((i, err), rt') \<and> tables_ok rt' \<and>
    (if \<exists>j. j \<noteq> 0 \<and> j \<notin> sessionSet rt
     then err = '''' \<and> i \<noteq> 0 \<and> i \<notin> sessionSet rt \<and> sessionSet rt' = insert i (sessionSet rt) \<and>
       map_of (activeSessions rt') (key_of_encap e i) = Some (next_ref rt) \<and>
       map_option sess_ident (heap rt' (next_ref rt)) = Some (i, e)
     else i = 0 \<and> err = ''Maximum of sessions'' \<and> rt' = rt)"
proof (cases rule: allocateSession_cases [OF assms, of e env, case_names found full])
  case (found i s rt1)
  have "map_of (activeSessions rt) (key_of_encap e i) = None"
    using tables_ok_insert(1) [OF assms found(1,2) next_sid_nonzero found(3)] .
  with found tables_ok_allocateSession [OF assms found(6)] show ?thesis
    by (auto simp: om_find_emplace)
next
  case full
  with assms show ?thesis by auto
qed

theorem session_id_allocated_witness:
  "\<exists>i rt'. allocateSession sample_env sample_encap sample_rt = Some ((i, ''''), rt') \<and> i \<noteq> 0 \<and> i \<noteq> 1 \<and> tables_ok rt'"
proof -
  have "\<exists>j::u16. j \<noteq> 0 \<and> j \<notin> sessionSet sample_rt" by (intro exI [of _ 2]) simp
  with session_id_allocated [OF tables_ok_sample_rt, of sample_env sample_encap] show ?thesis by auto
qed

lemma sid_alloc_free:
  assumes "tables_ok rt" "j \<noteq> 0" "j \<notin> sessionSet rt"
  shows "\<exists>i rt'. sid_alloc env e rt = Some (i, rt') \<and> tables_ok rt' \<and> sessionSet rt' = insert i (sessionSet rt)"
proof (cases rule: allocateSession_cases [OF assms(1), of e env, case_names found full])
  case (found i s rt1)
  with tables_ok_allocateSession [OF assms(1) found(6)] show ?thesis by (auto simp: sid_alloc_def)
next
  case full
  with assms show ?thesis by auto
qed

text \<open>
  Ids handed out one after another are pairwise different and differ from those in use, however
  many sessions are opened.
\<close>

theorem session_ids_distinct:
  assumes "tables_ok rt" and "alloc_many (sid_alloc env e) n rt = Some (sids, rt')"
  shows "distinct sids \<and> set sids \<inter> sessionSet rt = {} \<and> sessionSet rt' = set sids \<union> sessionSet rt"
  using sid.alloc_many_fresh [OF assms] by blast

theorem session_ids_distinct_witness:
  "\<exists>i j rt'. alloc_many (sid_alloc sample_env sample_encap) (Suc (Suc 0)) sample_rt = Some ([i, j], rt') \<and>
     i \<noteq> j \<and> sessionSet rt' = {i, j, 1}"
proof -
  obtain i rt1 where 1: "sid_alloc sample_env sample_encap sample_rt = Some (i, rt1)" "tables_ok rt1"
      "sessionSet rt1 = {i, 1}"
    using sid_alloc_free [OF tables_ok_sample_rt, of 2 sample_env sample_encap] by auto
  have "(2 \<notin> {i, 1} \<or> 3 \<notin> {i, 1}) \<and> (2::u16) \<noteq> 0 \<and> (3::u16) \<noteq> 0" by auto
  then obtain k where "k \<noteq> 0" "k \<notin> sessionSet rt1" using 1(3) by metis
  with sid_alloc_free [OF 1(2)] obtain j rt2 where "sid_alloc sample_env sample_encap rt1 = Some (j, rt2)" by blast
  with 1 have run: "alloc_many (sid_alloc sample_env sample_encap) (Suc (Suc 0)) sample_rt = Some ([i, j], rt2)"
    by simp
  from session_ids_distinct [OF tables_ok_sample_rt this] run show ?thesis by auto
qed

section \<open>The option negotiation\<close>

text \<open>
  C20. LCP reports that the layer is up exactly when it enters the state Opened, that happens only
  when both sides have acknowledged (a Configure-Request accepted in Ack-Rcvd, or the matching
  Configure-Ack in Ack-Sent), and an automaton in the state Opened has seen the Configure-Ack of its
  own request; it reports that the layer is down only on leaving Opened.
\<close>

theorem lcp_up_iff_opened:
  assumes f: "lcp_this r rt = Some f" and inv: "fsm_inv f"
    and run: "receive (LCP_vtable env r) p rt = Some ((a, e), rt')"
  shows "\<exists>f'. lcp_this r rt' = Some f' \<and> fsm_inv f' \<and>
    (a = LAYER_UP \<longleftrightarrow> state f \<noteq> Opened \<and> state f' = Opened) \<and>
    (a = LAYER_UP \<longrightarrow> state f \<in> {Ack_Rcvd, Ack_Sent} \<and> seen_ack f') \<and>
    (a = LAYER_DOWN \<longrightarrow> state f = Opened \<and> state f' \<in> {Req_Sent, Stopping})"
proof -
  have t: "this (LCP_vtable env r) = lcp_this r" by (simp add: LCP_vtable_def)
  show ?thesis
    using lcp_impl.receive_up [of env r rt f p a e rt'] f inv run by (simp add: t)
qed

theorem lcp_up_iff_opened_witness:
  "\<exists>rt'. receive (LCP_vtable sample_env 0) (replicate 8 0 @ [2, 1])
      (upd_lcp 0 (to_state Ack_Sent) sample_rt) = Some ((LAYER_UP, ''''), rt') \<and>
     lcp_state 0 rt' = Some Opened"
proof -
  let ?rt = "upd_lcp 0 (to_state Ack_Sent) sample_rt"
  have "\<exists>rt'. receive (LCP_vtable sample_env 0) (replicate 8 0 @ [2, 1]) ?rt = Some ((LAYER_UP, ''''), rt')"
    by (simp add: receive_def recv_conf_ack_def LCP_vtable_def lcp_this_def upd_lcp_def upd_sess_def to_state_def
        PPP_FSM_ctor_def load8_def enum_of_defs layer_up_def nth_append Let_def)
  then obtain rt' where run: "receive (LCP_vtable sample_env 0) (replicate 8 0 @ [2, 1]) ?rt = Some ((LAYER_UP, ''''), rt')"
    by blast
  have f: "lcp_this 0 ?rt = Some (to_state Ack_Sent (PPP_FSM_ctor 1))" by (simp add: upd_lcp_def lcp_this_def upd_sess_def)
  show ?thesis
    using lcp_up_iff_opened [OF f _ run] run by (auto simp: fsm_inv_def to_state_def lcp_state_def lcp_this_def)
qed

text \<open>The same of IPCP.\<close>

theorem ipcp_up_iff_opened:
  assumes f: "ipcp_this r rt = Some f" and inv: "fsm_inv f"
    and run: "receive (IPCP_vtable r) p rt = Some ((a, e), rt')"
  shows "\<exists>f'. ipcp_this r rt' = Some f' \<and> fsm_inv f' \<and>
    (a = LAYER_UP \<longleftrightarrow> state f \<noteq> Opened \<and> state f' = Opened) \<and>
    (a = LAYER_UP \<longrightarrow> state f \<in> {Ack_Rcvd, Ack_Sent} \<and> seen_ack f') \<and>
    (a = LAYER_DOWN \<longrightarrow> state f = Opened \<and> state f' \<in> {Req_Sent, Stopping})"
proof -
  have t: "this (IPCP_vtable r) = ipcp_this r" by (simp add: IPCP_vtable_def)
  show ?thesis
    using ipcp_impl.receive_up [of r rt f p a e rt'] f inv run by (simp add: t)
qed

theorem ipcp_up_iff_opened_witness:
  "\<exists>rt'. receive (IPCP_vtable 0) (replicate 8 0 @ [2, 1])
      (upd_ipcp 0 (to_state Ack_Sent) sample_rt) = Some ((LAYER_UP, ''''), rt') \<and>
     map_option state (ipcp_this 0 rt') = Some Opened"
proof -
  let ?rt = "upd_ipcp 0 (to_state Ack_Sent) sample_rt"
  have "\<exists>rt'. receive (IPCP_vtable 0) (replicate 8 0 @ [2, 1]) ?rt = Some ((LAYER_UP, ''''), rt')"
    by (simp add: receive_def recv_conf_ack_def IPCP_vtable_def ipcp_this_def upd_ipcp_def upd_sess_def to_state_def
        PPP_FSM_ctor_def load8_def enum_of_defs layer_up_def nth_append Let_def)
  then obtain rt' where run: "receive (IPCP_vtable 0) (replicate 8 0 @ [2, 1]) ?rt = Some ((LAYER_UP, ''''), rt')"
    by blast
  have f: "ipcp_this 0 ?rt = Some (to_state Ack_Sent (PPP_FSM_ctor 1))" by (simp add: upd_ipcp_def ipcp_this_def upd_sess_def)
  show ?thesis
    using ipcp_up_iff_opened [OF f _ run] run by (auto simp: fsm_inv_def to_state_def)
qed

end
